(* ===== verification/Prelude.thy ===== *)
theory Prelude
  imports Main "HOL-Library.Char_ord" "HOL-Library.List_Lexorder"
    "HOL-Library.Product_Lexorder" "HOL-Library.Multiset" "HOL-Library.AList"
begin

text \<open>
  Shared ground of the development: the error type of the API layer, strings as the program
  uses them (\<open>lower\<close>, \<open>strip\<close>, prefixes, decimal numerals), insertion-ordered dictionaries as
  association lists, and the generic list lemmas several components need.

  Strings are lists of bytes. \<open>lower\<close> and \<open>strip\<close> act on ASCII, which is what every
  identifier, account name, status and code compared by the program consists of; other
  letters pass through unchanged.
\<close>

named_theorems dict_simps \<open>dictionaries as association lists\<close>
named_theorems py_str \<open>definitions of the string operations\<close>

subsection \<open>Errors of the API layer\<close>

text \<open>An \<open>AppError\<close> as the view raises it: message, stable code, HTTP status.\<close>

record app_error =
  message :: string
  code :: string
  status_code :: nat

abbreviation AppError :: "string \<Rightarrow> string \<Rightarrow> nat \<Rightarrow> app_error" where
  "AppError m c s \<equiv> \<lparr>message = m, code = c, status_code = s\<rparr>"

text \<open>A failure of the cloud integration: only its code and message reach the API layer.\<close>

record zadara_error =
  zcode :: string
  zmessage :: string
  zstatus :: "nat option"

abbreviation ZadaraError :: "string \<Rightarrow> string \<Rightarrow> nat option \<Rightarrow> zadara_error" where
  "ZadaraError c m s \<equiv> \<lparr>zcode = c, zmessage = m, zstatus = s\<rparr>"

text \<open>Going on unless an exception was raised.\<close>

definition sum_bind :: "'e + 'a \<Rightarrow> ('a \<Rightarrow> 'e + 'b) \<Rightarrow> 'e + 'b" where
  "sum_bind v f = (case v of Inl e \<Rightarrow> Inl e | Inr x \<Rightarrow> f x)"

subsection \<open>Strings\<close>

definition lower_char :: "char \<Rightarrow> char" where
  [py_str]: "lower_char c = (if (65::nat) \<le> of_char c \<and> (of_char c :: nat) \<le> 90
     then char_of ((of_char c :: nat) + 32) else c)"

definition lower :: "string \<Rightarrow> string" where
  [py_str]: "lower s = map lower_char s"

definition is_space :: "char \<Rightarrow> bool" where
  [py_str]: "is_space c = (let n = (of_char c :: nat) in n = 32 \<or> (9 \<le> n \<and> n \<le> 13) \<or> (28 \<le> n \<and> n \<le> 31))"

definition strip :: "string \<Rightarrow> string" where
  [py_str]: "strip s = rev (dropWhile is_space (rev (dropWhile is_space s)))"

text \<open>Equality of names as the database compares them with \<open>__iexact\<close>.\<close>

definition iexact :: "string \<Rightarrow> string \<Rightarrow> bool" where
  "iexact a b = (lower a = lower b)"

fun starts_with :: "string \<Rightarrow> string \<Rightarrow> bool" where
  "starts_with s [] = True"
| "starts_with [] (p # ps) = False"
| "starts_with (c # s) (p # ps) = (c = p \<and> starts_with s ps)"

fun contains :: "string \<Rightarrow> string \<Rightarrow> bool" where
  "contains [] t = (t = [])"
| "contains (c # s) t = (starts_with (c # s) t \<or> contains s t)"

lemma starts_with_append: "starts_with (p @ s) p"
  by (induction p) auto

lemma starts_with_iff: "starts_with s p \<longleftrightarrow> (\<exists>t. s = p @ t)"
  by (induction s p rule: starts_with.induct) auto

lemma iexact_refl [simp]: "iexact a a"
  by (simp add: iexact_def)

lemma iexact_sym: "iexact a b \<longleftrightarrow> iexact b a"
  by (auto simp: iexact_def)

lemma iexact_trans: "iexact a b \<Longrightarrow> iexact b c \<Longrightarrow> iexact a c"
  by (simp add: iexact_def)

text \<open>Decimal numerals of natural numbers, with Python's zero padding (\<open>:04d\<close>, \<open>:02d\<close>).\<close>

definition digit_char :: "nat \<Rightarrow> char" where
  "digit_char d = char_of (48 + d :: nat)"

fun show_nat :: "nat \<Rightarrow> string" where
  "show_nat n = (if n < 10 then [digit_char n] else show_nat (n div 10) @ [digit_char (n mod 10)])"

declare show_nat.simps [simp del]

definition pad :: "nat \<Rightarrow> nat \<Rightarrow> string" where
  "pad w n = (let s = show_nat n in replicate (w - length s) (CHR ''0'') @ s)"

definition digit_value :: "char \<Rightarrow> nat" where
  "digit_value c = (of_char c :: nat) - 48"

text \<open>\<open>isalpha\<close> on the ASCII letters.\<close>

definition is_alpha :: "char \<Rightarrow> bool" where
  "is_alpha c = (let n = (of_char c :: nat) in (65 \<le> n \<and> n \<le> 90) \<or> (97 \<le> n \<and> n \<le> 122))"

definition is_digit :: "char \<Rightarrow> bool" where
  "is_digit c = (48 \<le> (of_char c :: nat) \<and> (of_char c :: nat) \<le> 57)"

definition read_nat :: "string \<Rightarrow> nat" where
  "read_nat s = foldl (\<lambda>n c. 10 * n + digit_value c) 0 s"

lemma of_digit_char: "d < 10 \<Longrightarrow> (of_char (digit_char d) :: nat) = 48 + d"
  by (simp add: digit_char_def)

lemma digit_value_char: "d < 10 \<Longrightarrow> digit_value (digit_char d) = d"
  by (simp add: digit_value_def of_digit_char)

lemma is_digit_char: "d < 10 \<Longrightarrow> is_digit (digit_char d)"
  by (simp add: is_digit_def of_digit_char)

lemma show_nat_digits: "\<forall>c \<in> set (show_nat n). is_digit c"
proof (induction n rule: show_nat.induct)
  case (1 n)
  show ?case
  proof (cases "n < 10")
    case True
    then show ?thesis by (subst show_nat.simps) (simp add: is_digit_char)
  next
    case False
    with 1 show ?thesis by (subst show_nat.simps) (auto simp: is_digit_char)
  qed
qed

lemma read_show_nat: "read_nat (show_nat n) = n"
proof (induction n rule: show_nat.induct)
  case (1 n)
  show ?case
  proof (cases "n < 10")
    case True
    then show ?thesis by (subst show_nat.simps) (simp add: read_nat_def digit_value_char)
  next
    case False
    then have "read_nat (show_nat (n div 10)) = n div 10" using 1 by simp
    then have "read_nat (show_nat (n div 10) @ [digit_char (n mod 10)]) = 10 * (n div 10) + n mod 10"
      by (simp add: read_nat_def digit_value_char)
    with False show ?thesis by (subst show_nat.simps) simp
  qed
qed

lemma read_nat_zeros: "read_nat (replicate k (CHR ''0'') @ s) = read_nat s"
  by (induction k) (simp_all add: read_nat_def digit_value_def)

lemma read_pad: "read_nat (pad w n) = n"
  by (simp add: pad_def Let_def read_nat_zeros read_show_nat)

lemma pad_digits: "\<forall>c \<in> set (pad w n). is_digit c"
  using show_nat_digits [of n] by (auto simp: pad_def Let_def is_digit_def)

lemma pad_inject: "pad w m = pad w n \<longleftrightarrow> m = n"
  by (metis read_pad)

lemma show_nat_inject: "show_nat m = show_nat n \<longleftrightarrow> m = n"
  by (metis read_show_nat)

subsection \<open>Insertion-ordered dictionaries\<close>

text \<open>
  A Python dictionary is an association list with distinct keys. \<open>AList.update\<close> overwrites in
  place and appends a new key at the end, which is the order Python iterates in;
  \<open>dict_alter\<close> is \<open>d.setdefault(k, dflt)\<close> followed by a change of the stored value.
\<close>

definition dict_alter :: "'v \<Rightarrow> ('v \<Rightarrow> 'v) \<Rightarrow> 'k \<Rightarrow> ('k \<times> 'v) list \<Rightarrow> ('k \<times> 'v) list" where
  "dict_alter dflt f k d = AList.update k (f (case map_of d k of None \<Rightarrow> dflt | Some v \<Rightarrow> v)) d"

definition group_by :: "('a \<Rightarrow> 'k) \<Rightarrow> 'a list \<Rightarrow> ('k \<times> 'a list) list" where
  "group_by key xs = fold (\<lambda>x. dict_alter [] (\<lambda>ys. ys @ [x]) (key x)) xs []"

lemma map_of_update [dict_simps]: "map_of (AList.update k v d) = (map_of d)(k \<mapsto> v)"
  by (rule update_conv')

lemma map_of_dict_alter [dict_simps]:
  "map_of (dict_alter dflt f k d) = (map_of d)(k \<mapsto> f (case map_of d k of None \<Rightarrow> dflt | Some v \<Rightarrow> v))"
  by (simp add: dict_alter_def map_of_update)

lemma keys_dict_alter [dict_simps]:
  "fst ` set (dict_alter dflt f k d) = insert k (fst ` set d)"
  by (metis dict_alter_def dom_map_of_conv_image_fst dom_fun_upd map_of_update option.distinct(1))

lemma distinct_dict_alter:
  "distinct (map fst d) \<Longrightarrow> distinct (map fst (dict_alter dflt f k d))"
  by (simp add: dict_alter_def distinct_update)

lemma distinct_group_fold:
  "distinct (map fst d) \<Longrightarrow>
   distinct (map fst (fold (\<lambda>x. dict_alter dflt (f x) (key x)) xs d))"
  by (induction xs arbitrary: d) (auto simp: distinct_dict_alter)

lemma distinct_group_by: "distinct (map fst (group_by key xs))"
  unfolding group_by_def by (rule distinct_group_fold) simp

lemma map_of_group_fold:
  "map_of (fold (\<lambda>x. dict_alter [] (\<lambda>ys. ys @ [x]) (key x)) xs d) k =
     (case map_of d k of
        None \<Rightarrow> (if filter (\<lambda>x. key x = k) xs = [] then None else Some (filter (\<lambda>x. key x = k) xs))
      | Some ys \<Rightarrow> Some (ys @ filter (\<lambda>x. key x = k) xs))"
  by (induction xs arbitrary: d) (auto simp: map_of_dict_alter split: option.splits)

text \<open>Each group holds exactly the members with its key, in the order they came.\<close>

lemma map_of_group_by:
  "map_of (group_by key xs) k =
     (if filter (\<lambda>x. key x = k) xs = [] then None else Some (filter (\<lambda>x. key x = k) xs))"
  by (simp add: group_by_def map_of_group_fold)

lemma group_by_members:
  assumes "(k, ys) \<in> set (group_by key xs)"
  shows "ys = filter (\<lambda>x. key x = k) xs" and "ys \<noteq> []"
proof -
  have "map_of (group_by key xs) k = Some ys"
    using assms distinct_group_by by (rule map_of_is_SomeI [rotated])
  then show "ys = filter (\<lambda>x. key x = k) xs" and "ys \<noteq> []"
    by (auto simp: map_of_group_by split: if_splits)
qed

subsection \<open>Lists\<close>

lemma sum_list_filter_split:
  "(\<Sum>x\<leftarrow>xs. f x) = (\<Sum>x\<leftarrow>filter P xs. f x) + (\<Sum>x\<leftarrow>filter (\<lambda>x. \<not> P x) xs. (f x :: 'a::comm_monoid_add))"
  by (induction xs) (auto simp: algebra_simps)

lemma fold_perm_eq:
  assumes "mset xs = mset ys" and "\<And>x y s. f x (f y s) = f y (f x s)"
  shows "fold f xs s = fold f ys s"
proof -
  have "fold f xs = fold f ys"
    by (rule fold_multiset_equiv) (use assms in \<open>auto simp: fun_eq_iff\<close>)
  then show ?thesis by simp
qed

lemma find_Some_mem: "List.find P xs = Some x \<Longrightarrow> x \<in> set xs \<and> P x"
  by (induction xs) (auto split: if_splits)

lemma find_None_all: "List.find P xs = None \<longleftrightarrow> (\<forall>x \<in> set xs. \<not> P x)"
  by (auto simp: find_None_iff)

end
