(* ===== verification/Decimals.thy ===== *)
theory Decimals
  imports Complex_Main Prelude
begin

text \<open>
  The number types of the billing code: Python's \<open>Decimal\<close> (values are rationals, every
  inexact operation is rounded to the 28 significant digits of the default context, half to
  even), \<open>quantize(_CENT, ROUND_HALF_UP)\<close>, binary floats (53 significant bits, half to even)
  and the shortest decimal \<open>repr\<close> prints for a float, which is what \<open>Decimal(str(x))\<close> reads
  back. Signed zeros, subnormal floats and overflow (magnitudes outside \<open>10 ^ -300 .. 10 ^ 300\<close>
  for floats, at least \<open>10 ^ 26\<close> for \<open>quantize\<close>) are outside the model.
\<close>

subsection \<open>Rounding\<close>

definition round_half_even :: "rat \<Rightarrow> int" where
  "round_half_even x = (let f = \<lfloor>x\<rfloor>; r = x - of_int f in
     if r < 1/2 then f else if r > 1/2 then f + 1 else if even f then f else f + 1)"

definition round_half_up :: "rat \<Rightarrow> int" where
  "round_half_up x = (if x < 0 then - \<lfloor>1/2 - x\<rfloor> else \<lfloor>x + 1/2\<rfloor>)"

text \<open>The number of base-\<open>b\<close> digits of a positive integer.\<close>

function ndig :: "int \<Rightarrow> int \<Rightarrow> nat" where
  "ndig b n = (if b \<le> 1 \<or> n \<le> 0 then 0 else Suc (ndig b (n div b)))"
  by pat_completeness auto
termination
proof (relation "measure (\<lambda>(b, n). nat n)")
  fix b n :: int
  assume "\<not> (b \<le> 1 \<or> n \<le> 0)"
  then have "n div b < n" "0 < n" by (auto intro: int_div_less_self)
  then show "((b, n div b), b, n) \<in> measure (\<lambda>(b, n). nat n)" by simp
qed simp

declare ndig.simps [simp del]

text \<open>The exponent \<open>e\<close> with \<open>b powi (e - 1) \<le> \<bar>x\<bar> < b powi e\<close>.\<close>

definition magnitude :: "int \<Rightarrow> rat \<Rightarrow> int" where
  "magnitude b x = (let a = \<bar>x\<bar> in
     if a = 0 then 0
     else if 1 \<le> a then int (ndig b \<lfloor>a\<rfloor>)
     else 1 - int (ndig b (\<lceil>1 / a\<rceil> - 1)))"

definition round_sig :: "int \<Rightarrow> nat \<Rightarrow> rat \<Rightarrow> rat" where
  "round_sig b p x =
     (let s = of_int b powi (int p - magnitude b x) in of_int (round_half_even (x * s)) / s)"

subsection \<open>Decimal and float operations of the code\<close>

text \<open>The context's rounding of an arithmetic result, and the operations that use it.\<close>

definition ctx :: "rat \<Rightarrow> rat" where
  "ctx x = round_sig 10 28 x"

definition dec_add :: "rat \<Rightarrow> rat \<Rightarrow> rat" where "dec_add x y = ctx (x + y)"
definition dec_sub :: "rat \<Rightarrow> rat \<Rightarrow> rat" where "dec_sub x y = ctx (x - y)"
definition dec_mult :: "rat \<Rightarrow> rat \<Rightarrow> rat" where "dec_mult x y = ctx (x * y)"
definition dec_div :: "rat \<Rightarrow> rat \<Rightarrow> rat" where "dec_div x y = ctx (x / y)"

text \<open>\<open>value.quantize(Decimal('0.01'), ROUND_HALF_UP)\<close>.\<close>

definition cents :: "rat \<Rightarrow> rat" where
  "cents x = of_int (round_half_up (x * 100)) / 100"

text \<open>\<open>float(value)\<close>: the nearest binary64 value.\<close>

definition to_float :: "rat \<Rightarrow> rat" where
  "to_float x = round_sig 2 53 x"

text \<open>
  \<open>Decimal(str(f))\<close> for a float \<open>f\<close>: among the decimals with the fewest significant digits
  that read back as \<open>f\<close>, the one nearest to it.
\<close>

definition reads_back :: "rat \<Rightarrow> rat \<Rightarrow> bool" where
  "reads_back x c = (to_float c = x)"

definition repr_candidates :: "rat \<Rightarrow> nat \<Rightarrow> rat list" where
  "repr_candidates x n =
     (let s = 10 powi (int n - magnitude 10 x); l = of_int \<lfloor>x * s\<rfloor> / s; h = of_int \<lceil>x * s\<rceil> / s
      in filter (reads_back x) (if x - l \<le> h - x then [l, h] else [h, l]))"

definition has_repr :: "rat \<Rightarrow> nat \<Rightarrow> bool" where
  "has_repr x n = (repr_candidates x n \<noteq> [])"

definition str_float :: "rat \<Rightarrow> rat" where
  "str_float x = (if x = 0 then 0 else
     (case List.find (has_repr x) [1..<18] of
        None \<Rightarrow> x | Some n \<Rightarrow> hd (repr_candidates x n)))"

subsection \<open>Facts about rounding\<close>

lemma round_half_even_of_int [simp]: "round_half_even (of_int k) = k"
  by (simp add: round_half_even_def)

lemma round_half_even_error: "\<bar>of_int (round_half_even x) - x\<bar> \<le> 1/2"
proof -
  obtain f where f: "\<lfloor>x\<rfloor> = f" by blast
  have "of_int f \<le> x" "x < of_int f + 1" unfolding f [symmetric] by linarith+
  then show ?thesis by (auto simp: round_half_even_def Let_def abs_if f)
qed

lemma round_half_up_of_int [simp]: "round_half_up (of_int k) = k"
proof -
  have "\<lfloor>1/2 - (of_int k :: rat)\<rfloor> = - k" by (simp add: floor_eq_iff)
  moreover have "\<lfloor>(of_int k :: rat) + 1/2\<rfloor> = k" by (simp add: floor_eq_iff)
  ultimately show ?thesis by (simp add: round_half_up_def)
qed

lemma round_half_up_error: "\<bar>of_int (round_half_up x) - x\<bar> \<le> 1/2"
proof -
  obtain f g where fg: "\<lfloor>1/2 - x\<rfloor> = f" "\<lfloor>x + 1/2\<rfloor> = g" by blast
  have "of_int f \<le> 1/2 - x" "1/2 - x < of_int f + 1" "of_int g \<le> x + 1/2" "x + 1/2 < of_int g + 1"
    unfolding fg [symmetric] by linarith+
  then show ?thesis by (auto simp: round_half_up_def abs_if fg)
qed

lemma round_half_up_mono: "x \<le> y \<Longrightarrow> round_half_up x \<le> round_half_up y"
proof -
  assume le: "x \<le> y"
  consider "y < 0" | "x < 0" "0 \<le> y" | "0 \<le> x" by linarith
  then show ?thesis
  proof cases
    case 1
    with le show ?thesis by (simp add: round_half_up_def floor_mono)
  next
    case 2
    have "0 \<le> \<lfloor>1/2 - x\<rfloor>" using 2 by simp
    moreover have "0 \<le> \<lfloor>y + 1/2\<rfloor>" using 2 by simp
    moreover have "\<not> y < 0" using 2 by simp
    ultimately show ?thesis using 2(1) by (simp only: round_half_up_def if_True if_False)
  next
    case 3
    with le show ?thesis by (simp add: round_half_up_def floor_mono)
  qed
qed

lemma round_half_up_nonneg: "0 \<le> x \<Longrightarrow> 0 \<le> round_half_up x"
  by (simp add: round_half_up_def zero_le_floor)

lemma cents_error: "\<bar>cents x - x\<bar> \<le> 1/200"
  using round_half_up_error [of "x * 100"] by (simp add: cents_def abs_le_iff field_simps)

lemma cents_upper: "cents x \<le> x + 1 / 200" and cents_lower: "x - 1 / 200 \<le> cents x"
  using abs_le_D1 [OF cents_error [of x]] abs_le_D2 [OF cents_error [of x]] by simp_all

lemma cents_mono: "x \<le> y \<Longrightarrow> cents x \<le> cents y"
  by (simp add: cents_def round_half_up_mono divide_right_mono)

lemma cents_nonneg [intro]: "0 \<le> x \<Longrightarrow> 0 \<le> cents x"
  by (simp add: cents_def round_half_up_nonneg)

lemma cents_of_cents [simp]: "cents (of_int k / 100) = of_int k / 100"
  by (simp add: cents_def)

lemma cents_cents [simp]: "cents (cents x) = cents x"
  unfolding cents_def by simp

lemma cents_zero [simp]: "cents 0 = 0"
  using cents_of_cents [of 0] by simp

lemma cents_of_int [simp]: "cents (of_int k) = of_int k"
  using cents_of_cents [of "100 * k"] by simp

text \<open>Whole numbers of cents.\<close>

definition is_cents :: "rat \<Rightarrow> bool" where
  "is_cents x = (x * 100 \<in> \<int>)"

lemma is_cents_iff: "is_cents x \<longleftrightarrow> (\<exists>k. x = of_int k / 100)"
proof
  assume "is_cents x"
  then obtain k where "x * 100 = of_int k" by (auto simp: is_cents_def elim: Ints_cases)
  then have "x = of_int k / 100" by (simp add: field_simps)
  then show "\<exists>k. x = of_int k / 100" by blast
next
  assume "\<exists>k. x = of_int k / 100"
  then show "is_cents x" by (auto simp: is_cents_def)
qed

lemma is_cents_cents [simp]: "is_cents (cents x)"
  by (auto simp: is_cents_iff cents_def)

lemma cents_idem: "is_cents x \<Longrightarrow> cents x = x"
  by (metis cents_of_cents is_cents_iff)

lemma is_cents_add [intro]: "is_cents x \<Longrightarrow> is_cents y \<Longrightarrow> is_cents (x + y)"
  and is_cents_diff [intro]: "is_cents x \<Longrightarrow> is_cents y \<Longrightarrow> is_cents (x - y)"
  by (simp_all add: is_cents_def algebra_simps)

lemma is_cents_0 [simp]: "is_cents 0"
  by (simp add: is_cents_def)

lemma is_cents_sum_list: "(\<And>x. x \<in> set xs \<Longrightarrow> is_cents (f x)) \<Longrightarrow> is_cents (\<Sum>x\<leftarrow>xs. f x)"
  by (induction xs) auto

subsection \<open>Significant digits\<close>

lemma ndig_bounds:
  assumes "1 < b" "0 < n"
  shows "b ^ (ndig b n - 1) \<le> n" and "n < b ^ ndig b n" and "0 < ndig b n"
proof -
  have "b ^ (ndig b n - 1) \<le> n \<and> n < b ^ ndig b n \<and> 0 < ndig b n"
    using assms
  proof (induction b n rule: ndig.induct)
    case (1 b n)
    show ?case
    proof (cases "n < b")
      case True
      with 1 have "n div b = 0" by simp
      then have "ndig b n = 1" using 1(2,3) by (simp add: ndig.simps [of b n] ndig.simps [of b 0])
      with 1(2,3) True show ?thesis by simp
    next
      case False
      let ?m = "n div b"
      from False 1(2,3) have pos: "0 < ?m" by (simp add: pos_imp_zdiv_pos_iff)
      with 1 have IH: "b ^ (ndig b ?m - 1) \<le> ?m" "?m < b ^ ndig b ?m" "0 < ndig b ?m" by auto
      have nd: "ndig b n = Suc (ndig b ?m)" using 1(2,3) by (simp add: ndig.simps [of b n])
      have n: "n = b * ?m + n mod b" "0 \<le> n mod b" "n mod b < b" using 1(2) by simp_all
      have "b ^ ndig b ?m = b * b ^ (ndig b ?m - 1)" using IH(3) by (cases "ndig b ?m") auto
      also have "\<dots> \<le> b * ?m" using IH(1) 1(2) by simp
      finally have lo: "b ^ ndig b ?m \<le> n" using n by linarith
      have "b * (?m + 1) \<le> b * b ^ ndig b ?m" using IH(2) 1(2) by (intro mult_left_mono) auto
      then have hi: "n < b * b ^ ndig b ?m" using n unfolding distrib_left by linarith
      from nd lo hi show ?thesis by simp
    qed
  qed
  then show "b ^ (ndig b n - 1) \<le> n" and "n < b ^ ndig b n" and "0 < ndig b n" by auto
qed

lemma of_int_power_le: "b ^ k \<le> n \<Longrightarrow> (of_int b :: rat) ^ k \<le> of_int n"
  and of_int_less_power: "n < b ^ k \<Longrightarrow> of_int n + 1 \<le> (of_int b :: rat) ^ k"
  by (metis of_int_le_iff of_int_power) (metis of_int_1 of_int_add of_int_le_iff of_int_power zless_imp_add1_zle)

lemma magnitude_bounds:
  assumes "1 < b" "x \<noteq> 0"
  shows "of_int b powi (magnitude b x - 1) \<le> \<bar>x\<bar>" and "\<bar>x\<bar> < of_int b powi magnitude b x"
proof -
  let ?a = "\<bar>x\<bar>" and ?B = "of_int b :: rat"
  have B: "1 < ?B" "0 < ?B" using assms(1) by auto
  have "?B powi (magnitude b x - 1) \<le> ?a \<and> ?a < ?B powi magnitude b x"
  proof (cases "1 \<le> ?a")
    case True
    define n where "n = \<lfloor>?a\<rfloor>"
    define d where "d = ndig b n"
    have n: "0 < n" "of_int n \<le> ?a" "?a < of_int n + 1"
      using True unfolding n_def by (simp_all, linarith)
    have m: "magnitude b x = int d"
      using True assms(2) by (simp add: magnitude_def Let_def n_def d_def)
    note nb = ndig_bounds [OF assms(1) n(1), folded d_def]
    have "?B ^ (d - 1) \<le> of_int n" using nb(1) by (rule of_int_power_le)
    moreover have "of_int n + 1 \<le> ?B ^ d" using nb(2) by (rule of_int_less_power)
    moreover have "?B powi (int d - 1) = ?B ^ (d - 1)"
      using nb(3) by (simp add: power_int_def nat_diff_distrib)
    moreover have "?B powi magnitude b x = ?B ^ d" by (simp add: m)
    ultimately have "?B powi (int d - 1) \<le> ?a" and "?a < ?B powi magnitude b x"
      using n(2,3) by linarith+
    then show ?thesis by (simp add: m)
  next
    case False
    define y where "y = 1 / ?a"
    define n where "n = \<lceil>y\<rceil> - 1"
    define d where "d = ndig b n"
    have y: "1 < y" "0 < y" using False assms(2) by (auto simp: y_def field_simps)
    then have n0: "0 < n" by (simp add: n_def less_ceiling_iff)
    have n: "of_int n < y" "y \<le> of_int n + 1" unfolding n_def by (simp_all, linarith)
    have m: "magnitude b x = 1 - int d"
      using False assms(2) by (simp add: magnitude_def Let_def n_def d_def y_def)
    note nb = ndig_bounds [OF assms(1) n0, folded d_def]
    have lo: "?B ^ (d - 1) < y" using of_int_power_le [OF nb(1)] n(1) by (rule le_less_trans)
    have hi: "y \<le> ?B ^ d" using n(2) of_int_less_power [OF nb(2)] by (rule order_trans)
    have inv: "?a = 1 / y" by (simp add: y_def)
    have "?B powi (magnitude b x - 1) = 1 / ?B ^ d"
      by (simp add: m power_int_minus power_int_def divide_inverse power_inverse)
    moreover have "?B powi magnitude b x = 1 / ?B ^ (d - 1)"
      using nb(3) by (simp add: m power_int_def divide_inverse nat_diff_distrib power_inverse)
    moreover have "1 / ?B ^ d \<le> 1 / y"
      using hi y(2) by (simp add: frac_le)
    moreover have "1 / y < 1 / ?B ^ (d - 1)"
      using lo y(2) B by (simp add: frac_less2)
    ultimately show ?thesis using inv by simp
  qed
  then show "?B powi (magnitude b x - 1) \<le> ?a" and "?a < ?B powi magnitude b x" by auto
qed

lemma round_sig_error:
  assumes "1 < b"
  shows "\<bar>round_sig b p x - x\<bar> \<le> of_int b powi (magnitude b x - int p) / 2"
proof -
  define q :: rat where "q = of_int b powi (int p - magnitude b x)"
  have q: "0 < q" using assms by (simp add: q_def zero_less_power_int)
  have "1 / q = of_int b powi (magnitude b x - int p)"
    by (simp add: q_def flip: power_int_minus_divide)
  moreover have "round_sig b p x - x = (of_int (round_half_even (x * q)) - x * q) / q"
    using q by (simp add: round_sig_def Let_def flip: q_def) (simp add: field_simps)
  then have "\<bar>round_sig b p x - x\<bar> = \<bar>of_int (round_half_even (x * q)) - x * q\<bar> / q"
    using q by (simp add: abs_divide)
  moreover have "\<dots> \<le> (1/2) / q"
    using round_half_even_error q by (intro divide_right_mono) auto
  ultimately show ?thesis by (metis divide_divide_eq_left divide_divide_eq_left' mult.commute)
qed

lemma round_sig_exact:
  assumes "1 < b" "x * of_int b powi (int p - magnitude b x) \<in> \<int>"
  shows "round_sig b p x = x"
proof -
  define q :: rat where "q = of_int b powi (int p - magnitude b x)"
  have q: "0 < q" using assms by (simp add: q_def zero_less_power_int)
  from assms(2) obtain k where "x * q = of_int k" by (auto simp: q_def elim: Ints_cases)
  with q show ?thesis by (simp add: round_sig_def Let_def flip: q_def) (simp add: field_simps)
qed

lemma round_sig_0 [simp]: "round_sig b p 0 = 0"
  by (simp add: round_sig_def Let_def round_half_even_def)

lemma magnitude_le:
  assumes "1 < b" "x \<noteq> 0" "\<bar>x\<bar> < of_int b powi k"
  shows "magnitude b x \<le> k"
proof (rule ccontr)
  assume "\<not> ?thesis"
  then have "of_int b powi k \<le> (of_int b :: rat) powi (magnitude b x - 1)"
    using assms(1) by (intro power_int_increasing) auto
  with magnitude_bounds(1) [OF assms(1,2)] assms(3) show False by linarith
qed

lemma round_sig_scaled:
  assumes "1 < b" "x * of_int b ^ k \<in> \<int>" "\<bar>x\<bar> * of_int b ^ k < of_int b ^ p"
  shows "round_sig b p x = x"
proof (cases "x = 0")
  case False
  have B: "0 < (of_int b :: rat)" using assms(1) by simp
  have "of_int b powi (int p - int k) = (of_int b ^ p / of_int b ^ k :: rat)"
    using B by (simp add: power_int_diff)
  moreover have "\<bar>x\<bar> < of_int b ^ p / of_int b ^ k"
    using assms(3) B by (simp add: pos_less_divide_eq)
  ultimately have "\<bar>x\<bar> < of_int b powi (int p - int k)"
    by simp
  then have m: "magnitude b x \<le> int p - int k"
    by (rule magnitude_le [OF assms(1) False])
  define j where "j = nat (int p - int k - magnitude b x)"
  have "int p - magnitude b x = int k + int j" using m by (simp add: j_def)
  then have "of_int b powi (int p - magnitude b x) = (of_int b ^ k * of_int b ^ j :: rat)"
    using B by (simp add: power_int_add)
  then have "x * of_int b powi (int p - magnitude b x) = x * of_int b ^ k * of_int (b ^ j)"
    by simp
  then have "x * of_int b powi (int p - magnitude b x) \<in> \<int>"
    using assms(2) by (metis Ints_mult Ints_of_int)
  then show ?thesis by (rule round_sig_exact [OF assms(1)])
qed simp

text \<open>The context rounds nothing that fits into 28 digits.\<close>

lemma ctx_exact:
  assumes "x * 10 ^ k \<in> \<int>" "\<bar>x\<bar> * 10 ^ k < 10 ^ 28"
  shows "ctx x = x"
  unfolding ctx_def using round_sig_scaled [of 10 x k 28] assms by simp

lemma to_float_error: "\<bar>to_float x - x\<bar> \<le> \<bar>x\<bar> / 2 ^ 53"
proof (cases "x = 0")
  case False
  have "(2::rat) powi (magnitude 2 x - int 53) / 2 = 2 powi (magnitude 2 x - 1) / 2 ^ 53"
    by (simp add: power_int_diff)
  with round_sig_error [of 2 53 x] magnitude_bounds(1) [of 2 x] False show ?thesis
    by (simp add: to_float_def divide_right_mono)
qed (simp add: to_float_def)

lemma to_float_0 [simp]: "to_float 0 = 0"
  by (simp add: to_float_def)

lemma str_float_0 [simp]: "str_float 0 = 0"
  by (simp add: str_float_def)

subsection \<open>Money survives the trip through floats\<close>

lemma repr_candidate_form:
  assumes "c \<in> set (repr_candidates y n)"
  shows "to_float c = y" and "\<exists>k. c * 10 powi (int n - magnitude 10 y) = of_int k"
proof -
  define q :: rat where "q = 10 powi (int n - magnitude 10 y)"
  have q: "0 < q" by (simp add: q_def)
  from assms have "to_float c = y" and "c = of_int \<lfloor>y * q\<rfloor> / q \<or> c = of_int \<lceil>y * q\<rceil> / q"
    by (auto simp: repr_candidates_def reads_back_def Let_def q_def split: if_splits)
  moreover from this(2) have "c * q = of_int \<lfloor>y * q\<rfloor> \<or> c * q = of_int \<lceil>y * q\<rceil>"
    using q by auto
  ultimately show "to_float c = y" and "\<exists>k. c * 10 powi (int n - magnitude 10 y) = of_int k"
    unfolding q_def by blast+
qed

lemma repr_candidates_mem:
  "to_float x = y \<Longrightarrow>
   x = of_int \<lfloor>y * q\<rfloor> / q \<or> x = of_int \<lceil>y * q\<rceil> / q \<Longrightarrow> q = 10 powi (int n - magnitude 10 y) \<Longrightarrow>
   repr_candidates y n \<noteq> []"
  by (auto simp: repr_candidates_def reads_back_def Let_def filter_empty_conv)

lemma find_upt_least:
  assumes "P n" "a \<le> n" "n < b"
  obtains m where "List.find P [a..<b] = Some m" "P m" "m \<le> n"
proof (cases "List.find P [a..<b]")
  case None
  with assms show ?thesis by (auto simp: find_None_iff)
next
  case (Some m)
  then obtain i where i: "i < b - a" "P m" "m = a + i" "\<And>j. j < i \<Longrightarrow> \<not> P (a + j)"
    by (auto simp: find_Some_iff)
  have "m \<le> n"
  proof (rule ccontr)
    assume "\<not> m \<le> n"
    then have "n - a < i" using i assms by simp
    from i(4) [OF this] assms show False by simp
  qed
  with Some i(2) show ?thesis by (rule that)
qed

lemma close_to_integer:
  fixes z :: rat
  assumes "\<bar>z - of_int k\<bar> < 1"
  shows "\<lfloor>z\<rfloor> = k \<or> \<lceil>z\<rceil> = k"
proof (cases "of_int k \<le> z")
  case True
  with assms have "\<lfloor>z\<rfloor> = k" by (simp add: floor_eq_iff)
  then show ?thesis by simp
next
  case False
  with assms have "\<lceil>z\<rceil> = k" by (simp add: ceiling_eq_iff)
  then show ?thesis by simp
qed

text \<open>
  A decimal with at most \<open>s\<close> decimals and at most fifteen digits is the shortest decimal
  that reads back as its float, so \<open>Decimal(str(float(x)))\<close> is \<open>x\<close> itself.
\<close>

lemma str_float_scaled:
  assumes x: "x * 10 ^ s = of_int k" "\<bar>of_int k :: rat\<bar> < 10 ^ 15"
    and lo: "1 / 10 ^ s \<le> \<bar>to_float x\<bar>"
  shows "str_float (to_float x) = x"
proof -
  define y where "y = to_float x"
  define e where "e = magnitude 10 y"
  define n0 where "n0 = nat (e + int s)"
  let ?D = "10 ^ s :: rat"
  have y0: "y \<noteq> 0" using lo by (auto simp: y_def divide_le_eq)
  have err: "\<bar>y - x\<bar> * ?D < 1/8"
  proof -
    have "\<bar>y - x\<bar> * ?D \<le> \<bar>x\<bar> / 2 ^ 53 * ?D"
      unfolding y_def by (intro mult_right_mono to_float_error) simp
    also have "\<dots> = \<bar>x * ?D\<bar> / 2 ^ 53" by (simp add: abs_mult)
    also have "\<dots> < 1/8" using x by simp
    finally show ?thesis .
  qed
  have yD: "\<bar>y\<bar> * ?D < 10 ^ 15 + 1"
  proof -
    have "\<bar>y\<bar> * ?D \<le> \<bar>x\<bar> * ?D + \<bar>y - x\<bar> * ?D"
      by (simp flip: distrib_right)
    moreover have "\<bar>x\<bar> * ?D < 10 ^ 15" using x by (metis abs_mult abs_of_pos zero_less_numeral zero_less_power)
    ultimately show ?thesis using err by linarith
  qed
  have D: "0 < ?D" by simp
  note eb = magnitude_bounds [of 10 y, simplified, OF y0, folded e_def]
  have n1: "1 \<le> n0"
  proof -
    have "(10::rat) powi (- int s) \<le> \<bar>y\<bar>" using lo by (simp add: y_def power_int_minus divide_inverse)
    with eb(2) have "(10::rat) powi (- int s) < 10 powi e" by linarith
    moreover have "(10::rat) powi e \<le> 10 powi (- int s)" if "e \<le> - int s"
      using that by (intro power_int_increasing) auto
    ultimately have "- int s < e" by linarith
    then show ?thesis by (simp add: n0_def)
  qed
  have n2: "n0 < 18"
  proof (rule ccontr)
    assume "\<not> n0 < 18"
    then have "int 17 - int s \<le> e - 1" by (simp add: n0_def)
    then have "(10::rat) powi (int 17 - int s) \<le> 10 powi (e - 1)"
      by (intro power_int_increasing) auto
    with eb(1) have "(10::rat) powi (int 17 - int s) \<le> \<bar>y\<bar>" by linarith
    then have "(10::rat) ^ 17 / ?D \<le> \<bar>y\<bar>" by (simp add: power_int_diff)
    then have "(10::rat) ^ 17 \<le> \<bar>y\<bar> * ?D" using D by (simp add: pos_divide_le_eq)
    with yD show False by simp
  qed
  have uniq: "c = x" if "n \<le> n0" "c \<in> set (repr_candidates y n)" for n c
  proof -
    from repr_candidate_form [OF that(2)] obtain m
      where c: "to_float c = y" "c * 10 powi (int n - e) = of_int m" by (auto simp: e_def)
    define j where "j = nat (int s - (int n - e))"
    have "int s = (int n - e) + int j" using that(1) n1 by (simp add: j_def n0_def)
    then have "?D = 10 powi (int n - e) * 10 ^ j"
      by (metis power_int_add power_int_of_nat zero_neq_numeral)
    then have cD: "c * ?D = of_int (m * 10 ^ j)" using c(2) by simp
    have "\<bar>y - c\<bar> \<le> \<bar>c\<bar> / 2 ^ 53" using to_float_error [of c] c(1) by simp
    then have "9007199254740992 * \<bar>y - c\<bar> \<le> \<bar>c\<bar>" by simp
    moreover have "\<bar>c\<bar> \<le> \<bar>y\<bar> + \<bar>y - c\<bar>" by linarith
    moreover have "9007199254740992 * a \<le> 2 * z" if "9007199254740992 * a \<le> d" "d \<le> z + a" "0 \<le> a" "0 \<le> z"
      for a d z :: rat using that by linarith
    ultimately have "9007199254740992 * \<bar>y - c\<bar> \<le> 2 * \<bar>y\<bar>" by (metis abs_ge_zero)
    then have "\<bar>y - c\<bar> \<le> 2 * \<bar>y\<bar> / 2 ^ 53" by simp
    then have "\<bar>y - c\<bar> * ?D \<le> 2 * (\<bar>y\<bar> * ?D) / 2 ^ 53"
      using mult_right_mono [of "\<bar>y - c\<bar>" "2 * \<bar>y\<bar> / 2 ^ 53" ?D] by simp
    also have "\<dots> < 1/4" using yD by simp
    finally have "\<bar>y - c\<bar> * ?D < 1/4" .
    moreover have "\<bar>c - x\<bar> * ?D \<le> \<bar>y - c\<bar> * ?D + \<bar>y - x\<bar> * ?D"
      by (simp flip: distrib_right)
    ultimately have "\<bar>c - x\<bar> * ?D < 1" using err by linarith
    then have "\<bar>c * ?D - x * ?D\<bar> < 1" by (simp add: abs_mult flip: left_diff_distrib)
    then have "\<bar>of_int (m * 10 ^ j - k) :: rat\<bar> < 1" by (simp only: cD x(1) of_int_diff)
    then have "\<bar>m * 10 ^ j - k\<bar> < 1" by (metis of_int_1 of_int_abs of_int_less_iff)
    then have "c * ?D = x * ?D" by (simp add: cD x(1))
    then show ?thesis by simp
  qed
  have found: "repr_candidates y n0 \<noteq> []"
  proof (rule repr_candidates_mem [of x y ?D])
    show "to_float x = y" by (simp add: y_def)
    have "int n0 - e = int s" using n1 unfolding n0_def by linarith
    then show "?D = 10 powi (int n0 - magnitude 10 y)" by (simp flip: e_def)
    have "\<bar>y * ?D - of_int k\<bar> < 1"
      using err by (simp add: abs_mult flip: x(1) left_diff_distrib)
    from close_to_integer [OF this]
    show "x = of_int \<lfloor>y * ?D\<rfloor> / ?D \<or> x = of_int \<lceil>y * ?D\<rceil> / ?D"
      using x(1) D by (auto simp: eq_divide_eq)
  qed
  then have "has_repr y n0" by (simp add: has_repr_def)
  from this n1 n2 obtain m where m: "List.find (has_repr y) [1..<18] = Some m" "has_repr y m" "m \<le> n0"
    by (rule find_upt_least)
  then have "hd (repr_candidates y m) = x" by (intro uniq [OF m(3)]) (simp add: has_repr_def)
  with m(1) y0 show ?thesis by (simp add: str_float_def flip: y_def)
qed

lemma to_float_lower:
  assumes "x * 10 ^ s = of_int k" "2 \<le> \<bar>k\<bar>"
  shows "1 / 10 ^ s \<le> \<bar>to_float x\<bar>"
proof -
  have "2 \<le> \<bar>x\<bar> * 10 ^ s"
    using assms by (metis abs_mult abs_numeral of_int_abs of_int_le_iff of_int_numeral power_abs)
  then have x: "2 / 10 ^ s \<le> \<bar>x\<bar>" by (simp add: divide_le_eq)
  have "\<bar>x\<bar> \<le> \<bar>to_float x\<bar> + \<bar>to_float x - x\<bar>" by linarith
  moreover have "\<bar>to_float x - x\<bar> \<le> \<bar>x\<bar> / 2"
    using to_float_error [of x] by simp
  ultimately have "\<bar>x\<bar> / 2 \<le> \<bar>to_float x\<bar>" by linarith
  with x show ?thesis by simp
qed

lemma to_float_cent: "1 / 100 \<le> \<bar>to_float (1 / 100)\<bar>" "1 / 100 \<le> \<bar>to_float (- 1 / 100)\<bar>"
  "1 / 10000 \<le> \<bar>to_float (1 / 10000)\<bar>" "1 / 10000 \<le> \<bar>to_float (- 1 / 10000)\<bar>"
  by code_simp+

lemma str_float_cents:
  assumes "is_cents x" "\<bar>x\<bar> < 10 ^ 13"
  shows "str_float (to_float x) = x"
proof -
  from assms(1) obtain k where k: "x = of_int k / 100" by (auto simp: is_cents_iff)
  have b: "\<bar>of_int k :: rat\<bar> < 10 ^ 15" using assms(2) by (simp add: k abs_divide)
  consider "k = 0" | "\<bar>k\<bar> = 1" | "2 \<le> \<bar>k\<bar>" by linarith
  then show ?thesis
  proof cases
    case 1
    then show ?thesis by (simp add: k)
  next
    case 2
    then have "x = 1 / 100 \<or> x = - 1 / 100" by (auto simp: k)
    then have "1 / 10 ^ 2 \<le> \<bar>to_float x\<bar>" using to_float_cent(1,2) by (elim disjE; hypsubst; simp)
    then show ?thesis using b by (intro str_float_scaled [of x 2 k]) (simp_all add: k)
  next
    case 3
    then have "1 / 10 ^ 2 \<le> \<bar>to_float x\<bar>" by (intro to_float_lower [of x 2 k]) (simp_all add: k)
    then show ?thesis using b by (intro str_float_scaled [of x 2 k]) (simp_all add: k)
  qed
qed

text \<open>The same for prices, which carry four decimals.\<close>

definition is_price :: "rat \<Rightarrow> bool" where
  "is_price x = (x * 10000 \<in> \<int>)"

lemma str_float_price:
  assumes "is_price x" "\<bar>x\<bar> < 10 ^ 11"
  shows "str_float (to_float x) = x"
proof -
  from assms(1) obtain k where k: "x * 10000 = of_int k" by (auto simp: is_price_def elim: Ints_cases)
  then have x: "x = of_int k / 10000" by simp
  have b: "\<bar>of_int k :: rat\<bar> < 10 ^ 15" using assms(2) by (simp add: x abs_divide)
  consider "k = 0" | "\<bar>k\<bar> = 1" | "2 \<le> \<bar>k\<bar>" by linarith
  then show ?thesis
  proof cases
    case 1
    then show ?thesis by (simp add: x)
  next
    case 2
    then have "x = 1 / 10000 \<or> x = - 1 / 10000" by (auto simp: x)
    then have "1 / 10 ^ 4 \<le> \<bar>to_float x\<bar>" using to_float_cent(3,4) by (elim disjE; hypsubst; simp)
    then show ?thesis using b by (intro str_float_scaled [of x 4 k]) (simp_all add: x)
  next
    case 3
    then have "1 / 10 ^ 4 \<le> \<bar>to_float x\<bar>" by (intro to_float_lower [of x 4 k]) (simp_all add: x)
    then show ?thesis using b by (intro str_float_scaled [of x 4 k]) (simp_all add: x)
  qed
qed

lemma is_price_cents: "is_cents x \<Longrightarrow> is_price x"
proof -
  assume "is_cents x"
  then have "x * 100 * of_int 100 \<in> \<int>" unfolding is_cents_def by (rule Ints_mult) (rule Ints_of_int)
  then show ?thesis by (simp add: is_price_def mult.assoc)
qed

subsection \<open>Printing and reading a float\<close>

lemma round_sig_idem:
  assumes "1 < b" "0 < p"
  shows "round_sig b p (round_sig b p x) = round_sig b p x"
proof (cases "round_sig b p x = 0")
  case False
  define m where "m = magnitude b x"
  define y where "y = round_sig b p x"
  let ?B = "of_int b :: rat"
  have B: "1 < ?B" "0 < ?B" "?B \<noteq> 0" using assms(1) by auto
  have x0: "x \<noteq> 0" using False by auto
  define k where "k = round_half_even (x * ?B powi (int p - m))"
  have y: "y = of_int k / ?B powi (int p - m)" by (simp add: y_def round_sig_def Let_def k_def m_def)
  have s: "0 < ?B powi (int p - m)" using B by simp
  have "\<bar>x\<bar> * ?B powi (int p - m) < ?B powi m * ?B powi (int p - m)"
    using magnitude_bounds(2) [OF assms(1) x0] s by (simp add: m_def)
  also have "\<dots> = ?B ^ p" using B by (simp flip: power_int_add)
  finally have "\<bar>x * ?B powi (int p - m)\<bar> < of_int (b ^ p)" using s by (simp add: abs_mult)
  moreover have "\<bar>of_int k :: rat\<bar> - \<bar>x * ?B powi (int p - m)\<bar> \<le> 1 / 2"
    using round_half_even_error [of "x * ?B powi (int p - m)"] abs_triangle_ineq2
    unfolding k_def [symmetric] by (rule order_trans [rotated])
  ultimately have "\<bar>of_int k :: rat\<bar> < of_int (b ^ p + 1)" unfolding of_int_add by simp
  then have "(of_int \<bar>k\<bar> :: rat) < of_int (b ^ p + 1)" by simp
  then have kb: "\<bar>k\<bar> \<le> b ^ p" unfolding of_int_less_iff by simp
  have y0: "y \<noteq> 0" using False by (simp add: y_def)
  have "y * ?B powi (int p - magnitude b y) \<in> \<int>"
  proof (cases "\<bar>k\<bar> = b ^ p")
    case True
    then have "\<bar>of_int k :: rat\<bar> = ?B ^ p" by (metis of_int_abs of_int_power)
    moreover have "\<bar>y\<bar> = \<bar>of_int k\<bar> / ?B powi (int p - m)"
      unfolding y abs_divide abs_of_pos [OF s] ..
    moreover have "?B powi (int p - m) = ?B ^ p / ?B powi m" using B by (simp add: power_int_diff)
    ultimately have ay: "\<bar>y\<bar> = ?B powi m" using B by simp
    then have "\<bar>y\<bar> < ?B powi (m + 1)" using B by (simp add: power_int_strict_increasing)
    then have "magnitude b y \<le> m + 1" by (rule magnitude_le [OF assms(1) y0])
    then obtain j where j: "m + 1 - magnitude b y = int j" by (metis diff_ge_0_iff_ge nonneg_int_cases)
    have e: "m + (int p - magnitude b y) = int (p - 1) + int j" using j assms(2) by (simp add: of_nat_diff)
    have "\<bar>y\<bar> * ?B powi (int p - magnitude b y) = ?B powi (int (p - 1) + int j)"
      unfolding e [symmetric] ay using B by (simp add: power_int_add)
    also have "\<dots> = of_int (b ^ (p - 1 + j))" by (metis of_int_power of_nat_add power_int_of_nat)
    finally have "\<bar>y * ?B powi (int p - magnitude b y)\<bar> \<in> \<int>" using B by (simp add: abs_mult)
    then show ?thesis by (metis Ints_minus abs_if minus_minus)
  next
    case False
    then have "(of_int \<bar>k\<bar> :: rat) < of_int (b ^ p)" using kb unfolding of_int_less_iff by simp
    then have "\<bar>of_int k\<bar> / ?B powi (int p - m) < ?B ^ p / ?B powi (int p - m)"
      using s by (intro divide_strict_right_mono) simp_all
    then have "\<bar>y\<bar> < ?B ^ p / ?B powi (int p - m)" unfolding y abs_divide abs_of_pos [OF s] .
    also have "\<dots> = ?B powi m" using B by (simp add: power_int_diff)
    finally have "magnitude b y \<le> m" by (rule magnitude_le [OF assms(1) y0])
    then obtain j where j: "m - magnitude b y = int j" by (metis diff_ge_0_iff_ge nonneg_int_cases)
    have e: "int p - magnitude b y = (int p - m) + int j" using j by simp
    have ys: "y * ?B powi (int p - m) = of_int k" using B by (simp add: y)
    have "y * ?B powi (int p - magnitude b y) = of_int k * ?B powi (int j)"
      unfolding e using B by (simp add: power_int_add ys flip: mult.assoc)
    also have "\<dots> = of_int (k * b ^ j)" by simp
    finally show ?thesis by (metis Ints_of_int)
  qed
  then show ?thesis unfolding y_def by (rule round_sig_exact [OF assms(1)])
qed simp

lemma to_float_str_float: "to_float (str_float (to_float x)) = to_float x"
proof -
  let ?y = "to_float x"
  have y: "to_float ?y = ?y" unfolding to_float_def by (rule round_sig_idem) simp_all
  show ?thesis
  proof (cases "List.find (has_repr ?y) [1..<18]")
    case None
    then show ?thesis using y by (simp add: str_float_def)
  next
    case (Some n)
    then have "repr_candidates ?y n \<noteq> []" by (auto dest: find_Some_mem simp: has_repr_def)
    then have "hd (repr_candidates ?y n) \<in> set (repr_candidates ?y n)" by simp
    then have "to_float (hd (repr_candidates ?y n)) = ?y" by (rule repr_candidate_form)
    with Some show ?thesis by (simp add: str_float_def)
  qed
qed

end
