(* ===== verification/Billing_Data.thy ===== *)
theory Billing_Data
  imports Decimals
begin

text \<open>
  The stored data of the billing app (\<open>apps/billing/models.py\<close>, \<open>apps/accounts/models.py\<close>):
  one record per model with the columns the code reads or writes, the priceable resources with
  the order \<open>sorted\<close> gives their keys, calendar dates, and the tables as one state record.
  A table is the list of its rows; a queryset's \<open>filter\<close> is \<open>filter\<close> on it, \<open>first()\<close> the head of
  the rows in the model's declared ordering. Money columns are the decimal values they hold.
\<close>

named_theorems row_simps \<open>columns of rows\<close>

subsection \<open>Dates\<close>

datatype date = Date (date_year: int) (date_month: int) (date_day: int)

instantiation date :: linorder
begin

definition less_eq_date :: "date \<Rightarrow> date \<Rightarrow> bool" where
  "less_eq_date a b = ((date_year a, date_month a, date_day a) \<le> (date_year b, date_month b, date_day b))"

definition less_date :: "date \<Rightarrow> date \<Rightarrow> bool" where
  "less_date a b = ((date_year a, date_month a, date_day a) < (date_year b, date_month b, date_day b))"

instance
proof
  fix x y z :: date
  show "(x < y) = (x \<le> y \<and> \<not> y \<le> x)" by (auto simp: less_date_def less_eq_date_def)
  show "x \<le> x" by (simp add: less_eq_date_def)
  show "x \<le> y \<Longrightarrow> y \<le> z \<Longrightarrow> x \<le> z" unfolding less_eq_date_def by (rule order_trans)
  show "x \<le> y \<Longrightarrow> y \<le> x \<Longrightarrow> x = y"
    by (cases x; cases y) (auto simp: less_eq_date_def)
  show "x \<le> y \<or> y \<le> x" unfolding less_eq_date_def by (rule linear)
qed

end

definition is_leap :: "int \<Rightarrow> bool" where
  "is_leap y = (y mod 4 = 0 \<and> (y mod 100 \<noteq> 0 \<or> y mod 400 = 0))"

definition days_in_month :: "int \<Rightarrow> int \<Rightarrow> int" where
  "days_in_month y m = (if m = 2 then (if is_leap y then 29 else 28)
     else if m \<in> {4, 6, 9, 11} then 30 else 31)"

definition days_before_year :: "int \<Rightarrow> int" where
  "days_before_year y = (y - 1) * 365 + (y - 1) div 4 - (y - 1) div 100 + (y - 1) div 400"

definition days_before_month :: "int \<Rightarrow> int \<Rightarrow> int" where
  "days_before_month y m = (\<Sum>k\<leftarrow>[1..m - 1]. days_in_month y k)"

definition ordinal :: "date \<Rightarrow> int" where
  "ordinal d = days_before_year (date_year d) + days_before_month (date_year d) (date_month d) + date_day d"

text \<open>\<open>(last - first).days\<close>.\<close>

definition date_diff :: "date \<Rightarrow> date \<Rightarrow> int" where
  "date_diff a b = ordinal a - ordinal b"

text \<open>The arguments for which \<open>datetime.date\<close> does not raise \<open>ValueError\<close>.\<close>

definition valid_date :: "int \<Rightarrow> int \<Rightarrow> int \<Rightarrow> bool" where
  "valid_date y m d = (1 \<le> y \<and> y \<le> 9999 \<and> 1 \<le> m \<and> m \<le> 12 \<and> 1 \<le> d \<and> d \<le> days_in_month y m)"

lemma days_in_month_bounds: "28 \<le> days_in_month y m" "days_in_month y m \<le> 31"
  by (auto simp: days_in_month_def)

lemma date_diff_same_month: "date_diff (Date y m d) (Date y m d') = d - d'"
  by (simp add: date_diff_def ordinal_def)

subsection \<open>Resources\<close>

datatype resource = VCPU | RAM_GB | SSD_GB | HDD_GB | ELASTIC_IP | SNAPSHOT_GB

fun resource_value :: "resource \<Rightarrow> string" where
  "resource_value VCPU = ''vcpu''"
| "resource_value RAM_GB = ''ram_gb''"
| "resource_value SSD_GB = ''ssd_gb''"
| "resource_value HDD_GB = ''hdd_gb''"
| "resource_value ELASTIC_IP = ''elastic_ip''"
| "resource_value SNAPSHOT_GB = ''snapshot_gb''"

fun resource_label :: "resource \<Rightarrow> string" where
  "resource_label VCPU = ''vCPU''"
| "resource_label RAM_GB = ''RAM, GB''"
| "resource_label SSD_GB = ''SSD, GB''"
| "resource_label HDD_GB = ''HDD, GB''"
| "resource_label ELASTIC_IP = ''Elastic IP''"
| "resource_label SNAPSHOT_GB = ''Snapshot storage, GB''"

text \<open>The members in declaration order, as iterating the enumeration gives them.\<close>

definition all_resources :: "resource list" where
  "all_resources = [VCPU, RAM_GB, SSD_GB, HDD_GB, ELASTIC_IP, SNAPSHOT_GB]"

lemma set_all_resources: "r \<in> set all_resources"
  by (cases r) (simp_all add: all_resources_def)

lemma distinct_all_resources: "distinct all_resources"
  by (simp add: all_resources_def)

lemma resource_value_inject: "resource_value r = resource_value r' \<longleftrightarrow> r = r'"
  by (cases r; cases r') simp_all

text \<open>The order of the string keys, by which the code sorts lines.\<close>

instantiation resource :: linorder
begin

definition less_eq_resource :: "resource \<Rightarrow> resource \<Rightarrow> bool" where
  "less_eq_resource a b = (resource_value a \<le> resource_value b)"

definition less_resource :: "resource \<Rightarrow> resource \<Rightarrow> bool" where
  "less_resource a b = (resource_value a < resource_value b)"

instance
proof
  fix x y z :: resource
  show "(x < y) = (x \<le> y \<and> \<not> y \<le> x)" by (auto simp: less_resource_def less_eq_resource_def)
  show "x \<le> x" by (simp add: less_eq_resource_def)
  show "x \<le> y \<Longrightarrow> y \<le> z \<Longrightarrow> x \<le> z" unfolding less_eq_resource_def by (rule order_trans)
  show "x \<le> y \<Longrightarrow> y \<le> x \<Longrightarrow> x = y"
    by (simp add: less_eq_resource_def resource_value_inject [symmetric])
  show "x \<le> y \<or> y \<le> x" unfolding less_eq_resource_def by (rule linear)
qed

end

subsection \<open>Rows\<close>

text \<open>The measured quantities of a day, and the row that stores them.\<close>

record usage =
  vms_total :: int
  vms_running :: int
  vcpus :: int
  ram_mb :: int
  ssd_gib :: int
  hdd_gib :: int
  unlabelled_gib :: int
  elastic_ips :: int
  snapshot_gib_all :: int
  backup_snapshot_gib :: int

record usage_snapshot = usage +
  taken_on :: date
  taken_at :: int
  account :: string
  domain_id :: string
  project_id :: string
  project_name :: string

record tariff =
  tariff_name :: string
  tariff_currency :: string
  tariff_account :: string
  is_active :: bool
  tariff_rates :: "(resource \<times> rat) list"

record billing_profile =
  profile_account :: string
  legal_name :: string
  tax_id :: string
  address :: string
  contract :: string
  director :: string
  email :: string
  phone :: string

record invoice_line =
  line_resource :: resource
  line_label :: string
  line_unit :: string
  line_quantity :: rat
  line_unit_price :: rat
  line_amount :: rat

text \<open>The requisites of one side of an invoice, by key.\<close>

type_synonym party = "(string \<times> string) list"

record invoice =
  number :: string
  number_seq :: nat
  inv_account :: string
  inv_domain_id :: string
  period :: string
  period_from :: date
  period_to :: date
  issued_at :: int
  issued_by :: string
  currency :: string
  subtotal :: rat
  vat_rate_col :: rat
  vat_amount :: rat
  total :: rat
  seller_col :: party
  buyer_col :: party
  days_measured :: int
  days_in_period :: int
  invoice_lines :: "invoice_line list"

record account_settings =
  set_domain_id :: string
  set_account :: string
  count_backup_snapshots :: bool
  set_updated_at :: int
  set_updated_by :: string

record billing_db =
  tariffs :: "tariff list"
  snapshots :: "usage_snapshot list"
  account_settings :: "account_settings list"
  profiles :: "billing_profile list"
  invoices :: "invoice list"

text \<open>The settings the billing code reads.\<close>

record billing_settings =
  BILLING_VAT_RATE :: string
  BILLING_PRICES_INCLUDE_VAT :: bool
  BILLING_SELLER :: party

text \<open>\<open>first()\<close>: the head of the rows in the model's ordering.\<close>

definition first_row :: "('a \<Rightarrow> 'k::linorder) \<Rightarrow> 'a list \<Rightarrow> 'a option" where
  "first_row key rows = (case sort_key key rows of [] \<Rightarrow> None | r # _ \<Rightarrow> Some r)"

lemma first_row_None [simp]: "first_row key rows = None \<longleftrightarrow> rows = []"
  by (cases "sort_key key rows") (auto simp: first_row_def dest: arg_cong [where f = length])

lemma first_row_mem: "first_row key rows = Some r \<Longrightarrow> r \<in> set rows"
proof -
  assume "first_row key rows = Some r"
  then obtain rs where "sort_key key rows = r # rs" by (auto simp: first_row_def split: list.splits)
  then have "set (sort_key key rows) = set (r # rs)" by simp
  then show "r \<in> set rows" by auto
qed

lemma first_row_Nil [simp]: "first_row key [] = None"
  by simp

lemma first_row_single [simp]: "first_row key [r] = Some r"
  by (simp add: first_row_def)

text \<open>\<open>update_or_create\<close>: change the first row that matches, or append a new one.\<close>

fun upsert :: "('a \<Rightarrow> bool) \<Rightarrow> ('a \<Rightarrow> 'a) \<Rightarrow> 'a \<Rightarrow> 'a list \<Rightarrow> 'a list" where
  "upsert P f new [] = [new]"
| "upsert P f new (r # rs) = (if P r then f r # rs else r # upsert P f new rs)"

lemma upsert_none: "(\<forall>r \<in> set rows. \<not> P r) \<Longrightarrow> upsert P f new rows = rows @ [new]"
  by (induction rows) auto

lemma upsert_filter_other:
  "(\<And>r. P r \<Longrightarrow> \<not> Q r) \<Longrightarrow> (\<And>r. P r \<Longrightarrow> \<not> Q (f r)) \<Longrightarrow> \<not> Q new \<Longrightarrow>
   filter Q (upsert P f new rows) = filter Q rows"
  by (induction rows) auto

lemma set_upsert: "set (upsert P f new rows) \<subseteq> set rows \<union> f ` {r \<in> set rows. P r} \<union> {new}"
  by (induction rows) auto

text \<open>A unique column (or tuple of columns) of a table.\<close>

definition unique_on :: "('a \<Rightarrow> 'k) \<Rightarrow> 'a list \<Rightarrow> bool" where
  "unique_on key rows = distinct (map key rows)"

lemma unique_on_upsert:
  assumes "unique_on key rows" "\<And>r. P r \<longleftrightarrow> key r = k" "\<And>r. P r \<Longrightarrow> key (f r) = k" "key new = k"
  shows "unique_on key (upsert P f new rows)"
proof -
  have keys: "key ` set (upsert P f new rs) = insert k (key ` set rs)" for rs
    using assms(2-4) by (induction rs) auto
  show ?thesis
    using assms(1) unfolding unique_on_def
    by (induction rows) (use assms(2-4) keys in \<open>auto\<close>)
qed

lemma upsert_found:
  assumes "\<And>r. P r \<longleftrightarrow> key r = k" "\<And>r. P r \<Longrightarrow> key (f r) = k" "key new = k"
  shows "\<exists>r \<in> set (upsert P f new rows). key r = k"
  using assms by (induction rows) auto

end
