(* ===== verification/Rates.thy ===== *)
theory Rates
  imports Billing_Data
begin

text \<open>
  \<open>apps/billing/rates.py\<close> and \<open>apps/accounts/backups.py\<close>: how stored measurements become
  billable quantities, which price list applies to an account, and what a period costs.
\<close>

subsection \<open>Scheduled backups (\<open>apps/accounts/backups.py\<close>)\<close>

text \<open>The two marks a snapshot dictionary may carry; \<open>None\<close> and the empty string are both false.\<close>

definition marked :: "string option \<Rightarrow> bool" where
  "marked v = (v \<noteq> None \<and> v \<noteq> Some [])"

definition is_backup :: "string option \<Rightarrow> string option \<Rightarrow> bool" where
  "is_backup protectionGroupId protectionGroup = (marked protectionGroupId \<or> marked protectionGroup)"

definition uncounted :: "account_settings list \<Rightarrow> string list \<Rightarrow> string set" where
  "uncounted rows domain_ids =
     (let wanted = set (filter (\<lambda>d. d \<noteq> []) domain_ids) in
      if wanted = {} then {}
      else set (map set_domain_id (filter (\<lambda>r. set_domain_id r \<in> wanted \<and> \<not> count_backup_snapshots r) rows)))"

definition counts_backups :: "account_settings list \<Rightarrow> string \<Rightarrow> bool" where
  "counts_backups rows d = (d \<notin> uncounted rows [d])"

subsection \<open>Quantities\<close>

definition QUANTITY :: "(resource \<times> ('a usage_scheme \<Rightarrow> rat)) list" where
  "QUANTITY =
     [(VCPU, \<lambda>s. of_int (vcpus s)),
      (RAM_GB, \<lambda>s. dec_div (of_int (ram_mb s)) 1024),
      (SSD_GB, \<lambda>s. of_int (ssd_gib s)),
      (HDD_GB, \<lambda>s. of_int (hdd_gib s)),
      (ELASTIC_IP, \<lambda>s. of_int (elastic_ips s)),
      (SNAPSHOT_GB, \<lambda>s. of_int (snapshot_gib_all s))]"

definition snapshot_gib :: "'a usage_scheme \<Rightarrow> bool \<Rightarrow> int" where
  "snapshot_gib s with_backups =
     (if with_backups then snapshot_gib_all s else snapshot_gib_all s - backup_snapshot_gib s)"

definition quantities :: "'a usage_scheme \<Rightarrow> bool \<Rightarrow> (resource \<times> rat) list" where
  "quantities s with_backups =
     (let measured = map (\<lambda>(r, measure). (r, measure s)) QUANTITY in
      if with_backups then measured
      else AList.update SNAPSHOT_GB (of_int (snapshot_gib s False)) measured)"

subsection \<open>Price lists\<close>

definition tariff_order :: "tariff \<Rightarrow> string \<times> string" where
  "tariff_order t = (tariff_account t, tariff_name t)"

definition resolve_tariff :: "tariff list \<Rightarrow> string \<Rightarrow> tariff option" where
  "resolve_tariff ts acc =
     (case first_row tariff_order (filter (\<lambda>t. is_active t \<and> iexact (tariff_account t) acc) ts) of
        Some own \<Rightarrow> Some own
      | None \<Rightarrow> first_row tariff_order (filter (\<lambda>t. is_active t \<and> tariff_account t = []) ts))"

text \<open>Resource to monthly price; a zero price is no row at all.\<close>

definition rate_map :: "tariff option \<Rightarrow> (resource \<times> rat) list" where
  "rate_map t = (case t of None \<Rightarrow> []
     | Some t \<Rightarrow> fold (\<lambda>(r, p). AList.update r p) (filter (\<lambda>(r, p). p \<noteq> 0) (sort_key fst (tariff_rates t))) [])"

subsection \<open>The cost of a period\<close>

record bill_line =
  bl_resource :: resource
  bl_label :: string
  bl_quantity :: rat
  bl_unit_days :: "rat option"
  bl_unit_price :: rat
  bl_cost :: rat
  bl_priced :: bool

record bill =
  bill_lines :: "bill_line list"
  bill_total :: rat
  bill_days :: nat

definition price_of :: "(resource \<times> rat) list \<Rightarrow> resource \<Rightarrow> rat" where
  "price_of rates r = (case map_of rates r of None \<Rightarrow> 0 | Some p \<Rightarrow> p)"

definition accumulate :: "'a usage_scheme \<Rightarrow> bool \<Rightarrow> (resource \<times> rat) list \<Rightarrow> (resource \<times> rat) list" where
  "accumulate s with_backups unit_days =
     fold (\<lambda>(r, q) d. if q \<noteq> 0 then dict_alter 0 (\<lambda>x. dec_add x q) r d else d) (quantities s with_backups) unit_days"

definition unit_days_of :: "account_settings list \<Rightarrow> usage_snapshot list \<Rightarrow> (resource \<times> rat) list" where
  "unit_days_of rows snaps =
     (let without_backups = uncounted rows (map domain_id snaps) in
      fold (\<lambda>s. accumulate s (domain_id s \<notin> without_backups)) snaps [])"

text \<open>The decimals of one line: the average held and its cost at the monthly price.\<close>

definition average_of :: "rat \<Rightarrow> nat \<Rightarrow> rat" where
  "average_of accumulated n = (if n = 0 then 0 else cents (dec_div accumulated (of_nat n)))"

definition line_cost :: "rat \<Rightarrow> rat \<Rightarrow> rat" where
  "line_cost average monthly = cents (dec_mult average monthly)"

definition cost_line :: "(resource \<times> rat) list \<Rightarrow> nat \<Rightarrow> resource \<times> rat \<Rightarrow> bill_line" where
  "cost_line rates n = (\<lambda>(r, accumulated).
     let average = average_of accumulated n; monthly = price_of rates r in
     \<lparr>bl_resource = r, bl_label = resource_label r, bl_quantity = to_float average,
      bl_unit_days = Some (to_float (cents accumulated)), bl_unit_price = to_float monthly,
      bl_cost = to_float (line_cost average monthly), bl_priced = (map_of rates r \<noteq> None)\<rparr>)"

definition cost_of :: "account_settings list \<Rightarrow> usage_snapshot list \<Rightarrow> (resource \<times> rat) list \<Rightarrow> bill" where
  "cost_of rows snaps rates =
     (let days = card (set (map taken_on snaps));
          held = sort_key fst (unit_days_of rows snaps);
          costs = map (\<lambda>(r, a). line_cost (average_of a days) (price_of rates r)) held
      in \<lparr>bill_lines = map (cost_line rates days) held,
          bill_total = to_float (foldl dec_add 0 costs), bill_days = days\<rparr>)"

definition estimate_line :: "(resource \<times> rat) list \<Rightarrow> resource \<times> rat \<Rightarrow> bill_line" where
  "estimate_line rates = (\<lambda>(r, q).
     let held = cents q; monthly = price_of rates r in
     \<lparr>bl_resource = r, bl_label = resource_label r, bl_quantity = to_float held,
      bl_unit_days = None, bl_unit_price = to_float monthly,
      bl_cost = to_float (line_cost held monthly), bl_priced = (map_of rates r \<noteq> None)\<rparr>)"

definition estimate_month :: "'a usage_scheme \<Rightarrow> (resource \<times> rat) list \<Rightarrow> bill" where
  "estimate_month measurements rates =
     (let held = filter (\<lambda>(r, q). q \<noteq> 0) (sort_key fst (quantities measurements True));
          costs = map (\<lambda>(r, q). line_cost (cents q) (price_of rates r)) held
      in \<lparr>bill_lines = map (estimate_line rates) held,
          bill_total = to_float (foldl dec_add 0 costs), bill_days = 0\<rparr>)"

subsection \<open>The abstract bill\<close>

text \<open>
  What pricing promises, without the mechanics of contexts and dictionaries: the exact amount
  of each resource a row holds, the totals over the rows, and lines in key order for the
  resources that were held at all.
\<close>

fun amount :: "'a usage_scheme \<Rightarrow> bool \<Rightarrow> resource \<Rightarrow> rat" where
  "amount s wb VCPU = of_int (vcpus s)"
| "amount s wb RAM_GB = of_int (ram_mb s) / 1024"
| "amount s wb SSD_GB = of_int (ssd_gib s)"
| "amount s wb HDD_GB = of_int (hdd_gib s)"
| "amount s wb ELASTIC_IP = of_int (elastic_ips s)"
| "amount s wb SNAPSHOT_GB = of_int (snapshot_gib s wb)"

definition held_total :: "account_settings list \<Rightarrow> usage_snapshot list \<Rightarrow> resource \<Rightarrow> rat" where
  "held_total rows snaps r =
     (\<Sum>s\<leftarrow>snaps. amount s (domain_id s \<notin> uncounted rows (map domain_id snaps)) r)"

definition sorted_resources :: "resource list" where
  "sorted_resources = sort all_resources"

definition measured_days :: "usage_snapshot list \<Rightarrow> nat" where
  "measured_days snaps = card (set (map taken_on snaps))"

definition spec_average :: "account_settings list \<Rightarrow> usage_snapshot list \<Rightarrow> resource \<Rightarrow> rat" where
  "spec_average rows snaps r = cents (held_total rows snaps r / of_nat (measured_days snaps))"

definition spec_cost :: "account_settings list \<Rightarrow> usage_snapshot list \<Rightarrow> (resource \<times> rat) list \<Rightarrow> resource \<Rightarrow> rat" where
  "spec_cost rows snaps rates r = cents (spec_average rows snaps r * price_of rates r)"

definition held_resources :: "account_settings list \<Rightarrow> usage_snapshot list \<Rightarrow> resource list" where
  "held_resources rows snaps = filter (\<lambda>r. held_total rows snaps r \<noteq> 0) sorted_resources"

text \<open>
  The columns of a stored row: \<open>PositiveIntegerField\<close> values, the backups a part of the
  snapshot storage. The price column holds four decimals.
\<close>

definition wf_usage :: "'a usage_scheme \<Rightarrow> bool" where
  "wf_usage s \<longleftrightarrow>
     (\<forall>v \<in> {vcpus s, ram_mb s, ssd_gib s, hdd_gib s, elastic_ips s, snapshot_gib_all s}. 0 \<le> v \<and> v < 2 ^ 31) \<and>
     0 \<le> backup_snapshot_gib s \<and> backup_snapshot_gib s \<le> snapshot_gib_all s"

definition wf_rates :: "(resource \<times> rat) list \<Rightarrow> bool" where
  "wf_rates rates = (\<forall>(r, p) \<in> set rates. 0 \<le> p \<and> is_price p \<and> p \<le> 10 ^ 7)"

definition wf_snaps :: "usage_snapshot list \<Rightarrow> bool" where
  "wf_snaps snaps = ((\<forall>s \<in> set snaps. wf_usage s) \<and> length snaps < 10 ^ 5)"

lemma amount_bounds:
  assumes "wf_usage s"
  shows "0 \<le> amount s wb r" and "amount s wb r < 2 ^ 31"
  using assms by (cases r; force simp: wf_usage_def snapshot_gib_def)+

lemma amount_grain: "amount s wb r * 1024 \<in> \<int>"
  by (cases r) simp_all

lemma grain_decimals: "(x :: rat) * 1024 \<in> \<int> \<Longrightarrow> x * 10 ^ 10 \<in> \<int>"
proof -
  assume "x * 1024 \<in> \<int>"
  then have "x * 1024 * of_int 9765625 \<in> \<int>" by (rule Ints_mult) (rule Ints_of_int)
  then show ?thesis by (simp add: mult.assoc)
qed

lemma ctx_grain:
  assumes "(x :: rat) * 1024 \<in> \<int>" "\<bar>x\<bar> < 10 ^ 18"
  shows "ctx x = x"
proof (rule ctx_exact)
  show "x * 10 ^ 10 \<in> \<int>" using assms(1) by (rule grain_decimals)
  show "\<bar>x\<bar> * 10 ^ 10 < 10 ^ 28" using assms(2) by simp
qed

lemma map_of_quantities:
  assumes "wf_usage s"
  shows "map_of (quantities s wb) r = Some (amount s wb r)"
proof -
  have "ctx (of_int (ram_mb s) / 1024) = of_int (ram_mb s) / 1024"
    using amount_grain [of s wb RAM_GB] amount_bounds [OF assms, of wb RAM_GB] by (intro ctx_grain) auto
  then show ?thesis
    by (cases r) (simp_all add: quantities_def QUANTITY_def dec_div_def snapshot_gib_def Let_def)
qed

lemma keys_quantities: "map fst (quantities s wb) = all_resources"
  by (simp add: quantities_def QUANTITY_def all_resources_def Let_def)

lemma quantities_eq: "wf_usage s \<Longrightarrow> quantities s wb = map (\<lambda>r. (r, amount s wb r)) all_resources"
proof (rule nth_equalityI)
  assume wf: "wf_usage s"
  show len: "length (quantities s wb) = length (map (\<lambda>r. (r, amount s wb r)) all_resources)"
    by (metis keys_quantities length_map)
  fix i assume i: "i < length (quantities s wb)"
  obtain r q where rq: "quantities s wb ! i = (r, q)" by fastforce
  then have "map_of (quantities s wb) r = Some q"
    using i by (metis distinct_all_resources keys_quantities map_of_is_SomeI nth_mem)
  moreover have "all_resources ! i = r" using i rq by (metis fst_conv keys_quantities nth_map)
  ultimately show "quantities s wb ! i = map (\<lambda>r. (r, amount s wb r)) all_resources ! i"
    using i len rq wf by (simp add: map_of_quantities)
qed

subsection \<open>Accumulating the rows\<close>

text \<open>A dictionary that holds exactly the non-zero values of a function.\<close>

definition dict_is :: "(resource \<times> rat) list \<Rightarrow> (resource \<Rightarrow> rat) \<Rightarrow> bool" where
  "dict_is d f \<longleftrightarrow> distinct (map fst d) \<and> (\<forall>r. map_of d r = (if f r = 0 then None else Some (f r)))"

definition grainy :: "rat \<Rightarrow> bool" where
  "grainy x = (0 \<le> x \<and> x * 1024 \<in> \<int>)"

lemma grainy_add: "grainy x \<Longrightarrow> grainy y \<Longrightarrow> grainy (x + y)"
  by (simp add: grainy_def distrib_right)

lemma grainy_amount: "wf_usage s \<Longrightarrow> grainy (amount s wb r)"
  by (simp add: grainy_def amount_bounds amount_grain)

lemma grainy_0 [simp]: "grainy 0"
  by (simp add: grainy_def)

lemma dict_is_add:
  assumes "dict_is d f" "grainy (f r)" "grainy q" "f r + q < 10 ^ 18"
  shows "dict_is (if q \<noteq> 0 then dict_alter 0 (\<lambda>x. dec_add x q) r d else d) (f(r := f r + q))"
proof (cases "q = 0")
  case True
  with assms(1) show ?thesis by simp
next
  case False
  have "ctx (f r + q) = f r + q"
    using assms(2-4) grainy_add [OF assms(2,3)] by (intro ctx_grain) (auto simp: grainy_def)
  moreover have "f r + q \<noteq> 0" using False assms(2,3) by (auto simp: grainy_def)
  ultimately show ?thesis
    using assms(1) False
    by (auto simp: dict_is_def map_of_dict_alter distinct_dict_alter dec_add_def)
qed

lemma dict_is_fold:
  assumes "dict_is d f" "\<And>r. r \<in> set rs \<Longrightarrow> grainy (f r) \<and> grainy (a r) \<and> f r + a r < 10 ^ 18" "distinct rs"
  shows "dict_is (fold (\<lambda>(r, q) d. if q \<noteq> 0 then dict_alter 0 (\<lambda>x. dec_add x q) r d else d)
           (map (\<lambda>r. (r, a r)) rs) d) (\<lambda>r. if r \<in> set rs then f r + a r else f r)"
  using assms
proof (induction rs arbitrary: d f)
  case Nil
  then show ?case by simp
next
  case (Cons r rs)
  let ?d = "if a r \<noteq> 0 then dict_alter 0 (\<lambda>x. dec_add x (a r)) r d else d"
  let ?f = "f(r := f r + a r)"
  have "dict_is ?d ?f" using Cons.prems by (intro dict_is_add) auto
  then have "dict_is (fold (\<lambda>(r, q) d. if q \<noteq> 0 then dict_alter 0 (\<lambda>x. dec_add x q) r d else d)
      (map (\<lambda>r. (r, a r)) rs) ?d) (\<lambda>r. if r \<in> set rs then ?f r + a r else ?f r)"
    by (rule Cons.IH) (use Cons.prems in auto)
  moreover have "(\<lambda>r. if r \<in> set rs then ?f r + a r else ?f r) =
      (\<lambda>x. if x \<in> set (r # rs) then f x + a x else f x)"
    using Cons.prems(3) by auto
  ultimately show ?case by simp
qed

lemma dict_is_accumulate:
  assumes "dict_is d f" "wf_usage s" "\<And>r. grainy (f r)" "\<And>r. f r < 10 ^ 18 - 2 ^ 31"
  shows "dict_is (accumulate s wb d) (\<lambda>r. f r + amount s wb r)"
proof -
  have "grainy (f r) \<and> grainy (amount s wb r) \<and> f r + amount s wb r < 10 ^ 18" for r
    using assms(3,4) [of r] amount_bounds(2) [OF assms(2), of wb r] grainy_amount [OF assms(2), of wb r]
    by simp
  then show ?thesis
    using dict_is_fold [OF assms(1) _ distinct_all_resources, of "amount s wb"]
    by (simp add: accumulate_def quantities_eq [OF assms(2)] set_all_resources)
qed

lemma dict_is_accumulate_all:
  assumes "dict_is d f" "\<forall>s \<in> set snaps. wf_usage s" "\<And>r. grainy (f r)"
    "\<And>r. f r + of_nat (length snaps) * 2 ^ 31 < 10 ^ 18"
  shows "dict_is (fold (\<lambda>s. accumulate s (wb s)) snaps d) (\<lambda>r. f r + (\<Sum>s\<leftarrow>snaps. amount s (wb s) r))"
  using assms
proof (induction snaps arbitrary: d f)
  case Nil
  then show ?case by simp
next
  case (Cons s snaps)
  let ?f = "\<lambda>r. f r + amount s (wb s) r"
  have wf: "wf_usage s" using Cons.prems(2) by simp
  have step: "dict_is (accumulate s (wb s) d) ?f"
  proof (rule dict_is_accumulate [OF Cons.prems(1) wf Cons.prems(3)])
    show "f r < 10 ^ 18 - 2 ^ 31" for r
      using Cons.prems(4) [of r] by (simp add: algebra_simps)
  qed
  have "dict_is (fold (\<lambda>s. accumulate s (wb s)) snaps (accumulate s (wb s) d))
      (\<lambda>r. ?f r + (\<Sum>s\<leftarrow>snaps. amount s (wb s) r))"
  proof (rule Cons.IH [OF step])
    show "\<forall>s \<in> set snaps. wf_usage s" using Cons.prems(2) by simp
    show "grainy (?f r)" for r by (rule grainy_add [OF Cons.prems(3) grainy_amount [OF wf]])
    show "?f r + of_nat (length snaps) * 2 ^ 31 < 10 ^ 18" for r
      using Cons.prems(4) [of r] amount_bounds(2) [OF wf, of "wb s" r] by (simp add: algebra_simps)
  qed
  then show ?case by (simp add: add.assoc)
qed

lemma dict_is_unit_days:
  assumes "wf_snaps snaps"
  shows "dict_is (unit_days_of rows snaps) (held_total rows snaps)"
proof -
  have len: "(of_nat (length snaps) :: rat) * 2 ^ 31 < 10 ^ 18"
  proof -
    have "(of_nat (length snaps) :: rat) < of_nat (10 ^ 5)"
      using assms unfolding wf_snaps_def by (subst of_nat_less_iff) simp
    then show ?thesis by simp
  qed
  have "dict_is (fold (\<lambda>s. accumulate s (domain_id s \<notin> uncounted rows (map domain_id snaps))) snaps [])
      (\<lambda>r. 0 + (\<Sum>s\<leftarrow>snaps. amount s (domain_id s \<notin> uncounted rows (map domain_id snaps)) r))"
    using assms len by (intro dict_is_accumulate_all) (auto simp: dict_is_def wf_snaps_def)
  then show ?thesis by (simp add: unit_days_of_def held_total_def [abs_def] Let_def)
qed

subsection \<open>Canonical order of the lines\<close>

lemma sorted_resources_props: "sorted sorted_resources" "distinct sorted_resources" "r \<in> set sorted_resources"
  using distinct_all_resources set_all_resources by (simp_all add: sorted_resources_def)

lemma sort_dict:
  fixes d :: "(resource \<times> 'v) list"
  assumes "distinct (map fst d)"
  shows "sort_key fst d = map (\<lambda>r. (r, the (map_of d r))) (filter (\<lambda>r. map_of d r \<noteq> None) sorted_resources)"
proof -
  let ?s = "sort_key fst d"
  have keys: "map fst ?s = filter (\<lambda>r. map_of d r \<noteq> None) sorted_resources"
  proof (rule sorted_distinct_set_unique)
    show "sorted (map fst ?s)" by simp
    show "distinct (map fst ?s)" using assms
      by (metis distinct_map distinct_sort set_sort)
    show "sorted (filter (\<lambda>r. map_of d r \<noteq> None) sorted_resources)"
      using sorted_resources_props(1) by (rule sorted_wrt_filter)
    show "distinct (filter (\<lambda>r. map_of d r \<noteq> None) sorted_resources)"
      using sorted_resources_props(2) by simp
    show "set (map fst ?s) = set (filter (\<lambda>r. map_of d r \<noteq> None) sorted_resources)"
      by (auto simp: sorted_resources_props map_of_eq_None_iff)
  qed
  have "?s = map (\<lambda>r. (r, the (map_of d r))) (map fst ?s)"
    using assms by (auto simp: list_eq_iff_nth_eq) (metis (no_types, lifting) assms length_sort map_of_is_SomeI nth_mem option.sel prod.collapse set_sort)
  then show ?thesis using keys by simp
qed

lemma sort_dict_is:
  assumes "dict_is d f"
  shows "sort_key fst d = map (\<lambda>r. (r, f r)) (filter (\<lambda>r. f r \<noteq> 0) sorted_resources)"
proof -
  have d: "distinct (map fst d)" and m: "\<And>r. map_of d r = (if f r = 0 then None else Some (f r))"
    using assms by (auto simp: dict_is_def)
  have "filter (\<lambda>r. map_of d r \<noteq> None) sorted_resources = filter (\<lambda>r. f r \<noteq> 0) sorted_resources"
    by (rule filter_cong) (auto simp: m)
  then show ?thesis unfolding sort_dict [OF d] by (auto simp: m)
qed

subsection \<open>The context's 28 digits never reach the cent\<close>

text \<open>
  The average is divided at 28 digits and then rounded to cents. For sums of rows the double
  rounding is harmless: such a quotient is either a half-cent exactly or further from the next
  half-cent than the first rounding can move it.
\<close>

lemma ctx_error:
  assumes "\<bar>x\<bar> < 10 ^ 15"
  shows "\<bar>ctx x - x\<bar> \<le> 1 / 10 ^ 13"
proof (cases "x = 0")
  case True
  then show ?thesis by (simp add: ctx_def)
next
  case False
  have "magnitude 10 x \<le> int 15" using False assms by (intro magnitude_le) auto
  then have "(10::rat) powi (magnitude 10 x - int 28) \<le> 10 powi (- 13)"
    by (intro power_int_increasing) auto
  also have "\<dots> = 1 / 10 ^ 13" by (simp add: power_int_minus_divide)
  finally have "(10::rat) powi (magnitude 10 x - int 28) / 2 \<le> 1 / 10 ^ 13" by simp
  then show ?thesis using round_sig_error [of 10 28 x] unfolding ctx_def by simp
qed

lemma floor_gap:
  fixes z w :: rat
  assumes "z * of_int d \<in> \<int>" "0 < d" "z \<notin> \<int>" "\<bar>w - z\<bar> * of_int d < 1"
  shows "\<lfloor>w\<rfloor> = \<lfloor>z\<rfloor>"
proof -
  define f where "f = \<lfloor>z\<rfloor>"
  have f: "of_int f \<le> z" "z < of_int f + 1" "of_int f \<noteq> z"
    unfolding f_def using assms(3) by (linarith, linarith, metis Ints_of_int)
  obtain k where k: "z * of_int d = of_int k" using assms(1) by (auto elim: Ints_cases)
  have d: "0 < (of_int d :: rat)" using assms(2) by simp
  have "(of_int (f * d) :: rat) < of_int k" "(of_int k :: rat) < of_int ((f + 1) * d)"
    using f d by (simp_all flip: k)
  then have "f * d + 1 \<le> k" "k + 1 \<le> (f + 1) * d" unfolding of_int_less_iff by linarith+
  then have "(of_int (f * d + 1) :: rat) \<le> of_int k" "(of_int (k + 1) :: rat) \<le> of_int ((f + 1) * d)"
    unfolding of_int_le_iff by auto
  then have gap: "1 \<le> (z - of_int f) * of_int d" "1 \<le> (of_int f + 1 - z) * of_int d"
    by (simp_all add: algebra_simps flip: k)
  have "\<bar>w - z\<bar> * of_int d < (z - of_int f) * of_int d" "\<bar>w - z\<bar> * of_int d < (of_int f + 1 - z) * of_int d"
    using gap assms(4) by linarith+
  then have "\<bar>w - z\<bar> < z - of_int f" "\<bar>w - z\<bar> < of_int f + 1 - z"
    using d by (simp_all add: mult_less_cancel_right)
  then have "\<lfloor>w\<rfloor> = f" unfolding floor_eq_iff by linarith
  then show ?thesis by (simp add: f_def)
qed

lemma average_exact:
  assumes "grainy T" "T < 10 ^ 15" "0 < n" "n < 10 ^ 5"
  shows "average_of T n = cents (T / of_nat n)"
proof -
  define x where "x = T / of_nat n"
  define z w where "z = x * 100 + 1/2" and "w = ctx x * 100 + 1/2"
  have n: "1 \<le> (of_nat n :: rat)" "(of_nat n :: rat) < 10 ^ 5"
    using assms(3,4) of_nat_less_iff [of n "10 ^ 5", where ?'a = rat] by auto
  have T: "0 \<le> T" "T * 1024 \<in> \<int>" using assms(1) by (auto simp: grainy_def)
  have "T * 1 \<le> T * of_nat n" using T(1) n(1) by (rule mult_left_mono [rotated])
  then have "x \<le> T" using n by (simp add: x_def divide_le_eq)
  then have x: "0 \<le> x" "\<bar>x\<bar> < 10 ^ 15" using T(1) assms(2) n by (auto simp: x_def)
  have err: "\<bar>ctx x - x\<bar> \<le> 1 / 10 ^ 13" using x(2) by (rule ctx_error)
  have "cents (ctx x) = cents x"
  proof (cases "z \<in> \<int>")
    case True
    then obtain k where "z = of_int k" by (auto elim: Ints_cases)
    then have "x * 10 ^ 3 = of_int (10 * k - 5)" by (simp add: z_def)
    then have "ctx x = x" using x(2) by (intro ctx_exact [where k = 3]) (metis Ints_of_int, simp)
    then show ?thesis by simp
  next
    case False
    have "z * of_int (256 * int n) = T * 1024 * of_int 25 + of_int (128 * int n)"
      using n by (simp add: z_def x_def algebra_simps)
    then have grain: "z * of_int (256 * int n) \<in> \<int>"
      by (metis Ints_add Ints_mult Ints_of_int T(2))
    have "w - z = 100 * (ctx x - x)" by (simp add: w_def z_def)
    then have "\<bar>w - z\<bar> = 100 * \<bar>ctx x - x\<bar>" by (simp only: abs_mult abs_numeral)
    then have "\<bar>w - z\<bar> \<le> 1 / 10 ^ 11" using err by simp
    then have "\<bar>w - z\<bar> * of_int (256 * int n) \<le> 1 / 10 ^ 11 * (256 * 10 ^ 5)"
      using n by (intro mult_mono) auto
    also have "(1 / 10 ^ 11 * (256 * 10 ^ 5) :: rat) < 1" by simp
    finally have small: "\<bar>w - z\<bar> * of_int (256 * int n) < 1" .
    have fl: "\<lfloor>w\<rfloor> = \<lfloor>z\<rfloor>" 
      by (rule floor_gap [OF grain _ False small]) (use assms(3) in simp)
    show ?thesis
    proof (cases "x = 0")
      case True
      then show ?thesis by (simp add: ctx_def)
    next
      case nz: False
      obtain k where k: "T * 1024 = of_int k" using T(2) by (auto elim: Ints_cases)
      have "0 < T" using T(1) nz by (auto simp: x_def)
      then have "(0::rat) < of_int k" by (simp flip: k)
      then have "1 \<le> k" by simp
      then have "1 \<le> T * 1024" unfolding k by simp
      then have "1 / 10 ^ 4 \<le> T" by simp
      then have "1 / 10 ^ 4 / 10 ^ 5 \<le> x" unfolding x_def using n by (intro frac_le) auto
      then have "0 \<le> ctx x" using abs_le_D2 [OF err] by simp
      then show ?thesis
        using fl x(1) by (simp add: cents_def round_half_up_def w_def z_def)
    qed
  qed
  then show ?thesis using assms(3) by (simp add: average_of_def dec_div_def x_def)
qed

subsection \<open>What a line costs\<close>

lemma price_of_wf:
  assumes "wf_rates rates"
  shows "0 \<le> price_of rates r" "is_price (price_of rates r)" "price_of rates r \<le> 10 ^ 7"
  using assms map_of_SomeD [of rates r]
  by (auto simp: price_of_def wf_rates_def is_price_def split: option.splits)

lemma line_cost_exact:
  assumes "is_cents a" "0 \<le> a" "a < 10 ^ 15" "0 \<le> p" "is_price p" "p \<le> 10 ^ 7"
  shows "line_cost a p = cents (a * p)"
proof -
  have "a * 100 * (p * 10000) \<in> \<int>" using assms(1,5) unfolding is_cents_def is_price_def by (rule Ints_mult)
  then have "a * p * 10 ^ 6 \<in> \<int>" by (simp add: algebra_simps)
  moreover have "a * p \<le> a * 10 ^ 7" using assms(2,6) by (rule mult_left_mono [rotated])
  then have "\<bar>a * p\<bar> * 10 ^ 6 < 10 ^ 28" using assms by simp
  ultimately have "ctx (a * p) = a * p" by (rule ctx_exact)
  then show ?thesis by (simp add: line_cost_def dec_mult_def)
qed

lemma foldl_dec_add:
  assumes "\<forall>x \<in> set xs. is_cents x \<and> 0 \<le> x" "is_cents acc" "0 \<le> acc" "acc + sum_list xs < 10 ^ 26"
  shows "foldl dec_add acc xs = acc + sum_list xs"
  using assms
proof (induction xs arbitrary: acc)
  case Nil
  then show ?case by simp
next
  case (Cons x xs)
  have "0 \<le> sum_list xs" using Cons.prems(1) by (intro sum_list_nonneg) auto
  then have "\<bar>acc + x\<bar> * 10 ^ 2 < 10 ^ 28" using Cons.prems by simp
  moreover have "(acc + x) * 10 ^ 2 \<in> \<int>"
    using is_cents_add [of acc x] Cons.prems by (simp add: is_cents_def)
  ultimately have "dec_add acc x = acc + x" unfolding dec_add_def by (intro ctx_exact)
  moreover have "foldl dec_add (acc + x) xs = acc + x + sum_list xs"
    using Cons.prems by (intro Cons.IH) auto
  ultimately show ?case by (simp add: add.assoc)
qed

lemma held_total_wf:
  assumes "wf_snaps snaps"
  shows "grainy (held_total rows snaps r)" "held_total rows snaps r < 10 ^ 15 - 1"
proof -
  let ?a = "\<lambda>s. amount s (domain_id s \<notin> uncounted rows (map domain_id snaps)) r"
  have gen: "grainy (\<Sum>s\<leftarrow>xs. ?a s) \<and> (\<Sum>s\<leftarrow>xs. ?a s) \<le> of_nat (length xs) * 2 ^ 31"
    if "\<forall>s \<in> set xs. wf_usage s" for xs
    using that
  proof (induction xs)
    case (Cons s xs)
    have "wf_usage s" using Cons.prems by simp
    then have "grainy (?a s)" "?a s \<le> 2 ^ 31"
      using amount_bounds(2) [of s _ r] by (auto intro: grainy_amount less_imp_le)
    with Cons show ?case by (auto intro!: grainy_add simp: algebra_simps)
  qed simp
  have "(of_nat (length snaps) :: rat) < of_nat (10 ^ 5)"
    using assms unfolding wf_snaps_def by (subst of_nat_less_iff) simp
  then have "(of_nat (length snaps) :: rat) * 2 ^ 31 < 10 ^ 15 - 1" by simp
  then show "grainy (held_total rows snaps r)" "held_total rows snaps r < 10 ^ 15 - 1"
    using gen [of snaps] assms by (auto simp: held_total_def wf_snaps_def)
qed

lemma measured_days_wf:
  assumes "wf_snaps snaps"
  shows "measured_days snaps < 10 ^ 5" "measured_days snaps = 0 \<longleftrightarrow> snaps = []"
proof -
  have "measured_days snaps \<le> length snaps"
    unfolding measured_days_def by (metis card_length length_map)
  then show "measured_days snaps < 10 ^ 5" using assms by (simp add: wf_snaps_def)
  show "measured_days snaps = 0 \<longleftrightarrow> snaps = []" by (simp add: measured_days_def)
qed

lemma spec_average_wf:
  assumes "wf_snaps snaps"
  shows "is_cents (spec_average rows snaps r)" "0 \<le> spec_average rows snaps r" "spec_average rows snaps r < 10 ^ 15"
proof -
  let ?T = "held_total rows snaps r" and ?n = "of_nat (measured_days snaps) :: rat"
  note T = held_total_wf [OF assms, of rows r]
  then have T0: "0 \<le> ?T" by (simp add: grainy_def)
  show "is_cents (spec_average rows snaps r)" by (simp add: spec_average_def)
  show "0 \<le> spec_average rows snaps r" using T0 by (auto simp: spec_average_def)
  have "?T / ?n < 10 ^ 15 - 1"
  proof (cases "measured_days snaps = 0")
    case False
    then have "1 \<le> ?n" by simp
    then have "?T * 1 \<le> ?T * ?n" using T0 by (rule mult_left_mono)
    then have "?T / ?n \<le> ?T" using \<open>1 \<le> ?n\<close> by (simp add: divide_le_eq)
    then show ?thesis using T(2) by linarith
  qed simp
  then show "spec_average rows snaps r < 10 ^ 15"
    using abs_le_D1 [OF cents_error [of "?T / ?n"]] by (simp add: spec_average_def)
qed

subsection \<open>Bills\<close>

definition spec_line :: "account_settings list \<Rightarrow> usage_snapshot list \<Rightarrow> (resource \<times> rat) list \<Rightarrow> resource \<Rightarrow> bill_line" where
  "spec_line rows snaps rates r =
     \<lparr>bl_resource = r, bl_label = resource_label r,
      bl_quantity = to_float (spec_average rows snaps r),
      bl_unit_days = Some (to_float (cents (held_total rows snaps r))),
      bl_unit_price = to_float (price_of rates r),
      bl_cost = to_float (spec_cost rows snaps rates r), bl_priced = (map_of rates r \<noteq> None)\<rparr>"

definition spec_bill :: "account_settings list \<Rightarrow> usage_snapshot list \<Rightarrow> (resource \<times> rat) list \<Rightarrow> bill" where
  "spec_bill rows snaps rates =
     \<lparr>bill_lines = map (spec_line rows snaps rates) (held_resources rows snaps),
      bill_total = to_float (\<Sum>r\<leftarrow>held_resources rows snaps. spec_cost rows snaps rates r),
      bill_days = measured_days snaps\<rparr>"

lemma spec_cost_wf:
  assumes "wf_snaps snaps" "wf_rates rates"
  shows "is_cents (spec_cost rows snaps rates r)" "0 \<le> spec_cost rows snaps rates r"
    "spec_cost rows snaps rates r \<le> 10 ^ 22 + 1"
    "line_cost (spec_average rows snaps r) (price_of rates r) = spec_cost rows snaps rates r"
proof -
  let ?a = "spec_average rows snaps r" and ?p = "price_of rates r"
  note a = spec_average_wf [OF assms(1), of rows r] and p = price_of_wf [OF assms(2), of r]
  show "is_cents (spec_cost rows snaps rates r)" by (simp add: spec_cost_def)
  show "0 \<le> spec_cost rows snaps rates r" using a(2) p(1) by (auto simp: spec_cost_def)
  have "?a * ?p \<le> 10 ^ 15 * 10 ^ 7" using a p by (intro mult_mono) auto
  then show "spec_cost rows snaps rates r \<le> 10 ^ 22 + 1"
    using abs_le_D1 [OF cents_error [of "?a * ?p"]] by (simp add: spec_cost_def)
  show "line_cost ?a ?p = spec_cost rows snaps rates r"
    using a p by (simp add: spec_cost_def line_cost_exact)
qed

lemma length_held: "length (held_resources rows snaps) \<le> 6"
proof -
  have "length (held_resources rows snaps) \<le> length sorted_resources"
    unfolding held_resources_def by (rule length_filter_le)
  also have "length sorted_resources = 6"
    unfolding sorted_resources_def length_sort by (simp add: all_resources_def)
  finally show ?thesis .
qed

lemma spec_total_bound:
  assumes "wf_snaps snaps" "wf_rates rates"
  shows "(\<Sum>r\<leftarrow>held_resources rows snaps. spec_cost rows snaps rates r) < 10 ^ 26"
proof -
  have "(\<Sum>r\<leftarrow>rs. spec_cost rows snaps rates r) \<le> of_nat (length rs) * (10 ^ 22 + 1)" for rs
    by (induction rs) (use spec_cost_wf(3) [OF assms] in \<open>auto simp: algebra_simps intro: add_mono\<close>)
  moreover have "(of_nat (length (held_resources rows snaps)) :: rat) \<le> of_nat 6"
    using length_held [of rows snaps] by (subst of_nat_le_iff)
  then have "(of_nat (length (held_resources rows snaps)) :: rat) * (10 ^ 22 + 1) \<le> 6 * (10 ^ 22 + 1)"
    by (intro mult_right_mono) auto
  then have "(of_nat (length (held_resources rows snaps)) :: rat) * (10 ^ 22 + 1) < 10 ^ 26" by simp
  ultimately show ?thesis by (rule order_le_less_trans)
qed

lemma cost_of_spec:
  assumes "wf_snaps snaps" "wf_rates rates"
  shows "cost_of rows snaps rates = spec_bill rows snaps rates"
proof -
  let ?n = "measured_days snaps" and ?hs = "held_resources rows snaps"
  have held: "sort_key fst (unit_days_of rows snaps) = map (\<lambda>r. (r, held_total rows snaps r)) ?hs"
    using sort_dict_is [OF dict_is_unit_days [OF assms(1)]] by (simp add: held_resources_def)
  have avg: "average_of (held_total rows snaps r) ?n = spec_average rows snaps r" for r
  proof (cases "?n = 0")
    case True
    then show ?thesis by (simp add: average_of_def spec_average_def)
  next
    case False
    then show ?thesis
      using held_total_wf [OF assms(1), of rows r] measured_days_wf(1) [OF assms(1)]
      by (simp add: average_exact spec_average_def)
  qed
  have lines: "cost_line rates ?n (r, held_total rows snaps r) = spec_line rows snaps rates r" for r
    by (simp add: cost_line_def spec_line_def avg spec_cost_wf(4) [OF assms] Let_def)
  have "foldl dec_add 0 (map (spec_cost rows snaps rates) ?hs) = 0 + (\<Sum>r\<leftarrow>?hs. spec_cost rows snaps rates r)"
    using spec_cost_wf [OF assms] spec_total_bound [OF assms] by (intro foldl_dec_add) auto
  then show ?thesis
    unfolding cost_of_def Let_def measured_days_def [symmetric] held
    by (simp add: spec_bill_def lines avg spec_cost_wf(4) [OF assms] comp_def)
qed

text \<open>C1. The bill of a period is the abstract bill: every resource that was held at all has
  exactly one line, in key order, whose quantity is the average over the measured days rounded
  to the cent and whose cost is that average at the monthly price; the total is the sum of the
  lines. The dictionaries and the 28-digit arithmetic of the code leave no trace.\<close>

theorem cost_of_refines:
  assumes "wf_snaps snaps" "wf_rates rates"
  shows "cost_of rows snaps rates = spec_bill rows snaps rates"
  using assms by (rule cost_of_spec)

subsection \<open>Order, backups, and the estimate\<close>

lemma cost_of_perm:
  assumes "wf_snaps snaps" "wf_rates rates" "mset snaps = mset snaps'"
  shows "cost_of rows snaps rates = cost_of rows snaps' rates"
proof -
  have set_eq: "set snaps = set snaps'" using assms(3) by (rule mset_eq_setD)
  have wf': "wf_snaps snaps'"
    using assms(1) set_eq mset_eq_length [OF assms(3)] by (simp add: wf_snaps_def)
  have unc: "uncounted rows (map domain_id snaps) = uncounted rows (map domain_id snaps')"
    unfolding uncounted_def set_filter set_map set_eq ..
  have days: "measured_days snaps = measured_days snaps'"
    unfolding measured_days_def set_map set_eq ..
  have tot: "held_total rows snaps = held_total rows snaps'"
    unfolding held_total_def [abs_def] unc sum_mset_sum_list [symmetric] mset_map assms(3) ..
  have bill: "spec_bill rows snaps rates = spec_bill rows snaps' rates"
    unfolding spec_bill_def held_resources_def spec_cost_def [abs_def] spec_line_def [abs_def]
      spec_average_def [abs_def] days tot ..
  show ?thesis
    using cost_of_spec [OF assms(1,2), of rows] cost_of_spec [OF wf' assms(2), of rows] bill by simp
qed

text \<open>A bill does not depend on the order in which the rows are read.\<close>

theorem cost_of_order:
  assumes "wf_snaps snaps" "wf_rates rates" "mset snaps = mset snaps'"
  shows "cost_of rows snaps rates = cost_of rows snaps' rates"
  using assms by (rule cost_of_perm)

text \<open>A row as an account that does not count its scheduled backups sees it.\<close>

definition own_snapshots :: "account_settings list \<Rightarrow> usage_snapshot list \<Rightarrow> usage_snapshot \<Rightarrow> usage_snapshot" where
  "own_snapshots rows snaps s =
     s\<lparr>snapshot_gib_all := snapshot_gib s (domain_id s \<notin> uncounted rows (map domain_id snaps)),
       backup_snapshot_gib := 0\<rparr>"

lemma uncounted_no_rows: "uncounted [] ds = {}"
  by (simp add: uncounted_def Let_def)

lemma quantities_own:
  "quantities (own_snapshots rows snaps s) True = quantities s (domain_id s \<notin> uncounted rows (map domain_id snaps))"
  by (simp add: quantities_def own_snapshots_def QUANTITY_def snapshot_gib_def Let_def)

text \<open>Not counting scheduled backups is exactly pricing rows whose snapshot storage is what is
  left after the backups are taken off: the switch changes nothing else, on no other row.\<close>

theorem cost_of_without_backups:
  "cost_of rows snaps rates = cost_of [] (map (own_snapshots rows snaps) snaps) rates"
proof -
  have "accumulate (own_snapshots rows snaps s) True = accumulate s (domain_id s \<notin> uncounted rows (map domain_id snaps))" for s
    by (simp add: accumulate_def [abs_def] quantities_own)
  then have "unit_days_of rows snaps = unit_days_of [] (map (own_snapshots rows snaps) snaps)"
    by (simp add: unit_days_of_def uncounted_no_rows fold_map comp_def Let_def)
  moreover have "map taken_on (map (own_snapshots rows snaps) snaps) = map taken_on snaps"
    by (simp add: own_snapshots_def comp_def)
  ultimately show ?thesis unfolding cost_of_def by simp
qed

text \<open>Days on which the held amounts did not change.\<close>

lemma held_total_constant:
  assumes "\<forall>s \<in> set snaps. amount s True = amount u True" "uncounted rows (map domain_id snaps) = {}"
  shows "held_total rows snaps r = of_nat (length snaps) * amount u True r"
proof -
  have "(\<Sum>s\<leftarrow>xs. amount s True r) = of_nat (length xs) * amount u True r"
    if "\<forall>s \<in> set xs. amount s True = amount u True" for xs :: "usage_snapshot list"
    using that by (induction xs) (auto simp: algebra_simps)
  then show ?thesis using assms by (simp add: held_total_def)
qed

lemma sort_quantities:
  assumes "wf_usage u"
  shows "filter (\<lambda>(r, q). q \<noteq> 0) (sort_key fst (quantities u wb)) =
    map (\<lambda>r. (r, amount u wb r)) (filter (\<lambda>r. amount u wb r \<noteq> 0) sorted_resources)"
proof -
  have "distinct (map fst (quantities u wb))" by (simp add: keys_quantities distinct_all_resources)
  then have "sort_key fst (quantities u wb) = map (\<lambda>r. (r, amount u wb r)) sorted_resources"
    by (simp add: sort_dict map_of_quantities [OF assms])
  then show ?thesis by (simp add: filter_map comp_def)
qed

text \<open>The estimate and the bill cannot drift apart: a month measured once a day whose held
  amounts never changed bills exactly what the estimate of that shape says, line by line and in
  total, for every account that counts its backups.\<close>

theorem estimate_is_bill:
  assumes "wf_snaps snaps" "wf_rates rates" "snaps \<noteq> []" "distinct (map taken_on snaps)"
    "wf_usage u" "\<forall>s \<in> set snaps. amount s True = amount u True" "uncounted rows (map domain_id snaps) = {}"
  shows "bill_total (cost_of rows snaps rates) = bill_total (estimate_month u rates) \<and>
    map (\<lambda>l. l\<lparr>bl_unit_days := None\<rparr>) (bill_lines (cost_of rows snaps rates)) = bill_lines (estimate_month u rates)"
proof -
  let ?hs = "filter (\<lambda>r. amount u True r \<noteq> 0) sorted_resources"
  have days: "measured_days snaps = length snaps"
    using distinct_card [OF assms(4)] by (simp add: measured_days_def)
  have len: "(of_nat (length snaps) :: rat) \<noteq> 0" using assms(3) by simp
  note tot = held_total_constant [OF assms(6,7)]
  have hs: "held_resources rows snaps = ?hs"
    unfolding held_resources_def by (rule filter_cong) (use len in \<open>auto simp: tot\<close>)
  have avg: "spec_average rows snaps r = cents (amount u True r)" for r
    using len by (simp add: spec_average_def tot days)
  have cost: "line_cost (cents (amount u True r)) (price_of rates r) = spec_cost rows snaps rates r" for r
    using spec_cost_wf(4) [OF assms(1,2), of rows r] by (simp add: avg)
  have "foldl dec_add 0 (map (spec_cost rows snaps rates) ?hs) = 0 + (\<Sum>r\<leftarrow>?hs. spec_cost rows snaps rates r)"
    using spec_cost_wf [OF assms(1,2)] spec_total_bound [OF assms(1,2), of rows]
    unfolding hs by (intro foldl_dec_add) auto
  then have total: "bill_total (cost_of rows snaps rates) = bill_total (estimate_month u rates)"
    by (simp add: cost_of_spec [OF assms(1,2)] spec_bill_def hs estimate_month_def Let_def
        sort_quantities [OF assms(5)] comp_def cost)
  have "map (\<lambda>l. l\<lparr>bl_unit_days := None\<rparr>) (bill_lines (cost_of rows snaps rates)) = bill_lines (estimate_month u rates)"
    by (simp add: cost_of_spec [OF assms(1,2)] spec_bill_def hs estimate_month_def Let_def
        sort_quantities [OF assms(5)] comp_def estimate_line_def spec_line_def avg cost)
  with total show ?thesis by simp
qed

subsection \<open>Rows to evaluate on\<close>

definition sample_row :: "string \<Rightarrow> int \<Rightarrow> usage_snapshot" where
  "sample_row domain d =
     \<lparr>vms_total = 3, vms_running = 2, vcpus = 4, ram_mb = 6656, ssd_gib = 100, hdd_gib = 0,
      unlabelled_gib = 0, elastic_ips = 1, snapshot_gib_all = 30, backup_snapshot_gib = 10,
      taken_on = Date 2026 2 d, taken_at = 0, account = ''acme'', domain_id = domain,
      project_id = ''p1'', project_name = ''main''\<rparr>"

definition sample_rates :: "(resource \<times> rat) list" where
  "sample_rates = [(VCPU, 5), (RAM_GB, 333 / 100), (SNAPSHOT_GB, 1 / 4)]"

lemma wf_sample:
  "wf_usage (sample_row n d)" "wf_snaps [sample_row n d]" "wf_snaps [sample_row n d, sample_row n' d']"
  "wf_rates sample_rates"
  by (simp_all add: wf_usage_def wf_snaps_def wf_rates_def sample_row_def sample_rates_def is_price_def)

lemma cost_of_refines_witness:
  "cost_of [] [sample_row ''d1'' 1, sample_row ''d1'' 2] sample_rates =
   spec_bill [] [sample_row ''d1'' 1, sample_row ''d1'' 2] sample_rates"
  by (rule cost_of_refines) (rule wf_sample)+

lemma cost_of_order_witness:
  "cost_of [] [sample_row ''d1'' 1, sample_row ''d1'' 2] sample_rates =
   cost_of [] [sample_row ''d1'' 2, sample_row ''d1'' 1] sample_rates"
  by (rule cost_of_order) (simp_all add: wf_sample)

lemma estimate_is_bill_witness:
  "bill_total (cost_of [] [sample_row ''d1'' 1, sample_row ''d1'' 2] sample_rates) =
     bill_total (estimate_month (sample_row ''d1'' 1) sample_rates) \<and>
   map (\<lambda>l. l\<lparr>bl_unit_days := None\<rparr>) (bill_lines (cost_of [] [sample_row ''d1'' 1, sample_row ''d1'' 2] sample_rates)) =
     bill_lines (estimate_month (sample_row ''d1'' 1) sample_rates)"
proof (rule estimate_is_bill)
  show "\<forall>s \<in> set [sample_row ''d1'' 1, sample_row ''d1'' 2]. amount s True = amount (sample_row ''d1'' 1) True"
  proof -
    have "amount (sample_row ''d1'' d) True r = amount (sample_row ''d1'' 1) True r" for d r
      by (cases r) (simp_all add: sample_row_def snapshot_gib_def)
    then show ?thesis by auto
  qed
qed (use wf_sample in \<open>simp_all add: sample_row_def uncounted_no_rows\<close>)

text \<open>A day evaluated without its backups, and 6.5 GB of RAM at 3.33 a month.\<close>

lemma sample_bill:
  "accumulate (sample_row ''d1'' 1) False [] =
     [(VCPU, 4), (RAM_GB, 13 / 2), (SSD_GB, 100), (ELASTIC_IP, 1), (SNAPSHOT_GB, 20)]"
  "average_of 13 2 = 13 / 2"
  "line_cost (13 / 2) (price_of sample_rates RAM_GB) = 2165 / 100"
  by code_simp+

end
