(* ===== verification/Parsing.thy ===== *)
theory Parsing
  imports Decimals
begin

text \<open>
  The number parsers of the standard library the code calls on text: \<open>int\<close>, \<open>float\<close> and
  \<open>Decimal\<close> of a string. A parser answers \<open>None\<close> where Python raises (\<open>ValueError\<close>,
  \<open>InvalidOperation\<close>). \<open>float\<close> and \<open>Decimal\<close> also read infinities and NaN, which is why a
  parsed number is one of three things.
\<close>

datatype number = Finite rat | Infinite bool | NotANumber

subsection \<open>Integers\<close>

text \<open>Digits with single underscores between them.\<close>

fun digit_groups :: "string \<Rightarrow> bool" where
  "digit_groups [] = False"
| "digit_groups [c] = is_digit c"
| "digit_groups (c # d # s) =
     (is_digit c \<and> (if d = CHR ''_'' then digit_groups s else digit_groups (d # s)))"

definition no_underscores :: "string \<Rightarrow> string" where
  "no_underscores s = filter (\<lambda>c. c \<noteq> CHR ''_'') s"

fun split_sign :: "string \<Rightarrow> bool \<times> string" where
  "split_sign [] = (False, [])"
| "split_sign (c # s) =
     (if c = CHR ''-'' then (True, s) else if c = CHR ''+'' then (False, s) else (False, c # s))"

definition py_int :: "string \<Rightarrow> int option" where
  "py_int text = (case split_sign (strip text) of (neg, s) \<Rightarrow>
     if digit_groups s
     then Some ((if neg then - 1 else 1) * int (read_nat (no_underscores s)))
     else None)"

subsection \<open>Decimal literals\<close>

text \<open>\<open>split_at P s\<close>: the text before the first character that satisfies \<open>P\<close>, and what follows it.\<close>

definition split_at :: "(char \<Rightarrow> bool) \<Rightarrow> string \<Rightarrow> string \<times> string option" where
  "split_at P s = (takeWhile (\<lambda>c. \<not> P c) s,
     (case dropWhile (\<lambda>c. \<not> P c) s of [] \<Rightarrow> None | _ # t \<Rightarrow> Some t))"

definition all_digits :: "string \<Rightarrow> bool" where
  "all_digits s = list_all is_digit s"

definition parse_exponent :: "string option \<Rightarrow> int option" where
  "parse_exponent e = (case e of None \<Rightarrow> Some 0
     | Some t \<Rightarrow> (case split_sign t of (neg, s) \<Rightarrow>
         if s \<noteq> [] \<and> all_digits s then Some ((if neg then - 1 else 1) * int (read_nat s)) else None))"

text \<open>\<open>n\<close> with \<open>l\<close> fractional digits, times ten to the exponent.\<close>

definition scaled :: "nat \<Rightarrow> nat \<Rightarrow> int \<Rightarrow> rat" where
  "scaled n l k = of_nat n * 10 powi (k - int l)"

text \<open>An unsigned numeral: digits, an optional fraction, an optional exponent.\<close>

definition parse_unsigned :: "string \<Rightarrow> rat option" where
  "parse_unsigned s =
     (case split_at (\<lambda>c. c = CHR ''e'' \<or> c = CHR ''E'') s of (m, e) \<Rightarrow>
       case split_at (\<lambda>c. c = CHR ''.'') m of (i, f) \<Rightarrow>
         let fr = (case f of None \<Rightarrow> [] | Some t \<Rightarrow> t) in
         if all_digits i \<and> all_digits fr \<and> i @ fr \<noteq> []
         then map_option (scaled (read_nat (i @ fr)) (length fr)) (parse_exponent e)
         else None)"

definition is_infinity :: "string \<Rightarrow> bool" where
  "is_infinity s = (lower s = ''inf'' \<or> lower s = ''infinity'')"

definition is_nan :: "string \<Rightarrow> bool" where
  "is_nan s = (let l = lower s in
     (starts_with l ''nan'' \<and> all_digits (drop 3 l)) \<or> (starts_with l ''snan'' \<and> all_digits (drop 4 l)))"

text \<open>\<open>Decimal(text)\<close>: surrounding space stripped, underscores dropped.\<close>

definition finite_decimal :: "bool \<Rightarrow> rat \<Rightarrow> number" where
  "finite_decimal neg v = Finite (if neg then - v else v)"

definition py_decimal :: "string \<Rightarrow> number option" where
  "py_decimal text = (case split_sign (no_underscores (strip text)) of (neg, s) \<Rightarrow>
     if is_infinity s then Some (Infinite neg)
     else if is_nan s then Some NotANumber
     else map_option (finite_decimal neg) (parse_unsigned s))"

text \<open>\<open>float(text)\<close>: underscores only between digits, no payload on a NaN.\<close>

definition finite_float :: "bool \<Rightarrow> rat \<Rightarrow> number" where
  "finite_float neg v = Finite (to_float (if neg then - v else v))"

fun underscores_ok :: "bool \<Rightarrow> string \<Rightarrow> bool" where
  "underscores_ok p [] = True"
| "underscores_ok p (c # s) =
     (if c = CHR ''_'' then p \<and> (case s of [] \<Rightarrow> False | d # _ \<Rightarrow> is_digit d) \<and> underscores_ok False s
      else underscores_ok (is_digit c) s)"

definition py_float :: "string \<Rightarrow> number option" where
  "py_float text = (let body = strip text in
     if \<not> underscores_ok False body then None
     else (case split_sign (no_underscores body) of (neg, s) \<Rightarrow>
       if is_infinity s then Some (Infinite neg)
       else if lower s = ''nan'' then Some NotANumber
       else map_option (finite_float neg) (parse_unsigned s)))"

subsection \<open>Reading back what was printed\<close>

lemma digit_groups_digits: "s \<noteq> [] \<Longrightarrow> \<forall>c \<in> set s. is_digit c \<Longrightarrow> digit_groups s"
  by (induction s rule: digit_groups.induct) (auto simp: is_digit_def)

lemma no_underscores_digits: "\<forall>c \<in> set s. is_digit c \<Longrightarrow> no_underscores s = s"
  by (auto simp: no_underscores_def is_digit_def filter_id_conv)

lemma not_space_digit: "is_digit c \<Longrightarrow> \<not> is_space c"
  by (auto simp: is_digit_def is_space_def Let_def)

lemma dropWhile_id: "(\<forall>c \<in> set s. \<not> P c) \<Longrightarrow> dropWhile P s = s"
  by (cases s) auto

lemma strip_id: "(\<forall>c \<in> set s. \<not> is_space c) \<Longrightarrow> strip s = s"
  by (simp add: strip_def dropWhile_id)

lemma split_sign_digit: "is_digit c \<Longrightarrow> split_sign (c # s) = (False, c # s)"
  by (auto simp: is_digit_def)

lemma py_int_digits:
  assumes "s \<noteq> []" "\<forall>c \<in> set s. is_digit c"
  shows "py_int s = Some (int (read_nat s))"
proof -
  obtain c t where s: "s = c # t" using assms(1) by (cases s) auto
  have "strip s = s" using assms(2) by (intro strip_id) (auto simp: not_space_digit)
  moreover have "split_sign s = (False, s)" using assms(2) unfolding s by (intro split_sign_digit) simp
  ultimately show ?thesis
    using assms by (simp add: py_int_def digit_groups_digits no_underscores_digits)
qed

lemma pad_nonempty: "pad w n \<noteq> []"
  by (simp add: pad_def Let_def show_nat.simps [of n])

lemma py_int_pad: "py_int (pad w n) = Some (int n)"
  using py_int_digits [OF pad_nonempty pad_digits] by (simp add: read_pad)

end
