(* ===== verification/Invoices.thy ===== *)
theory Invoices
  imports Rates Parsing
begin

text \<open>
  \<open>apps/billing/invoices.py\<close>: VAT, requisites, the draft of a month, numbering, and issuing a
  frozen document while other administrators may be issuing too. Text outside ASCII is the
  UTF-8 bytes of the source.
\<close>

subsection \<open>VAT\<close>

text \<open>
  A configured rate that is not a number counts as zero. One that reads as NaN or infinity has
  no finite figures to compute with: the model stops there (\<open>None\<close>), as it does where a division
  by zero raises.
\<close>

definition vat_rate :: "billing_settings \<Rightarrow> rat option" where
  "vat_rate st = (case py_decimal (BILLING_VAT_RATE st) of
     None \<Rightarrow> Some 0 | Some (Finite r) \<Rightarrow> Some r | Some _ \<Rightarrow> None)"

definition split_vat :: "billing_settings \<Rightarrow> rat \<Rightarrow> (rat \<times> rat \<times> rat) option" where
  "split_vat st gross_or_net =
     (case vat_rate st of None \<Rightarrow> None | Some pct \<Rightarrow>
       let rate = dec_div pct 100 in
       if rate = 0 then let amount = cents gross_or_net in Some (amount, 0, amount)
       else if BILLING_PRICES_INCLUDE_VAT st then
         (if dec_add 1 rate = 0 then None
          else let tot = cents gross_or_net; sub = cents (dec_div tot (dec_add 1 rate))
               in Some (sub, cents (dec_sub tot sub), tot))
       else let sub = cents gross_or_net; vat = cents (dec_mult sub rate)
            in Some (sub, vat, cents (dec_add sub vat)))"

subsection \<open>Requisites\<close>

definition seller :: "billing_settings \<Rightarrow> party" where
  "seller st = BILLING_SELLER st"

definition buyer :: "billing_profile list \<Rightarrow> string \<Rightarrow> party" where
  "buyer rows acc =
     (let found = List.find (\<lambda>p. iexact (profile_account p) acc) rows;
          col = (\<lambda>f. case found of None \<Rightarrow> [] | Some p \<Rightarrow> f p)
      in [(''account'', acc),
          (''name'', if col legal_name = [] then acc else col legal_name),
          (''taxId'', col tax_id), (''address'', col address), (''contract'', col contract),
          (''director'', col director), (''email'', col email), (''phone'', col phone)])"

definition inn :: string where
  "inn = [CHR 0xD0, CHR 0x98, CHR 0xD0, CHR 0x9D, CHR 0xD0, CHR 0x9D]"

definition lacking :: "party \<Rightarrow> string \<times> string \<Rightarrow> string list" where
  "lacking details = (\<lambda>(key, label).
     if strip (case map_of details key of None \<Rightarrow> [] | Some v \<Rightarrow> v) = [] then [label] else [])"

definition missing_requisites :: "party \<Rightarrow> party \<Rightarrow> string list" where
  "missing_requisites seller_details buyer_details =
     concat (map (lacking seller_details)
       [(''name'', ''seller name''), (''taxId'', ''seller '' @ inn), (''address'', ''seller address''),
        (''bankAccount'', ''seller bank account'')]) @
     concat (map (lacking buyer_details) [(''name'', ''buyer name''), (''taxId'', ''buyer '' @ inn)])"

subsection \<open>Draft\<close>

definition gb :: string where
  "gb = [CHR 0xD0, CHR 0x93, CHR 0xD0, CHR 0x91]"

fun UNIT :: "resource \<Rightarrow> string" where
  "UNIT VCPU = ''vCPU''"
| "UNIT RAM_GB = gb"
| "UNIT SSD_GB = gb"
| "UNIT HDD_GB = gb"
| "UNIT ELASTIC_IP = [CHR 0xD0, CHR 0xB0, CHR 0xD0, CHR 0xB4, CHR 0xD1, CHR 0x80, CHR 0xD0, CHR 0xB5, CHR 0xD1, CHR 0x81]"
| "UNIT SNAPSHOT_GB = gb"

text \<open>One shape for a draft and an issued invoice, as the API returns both.\<close>

record doc_line =
  dl_resource :: resource
  dl_label :: string
  dl_unit :: string
  dl_quantity :: rat
  dl_unit_days :: "rat option"
  dl_days :: int
  dl_days_in_period :: int
  dl_unit_price :: rat
  dl_amount :: rat
  dl_priced :: bool

record document =
  doc_status :: string
  doc_number :: "string option"
  doc_issued_at :: "int option"
  doc_issued_by :: "string option"
  doc_account :: string
  doc_period :: string
  doc_from :: date
  doc_to :: date
  doc_currency :: string
  doc_lines :: "doc_line list"
  doc_subtotal :: rat
  doc_vat_rate :: rat
  doc_vat_amount :: rat
  doc_vat_included :: bool
  doc_total :: rat
  doc_seller :: party
  doc_buyer :: party
  doc_days_measured :: int
  doc_days_in_period :: int
  doc_missing :: "string list"
  doc_unpriced :: "string list"

text \<open>The model's ordering of snapshot rows: newest day first, then the project's name.\<close>

definition snapshot_order :: "usage_snapshot \<Rightarrow> int \<times> string" where
  "snapshot_order s = (- ordinal (taken_on s), project_name s)"

definition snapshots_between :: "usage_snapshot list \<Rightarrow> string \<Rightarrow> date \<Rightarrow> date \<Rightarrow> usage_snapshot list" where
  "snapshots_between rows dom_id first final =
     sort_key snapshot_order (filter (\<lambda>s. domain_id s = dom_id \<and> first \<le> taken_on s \<and> taken_on s \<le> final) rows)"

definition draft_line :: "nat \<Rightarrow> int \<Rightarrow> bill_line \<Rightarrow> doc_line" where
  "draft_line measured in_period l =
     \<lparr>dl_resource = bl_resource l, dl_label = resource_label (bl_resource l), dl_unit = UNIT (bl_resource l),
      dl_quantity = bl_quantity l, dl_unit_days = bl_unit_days l, dl_days = int measured,
      dl_days_in_period = in_period, dl_unit_price = bl_unit_price l, dl_amount = bl_cost l,
      dl_priced = bl_priced l\<rparr>"

definition billable_sum :: "doc_line list \<Rightarrow> rat" where
  "billable_sum ls = foldl dec_add 0 (map (\<lambda>l. str_float (dl_amount l)) (filter dl_priced ls))"

definition draft :: "billing_settings \<Rightarrow> billing_db \<Rightarrow> string \<Rightarrow> string \<Rightarrow> date \<Rightarrow> date \<Rightarrow> string \<Rightarrow> document option" where
  "draft st db acc dom_id first final per =
     (let trf = resolve_tariff (tariffs db) acc;
          cost = cost_of (account_settings db) (snapshots_between (snapshots db) dom_id first final) (rate_map trf);
          in_period = date_diff final first + 1;
          ls = map (draft_line (bill_days cost) in_period) (bill_lines cost)
      in case (split_vat st (billable_sum ls), vat_rate st) of
           (Some (sub, vat, tot), Some pct) \<Rightarrow>
             Some \<lparr>doc_status = ''draft'', doc_number = None, doc_issued_at = None, doc_issued_by = None,
               doc_account = acc, doc_period = per, doc_from = first, doc_to = final,
               doc_currency = (case trf of None \<Rightarrow> ''UZS'' | Some t \<Rightarrow> tariff_currency t),
               doc_lines = ls, doc_subtotal = to_float sub, doc_vat_rate = to_float pct,
               doc_vat_amount = to_float vat, doc_vat_included = BILLING_PRICES_INCLUDE_VAT st,
               doc_total = to_float tot, doc_seller = seller st, doc_buyer = buyer (profiles db) acc,
               doc_days_measured = int (bill_days cost), doc_days_in_period = in_period,
               doc_missing = missing_requisites (seller st) (buyer (profiles db) acc),
               doc_unpriced = map dl_label (filter (\<lambda>l. \<not> dl_priced l) ls)\<rparr>
         | _ \<Rightarrow> None)"

subsection \<open>Issued documents\<close>

definition serialize_line :: "invoice \<Rightarrow> invoice_line \<Rightarrow> doc_line" where
  "serialize_line i l =
     \<lparr>dl_resource = line_resource l, dl_label = line_label l, dl_unit = line_unit l,
      dl_quantity = to_float (line_quantity l), dl_unit_days = None, dl_days = days_measured i,
      dl_days_in_period = days_in_period i, dl_unit_price = to_float (line_unit_price l),
      dl_amount = to_float (line_amount l), dl_priced = True\<rparr>"

definition serialize :: "billing_settings \<Rightarrow> invoice \<Rightarrow> document" where
  "serialize st i =
     \<lparr>doc_status = ''issued'', doc_number = Some (number i), doc_issued_at = Some (issued_at i),
      doc_issued_by = Some (issued_by i), doc_account = inv_account i, doc_period = period i,
      doc_from = period_from i, doc_to = period_to i, doc_currency = currency i,
      doc_lines = map (serialize_line i) (sort_key line_resource (invoice_lines i)),
      doc_subtotal = to_float (subtotal i), doc_vat_rate = to_float (vat_rate_col i),
      doc_vat_amount = to_float (vat_amount i), doc_vat_included = BILLING_PRICES_INCLUDE_VAT st,
      doc_total = to_float (total i), doc_seller = seller_col i, doc_buyer = buyer_col i,
      doc_days_measured = days_measured i, doc_days_in_period = days_in_period i,
      doc_missing = [], doc_unpriced = []\<rparr>"

definition number_prefix :: "nat \<Rightarrow> string" where
  "number_prefix year = [CHR 0xD0, CHR 0xA1, CHR 0xD0, CHR 0xA4, CHR ''-''] @ show_nat year @ ''-''"

definition next_number :: "invoice list \<Rightarrow> nat \<Rightarrow> nat \<times> string" where
  "next_number rows year =
     (let last = first_row (\<lambda>i. - int (number_seq i)) (filter (\<lambda>i. starts_with (number i) (number_prefix year)) rows);
          seq = (case last of None \<Rightarrow> 0 | Some i \<Rightarrow> number_seq i) + 1
      in (seq, number_prefix year @ pad 4 seq))"

text \<open>The two unique constraints of the table.\<close>

definition clash :: "invoice list \<Rightarrow> invoice \<Rightarrow> bool" where
  "clash rows r = list_ex (\<lambda>i. number i = number r \<or> (inv_account i = inv_account r \<and> period i = period r)) rows"

text \<open>
  The attempts to claim a number. Each element of the last argument is what other transactions
  commit between this attempt's \<open>next_number\<close> and its \<open>create\<close>.
\<close>

fun claim :: "(nat \<Rightarrow> string \<Rightarrow> invoice) \<Rightarrow> nat \<Rightarrow> invoice list \<Rightarrow> invoice list list \<Rightarrow> invoice list \<times> invoice option" where
  "claim build year rows [] = (rows, None)"
| "claim build year rows (ws # wss) =
     (case next_number rows year of (seq, num) \<Rightarrow>
        let r = build seq num; rows' = rows @ ws in
        if clash rows' r then claim build year rows' wss else (rows' @ [r], Some r))"

definition stored_line :: "doc_line \<Rightarrow> invoice_line" where
  "stored_line l =
     \<lparr>line_resource = dl_resource l, line_label = dl_label l, line_unit = dl_unit l,
      line_quantity = str_float (dl_quantity l), line_unit_price = str_float (dl_unit_price l),
      line_amount = str_float (dl_amount l)\<rparr>"

definition frozen :: "document \<Rightarrow> string \<Rightarrow> string \<Rightarrow> int \<Rightarrow> nat \<Rightarrow> string \<Rightarrow> invoice" where
  "frozen d dom_id by_whom now seq num =
     \<lparr>number = num, number_seq = seq, inv_account = doc_account d, inv_domain_id = dom_id,
      period = doc_period d, period_from = doc_from d, period_to = doc_to d, issued_at = now,
      issued_by = by_whom, currency = doc_currency d, subtotal = str_float (doc_subtotal d),
      vat_rate_col = str_float (doc_vat_rate d), vat_amount = str_float (doc_vat_amount d),
      total = str_float (doc_total d), seller_col = doc_seller d, buyer_col = doc_buyer d,
      days_measured = doc_days_measured d, days_in_period = doc_days_in_period d,
      invoice_lines = map stored_line (filter dl_priced (doc_lines d))\<rparr>"

datatype issue_failure = IntegrityError | NoFigures

definition existing_invoice :: "invoice list \<Rightarrow> string \<Rightarrow> string \<Rightarrow> invoice option" where
  "existing_invoice rows acc per = first_row inv_account (filter (\<lambda>i. iexact (inv_account i) acc \<and> period i = per) rows)"

text \<open>
  A failed issue rolls back: it leaves what the others committed. \<open>others k\<close> is what they commit
  during attempt \<open>k\<close>.
\<close>

definition issue :: "billing_settings \<Rightarrow> (nat \<Rightarrow> invoice list) \<Rightarrow> string \<Rightarrow> string \<Rightarrow> date \<Rightarrow> date \<Rightarrow> string \<Rightarrow> string
    \<Rightarrow> int \<Rightarrow> billing_db \<Rightarrow> billing_db \<times> (issue_failure + document)" where
  "issue st others acc dom_id first final per by_whom now db =
     (case existing_invoice (invoices db) acc per of
        Some i \<Rightarrow> (db, Inr (serialize st i))
      | None \<Rightarrow>
        (case draft st db acc dom_id first final per of
           None \<Rightarrow> (db, Inl NoFigures)
         | Some prepared \<Rightarrow>
           (case claim (frozen prepared dom_id by_whom now) (nat (date_year first)) (invoices db) (map others [0..<5]) of
              (rows, None) \<Rightarrow> (db\<lparr>invoices := rows\<rparr>, Inl IntegrityError)
            | (rows, Some i) \<Rightarrow> (db\<lparr>invoices := rows\<rparr>, Inr (serialize st i)))))"

text \<open>
  \<open>period.split('-', 1)\<close> into two integers, then the first and the last day; \<open>None\<close> is \<open>ValueError\<close>.
\<close>

definition month_bounds :: "string \<Rightarrow> (date \<times> date) option" where
  "month_bounds text =
     (case split_at (\<lambda>c. c = CHR ''-'') text of
        (a, Some b) \<Rightarrow>
          (case (py_int a, py_int b) of
             (Some y, Some m) \<Rightarrow>
               if valid_date y m 1 then Some (Date y m 1, Date y m (days_in_month y m)) else None
           | _ \<Rightarrow> None)
      | (a, None) \<Rightarrow> None)"

subsection \<open>VAT adds up\<close>

text \<open>A rate as the column stores it: a percentage with two decimals.\<close>

definition sane_rate :: "rat \<Rightarrow> bool" where
  "sane_rate pct = (0 \<le> pct \<and> pct \<le> 100 \<and> is_cents pct)"

definition sane_split :: "bool \<Rightarrow> rat \<Rightarrow> rat \<Rightarrow> rat \<times> rat \<times> rat \<Rightarrow> bool" where
  "sane_split included pct x = (\<lambda>(sub, vat, tot).
     sub + vat = tot \<and> is_cents sub \<and> is_cents vat \<and> 0 \<le> sub \<and> 0 \<le> vat \<and>
     (if included then tot = cents x \<and> \<bar>sub - tot / (1 + pct / 100)\<bar> \<le> 1 / 200 + 1 / 10 ^ 13
      else sub = cents x \<and> vat = cents (sub * pct / 100)))"

lemma ctx_cents: "is_cents x \<Longrightarrow> \<bar>x\<bar> < 10 ^ 26 \<Longrightarrow> ctx x = x"
  using ctx_exact [of x 2] by (simp add: is_cents_def)

lemma ctx_percent:
  assumes "sane_rate pct"
  shows "dec_div pct 100 = pct / 100" "dec_add 1 (pct / 100) = 1 + pct / 100"
proof -
  have "pct * 100 \<in> \<int>" using assms by (simp add: sane_rate_def is_cents_def)
  then have "pct / 100 * 10 ^ 4 \<in> \<int>" by (simp add: mult.commute)
  moreover from this have "(1 + pct / 100) * 10 ^ 4 \<in> \<int>"
    using Ints_add [of "10 ^ 4" "pct / 100 * 10 ^ 4"] by (simp add: distrib_right)
  moreover have "\<bar>pct / 100\<bar> * 10 ^ 4 < 10 ^ 28" "\<bar>1 + pct / 100\<bar> * 10 ^ 4 < 10 ^ 28"
    using assms by (simp_all add: sane_rate_def)
  ultimately have "ctx (pct / 100) = pct / 100" "ctx (1 + pct / 100) = 1 + pct / 100"
    by (metis ctx_exact)+
  then show "dec_div pct 100 = pct / 100" "dec_add 1 (pct / 100) = 1 + pct / 100"
    by (simp_all add: dec_div_def dec_add_def)
qed

lemma cents_below:
  assumes "is_cents x" "y < x + 1 / 200"
  shows "cents y \<le> x"
proof -
  obtain j k where jk: "x = of_int j / 100" "cents y = of_int k / 100"
    using assms(1) is_cents_cents [of y] unfolding is_cents_iff by blast
  have "cents y < x + 1 / 100" using cents_upper [of y] assms(2) by simp
  then have "(of_int k :: rat) < of_int (j + 1)" by (simp add: jk)
  then show ?thesis by (simp add: jk del: of_int_add)
qed

lemma split_included:
  assumes "sane_rate pct" "0 \<le> x" "x < 10 ^ 14"
  defines "tot \<equiv> cents x" and "sub \<equiv> cents (dec_div (cents x) (1 + pct / 100))"
  shows "sane_split True pct x (sub, cents (dec_sub tot sub), tot)"
proof -
  let ?q = "tot / (1 + pct / 100)"
  have r: "0 \<le> pct / 100" using assms(1) by (simp add: sane_rate_def)
  have t: "0 \<le> tot" "is_cents tot" "tot < 10 ^ 14 + 1"
    using assms(2,3) cents_upper [of x] by (auto simp: tot_def)
  have "tot * 1 \<le> tot * (1 + pct / 100)" using t(1) r by (intro mult_left_mono) auto
  then have q: "0 \<le> ?q" "?q \<le> tot" using t(1) r by (auto simp: divide_le_eq)
  have err: "\<bar>ctx ?q - ?q\<bar> \<le> 1 / 10 ^ 13" 
  proof (rule ctx_error)
    have "?q < 10 ^ 15" using q(2) t(3) by simp
    then show "\<bar>?q\<bar> < 10 ^ 15" unfolding abs_of_nonneg [OF q(1)] .
  qed
  have sub: "sub = cents (ctx ?q)" by (simp add: sub_def dec_div_def tot_def)
  have "ctx ?q < tot + 1 / 200" using abs_le_D1 [OF err] q(2) by simp
  then have le: "sub \<le> tot" unfolding sub by (rule cents_below [OF t(2)])
  have near: "\<bar>sub - ?q\<bar> \<le> 1 / 200 + 1 / 10 ^ 13"
    using cents_error [of "ctx ?q"] err unfolding sub by linarith
  have "- (1 / 10 ^ 13) \<le> ctx ?q" using abs_le_D2 [OF err] q(1) by linarith
  then have "0 - 1 / 100 < sub" using cents_lower [of "ctx ?q"] unfolding sub by simp
  moreover obtain k where k: "sub = of_int k / 100" unfolding sub using is_cents_cents is_cents_iff by blast
  ultimately have "(of_int (- 1) :: rat) < of_int k" by simp
  then have pos: "0 \<le> sub" unfolding of_int_less_iff by (simp add: k)
  have "\<bar>tot - sub\<bar> < 10 ^ 26" using t pos le by simp
  then have "ctx (tot - sub) = tot - sub" using t(2) by (intro ctx_cents) (auto simp: sub)
  then have "cents (dec_sub tot sub) = tot - sub"
    using t(2) by (simp add: dec_sub_def) (metis cents_idem is_cents_cents is_cents_diff sub)
  moreover have "is_cents (tot - sub)" using t(2) by (intro is_cents_diff) (simp_all add: sub)
  ultimately show ?thesis using t le near pos unfolding sane_split_def by (simp add: tot_def) (simp add: sub)
qed

lemma split_excluded:
  assumes "sane_rate pct" "0 \<le> x" "x < 10 ^ 14"
  defines "sub \<equiv> cents x" and "vat \<equiv> cents (dec_mult (cents x) (pct / 100))"
  shows "sane_split False pct x (sub, vat, cents (dec_add sub vat))"
proof -
  have r: "0 \<le> pct" "pct \<le> 100" "is_cents pct" using assms(1) by (auto simp: sane_rate_def)
  have s: "0 \<le> sub" "is_cents sub" "sub < 10 ^ 14 + 1"
    using assms(2,3) cents_upper [of x] by (auto simp: sub_def)
  have m: "0 \<le> sub * (pct / 100)" "sub * (pct / 100) \<le> sub * 1"
    using s(1) r by (auto intro!: mult_left_mono)
  have "sub * 100 * (pct * 100) \<in> \<int>" using s(2) r(3) unfolding is_cents_def by (rule Ints_mult)
  then have "sub * (pct / 100) * 10 ^ 6 \<in> \<int>" by (simp add: algebra_simps)
  moreover have "sub * (pct / 100) * 10 ^ 6 < 10 ^ 28"
  proof -
    have "sub * (pct / 100) < 10 ^ 14 + 1" using m(2) s(3) unfolding mult_1_right by (rule order_le_less_trans)
    then show ?thesis by (simp add: mult.commute)
  qed
  then have "\<bar>sub * (pct / 100)\<bar> * 10 ^ 6 < 10 ^ 28" unfolding abs_of_nonneg [OF m(1)] .
  ultimately have "ctx (sub * (pct / 100)) = sub * (pct / 100)" by (rule ctx_exact)
  then have v: "vat = cents (sub * pct / 100)"
    unfolding vat_def dec_mult_def sub_def times_divide_eq_right by (rule arg_cong [where f = cents])
  have vb: "0 \<le> vat" "is_cents vat" "vat \<le> sub + 1"
    using m cents_upper [of "sub * pct / 100"] by (auto simp: v)
  have "\<bar>sub + vat\<bar> < 10 ^ 26" using s vb by simp
  then have "ctx (sub + vat) = sub + vat" using s(2) vb(2) by (intro ctx_cents) auto
  then have "cents (dec_add sub vat) = sub + vat" using s(2) vb(2) by (simp add: dec_add_def cents_idem is_cents_add)
  then show ?thesis using s vb by (simp add: sane_split_def sub_def v)
qed

lemma split_vat_sane:
  assumes "vat_rate st = Some pct" "sane_rate pct" "0 \<le> x" "x < 10 ^ 14"
  shows "\<exists>r. split_vat st x = Some r \<and> sane_split (BILLING_PRICES_INCLUDE_VAT st) pct x r"
proof -
  have r: "0 \<le> pct / 100" using assms(2) by (simp add: sane_rate_def)
  consider "pct = 0" | "pct \<noteq> 0" "BILLING_PRICES_INCLUDE_VAT st" | "pct \<noteq> 0" "\<not> BILLING_PRICES_INCLUDE_VAT st" by blast
  then show ?thesis
  proof cases
    case 1
    then show ?thesis using assms(1,3) by (auto simp: split_vat_def dec_div_def ctx_def sane_split_def Let_def)
  next
    case 2
    have "1 + pct / 100 \<noteq> 0" using r by linarith
    with 2 show ?thesis using split_included [OF assms(2-4)]
      by (simp add: split_vat_def assms(1) ctx_percent [OF assms(2)] Let_def)
  next
    case 3
    then show ?thesis using split_excluded [OF assms(2-4)]
      by (simp add: split_vat_def assms(1) ctx_percent [OF assms(2)] Let_def)
  qed
qed

text \<open>Under either side of the tax and any rate the column can hold, the subtotal and the VAT add
  up to the total to the cent and neither is negative. When prices include the tax the total is
  the priced sum and the base is within half a cent of dividing the tax out; when they do not,
  the base is the priced sum and the tax is its exact share rounded to the cent.\<close>

theorem vat_adds_up:
  assumes "vat_rate st = Some pct" "sane_rate pct" "0 \<le> x" "x < 10 ^ 14"
  shows "\<exists>sub vat tot. split_vat st x = Some (sub, vat, tot) \<and> sub + vat = tot \<and>
    is_cents sub \<and> is_cents vat \<and> 0 \<le> sub \<and> 0 \<le> vat \<and>
    (if BILLING_PRICES_INCLUDE_VAT st
     then tot = cents x \<and> \<bar>sub - tot / (1 + pct / 100)\<bar> \<le> 1 / 200 + 1 / 10 ^ 13
     else sub = cents x \<and> vat = cents (sub * pct / 100))"
  using split_vat_sane [OF assms] by (auto simp: sane_split_def)

definition vat_12 :: "bool \<Rightarrow> billing_settings" where
  "vat_12 included = \<lparr>BILLING_VAT_RATE = ''12'', BILLING_PRICES_INCLUDE_VAT = included,
     BILLING_SELLER = [(''name'', ''Cloud LLC'')]\<rparr>"

lemma vat_rate_12: "vat_rate (vat_12 b) = Some 12"
  by (cases b) code_simp+

lemma vat_adds_up_witness:
  "\<exists>sub vat tot. split_vat (vat_12 True) 1000 = Some (sub, vat, tot) \<and> sub + vat = tot \<and>
    is_cents sub \<and> is_cents vat \<and> 0 \<le> sub \<and> 0 \<le> vat \<and>
    (if BILLING_PRICES_INCLUDE_VAT (vat_12 True)
     then tot = cents 1000 \<and> \<bar>sub - tot / (1 + 12 / 100)\<bar> \<le> 1 / 200 + 1 / 10 ^ 13
     else sub = cents 1000 \<and> vat = cents (sub * 12 / 100))"
  by (rule vat_adds_up [OF vat_rate_12]) (simp_all add: sane_rate_def is_cents_def)

lemma vat_12_examples:
  "split_vat (vat_12 True) 1000 = Some (89286 / 100, 10714 / 100, 1000)"
  "split_vat (vat_12 False) 1000 = Some (1000, 120, 1120)"
  by code_simp+

subsection \<open>Numbers\<close>

lemma digits_then:
  assumes "\<forall>c \<in> set a. is_digit c" "\<forall>c \<in> set b. is_digit c" "\<not> is_digit d" "a @ d # t = b @ d # u"
  shows "a = b \<and> t = u"
proof -
  have "takeWhile is_digit (a @ d # t) = a" "takeWhile is_digit (b @ d # u) = b"
    using assms(1-3) by (simp_all add: takeWhile_append2)
  then show ?thesis using assms(4) by auto
qed

lemma number_prefix_unique: "number_prefix y @ t = number_prefix y' @ u \<longleftrightarrow> y = y' \<and> t = u"
proof
  assume "number_prefix y @ t = number_prefix y' @ u"
  then have "show_nat y @ CHR ''-'' # t = show_nat y' @ CHR ''-'' # u" by (simp add: number_prefix_def)
  then have "show_nat y = show_nat y' \<and> t = u"
    by (intro digits_then [where d = "CHR ''-''"] show_nat_digits) (auto simp: is_digit_def)
  then show "y = y' \<and> t = u" by (simp add: show_nat_inject)
qed simp

lemma starts_with_number: "starts_with (number_prefix y @ t) (number_prefix y') \<longleftrightarrow> y = y'"
  unfolding starts_with_iff by (auto simp: number_prefix_unique)

text \<open>A number determines its year and its place in it.\<close>

theorem number_injective:
  "number_prefix y @ pad 4 s = number_prefix y' @ pad 4 s' \<longleftrightarrow> y = y' \<and> s = s'"
  by (simp add: number_prefix_unique pad_inject)

definition of_year :: "nat \<Rightarrow> invoice list \<Rightarrow> invoice list" where
  "of_year y rows = filter (\<lambda>i. starts_with (number i) (number_prefix y)) rows"

text \<open>
  The tables that issuing can produce, whatever the interleaving: each row was numbered from some
  earlier state of the table, which may be stale by the time it is inserted, and was accepted by
  the unique constraints.
\<close>

inductive history :: "invoice list \<Rightarrow> bool" where
  empty: "history []"
| insert: "history rows \<Longrightarrow> next_number (take k rows) y = (number_seq i, number i) \<Longrightarrow> \<not> clash rows i
    \<Longrightarrow> history (rows @ [i])"

inductive_cases history_snocE: "history (rows @ [i])"

text \<open>Within a year the numbers run from one without a gap, in the order of insertion.\<close>

definition gapless :: "nat \<Rightarrow> invoice list \<Rightarrow> bool" where
  "gapless y rows = (map number_seq (of_year y rows) = [1..<Suc (length (of_year y rows))] \<and>
     map number (of_year y rows) = map (\<lambda>i. number_prefix y @ pad 4 (number_seq i)) (of_year y rows))"

lemma sort_desc_upt:
  assumes "map number_seq rows = [1..<Suc n]"
  shows "(case first_row (\<lambda>i. - int (number_seq i)) rows of None \<Rightarrow> 0 | Some i \<Rightarrow> number_seq i) = n"
proof (cases "first_row (\<lambda>i. - int (number_seq i)) rows")
  case None
  then have "length (map number_seq rows) = 0" by simp
  then have "n = 0" unfolding assms by (simp del: upt_Suc)
  then show ?thesis unfolding None by simp
next
  case (Some i)
  have seqs: "number_seq ` set rows = {1..<Suc n}" by (metis assms list.set_map set_upt)
  obtain rs where rs: "sort_key (\<lambda>i. - int (number_seq i)) rows = i # rs"
    using Some by (auto simp: first_row_def split: list.splits)
  have "sorted (map (\<lambda>i. - int (number_seq i)) (i # rs))" by (metis rs sorted_sort_key)
  then have "\<forall>j \<in> set rs. number_seq j \<le> number_seq i" by simp
  moreover have "set rows = set (i # rs)" by (metis rs set_sort)
  ultimately have top: "i \<in> set rows" "\<forall>j \<in> set rows. number_seq j \<le> number_seq i" by auto
  then have range: "number_seq i \<in> {1..<Suc n}" unfolding seqs [symmetric] by blast
  then have "n \<in> number_seq ` set rows" unfolding seqs by auto
  then have "number_seq i = n" using top(2) range by auto
  with Some show ?thesis by simp
qed

lemma next_number_gapless:
  assumes "gapless y rows"
  shows "next_number rows y = (Suc (length (of_year y rows)), number_prefix y @ pad 4 (Suc (length (of_year y rows))))"
  using sort_desc_upt [of "of_year y rows"] assms
  by (simp add: next_number_def gapless_def Let_def flip: of_year_def)

lemma gapless_take:
  assumes "gapless y rows"
  shows "gapless y (take k rows)"
proof -
  have split: "of_year y rows = of_year y (take k rows) @ of_year y (drop k rows)"
    unfolding of_year_def by (metis append_take_drop_id filter_append)
  let ?n = "length (of_year y (take k rows))"
  have "map number_seq (of_year y (take k rows)) = take ?n [1..<Suc (length (of_year y rows))]"
    using assms split by (metis append_eq_conv_conj gapless_def length_map map_append)
  also have "\<dots> = [1..<Suc ?n]" using split by (simp add: take_upt del: upt_Suc)
  finally show ?thesis using assms split by (auto simp: gapless_def)
qed

lemma gapless_insert:
  assumes "\<And>y. gapless y rows" "next_number (take k rows) z = (number_seq i, number i)" "\<not> clash rows i"
  shows "gapless y (rows @ [i])"
proof -
  have num: "number i = number_prefix z @ pad 4 (number_seq i)"
    and seq: "number_seq i = Suc (length (of_year z (take k rows)))"
    using next_number_gapless [OF gapless_take [OF assms(1)], of k z] assms(2) by auto
  show ?thesis
  proof (cases "y = z")
    case False
    then have "of_year y (rows @ [i]) = of_year y rows"
      using starts_with_number [of z _ y] by (auto simp: of_year_def num)
    then show ?thesis using assms(1) by (simp add: gapless_def)
  next
    case True
    let ?n = "length (of_year z rows)"
    have add: "of_year z (rows @ [i]) = of_year z rows @ [i]"
      by (simp add: of_year_def num starts_with_number)
    have "number_seq i \<le> Suc ?n"
      unfolding seq of_year_def
      by (metis Suc_le_mono append_take_drop_id filter_append length_append le_add1)
    moreover have "\<not> number_seq i \<le> ?n"
    proof
      assume "number_seq i \<le> ?n"
      then have "number_seq i \<in> set (map number_seq (of_year z rows))"
        using assms(1) [of z] seq by (simp add: gapless_def del: upt_Suc)
      then obtain j where "j \<in> set (of_year z rows)" "number_seq j = number_seq i" by auto
      then have "j \<in> set rows" "number j = number i"
        using assms(1) [of z] num by (auto simp: gapless_def of_year_def)
      then show False using assms(3) by (auto simp: clash_def list_ex_iff)
    qed
    ultimately have "number_seq i = Suc ?n" by simp
    then show ?thesis using assms(1) [of z] True num by (auto simp: gapless_def add)
  qed
qed

lemma history_gapless: "history rows \<Longrightarrow> gapless y rows"
proof (induction arbitrary: y rule: history.induct)
  case empty
  then show ?case by (simp add: gapless_def of_year_def)
next
  case (insert rows k z i)
  then show ?case by (intro gapless_insert [where k = k and z = z]) auto
qed

lemma history_unique:
  "history rows \<Longrightarrow> distinct (map number rows) \<and> distinct (map (\<lambda>i. (inv_account i, period i)) rows)"
  by (induction rule: history.induct) (auto simp: clash_def list_ex_iff image_iff)

text \<open>C3. Whatever the order in which concurrent issues read and write, no two invoices share a
  number, no account has two invoices for a month, and the sequence of a year runs from 1
  without a gap.\<close>

theorem numbers_unique_gapless:
  assumes "history rows"
  shows "distinct (map number rows) \<and> distinct (map (\<lambda>i. (inv_account i, period i)) rows) \<and>
    map number_seq (of_year y rows) = [1..<Suc (length (of_year y rows))] \<and>
    map number (of_year y rows) = map (\<lambda>i. number_prefix y @ pad 4 (number_seq i)) (of_year y rows)"
  using history_unique [OF assms] history_gapless [OF assms, of y] by (simp add: gapless_def)

lemma history_prefix: "history (a @ b) \<Longrightarrow> history a"
proof (induction b rule: rev_induct)
  case (snoc i b)
  then show ?case by (metis append_assoc history_snocE)
qed simp

definition builds_numbered :: "(nat \<Rightarrow> string \<Rightarrow> invoice) \<Rightarrow> bool" where
  "builds_numbered build = (\<forall>seq num. number_seq (build seq num) = seq \<and> number (build seq num) = num)"

lemma builds_numbered_frozen: "builds_numbered (frozen d dom_id by_whom now)"
  by (simp add: builds_numbered_def frozen_def)

lemma claim_history:
  assumes "builds_numbered build" "history (rows @ concat wss)"
  shows "history (fst (claim build year rows wss))"
  using assms(2)
proof (induction wss arbitrary: rows)
  case Nil
  then show ?case by simp
next
  case (Cons ws wss)
  obtain seq num where nx: "next_number rows year = (seq, num)" by fastforce
  let ?r = "build seq num" and ?rows = "rows @ ws"
  have h: "history ?rows" using Cons.prems history_prefix [of ?rows "concat wss"] by simp
  show ?case
  proof (cases "clash ?rows ?r")
    case True
    then show ?thesis using Cons.IH [of ?rows] Cons.prems by (simp add: nx Let_def)
  next
    case False
    have "history (?rows @ [?r])"
      using assms(1) nx by (intro history.insert [OF h _ False, of "length rows" year]) (simp add: builds_numbered_def)
    then show ?thesis using False by (simp add: nx Let_def)
  qed
qed

lemma next_number_fresh:
  assumes "history rows" "next_number rows y = (seq, num)" "i \<in> set rows"
  shows "number i \<noteq> num"
proof
  assume eq: "number i = num"
  have g: "gapless y rows" using assms(1) by (rule history_gapless)
  then have sn: "seq = Suc (length (of_year y rows))" "num = number_prefix y @ pad 4 seq"
    using assms(2) by (auto simp: next_number_gapless)
  have i: "i \<in> set (of_year y rows)" using assms(3) eq by (simp add: of_year_def sn starts_with_append)
  then have "number_seq i \<in> set [1..<Suc (length (of_year y rows))]"
    using g unfolding gapless_def by (metis image_eqI list.set_map)
  moreover have "number_seq i = seq"
    using g i eq by (auto simp: gapless_def sn(2) pad_inject)
  ultimately show False by (simp add: sn(1) del: upt_Suc)
qed

text \<open>An attempt fails only because the month is taken or because another writer committed meanwhile.\<close>

lemma claim_fails:
  assumes "builds_numbered build" "\<And>seq num. inv_account (build seq num) = acc \<and> period (build seq num) = per"
    "history (rows @ concat wss)" "snd (claim build year rows wss) = None"
  shows "(\<exists>i \<in> set (rows @ concat wss). inv_account i = acc \<and> period i = per) \<or> (\<forall>ws \<in> set wss. ws \<noteq> [])"
  using assms(3,4)
proof (induction wss arbitrary: rows)
  case Nil
  then show ?case by simp
next
  case (Cons ws wss)
  obtain seq num where nx: "next_number rows year = (seq, num)" by fastforce
  let ?r = "build seq num" and ?rows = "rows @ ws"
  have h: "history rows" using Cons.prems(1) history_prefix [of rows "concat (ws # wss)"] by simp
  have clash: "clash ?rows ?r" using Cons.prems(2) by (auto simp: nx Let_def split: if_splits)
  then have "(\<exists>i \<in> set (?rows @ concat wss). inv_account i = acc \<and> period i = per) \<or> (\<forall>ws \<in> set wss. ws \<noteq> [])"
    using Cons.prems by (intro Cons.IH) (simp_all add: nx Let_def)
  moreover have "(\<exists>i \<in> set ?rows. inv_account i = acc \<and> period i = per) \<or> ws \<noteq> []"
    using clash next_number_fresh [OF h nx] assms(1,2)
    by (force simp: clash_def list_ex_iff builds_numbered_def)
  ultimately show ?case by auto
qed

text \<open>Issuing keeps the register sound under any interference: if what the other administrators
  commit during the five attempts is itself a sound continuation of the register, the register
  this issue leaves is sound too, whether it succeeded or gave up.\<close>

theorem issue_keeps_register:
  assumes "history (invoices db @ concat (map others [0..<5]))" "history (invoices db)"
  shows "history (invoices (fst (issue st others acc dom_id first final per by_whom now db)))"
proof -
  have "history (fst (claim (frozen d dom_id by_whom now) y (invoices db) (map others [0..<5])))" for d y
    using builds_numbered_frozen assms(1) by (rule claim_history)
  then show ?thesis
    using assms(2) by (auto simp: issue_def split: option.split prod.split) (metis fst_conv)+
qed

text \<open>An issue gives up without a number only if somebody else already has this account's month,
  or if every one of the five attempts lost its number to another commit. Alone, it always succeeds.\<close>

theorem issue_gives_up_only_under_contention:
  assumes "history (invoices db @ concat (map others [0..<5]))"
    "snd (issue st others acc dom_id first final per by_whom now db) = Inl IntegrityError"
  shows "(\<exists>i \<in> set (invoices db @ concat (map others [0..<5])). inv_account i = acc \<and> period i = per) \<or>
    (\<forall>k < 5. others k \<noteq> [])"
proof -
  obtain d where d: "draft st db acc dom_id first final per = Some d"
    and none: "snd (claim (frozen d dom_id by_whom now) (nat (date_year first)) (invoices db) (map others [0..<5])) = None"
    using assms(2) by (auto simp: issue_def split: option.splits prod.splits)
  have da: "doc_account d = acc" "doc_period d = per"
    using d by (auto simp: draft_def Let_def split: option.splits prod.splits)
  have "(\<exists>i \<in> set (invoices db @ concat (map others [0..<5])). inv_account i = acc \<and> period i = per) \<or>
      (\<forall>ws \<in> set (map others [0..<5]). ws \<noteq> [])"
    by (rule claim_fails [OF builds_numbered_frozen _ assms(1) none]) (simp add: frozen_def da)
  then show ?thesis by auto
qed

subsection \<open>Issuing freezes the draft\<close>

text \<open>What the issued document must show, given the draft it was issued from.\<close>

definition issued_from :: "document \<Rightarrow> document \<Rightarrow> bool" where
  "issued_from d doc \<longleftrightarrow>
     doc_account doc = doc_account d \<and> doc_period doc = doc_period d \<and> doc_currency doc = doc_currency d \<and>
     doc_subtotal doc = doc_subtotal d \<and> doc_vat_rate doc = doc_vat_rate d \<and>
     doc_vat_amount doc = doc_vat_amount d \<and> doc_total doc = doc_total d \<and>
     doc_seller doc = doc_seller d \<and> doc_buyer doc = doc_buyer d \<and>
     doc_days_measured doc = doc_days_measured d \<and> doc_days_in_period doc = doc_days_in_period d \<and>
     doc_lines doc = map (\<lambda>l. l\<lparr>dl_unit_days := None\<rparr>) (filter dl_priced (doc_lines d))"

lemma claim_built:
  "snd (claim build year rows wss) = Some i \<Longrightarrow> \<exists>seq num. i = build seq num"
  by (induction wss arbitrary: rows) (auto simp: Let_def split: prod.splits if_splits)

lemma claim_appends: "\<exists>more. fst (claim build year rows wss) = rows @ more"
proof (induction wss arbitrary: rows)
  case (Cons ws wss)
  obtain seq num where nx: "next_number rows year = (seq, num)" by fastforce
  show ?case using Cons [of "rows @ ws"] by (auto simp: nx Let_def)
qed simp

lemma bill_line_floats:
  "l \<in> set (bill_lines (cost_of rows snaps rates)) \<Longrightarrow>
   (\<exists>x. bl_quantity l = to_float x) \<and> (\<exists>x. bl_unit_price l = to_float x) \<and> (\<exists>x. bl_cost l = to_float x) \<and>
   bl_label l = resource_label (bl_resource l)"
  by (auto simp: cost_of_def cost_line_def Let_def split: prod.splits)

lemma bill_lines_sorted: "sorted (map bl_resource (bill_lines (cost_of rows snaps rates)))"
proof -
  have "map bl_resource (bill_lines (cost_of rows snaps rates)) = map fst (sort_key fst (unit_days_of rows snaps))"
    by (auto simp: cost_of_def cost_line_def Let_def split: prod.splits)
  then show ?thesis by simp
qed

text \<open>A float that its decimal text reads back as.\<close>

definition str_float_ok :: "rat \<Rightarrow> bool" where
  "str_float_ok x = (to_float (str_float x) = x)"

lemma draft_facts:
  assumes "draft st db acc dom_id first final per = Some d"
  shows "\<forall>l \<in> set (doc_lines d). str_float_ok (dl_quantity l) \<and> str_float_ok (dl_unit_price l) \<and> str_float_ok (dl_amount l)"
    and "sorted (map dl_resource (doc_lines d))"
    and "\<forall>l \<in> set (doc_lines d). dl_days l = doc_days_measured d \<and> dl_days_in_period l = doc_days_in_period d"
    and "str_float_ok (doc_subtotal d)" "str_float_ok (doc_vat_rate d)" "str_float_ok (doc_vat_amount d)"
      "str_float_ok (doc_total d)"
    and "doc_account d = acc" "doc_period d = per"
proof -
  define cost where "cost = cost_of (account_settings db) (snapshots_between (snapshots db) dom_id first final)
    (rate_map (resolve_tariff (tariffs db) acc))"
  obtain sub vat tot pct where d:
    "doc_lines d = map (draft_line (bill_days cost) (date_diff final first + 1)) (bill_lines cost)"
    "doc_days_measured d = int (bill_days cost)" "doc_days_in_period d = date_diff final first + 1"
    "doc_subtotal d = to_float sub" "doc_vat_rate d = to_float pct" "doc_vat_amount d = to_float vat"
    "doc_total d = to_float tot" "doc_account d = acc" "doc_period d = per"
    using assms by (auto simp: draft_def Let_def cost_def split: option.splits prod.splits)
  show "\<forall>l \<in> set (doc_lines d). str_float_ok (dl_quantity l) \<and> str_float_ok (dl_unit_price l) \<and> str_float_ok (dl_amount l)"
    using bill_line_floats by (fastforce simp: d str_float_ok_def draft_line_def cost_def to_float_str_float)
  show "sorted (map dl_resource (doc_lines d))"
    using bill_lines_sorted by (simp add: d draft_line_def cost_def comp_def)
  show "\<forall>l \<in> set (doc_lines d). dl_days l = doc_days_measured d \<and> dl_days_in_period l = doc_days_in_period d"
    by (auto simp: d draft_line_def)
  show "str_float_ok (doc_subtotal d)" "str_float_ok (doc_vat_rate d)" "str_float_ok (doc_vat_amount d)"
    "str_float_ok (doc_total d)" "doc_account d = acc" "doc_period d = per"
    by (simp_all add: d str_float_ok_def to_float_str_float)
qed

lemma serialize_frozen:
  assumes "draft st db acc dom_id first final per = Some d"
  shows "issued_from d (serialize st (frozen d dom_id by_whom now seq num))"
proof -
  note facts = draft_facts [OF assms, unfolded str_float_ok_def]
  have "sorted (map dl_resource (filter dl_priced (doc_lines d)))" using facts(2) by (rule sorted_filter)
  then have "sorted (map line_resource (map stored_line (filter dl_priced (doc_lines d))))"
    by (simp add: stored_line_def comp_def)
  then have "sort_key line_resource (map stored_line (filter dl_priced (doc_lines d))) =
      map stored_line (filter dl_priced (doc_lines d))"
    by (rule sort_key_id_if_sorted)
  then have "doc_lines (serialize st (frozen d dom_id by_whom now seq num)) =
      map (\<lambda>l. l\<lparr>dl_unit_days := None\<rparr>) (filter dl_priced (doc_lines d))"
    using facts(1,3) by (auto simp: serialize_def frozen_def serialize_line_def stored_line_def)
  then show ?thesis using facts(4-7) by (simp add: issued_from_def serialize_def frozen_def)
qed

text \<open>C36. What is issued is what was shown: a new invoice carries the draft's figures unchanged, for
  exactly the priced lines, although every amount travels through a float, its decimal text and
  a column on the way.\<close>

theorem issue_equals_draft:
  assumes "existing_invoice (invoices db) acc per = None"
    "draft st db acc dom_id first final per = Some d"
    "snd (issue st others acc dom_id first final per by_whom now db) = Inr doc"
  shows "issued_from d doc \<and> doc_status doc = ''issued'' \<and> doc_missing doc = [] \<and> doc_unpriced doc = []"
proof -
  obtain i where "snd (claim (frozen d dom_id by_whom now) (nat (date_year first)) (invoices db) (map others [0..<5])) = Some i"
    and doc: "doc = serialize st i"
    using assms by (auto simp: issue_def split: option.splits prod.splits)
  then obtain seq num where "i = frozen d dom_id by_whom now seq num" using claim_built by blast
  then show ?thesis using serialize_frozen [OF assms(2)] by (simp add: doc) (simp add: serialize_def)
qed

text \<open>C37. An issued month is never issued again and never re-priced: whatever happened to the price
  lists, the measurements, the requisites and the settings of the accounts since, issuing it again
  returns the stored document and writes nothing, for any spelling of the account's name.\<close>

theorem issued_is_frozen:
  assumes "existing_invoice (invoices db) acc per = Some i" "iexact acc acc'"
    "invoices db' = invoices db"
  shows "issue st others acc' dom_id first final per by_whom now db' = (db', Inr (serialize st i))"
proof -
  have same: "iexact (inv_account j) acc \<longleftrightarrow> iexact (inv_account j) acc'" for j
    using assms(2) by (auto simp: iexact_def)
  then have "existing_invoice (invoices db') acc' per = Some i"
    using assms(1,3) by (simp add: existing_invoice_def same)
  then show ?thesis by (simp add: issue_def)
qed

text \<open>Issuing never changes or removes a document that exists: the register only grows, and no
  other table is touched.\<close>

theorem issue_only_appends:
  "\<exists>more. fst (issue st others acc dom_id first final per by_whom now db) = db\<lparr>invoices := invoices db @ more\<rparr>"
proof -
  have self: "\<exists>more. db = db\<lparr>invoices := invoices db @ more\<rparr>" by (rule exI [of _ "[]"]) simp
  have "\<exists>more. db\<lparr>invoices := fst (claim b y (invoices db) wss)\<rparr> = db\<lparr>invoices := invoices db @ more\<rparr>" for b y wss
    using claim_appends [of b y "invoices db" wss] by auto
  then show ?thesis
    using self by (auto simp: issue_def split: option.split prod.split) (metis fst_conv)+
qed

text \<open>The unique constraint on the account and month is not retried successfully: losing that race
  to another administrator is an error, not the other's document.\<close>

lemma claim_month_taken:
  assumes "\<exists>i \<in> set rows. inv_account i = acc \<and> period i = per"
    "\<And>seq num. inv_account (build seq num) = acc \<and> period (build seq num) = per"
  shows "snd (claim build year rows wss) = None"
  using assms(1)
proof (induction wss arbitrary: rows)
  case (Cons ws wss)
  obtain seq num where nx: "next_number rows year = (seq, num)" by fastforce
  have "clash (rows @ ws) (build seq num)" using Cons.prems assms(2) by (auto simp: clash_def list_ex_iff)
  then show ?case using Cons.IH [of "rows @ ws"] Cons.prems by (auto simp: nx Let_def)
qed simp

lemma issue_race:
  assumes "existing_invoice (invoices db) acc per = None"
    "draft st db acc dom_id first final per = Some d"
    "i \<in> set (others 0)" "inv_account i = acc" "period i = per"
  shows "snd (issue st others acc dom_id first final per by_whom now db) = Inl IntegrityError"
proof -
  let ?b = "frozen d dom_id by_whom now" and ?y = "nat (date_year first)"
  have same: "inv_account (?b seq num) = acc \<and> period (?b seq num) = per" for seq num
    using draft_facts(8,9) [OF assms(2)] by (simp add: frozen_def)
  obtain seq num where nx: "next_number (invoices db) ?y = (seq, num)" by fastforce
  have five: "map others [0..<5] = others 0 # map others [1..<5]" by (simp add: upt_conv_Cons)
  have clash: "clash (invoices db @ others 0) (?b seq num)"
    using assms(3-5) same by (auto simp: clash_def list_ex_iff)
  have "snd (claim ?b ?y (invoices db) (map others [0..<5])) =
      snd (claim ?b ?y (invoices db @ others 0) (map others [1..<5]))"
    using clash by (simp add: five nx Let_def del: upt_Suc)
  also have "\<dots> = None" by (rule claim_month_taken [OF _ same]) (use assms(3-5) in auto)
  finally show ?thesis using assms(1,2) by (auto simp: issue_def split: prod.split)
qed

text \<open>When another transaction commits this account's month between the check for an existing
  invoice and the insert, all five attempts clash and the issue ends in \<open>IntegrityError\<close>,
  although the comment in the code says a clash simply takes the next number.\<close>

theorem issue_race_on_month:
  assumes "existing_invoice (invoices db) acc per = None"
    "draft st db acc dom_id first final per = Some d"
    "i \<in> set (others 0)" "inv_account i = acc" "period i = per"
  shows "snd (issue st others acc dom_id first final per by_whom now db) = Inl IntegrityError"
  using assms by (rule issue_race)

subsection \<open>The figures on the document close\<close>

lemma sum_filter_le:
  fixes f :: "'a \<Rightarrow> rat"
  assumes "\<And>x. x \<in> set xs \<Longrightarrow> 0 \<le> f x"
  shows "(\<Sum>x\<leftarrow>filter P xs. f x) \<le> (\<Sum>x\<leftarrow>xs. f x)"
  using assms by (induction xs) (auto intro: add_increasing)

lemma member_le_sum_list':
  fixes f :: "'a \<Rightarrow> rat"
  assumes "\<And>x. x \<in> set xs \<Longrightarrow> 0 \<le> f x" "x \<in> set xs"
  shows "f x \<le> (\<Sum>x\<leftarrow>xs. f x)"
  using assms
proof (induction xs)
  case (Cons y xs)
  have "0 \<le> (\<Sum>x\<leftarrow>xs. f x)" using Cons.prems(1) by (intro sum_list_nonneg) auto
  with Cons show ?case by (auto intro: add_increasing add_increasing2)
qed simp

lemma spec_average_small:
  assumes "wf_snaps snaps" "length snaps \<le> 4000"
  shows "spec_average rows snaps r < 10 ^ 13"
proof -
  let ?a = "\<lambda>s. amount s (domain_id s \<notin> uncounted rows (map domain_id snaps)) r"
  have gen: "(\<Sum>s\<leftarrow>xs. ?a s) \<le> of_nat (length xs) * 2 ^ 31 \<and> 0 \<le> (\<Sum>s\<leftarrow>xs. ?a s)"
    if "\<forall>s \<in> set xs. wf_usage s" for xs
    using that
  proof (induction xs)
    case (Cons s xs)
    have "?a s \<le> 2 ^ 31" "0 \<le> ?a s" using Cons.prems amount_bounds [of s _ r] by (auto intro: less_imp_le)
    with Cons show ?case by (auto simp: algebra_simps)
  qed simp
  have "(of_nat (length snaps) :: rat) \<le> of_nat 4000" using assms(2) by (subst of_nat_le_iff)
  then have "(of_nat (length snaps) :: rat) * 2 ^ 31 \<le> 4000 * 2 ^ 31" by simp
  then have T: "held_total rows snaps r \<le> 4000 * 2 ^ 31" "0 \<le> held_total rows snaps r"
    using gen [of snaps] assms(1) unfolding held_total_def wf_snaps_def by (blast intro: order_trans)+
  have "held_total rows snaps r / of_nat (measured_days snaps) \<le> held_total rows snaps r"
  proof (cases "measured_days snaps = 0")
    case False
    then have "held_total rows snaps r * 1 \<le> held_total rows snaps r * of_nat (measured_days snaps)"
      using T(2) by (intro mult_left_mono) simp_all
    then show ?thesis using False by (simp add: divide_le_eq)
  qed (use T in simp)
  then show ?thesis using T(1) cents_upper [of "held_total rows snaps r / of_nat (measured_days snaps)"]
    unfolding spec_average_def by simp
qed

text \<open>The sum over the resources a price list names.\<close>

definition priced_sum :: "account_settings list \<Rightarrow> usage_snapshot list \<Rightarrow> (resource \<times> rat) list \<Rightarrow> rat" where
  "priced_sum rows snaps rates =
     (\<Sum>r\<leftarrow>filter (\<lambda>r. map_of rates r \<noteq> None) (held_resources rows snaps). spec_cost rows snaps rates r)"

text \<open>A stored line, as exact decimals.\<close>

definition spec_stored_line :: "account_settings list \<Rightarrow> usage_snapshot list \<Rightarrow> (resource \<times> rat) list \<Rightarrow> resource \<Rightarrow> invoice_line" where
  "spec_stored_line rows snaps rates r =
     \<lparr>line_resource = r, line_label = resource_label r, line_unit = UNIT r,
      line_quantity = spec_average rows snaps r, line_unit_price = price_of rates r,
      line_amount = spec_cost rows snaps rates r\<rparr>"

definition wf_month :: "account_settings list \<Rightarrow> usage_snapshot list \<Rightarrow> (resource \<times> rat) list \<Rightarrow> bool" where
  "wf_month rows snaps rates = (wf_snaps snaps \<and> wf_rates rates \<and> length snaps \<le> 4000 \<and>
     (\<Sum>r\<leftarrow>held_resources rows snaps. spec_cost rows snaps rates r) < 10 ^ 12)"

lemma month_parts: "wf_snaps snaps" "wf_rates rates" "length snaps \<le> 4000"
  "(\<Sum>r\<leftarrow>held_resources rows snaps. spec_cost rows snaps rates r) < 10 ^ 12"
  if "wf_month rows snaps rates"
  using that by (auto simp: wf_month_def)

lemma month_costs: "is_cents (spec_cost rows snaps rates r)" "0 \<le> spec_cost rows snaps rates r"
  "line_cost (spec_average rows snaps r) (price_of rates r) = spec_cost rows snaps rates r"
  if "wf_month rows snaps rates"
  using spec_cost_wf [OF month_parts(1,2) [OF that]] by auto

lemma month_cost_read:
  assumes wf: "wf_month rows snaps rates" and r: "r \<in> set (held_resources rows snaps)"
  shows "str_float (to_float (spec_cost rows snaps rates r)) = spec_cost rows snaps rates r"
proof (rule str_float_cents [OF month_costs(1) [OF wf]])
  have "spec_cost rows snaps rates r \<le> (\<Sum>r\<leftarrow>held_resources rows snaps. spec_cost rows snaps rates r)"
    using month_costs(2) [OF wf] r by (intro member_le_sum_list')
  then show "\<bar>spec_cost rows snaps rates r\<bar> < 10 ^ 13" using month_parts(4) [OF wf] month_costs(2) [OF wf, of r] by simp
qed

lemma month_average_read: "str_float (to_float (spec_average rows snaps r)) = spec_average rows snaps r"
  if wf: "wf_month rows snaps rates"
  using spec_average_small [OF month_parts(1,3) [OF wf]] spec_average_wf [OF month_parts(1) [OF wf]]
  by (intro str_float_cents) auto

lemma month_price_read: "str_float (to_float (price_of rates r)) = price_of rates r"
  if wf: "wf_month rows snaps rates"
  using price_of_wf [OF month_parts(2) [OF wf], of r] by (intro str_float_price) auto

lemma priced_sum_bounds: "is_cents (priced_sum rows snaps rates)" "0 \<le> priced_sum rows snaps rates"
  "priced_sum rows snaps rates < 10 ^ 12"
  if wf: "wf_month rows snaps rates"
proof -
  show "is_cents (priced_sum rows snaps rates)"
    unfolding priced_sum_def by (rule is_cents_sum_list) (rule month_costs [OF wf])
  show "0 \<le> priced_sum rows snaps rates"
    unfolding priced_sum_def by (rule sum_list_nonneg) (use month_costs(2) [OF wf] in auto)
  show "priced_sum rows snaps rates < 10 ^ 12"
    unfolding priced_sum_def using sum_filter_le [OF month_costs(2) [OF wf]] month_parts(4) [OF wf] by (rule order_le_less_trans)
qed

lemma month_lines:
  "map stored_line (filter dl_priced (map (draft_line n days) (bill_lines (cost_of rows snaps rates)))) =
     map (spec_stored_line rows snaps rates) (filter (\<lambda>r. map_of rates r \<noteq> None) (held_resources rows snaps))"
  if wf: "wf_month rows snaps rates"
  by (auto simp: cost_of_spec [OF month_parts(1,2) [OF wf]] spec_bill_def spec_line_def draft_line_def stored_line_def
      spec_stored_line_def filter_map comp_def month_average_read [OF wf] month_price_read [OF wf] month_cost_read [OF wf])

lemma month_sum:
  "billable_sum (map (draft_line n days) (bill_lines (cost_of rows snaps rates))) = priced_sum rows snaps rates"
  if wf: "wf_month rows snaps rates"
proof -
  let ?rs = "filter (\<lambda>r. map_of rates r \<noteq> None) (held_resources rows snaps)"
  have "map (\<lambda>l. str_float (dl_amount l)) (filter dl_priced (map (draft_line n days) (bill_lines (cost_of rows snaps rates)))) =
      map line_amount (map (spec_stored_line rows snaps rates) ?rs)"
    unfolding month_lines [OF wf, of n days, symmetric] by (simp add: stored_line_def)
  also have "\<dots> = map (spec_cost rows snaps rates) ?rs" by (simp add: spec_stored_line_def)
  finally have "billable_sum (map (draft_line n days) (bill_lines (cost_of rows snaps rates))) =
      foldl dec_add 0 (map (spec_cost rows snaps rates) ?rs)"
    by (simp only: billable_sum_def)
  also have "\<dots> = 0 + sum_list (map (spec_cost rows snaps rates) ?rs)"
    using month_costs [OF wf] priced_sum_bounds(3) [OF wf] by (intro foldl_dec_add) (auto simp: priced_sum_def)
  finally show ?thesis by (simp add: priced_sum_def)
qed

lemma split_small:
  assumes "sane_split b pct x (sub, vat, tot)" "sane_rate pct" "is_cents x" "0 \<le> x" "x < 10 ^ 12"
  shows "sub + vat = tot" "(if b then tot else sub) = x"
    "str_float (to_float sub) = sub" "str_float (to_float vat) = vat" "str_float (to_float tot) = tot"
proof -
  have f: "sub + vat = tot" "is_cents sub" "is_cents vat" "0 \<le> sub" "0 \<le> vat"
    "b \<Longrightarrow> tot = cents x" "\<not> b \<Longrightarrow> sub = cents x \<and> vat = cents (sub * pct / 100)"
    using assms(1) by (simp_all add: sane_split_def split: if_splits)
  show "sub + vat = tot" by (rule f(1))
  show x: "(if b then tot else sub) = x" using f(6,7) cents_idem [OF assms(3)] by simp
  have "tot < 10 ^ 13"
  proof (cases b)
    case True
    then show ?thesis using x assms(5) by simp
  next
    case False
    then have sv: "sub = x" "vat = cents (x * pct / 100)" using x f(7) by auto
    have "x * pct \<le> x * 100" using assms(2,4) by (intro mult_left_mono) (auto simp: sane_rate_def)
    then have "vat \<le> x + 1 / 200" using cents_upper [of "x * pct / 100"] unfolding sv by simp
    then show ?thesis using sv assms(5) f(1) by simp
  qed
  moreover have "is_cents tot" using f(1-3) by auto
  ultimately show "str_float (to_float sub) = sub" "str_float (to_float vat) = vat" "str_float (to_float tot) = tot"
    using f by (auto intro!: str_float_cents)
qed

text \<open>C2. An issued document closes on paper: the columns are exact, each line is its quantity times
  its price to the cent, the lines add up to the taxable side of the document, and subtotal plus
  VAT is the total. The month is one of at most four thousand measurements, prices of at most ten million
  and a bill below a million million, and the VAT rate a percentage of two decimals.\<close>

theorem invoice_closes:
  assumes "draft st db acc dom_id first final per = Some d" "vat_rate st = Some pct" "sane_rate pct"
    "wf_month (account_settings db) (snapshots_between (snapshots db) dom_id first final)
       (rate_map (resolve_tariff (tariffs db) acc))"
  shows "let i = frozen d dom_id by_whom now seq num in
    subtotal i + vat_amount i = total i \<and>
    (if BILLING_PRICES_INCLUDE_VAT st then total i else subtotal i) = (\<Sum>l\<leftarrow>invoice_lines i. line_amount l) \<and>
    (\<forall>l \<in> set (invoice_lines i). line_amount l = cents (line_quantity l * line_unit_price l)) \<and>
    vat_rate_col i = pct"
proof -
  define rows where "rows = account_settings db"
  define snaps where "snaps = snapshots_between (snapshots db) dom_id first final"
  define rates where "rates = rate_map (resolve_tariff (tariffs db) acc)"
  define i where "i = frozen d dom_id by_whom now seq num"
  have wf: "wf_month rows snaps rates" using assms(4) by (simp add: rows_def snaps_def rates_def)
  let ?x = "priced_sum rows snaps rates"
  note x = priced_sum_bounds [OF wf]
  have "?x < 10 ^ 14" using x(3) by simp
  then obtain sub vat tot where sp: "split_vat st ?x = Some (sub, vat, tot)"
    and sane: "sane_split (BILLING_PRICES_INCLUDE_VAT st) pct ?x (sub, vat, tot)"
    using split_vat_sane [OF assms(2,3) x(2)] by auto
  define n where "n = bill_days (cost_of rows snaps rates)"
  define days where "days = date_diff final first + 1"
  have d: "doc_lines d = map (draft_line n days) (bill_lines (cost_of rows snaps rates))"
    "doc_subtotal d = to_float sub" "doc_vat_amount d = to_float vat" "doc_total d = to_float tot"
    "doc_vat_rate d = to_float pct"
    using assms(1) month_sum [OF wf, of n days] sp
    by (auto simp: draft_def Let_def assms(2) rows_def snaps_def rates_def n_def days_def)
  have il: "invoice_lines i = map (spec_stored_line rows snaps rates) (filter (\<lambda>r. map_of rates r \<noteq> None) (held_resources rows snaps))"
    by (simp add: i_def frozen_def d month_lines [OF wf])
  note small = split_small [OF sane assms(3) x]
  have pct: "str_float (to_float pct) = pct"
    using assms(3) by (intro str_float_cents) (auto simp: sane_rate_def)
  have "\<forall>l \<in> set (invoice_lines i). line_amount l = cents (line_quantity l * line_unit_price l)"
    by (auto simp: il spec_stored_line_def spec_cost_def)
  moreover have "(\<Sum>l\<leftarrow>invoice_lines i. line_amount l) = ?x"
    by (simp add: il spec_stored_line_def priced_sum_def comp_def)
  moreover have "subtotal i = sub" "vat_amount i = vat" "total i = tot" "vat_rate_col i = pct"
    using small(3-5) pct by (simp_all add: i_def frozen_def d)
  ultimately show ?thesis using small(1,2) unfolding Let_def i_def [symmetric] by (simp split: if_splits)
qed

subsection \<open>Months\<close>

text \<open>The period a month is written as.\<close>

definition month_text :: "nat \<Rightarrow> nat \<Rightarrow> string" where
  "month_text y m = pad 4 y @ ''-'' @ pad 2 m"

lemma split_at_digits:
  assumes "\<forall>c \<in> set a. is_digit c" "\<not> is_digit d"
  shows "split_at (\<lambda>c. c = d) (a @ d # b) = (a, Some b)"
proof -
  have "\<forall>c \<in> set a. c \<noteq> d" using assms by auto
  then show ?thesis by (auto simp: split_at_def takeWhile_append2 dropWhile_append2)
qed

lemma month_bounds_text:
  "month_bounds (month_text y m) =
     (if 1 \<le> y \<and> y \<le> 9999 \<and> 1 \<le> m \<and> m \<le> 12
      then Some (Date (int y) (int m) 1, Date (int y) (int m) (days_in_month (int y) (int m))) else None)"
proof -
  have "split_at (\<lambda>c. c = CHR ''-'') (pad 4 y @ CHR ''-'' # pad 2 m) = (pad 4 y, Some (pad 2 m))"
    by (rule split_at_digits [OF pad_digits]) (simp add: is_digit_def)
  then show ?thesis
    using days_in_month_bounds(1) [of "int y" "int m"]
    by (auto simp: month_bounds_def month_text_def py_int_pad valid_date_def)
qed

text \<open>A period names a calendar month: its text is read back to the first and the last day, the
  bounds lie in the same month, and the document's length of the period is the number of its days.\<close>

theorem month_bounds_calendar:
  assumes "month_bounds text = Some (first, final)"
  shows "date_year final = date_year first \<and> date_month final = date_month first \<and> date_day first = 1 \<and>
    date_diff final first + 1 = days_in_month (date_year first) (date_month first) \<and>
    month_bounds (month_text (nat (date_year first)) (nat (date_month first))) = Some (first, final)"
proof -
  obtain y m where v: "valid_date y m 1" "first = Date y m 1" "final = Date y m (days_in_month y m)"
    using assms by (auto simp: month_bounds_def split: prod.splits option.splits if_splits)
  then show ?thesis by (auto simp: month_bounds_text valid_date_def date_diff_same_month)
qed

lemma month_bounds_calendar_witness:
  "date_year (Date 2024 2 29) = date_year (Date 2024 2 1) \<and> date_month (Date 2024 2 29) = date_month (Date 2024 2 1) \<and>
   date_day (Date 2024 2 1) = 1 \<and>
   date_diff (Date 2024 2 29) (Date 2024 2 1) + 1 = days_in_month (date_year (Date 2024 2 1)) (date_month (Date 2024 2 1)) \<and>
   month_bounds (month_text (nat (date_year (Date 2024 2 1))) (nat (date_month (Date 2024 2 1)))) = Some (Date 2024 2 1, Date 2024 2 29)"
proof (rule month_bounds_calendar)
  show "month_bounds ''2024-2'' = Some (Date 2024 2 1, Date 2024 2 29)" by code_simp
qed

subsection \<open>Rows to evaluate on\<close>

definition sample_invoice :: invoice where
  "sample_invoice =
     \<lparr>number = number_prefix 2026 @ ''0001'', number_seq = 1, inv_account = ''acme'', inv_domain_id = ''d1'',
      period = ''2026-02'', period_from = Date 2026 2 1, period_to = Date 2026 2 28, issued_at = 0,
      issued_by = ''boss'', currency = ''UZS'', subtotal = 20, vat_rate_col = 12, vat_amount = 24 / 10,
      total = 224 / 10, seller_col = [], buyer_col = [], days_measured = 1, days_in_period = 28,
      invoice_lines = []\<rparr>"

definition sample_tariff :: tariff where
  "sample_tariff = \<lparr>tariff_name = ''list'', tariff_currency = ''UZS'', tariff_account = [], is_active = True,
     tariff_rates = sample_rates\<rparr>"

definition sample_db :: billing_db where
  "sample_db = \<lparr>tariffs = [sample_tariff], snapshots = [sample_row ''d1'' 1], account_settings = [],
     profiles = [], invoices = []\<rparr>"

lemma draft_12: "\<exists>d. draft (vat_12 False) db acc dom_id first final per = Some d"
proof -
  have "dec_div 12 100 = 12 / 100" by (rule ctx_percent) (simp add: sane_rate_def is_cents_def)
  then show ?thesis
    by (simp add: draft_def split_vat_def vat_rate_12 Let_def) (simp add: vat_12_def)
qed

lemma history_sample: "history [sample_invoice]"
proof -
  have "next_number (take 0 []) 2026 = (number_seq sample_invoice, number sample_invoice)" by code_simp
  then have "history ([] @ [sample_invoice])" by (intro history.insert history.empty) (simp_all add: clash_def)
  then show ?thesis by simp
qed

lemma numbers_unique_gapless_witness:
  "distinct (map number [sample_invoice]) \<and>
   distinct (map (\<lambda>i. (inv_account i, period i)) [sample_invoice]) \<and>
   map number_seq (of_year 2026 [sample_invoice]) = [1..<Suc (length (of_year 2026 [sample_invoice]))] \<and>
   map number (of_year 2026 [sample_invoice]) =
     map (\<lambda>i. number_prefix 2026 @ pad 4 (number_seq i)) (of_year 2026 [sample_invoice])"
  by (rule numbers_unique_gapless [OF history_sample])

definition racing :: "nat \<Rightarrow> invoice list" where
  "racing k = (if k = 0 then [sample_invoice] else [])"

lemma concat_racing: "concat (map racing [0..<5]) = [sample_invoice]"
  by (simp add: racing_def upt_conv_Cons)

abbreviation issue_sample :: "(nat \<Rightarrow> invoice list) \<Rightarrow> billing_db \<times> (issue_failure + document)" where
  "issue_sample others \<equiv> issue (vat_12 False) others ''acme'' ''d1'' (Date 2026 2 1) (Date 2026 2 28) ''2026-02'' ''boss'' 5 sample_db"

lemma sample_db_empty: "invoices sample_db = []"
  by (simp add: sample_db_def)

lemma existing_sample: "existing_invoice (invoices sample_db) acc per = None"
  by (simp add: existing_invoice_def sample_db_empty)

lemma issue_keeps_register_witness: "history (invoices (fst (issue_sample racing)))"
  by (rule issue_keeps_register) (simp_all add: sample_db_empty concat_racing history_sample history.empty)

lemma issue_sample_races: "snd (issue_sample racing) = Inl IntegrityError"
proof -
  obtain d where "draft (vat_12 False) sample_db ''acme'' ''d1'' (Date 2026 2 1) (Date 2026 2 28) ''2026-02'' = Some d"
    using draft_12 by blast
  then show ?thesis
    by (rule issue_race [OF existing_sample, where i = sample_invoice]) (simp_all add: racing_def sample_invoice_def)
qed

lemma issue_gives_up_witness:
  "(\<exists>i \<in> set (invoices sample_db @ concat (map racing [0..<5])). inv_account i = ''acme'' \<and> period i = ''2026-02'') \<or>
   (\<forall>k < 5. racing k \<noteq> [])"
  by (rule issue_gives_up_only_under_contention [OF _ issue_sample_races])
    (simp add: sample_db_empty concat_racing history_sample)

lemma issue_race_on_month_witness: "snd (issue_sample racing) = Inl IntegrityError"
proof -
  obtain d where "draft (vat_12 False) sample_db ''acme'' ''d1'' (Date 2026 2 1) (Date 2026 2 28) ''2026-02'' = Some d"
    using draft_12 by blast
  then show ?thesis
    by (rule issue_race_on_month [OF existing_sample, where i = sample_invoice]) (simp_all add: racing_def sample_invoice_def)
qed

lemma issue_equals_draft_witness:
  "\<exists>d doc. draft (vat_12 False) sample_db ''acme'' ''d1'' (Date 2026 2 1) (Date 2026 2 28) ''2026-02'' = Some d \<and>
     snd (issue_sample (\<lambda>_. [])) = Inr doc \<and>
     issued_from d doc \<and> doc_status doc = ''issued'' \<and> doc_missing doc = [] \<and> doc_unpriced doc = []"
proof -
  obtain d where d: "draft (vat_12 False) sample_db ''acme'' ''d1'' (Date 2026 2 1) (Date 2026 2 28) ''2026-02'' = Some d"
    using draft_12 by blast
  obtain seq num where nx: "next_number [] (nat (date_year (Date 2026 2 1))) = (seq, num)" by fastforce
  have "\<exists>doc. snd (issue_sample (\<lambda>_. [])) = Inr doc"
    using existing_sample [of "''acme''" "''2026-02''"] nx
    by (simp add: issue_def d sample_db_empty upt_conv_Cons clash_def Let_def)
  then obtain doc where doc: "snd (issue_sample (\<lambda>_. [])) = Inr doc" by blast
  show ?thesis using issue_equals_draft [OF existing_sample d doc] d doc by blast
qed

definition sample_db_issued :: billing_db where
  "sample_db_issued = sample_db\<lparr>invoices := [sample_invoice]\<rparr>"

lemma issued_is_frozen_witness:
  "issue (vat_12 True) racing ''ACME'' ''d1'' (Date 2026 2 1) (Date 2026 2 28) ''2026-02'' ''other'' 9
     (sample_db_issued\<lparr>tariffs := []\<rparr>) =
   (sample_db_issued\<lparr>tariffs := []\<rparr>, Inr (serialize (vat_12 True) sample_invoice))"
proof (rule issued_is_frozen)
  show "existing_invoice (invoices sample_db_issued) ''acme'' ''2026-02'' = Some sample_invoice"
    by (simp add: existing_invoice_def sample_db_issued_def) (simp add: sample_invoice_def)
  show "iexact ''acme'' ''ACME''" by code_simp
qed simp

lemma wf_month_sample:
  "wf_month (account_settings sample_db) (snapshots_between (snapshots sample_db) ''d1'' (Date 2026 2 1) (Date 2026 2 28))
     (rate_map (resolve_tariff (tariffs sample_db) ''acme''))"
proof -
  have rates: "rate_map (resolve_tariff (tariffs sample_db) ''acme'') = [(RAM_GB, 333 / 100), (SNAPSHOT_GB, 1 / 4), (VCPU, 5)]"
    by code_simp
  have rows: "snapshots_between (snapshots sample_db) ''d1'' (Date 2026 2 1) (Date 2026 2 28) = [sample_row ''d1'' 1]"
  proof -
    have "Date 2026 2 1 \<le> taken_on (sample_row ''d1'' 1)" "taken_on (sample_row ''d1'' 1) \<le> Date 2026 2 28" by code_simp+
    then show ?thesis by (simp add: snapshots_between_def sample_db_def) (simp add: sample_row_def)
  qed
  have order: "sorted_resources = [ELASTIC_IP, HDD_GB, RAM_GB, SNAPSHOT_GB, SSD_GB, VCPU]" by code_simp
  let ?rates = "[(RAM_GB, 333 / 100), (SNAPSHOT_GB, 1 / 4), (VCPU, 5)]" and ?snaps = "[sample_row ''d1'' 1]"
  have wf: "wf_rates ?rates" by (simp add: wf_rates_def is_price_def)
  have small: "spec_cost [] ?snaps ?rates r \<le> 10 ^ 3" for r
  proof -
    have "held_total [] ?snaps r \<le> 100" "0 \<le> held_total [] ?snaps r"
      by (cases r; simp add: held_total_def sample_row_def uncounted_no_rows snapshot_gib_def)+
    then have "spec_average [] ?snaps r \<le> 101" "0 \<le> spec_average [] ?snaps r"
      using cents_upper [of "held_total [] ?snaps r"] by (auto simp: spec_average_def measured_days_def)
    moreover have "0 \<le> price_of ?rates r" "price_of ?rates r \<le> 5" by (cases r; simp add: price_of_def)+
    ultimately have "spec_average [] ?snaps r * price_of ?rates r \<le> 101 * 5" by (intro mult_mono) auto
    then show ?thesis
      using cents_upper [of "spec_average [] ?snaps r * price_of ?rates r"] by (simp add: spec_cost_def)
  qed
  have "(\<Sum>r\<leftarrow>rs. spec_cost [] ?snaps ?rates r) \<le> of_nat (length rs) * 10 ^ 3" for rs
    by (induction rs) (use small in \<open>auto simp: algebra_simps intro: add_mono\<close>)
  moreover have "(of_nat (length (held_resources [] ?snaps)) :: rat) \<le> of_nat 6"
    using length_held [of "[]" ?snaps] by (subst of_nat_le_iff)
  then have "(of_nat (length (held_resources [] ?snaps)) :: rat) * 10 ^ 3 \<le> 6 * 10 ^ 3" by simp
  then have "(of_nat (length (held_resources [] ?snaps)) :: rat) * 10 ^ 3 < 10 ^ 12" by simp
  ultimately have "(\<Sum>r\<leftarrow>held_resources [] ?snaps. spec_cost [] ?snaps ?rates r) < 10 ^ 12"
    by (rule order_le_less_trans)
  then show ?thesis unfolding rates rows using wf wf_sample by (simp add: wf_month_def sample_db_def)
qed

lemma invoice_closes_witness:
  "\<exists>d. draft (vat_12 False) sample_db ''acme'' ''d1'' (Date 2026 2 1) (Date 2026 2 28) ''2026-02'' = Some d \<and>
   (let i = frozen d ''d1'' ''boss'' 5 1 ''n1'' in
    subtotal i + vat_amount i = total i \<and>
    (if BILLING_PRICES_INCLUDE_VAT (vat_12 False) then total i else subtotal i) = (\<Sum>l\<leftarrow>invoice_lines i. line_amount l) \<and>
    (\<forall>l \<in> set (invoice_lines i). line_amount l = cents (line_quantity l * line_unit_price l)) \<and>
    vat_rate_col i = 12)"
proof -
  obtain d where d: "draft (vat_12 False) sample_db ''acme'' ''d1'' (Date 2026 2 1) (Date 2026 2 28) ''2026-02'' = Some d"
    using draft_12 by blast
  show ?thesis
    using invoice_closes [OF d vat_rate_12 _ wf_month_sample, where by_whom = "''boss''" and now = 5 and seq = 1 and num = "''n1''"] d
    by (auto simp: sane_rate_def is_cents_def)
qed

end
