(* ===== verification/Json.thy ===== *)
theory Json
  imports Parsing
begin

text \<open>
  Values as Python decodes them from JSON, and the operations of the language the code applies to
  them: truth, \<open>or\<close>, \<open>str\<close>, \<open>int\<close>, \<open>dict.get\<close>, \<open>isinstance\<close>. A number with a fraction is the float it
  is read as. Strings are bytes; \<open>lower\<close> and \<open>strip\<close> are those of the prelude.
\<close>

named_theorems json_simps \<open>reading decoded values\<close>

datatype json =
    JNull
  | JBool bool
  | JInt int
  | JNum rat
  | JStr string
  | JList "json list"
  | JObj "(string \<times> json) list"

type_synonym object = "(string \<times> json) list"

subsection \<open>Truth and lookup\<close>

fun truthy :: "json \<Rightarrow> bool" where
  "truthy JNull = False"
| "truthy (JBool b) = b"
| "truthy (JInt i) = (i \<noteq> 0)"
| "truthy (JNum r) = (r \<noteq> 0)"
| "truthy (JStr s) = (s \<noteq> [])"
| "truthy (JList xs) = (xs \<noteq> [])"
| "truthy (JObj kvs) = (kvs \<noteq> [])"

text \<open>\<open>raw.get(key)\<close>.\<close>

definition jget :: "object \<Rightarrow> string \<Rightarrow> json" where
  [json_simps]: "jget raw k = (case map_of raw k of None \<Rightarrow> JNull | Some v \<Rightarrow> v)"

text \<open>\<open>a or b\<close>.\<close>

definition jor :: "json \<Rightarrow> json \<Rightarrow> json" where
  [json_simps]: "jor a b = (if truthy a then a else b)"

fun objects :: "json list \<Rightarrow> object list" where
  "objects [] = []"
| "objects (JObj o' # xs) = o' # objects xs"
| "objects (_ # xs) = objects xs"

definition is_obj :: "json \<Rightarrow> bool" where
  "is_obj v = (case v of JObj _ \<Rightarrow> True | _ \<Rightarrow> False)"

text \<open>A dictionary's fields, an empty one for anything else (\<open>x if isinstance(x, dict) else {}\<close>).\<close>

definition as_object :: "json \<Rightarrow> object" where
  "as_object v = (case v of JObj o' \<Rightarrow> o' | _ \<Rightarrow> [])"

definition as_list :: "json \<Rightarrow> json list" where
  "as_list v = (case v of JList xs \<Rightarrow> xs | _ \<Rightarrow> [])"

subsection \<open>Text of a value\<close>

definition show_int :: "int \<Rightarrow> string" where
  "show_int i = (if i < 0 then ''-'' @ show_nat (nat (- i)) else show_nat (nat i))"

text \<open>The shortest digits that read back as the float, and the position of the decimal point.\<close>

definition digits_suffice :: "rat \<Rightarrow> int \<Rightarrow> nat \<Rightarrow> bool" where
  "digits_suffice c m n = (let y = c * 10 powi (int n - m) in of_int \<lfloor>y\<rfloor> = y)"

definition float_digits :: "rat \<Rightarrow> string \<times> int" where
  "float_digits x =
     (let c = \<bar>str_float x\<bar>; m = magnitude 10 c;
          n = (case List.find (digits_suffice c m) [1..<18] of
                 None \<Rightarrow> 17 | Some n \<Rightarrow> n)
      in (show_nat (nat \<lfloor>c * 10 powi (int n - m)\<rfloor>), m))"

definition show_float :: "rat \<Rightarrow> string" where
  "show_float x =
     (if x = 0 then ''0.0'' else
      case float_digits x of (ds, point) \<Rightarrow>
        (if x < 0 then ''-'' else []) @
        (if - 4 < point \<and> point \<le> 16 then
           (if point \<le> 0 then ''0.'' @ replicate (nat (- point)) (CHR ''0'') @ ds
            else if int (length ds) \<le> point then ds @ replicate (nat point - length ds) (CHR ''0'') @ ''.0''
            else take (nat point) ds @ ''.'' @ drop (nat point) ds)
         else
           let e = point - 1 in
           take 1 ds @ (if length ds = 1 then [] else ''.'' @ drop 1 ds) @ ''e'' @
           (if e < 0 then ''-'' else ''+'') @ pad 2 (nat \<bar>e\<bar>)))"

text \<open>\<open>repr\<close> of a string: the quote it needs, with the escapes of ASCII control characters.\<close>

definition hex_digit :: "nat \<Rightarrow> char" where
  "hex_digit d = (if d < 10 then digit_char d else char_of (87 + d :: nat))"

definition escape_char :: "char \<Rightarrow> char \<Rightarrow> string" where
  "escape_char q c =
     (let n = (of_char c :: nat); b = CHR 0x5C in
      if c = q \<or> c = b then [b, c]
      else if n = 10 then [b, CHR ''n''] else if n = 13 then [b, CHR ''r''] else if n = 9 then [b, CHR ''t'']
      else if n < 32 \<or> n = 127 then [b, CHR ''x'', hex_digit (n div 16), hex_digit (n mod 16)]
      else [c])"

definition repr_str :: "string \<Rightarrow> string" where
  "repr_str s =
     (let a = CHR 0x27; d = CHR 0x22; q = (if a \<in> set s \<and> d \<notin> set s then d else a)
      in [q] @ concat (map (escape_char q) s) @ [q])"

fun join :: "string \<Rightarrow> string list \<Rightarrow> string" where
  "join sep [] = []"
| "join sep [x] = x"
| "join sep (x # y # xs) = x @ sep @ join sep (y # xs)"

fun repr :: "json \<Rightarrow> string" where
  "repr JNull = ''None''"
| "repr (JBool b) = (if b then ''True'' else ''False'')"
| "repr (JInt i) = show_int i"
| "repr (JNum r) = show_float r"
| "repr (JStr s) = repr_str s"
| "repr (JList xs) = ''['' @ join '', '' (map repr xs) @ '']''"
| "repr (JObj kvs) = ''{'' @ join '', '' (map (\<lambda>(k, v). repr_str k @ '': '' @ repr v) kvs) @ ''}''"

text \<open>\<open>str(v)\<close>.\<close>

definition py_str_of :: "json \<Rightarrow> string" where
  [json_simps]: "py_str_of v = (case v of JStr s \<Rightarrow> s | _ \<Rightarrow> repr v)"

text \<open>\<open>str(raw.get(k) or '')\<close> and \<open>str(raw[k]) if raw.get(k) else None\<close>.\<close>

definition str_field :: "object \<Rightarrow> string \<Rightarrow> string \<Rightarrow> string" where
  [json_simps]: "str_field raw k dflt = py_str_of (jor (jget raw k) (JStr dflt))"

definition opt_str_field :: "object \<Rightarrow> string \<Rightarrow> string option" where
  [json_simps]: "opt_str_field raw k = (if truthy (jget raw k) then Some (py_str_of (jget raw k)) else None)"

subsection \<open>Integers\<close>

text \<open>\<open>int(v)\<close>; \<open>None\<close> is a \<open>TypeError\<close> or \<open>ValueError\<close>.\<close>

definition truncate :: "rat \<Rightarrow> int" where
  "truncate r = (if r < 0 then - \<lfloor>- r\<rfloor> else \<lfloor>r\<rfloor>)"

definition py_int_of :: "json \<Rightarrow> int option" where
  "py_int_of v = (case v of
     JBool b \<Rightarrow> Some (if b then 1 else 0)
   | JInt i \<Rightarrow> Some i
   | JNum r \<Rightarrow> Some (truncate r)
   | JStr s \<Rightarrow> py_int s
   | _ \<Rightarrow> None)"

text \<open>\<open>int(raw.get(k) or 0)\<close>.\<close>

definition int_field :: "object \<Rightarrow> string \<Rightarrow> int option" where
  [json_simps]: "int_field raw k = py_int_of (jor (jget raw k) (JInt 0))"

lemma int_field_missing: "map_of raw k = None \<Longrightarrow> int_field raw k = Some 0"
  by (simp add: json_simps py_int_of_def)

lemma str_field_str: "map_of raw k = Some (JStr s) \<Longrightarrow> s \<noteq> [] \<Longrightarrow> str_field raw k d = s"
  by (simp add: json_simps)

lemma str_field_missing: "map_of raw k = None \<Longrightarrow> str_field raw k d = d"
  by (simp add: json_simps)

lemma objects_append: "objects (xs @ ys) = objects xs @ objects ys"
  by (induction xs rule: objects.induct) auto

lemma set_objects: "o' \<in> set (objects xs) \<longleftrightarrow> JObj o' \<in> set xs"
  by (induction xs rule: objects.induct) auto

text \<open>The numbers Python prints, on examples.\<close>

lemma show_float_examples:
  "show_float (5 / 2) = ''2.5''" "show_float 100 = ''100.0''" "show_float (- 1 / 8) = ''-0.125''"
  by code_simp+

subsection \<open>Sequencing fallible reads\<close>

text \<open>The list of results, or the first failure.\<close>

fun mapM :: "('a \<Rightarrow> 'b option) \<Rightarrow> 'a list \<Rightarrow> 'b list option" where
  "mapM f [] = Some []"
| "mapM f (x # xs) =
     (case f x of None \<Rightarrow> None | Some y \<Rightarrow> (case mapM f xs of None \<Rightarrow> None | Some ys \<Rightarrow> Some (y # ys)))"

lemma mapM_Some_iff: "mapM f xs = Some ys \<longleftrightarrow> map f xs = map Some ys"
proof (induction xs arbitrary: ys)
  case (Cons x xs)
  show ?case
  proof (cases ys)
    case (Cons z zs)
    have "mapM f (x # xs) = Some (z # zs) \<longleftrightarrow> f x = Some z \<and> mapM f xs = Some zs"
      by (auto split: option.splits)
    then show ?thesis using Cons Cons.IH [of zs] by simp
  qed (simp split: option.splits)
qed auto

lemma mapM_length: "mapM f xs = Some ys \<Longrightarrow> length ys = length xs"
  by (metis length_map mapM_Some_iff)

lemma mapM_mem: "mapM f xs = Some ys \<Longrightarrow> y \<in> set ys \<Longrightarrow> \<exists>x \<in> set xs. f x = Some y"
proof -
  assume "mapM f xs = Some ys" "y \<in> set ys"
  then have "map f xs = map Some ys" "Some y \<in> set (map Some ys)" by (simp_all add: mapM_Some_iff)
  then have "Some y \<in> set (map f xs)" by simp
  then show ?thesis by auto
qed

end
