(* ===== verification/Requests.thy ===== *)
theory Requests
  imports Json
begin

text \<open>
  What the views share: how a request ends, the parameters it carries, and stores whose entries expire
  (\<open>django.core.cache\<close>, server-side sessions). Times are seconds.
\<close>

subsection \<open>How a view ends\<close>

text \<open>How a view ends when it does not answer: an \<open>AppError\<close>, or an exception nobody handles.\<close>

datatype refusal = Refused app_error | Crashed

definition bad_request :: "string \<Rightarrow> refusal" where
  "bad_request m = Refused (AppError m ''invalid_request'' 400)"

definition conflict :: "string \<Rightarrow> string \<Rightarrow> refusal" where
  "conflict m c = Refused (AppError m c 409)"

definition unauthorized :: "string \<Rightarrow> string \<Rightarrow> refusal" where
  "unauthorized m c = Refused (AppError m c 401)"

definition forbidden :: "string \<Rightarrow> string \<Rightarrow> refusal" where
  "forbidden m c = Refused (AppError m c 403)"

text \<open>Figures that cannot be computed surface as an unhandled exception.\<close>

definition or_crash :: "'a option \<Rightarrow> refusal + 'a" where
  "or_crash v = (case v of None \<Rightarrow> Inl Crashed | Some x \<Rightarrow> Inr x)"

subsection \<open>Parameters\<close>

definition given :: "string option \<Rightarrow> bool" where
  "given v = (v \<noteq> None \<and> v \<noteq> Some [])"

text \<open>The first eight characters of UTF-8 text, and of any length.\<close>

definition continuation :: "char \<Rightarrow> bool" where
  "continuation c = (128 \<le> (of_char c :: nat) \<and> (of_char c :: nat) < 192)"

fun take_chars :: "nat \<Rightarrow> string \<Rightarrow> string" where
  "take_chars n [] = []"
| "take_chars n (c # s) =
     (if continuation c then c # take_chars n s
      else (case n of 0 \<Rightarrow> [] | Suc m \<Rightarrow> c # take_chars m s))"

text \<open>\<open>request.data.get(key)\<close>: only a dictionary has a \<open>get\<close>.\<close>

definition body_field :: "json \<Rightarrow> string \<Rightarrow> refusal + json" where
  [json_simps]: "body_field data k = (case data of JObj o' \<Rightarrow> Inr (jget o' k) | _ \<Rightarrow> Inl Crashed)"

text \<open>\<open>(value or '').strip()\<close>: only text has a \<open>strip\<close>.\<close>

definition stripped :: "json \<Rightarrow> refusal + string" where
  [json_simps]: "stripped v = (case jor v (JStr []) of JStr s \<Rightarrow> Inr (strip s) | _ \<Rightarrow> Inl Crashed)"

definition text_field :: "json \<Rightarrow> string \<Rightarrow> refusal + string" where
  "text_field data k = sum_bind (body_field data k) stripped"

text \<open>\<open>... or None\<close>.\<close>

definition or_none :: "string \<Rightarrow> string option" where
  "or_none s = (if s = [] then None else Some s)"

lemma text_field_str [json_simps]:
  "text_field (JObj o') k = stripped (jget o' k)"
  by (simp add: text_field_def body_field_def sum_bind_def)

subsection \<open>Entries that expire\<close>

type_synonym 'v shelf = "(string \<times> ('v \<times> int)) list"

definition shelf_get :: "'v shelf \<Rightarrow> int \<Rightarrow> string \<Rightarrow> 'v option" where
  "shelf_get s now k = (case map_of s k of
     None \<Rightarrow> None | Some (v, expiry) \<Rightarrow> if now < expiry then Some v else None)"

definition shelf_set :: "string \<Rightarrow> 'v \<Rightarrow> int \<Rightarrow> 'v shelf \<Rightarrow> 'v shelf" where
  "shelf_set k v expiry s = AList.update k (v, expiry) s"

definition shelf_delete :: "string \<Rightarrow> 'v shelf \<Rightarrow> 'v shelf" where
  "shelf_delete k s = AList.delete k s"

text \<open>\<open>cache.add\<close>: atomic, and false where the key is still there.\<close>

definition shelf_add :: "string \<Rightarrow> 'v \<Rightarrow> int \<Rightarrow> int \<Rightarrow> 'v shelf \<Rightarrow> 'v shelf \<times> bool" where
  "shelf_add k v expiry now s =
     (if shelf_get s now k = None then (shelf_set k v expiry s, True) else (s, False))"

locale short_lived =
  fixes look :: "'s \<Rightarrow> int \<Rightarrow> string \<Rightarrow> 'v option"
    and put :: "string \<Rightarrow> 'v \<Rightarrow> int \<Rightarrow> 's \<Rightarrow> 's"
    and drop_key :: "string \<Rightarrow> 's \<Rightarrow> 's"
  assumes look_put: "look (put k v expiry s) now k' =
      (if k' = k then (if now < expiry then Some v else None) else look s now k')"
    and look_drop: "look (drop_key k s) now k' = (if k' = k then None else look s now k')"
    and look_later: "look s now' k = Some v \<Longrightarrow> now \<le> now' \<Longrightarrow> look s now k = Some v"
begin

lemma look_put_same: "now < expiry \<Longrightarrow> look (put k v expiry s) now k = Some v"
  by (simp add: look_put)

lemma look_expired: "expiry \<le> now \<Longrightarrow> look (put k v expiry s) now k = None"
  by (simp add: look_put)

lemma look_dropped: "look (drop_key k s) now k = None"
  by (simp add: look_drop)

lemma look_drop_mono: "look (drop_key k s) now k' = Some v \<Longrightarrow> look s now k' = Some v"
  by (simp add: look_drop split: if_splits)

end

text \<open>A store in which a key can be taken once per lifetime.\<close>

locale single_use = short_lived look put drop_key
  for look :: "'s \<Rightarrow> int \<Rightarrow> string \<Rightarrow> 'v option"
    and put :: "string \<Rightarrow> 'v \<Rightarrow> int \<Rightarrow> 's \<Rightarrow> 's"
    and drop_key :: "string \<Rightarrow> 's \<Rightarrow> 's" +
  fixes take_key :: "string \<Rightarrow> 'v \<Rightarrow> int \<Rightarrow> int \<Rightarrow> 's \<Rightarrow> 's \<times> bool"
  assumes take_key: "take_key k v expiry now s =
      (if look s now k = None then (put k v expiry s, True) else (s, False))"
begin

lemma taken_once:
  assumes "take_key k v expiry now s = (s', True)" "now' < expiry"
  shows "take_key k v' expiry' now' s' = (s', False)"
  using assms by (auto simp: take_key look_put split: if_splits)

lemma taken_other:
  assumes "take_key k v expiry now s = (s', b)" "k' \<noteq> k"
  shows "look s' now' k' = look s now' k'"
  using assms by (auto simp: take_key look_put split: if_splits)

end

lemma map_of_shelf_delete: "map_of (shelf_delete k s) k' = (if k' = k then None else map_of s k')"
  unfolding shelf_delete_def using delete_conv [of k s] by (simp add: fun_upd_def)

interpretation shelf: single_use shelf_get shelf_set shelf_delete shelf_add
proof
  show "shelf_get (shelf_set k v expiry s) now k' =
      (if k' = k then (if now < expiry then Some v else None) else shelf_get s now k')"
    for k :: string and v :: 'a and expiry s now k'
    by (simp add: shelf_get_def shelf_set_def map_of_update)
  show "shelf_get (shelf_delete k s) now k' = (if k' = k then None else shelf_get s now k')"
    for k and s :: "'a shelf" and now k'
    by (simp add: shelf_get_def map_of_shelf_delete)
  show "shelf_get s now' k = Some v \<Longrightarrow> now \<le> now' \<Longrightarrow> shelf_get s now k = Some v"
    for s :: "'a shelf" and now' k v now
    by (auto simp: shelf_get_def split: option.splits if_splits)
  show "shelf_add k v expiry now s = (if shelf_get s now k = None then (shelf_set k v expiry s, True) else (s, False))"
    for k and v :: 'a and expiry now s
    by (rule shelf_add_def)
qed

end
