(* ===== verification/Cloud.thy ===== *)
theory Cloud
  imports Requests
begin

text \<open>
  Talking to the cloud: \<open>integrations/zadara/http.py\<close> (one request with its retries),
  the authorised reads and writes of \<open>resources.py\<close> and their read-through cache.

  The cloud itself is a parameter: what it answers to each attempt. So are the parser of HTTP
  dates and the digest of the cache keys. The cache backend is explicit state with its documented
  behaviour: a key holds the last value set until it expires.
\<close>

subsection \<open>Answers\<close>

text \<open>\<open>resp_json\<close> is \<open>None\<close> when the body is not JSON (\<open>resp.json()\<close> raises \<open>ValueError\<close>).\<close>

record response =
  resp_status :: nat
  resp_headers :: "(string \<times> string) list"
  resp_json :: "json option"

definition resp_ok :: "response \<Rightarrow> bool" where
  "resp_ok r = (resp_status r < 400)"

text \<open>What one attempt ends in.\<close>

datatype attempt = TimedOut | Unreachable | Answered response

subsection \<open>One request (\<open>http.request\<close>)\<close>

definition MAX_RETRIES :: nat where "MAX_RETRIES = 2"
definition BACKOFF_BASE :: rat where "BACKOFF_BASE = 1 / 2"
definition RETRYABLE_STATUS :: "nat list" where "RETRYABLE_STATUS = [502, 503, 504]"

definition upper_char :: "char \<Rightarrow> char" where
  "upper_char c = (if (97::nat) \<le> of_char c \<and> (of_char c :: nat) \<le> 122
     then char_of ((of_char c :: nat) - 32) else c)"

definition upper :: "string \<Rightarrow> string" where
  "upper s = map upper_char s"

text \<open>
  Seconds to wait. \<open>http_date\<close> reads an HTTP date as seconds since the epoch. The caller takes the
  minimum with five, so an infinite number of seconds is given as five here; \<open>max(0.0, nan)\<close> is
  \<open>0.0\<close>.
\<close>

definition retry_after :: "(string \<Rightarrow> rat option) \<Rightarrow> rat \<Rightarrow> response \<Rightarrow> rat \<Rightarrow> rat" where
  "retry_after http_date now r dflt =
     (let raw = strip (case map_of (resp_headers r) ''Retry-After'' of None \<Rightarrow> [] | Some v \<Rightarrow> v) in
      if raw = [] then dflt
      else (case py_float raw of
          Some (Finite s) \<Rightarrow> max 0 s
        | Some (Infinite neg) \<Rightarrow> (if neg then 0 else 5)
        | Some NotANumber \<Rightarrow> 0
        | None \<Rightarrow> (case http_date raw of None \<Rightarrow> dflt | Some t \<Rightarrow> max 0 (t - now))))"

text \<open>The loop: what attempt \<open>k\<close> is answered, the clock then, and the sleeps so far.\<close>

function request_loop :: "(string \<Rightarrow> rat option) \<Rightarrow> (nat \<Rightarrow> rat) \<Rightarrow> string \<Rightarrow> (nat \<Rightarrow> attempt) \<Rightarrow> nat \<Rightarrow> rat list
    \<Rightarrow> rat list \<times> (zadara_error + response)" where
  "request_loop http_date clock verb answer k sleeps =
     (case answer k of
        TimedOut \<Rightarrow> (sleeps, Inl (ZadaraError ''timeout'' ''Zadara did not respond in time'' None))
      | Unreachable \<Rightarrow> (sleeps, Inl (ZadaraError ''network_error'' ''Failed to reach Zadara API'' None))
      | Answered r \<Rightarrow>
          if upper verb = ''GET'' \<and> resp_status r \<in> set RETRYABLE_STATUS \<and> k < MAX_RETRIES then
            request_loop http_date clock verb answer (k + 1) (sleeps @ [BACKOFF_BASE * 2 ^ k])
          else if resp_status r = 429 \<and> k < MAX_RETRIES then
            request_loop http_date clock verb answer (k + 1)
              (sleeps @ [min (retry_after http_date (clock k) r (BACKOFF_BASE * 2 ^ k)) 5])
          else (sleeps, Inr r))"
  by pat_completeness auto
termination
  by (relation "measure (\<lambda>(_, _, _, _, k, _). MAX_RETRIES - k)") auto

declare request_loop.simps [simp del]

definition request :: "string \<Rightarrow> (string \<Rightarrow> rat option) \<Rightarrow> (nat \<Rightarrow> rat) \<Rightarrow> string \<Rightarrow> (nat \<Rightarrow> attempt)
    \<Rightarrow> rat list \<times> (zadara_error + response)" where
  "request base_url http_date clock verb answer =
     (if base_url = [] then ([], Inl (ZadaraError ''unexpected'' ''ZADARA_API_URL is not configured'' None))
      else request_loop http_date clock verb answer 0 [])"

lemma retry_after_nonneg: "0 \<le> dflt \<Longrightarrow> 0 \<le> retry_after http_date now r dflt"
  by (auto simp: retry_after_def Let_def split: option.splits number.splits)

text \<open>An attempt after which there may be another.\<close>

fun invites_retry :: "string \<Rightarrow> attempt \<Rightarrow> bool" where
  "invites_retry verb (Answered r) = (resp_status r = 429 \<or> upper verb = ''GET'' \<and> resp_status r \<in> {502, 503, 504})"
| "invites_retry verb _ = False"

lemma request_loop_bounds:
  assumes "length sleeps = k" "k \<le> MAX_RETRIES" "\<forall>s \<in> set sleeps. 0 \<le> s \<and> s \<le> 5" "\<forall>j < k. invites_retry verb (answer j)"
    "request_loop http_date clock verb answer k sleeps = (sleeps', res)"
  shows "length sleeps' \<le> MAX_RETRIES \<and> (\<forall>s \<in> set sleeps'. 0 \<le> s \<and> s \<le> 5) \<and>
    (\<forall>j < length sleeps'. invites_retry verb (answer j)) \<and>
    (invites_retry verb (answer (length sleeps')) \<longrightarrow> length sleeps' = MAX_RETRIES) \<and>
    res = (case answer (length sleeps') of
       Answered r \<Rightarrow> Inr r
     | TimedOut \<Rightarrow> Inl (ZadaraError ''timeout'' ''Zadara did not respond in time'' None)
     | Unreachable \<Rightarrow> Inl (ZadaraError ''network_error'' ''Failed to reach Zadara API'' None))"
  using assms
proof (induction http_date clock verb answer k sleeps rule: request_loop.induct)
  case (1 http_date clock verb answer k sleeps)
  have half: "0 \<le> BACKOFF_BASE * 2 ^ k" "k < MAX_RETRIES \<Longrightarrow> BACKOFF_BASE * 2 ^ k \<le> 5"
  proof -
    show "0 \<le> BACKOFF_BASE * 2 ^ k" by (simp add: BACKOFF_BASE_def)
    assume "k < MAX_RETRIES"
    then have "k = 0 \<or> k = 1" unfolding MAX_RETRIES_def by linarith
    then show "BACKOFF_BASE * 2 ^ k \<le> 5" by (auto simp: BACKOFF_BASE_def)
  qed
  show ?case
  proof (cases "answer k")
    case (Answered r)
    let ?w = "min (retry_after http_date (clock k) r (BACKOFF_BASE * 2 ^ k)) 5"
    have w: "0 \<le> ?w" "?w \<le> 5" using retry_after_nonneg [OF half(1)] by simp_all
    consider (again) "upper verb = ''GET'' \<and> resp_status r \<in> set RETRYABLE_STATUS \<and> k < MAX_RETRIES"
      | (limited) "\<not> (upper verb = ''GET'' \<and> resp_status r \<in> set RETRYABLE_STATUS \<and> k < MAX_RETRIES)"
          "resp_status r = 429 \<and> k < MAX_RETRIES"
      | (answer) "\<not> (upper verb = ''GET'' \<and> resp_status r \<in> set RETRYABLE_STATUS \<and> k < MAX_RETRIES)"
          "\<not> (resp_status r = 429 \<and> k < MAX_RETRIES)" by blast
    then show ?thesis
    proof cases
      case again
      have eq: "request_loop http_date clock verb answer (k + 1) (sleeps @ [BACKOFF_BASE * 2 ^ k]) = (sleeps', res)"
        using 1(7) by (subst (asm) request_loop.simps) (simp only: Answered attempt.case if_P [OF again])
      show ?thesis
      proof (rule 1(1) [OF Answered again _ _ _ _ eq])
        show "\<forall>j < k + 1. invites_retry verb (answer j)"
          using 1(6) again by (auto simp: less_Suc_eq Answered RETRYABLE_STATUS_def)
        show "length (sleeps @ [BACKOFF_BASE * 2 ^ k]) = k + 1" using 1(3) by simp
        show "k + 1 \<le> MAX_RETRIES" using again by simp
        show "\<forall>s \<in> set (sleeps @ [BACKOFF_BASE * 2 ^ k]). 0 \<le> s \<and> s \<le> 5" using 1(5) half again by simp
      qed
    next
      case limited
      have eq: "request_loop http_date clock verb answer (k + 1) (sleeps @ [?w]) = (sleeps', res)"
        using 1(7) by (subst (asm) request_loop.simps)
          (simp only: Answered attempt.case if_not_P [OF limited(1)] if_P [OF limited(2)])
      show ?thesis
      proof (rule 1(2) [OF Answered limited _ _ _ _ eq])
        show "\<forall>j < k + 1. invites_retry verb (answer j)" using 1(6) limited(2) by (auto simp: less_Suc_eq Answered)
        show "length (sleeps @ [?w]) = k + 1" using 1(3) by simp
        show "k + 1 \<le> MAX_RETRIES" using limited(2) by simp
        show "\<forall>s \<in> set (sleeps @ [?w]). 0 \<le> s \<and> s \<le> 5" using 1(5) w by simp
      qed
    next
      case answer
      have "(sleeps, Inr r) = (sleeps', res)"
        using 1(7) by (subst (asm) request_loop.simps)
          (simp only: Answered attempt.case if_not_P [OF answer(1)] if_not_P [OF answer(2)])
      then have same: "sleeps' = sleeps" "res = Inr r" by simp_all
      have "k = MAX_RETRIES" if "invites_retry verb (answer k)"
        using that answer 1(4) by (auto simp: Answered RETRYABLE_STATUS_def)
      then show ?thesis using 1(3-6) Answered same by simp
    qed
  qed (use 1(3-7) in \<open>auto simp: request_loop.simps [of _ _ _ _ k]\<close>)
qed

text \<open>C40. A request always returns, after at most three attempts and two waits of at most five seconds
  each, whatever the cloud answers and whatever its Retry-After says. There is another attempt exactly after
  an answer that asks to slow down, or for a read after one that says the cloud is out, while attempts are
  left; what is returned is the last answer received, or the error of the transport of that very attempt:
  the time-out where it timed out, the network's where the cloud was not reached.\<close>

theorem request_bounded:
  assumes "request base_url http_date clock verb answer = (sleeps, res)" "base_url \<noteq> []"
  shows "length sleeps \<le> 2 \<and> list_all (\<lambda>s. 0 \<le> s \<and> s \<le> 5) sleeps \<and>
    (\<forall>j < length sleeps. invites_retry verb (answer j)) \<and>
    (invites_retry verb (answer (length sleeps)) \<longrightarrow> length sleeps = 2) \<and>
    res = (case answer (length sleeps) of
       Answered r \<Rightarrow> Inr r
     | TimedOut \<Rightarrow> Inl (ZadaraError ''timeout'' ''Zadara did not respond in time'' None)
     | Unreachable \<Rightarrow> Inl (ZadaraError ''network_error'' ''Failed to reach Zadara API'' None))"
proof -
  have "request_loop http_date clock verb answer 0 [] = (sleeps, res)" using assms by (simp add: request_def)
  from request_loop_bounds [OF _ _ _ _ this] show ?thesis by (simp add: MAX_RETRIES_def list_all_iff)
qed

definition busy :: "nat \<Rightarrow> attempt" where
  "busy k = Answered \<lparr>resp_status = 429, resp_headers = [(''Retry-After'', ''90'')], resp_json = None\<rparr>"

lemma busy_request:
  "request ''https://cloud'' (\<lambda>_. None) (\<lambda>_. 0) ''POST'' busy =
     ([5, 5], Inr \<lparr>resp_status = 429, resp_headers = [(''Retry-After'', ''90'')], resp_json = None\<rparr>)"
proof -
  have parts: "py_float ''90'' = Some (Finite 90)" "strip ''90'' = ''90''" "upper ''POST'' = ''POST''" by code_simp+
  then have "retry_after (\<lambda>_. None) 0 \<lparr>resp_status = 429, resp_headers = [(''Retry-After'', ''90'')], resp_json = None\<rparr> x = 90" for x
    by (simp add: retry_after_def Let_def)
  with parts show ?thesis by (simp add: request_def request_loop.simps busy_def MAX_RETRIES_def)
qed

text \<open>A read the cloud first answers as out, and then not in time.\<close>

definition failing :: "nat \<Rightarrow> attempt" where
  "failing k = (if k = 0 then Answered \<lparr>resp_status = 503, resp_headers = [], resp_json = None\<rparr> else TimedOut)"

lemma failing_request:
  "request ''https://cloud'' (\<lambda>_. None) (\<lambda>_. 0) ''get'' failing =
     ([1/2], Inl (ZadaraError ''timeout'' ''Zadara did not respond in time'' None))"
proof -
  have "upper ''get'' = ''GET''" by code_simp
  then show ?thesis
    by (simp add: request_def request_loop.simps failing_def MAX_RETRIES_def RETRYABLE_STATUS_def BACKOFF_BASE_def)
qed

lemma request_bounded_witness:
  "invites_retry ''get'' (failing 0) \<and>
   Inl (ZadaraError ''timeout'' ''Zadara did not respond in time'' None) = (case failing (length [1/2 :: rat]) of
       Answered r \<Rightarrow> (Inr r :: zadara_error + response)
     | TimedOut \<Rightarrow> Inl (ZadaraError ''timeout'' ''Zadara did not respond in time'' None)
     | Unreachable \<Rightarrow> Inl (ZadaraError ''network_error'' ''Failed to reach Zadara API'' None))"
  using request_bounded [OF failing_request] by simp

text \<open>A write that got any answer but 429 is never sent again.\<close>

lemma write_not_repeated:
  assumes "upper verb \<noteq> ''GET''" "answer 0 = Answered r" "resp_status r \<noteq> 429" "base_url \<noteq> []"
  shows "request base_url http_date clock verb answer = ([], Inr r)"
  using assms by (simp add: request_def request_loop.simps)

subsection \<open>Authorised reads and writes\<close>

text \<open>
  \<open>Zadara e\<close> is a \<open>ZadaraError\<close>; \<open>Crash\<close> is any other exception the code does not raise itself
  (a \<open>TypeError\<close>, \<open>ValueError\<close> or \<open>AttributeError\<close> on data of an unexpected shape).
\<close>

datatype failure = Zadara zadara_error | Crash

definition from_option :: "'a option \<Rightarrow> failure + 'a" where
  "from_option v = (case v of None \<Rightarrow> Inl Crash | Some x \<Rightarrow> Inr x)"

definition body_of :: "response \<Rightarrow> json" where
  "body_of r = (case resp_json r of None \<Rightarrow> JNull | Some v \<Rightarrow> v)"

definition session_expired :: zadara_error where
  "session_expired = ZadaraError ''session_expired'' ''Your session with the cloud has expired, please sign in again.'' (Some 401)"

definition upstream_error :: "nat \<Rightarrow> zadara_error" where
  "upstream_error s = ZadaraError ''upstream_error'' (''Zadara returned status '' @ show_nat s) (Some s)"

definition authed_get :: "zadara_error + response \<Rightarrow> failure + json" where
  "authed_get reply =
     (case reply of Inl e \<Rightarrow> Inl (Zadara e) | Inr r \<Rightarrow>
        if resp_status r = 401 then Inl (Zadara session_expired)
        else if resp_status r = 403 then
          Inl (Zadara (ZadaraError ''forbidden'' ''You are not authorized to view this resource'' (Some 403)))
        else if \<not> resp_ok r then Inl (Zadara (upstream_error (resp_status r)))
        else Inr (body_of r))"

definition authed_post :: "zadara_error + response \<Rightarrow> failure + json" where
  "authed_post reply =
     (case reply of Inl e \<Rightarrow> Inl (Zadara e) | Inr r \<Rightarrow>
        if resp_status r = 401 then Inl (Zadara session_expired)
        else if resp_status r = 403 then
          Inl (Zadara (ZadaraError ''forbidden'' ''You are not authorized to perform this action'' (Some 403)))
        else if resp_status r = 404 then
          Inl (Zadara (ZadaraError ''not_found'' ''This virtual machine no longer exists'' (Some 404)))
        else if resp_status r = 409 then
          Inl (Zadara (ZadaraError ''conflict'' ''The machine is busy with another operation'' (Some 409)))
        else if \<not> resp_ok r then Inl (Zadara (upstream_error (resp_status r)))
        else Inr (body_of r))"

subsection \<open>The read-through cache\<close>

text \<open>A cached value with its expiry (\<open>None\<close>: never). Version counters are kept as integers.\<close>

type_synonym cache = "(string \<times> (json \<times> int option)) list"

text \<open>The value the setting \<open>ZADARA_RESPONSE_CACHE_TTL\<close> has where nothing sets it; the proofs use of it that it is positive.\<close>

definition RESPONSE_CACHE_TTL :: int where "RESPONSE_CACHE_TTL = 45"

definition cache_get :: "cache \<Rightarrow> int \<Rightarrow> string \<Rightarrow> json" where
  "cache_get c now k = (case map_of c k of
     None \<Rightarrow> JNull
   | Some (v, expiry) \<Rightarrow> (case expiry of None \<Rightarrow> v | Some e \<Rightarrow> if now < e then v else JNull))"

definition cache_set :: "string \<Rightarrow> json \<Rightarrow> int option \<Rightarrow> cache \<Rightarrow> cache" where
  "cache_set k v expiry c = AList.update k (v, expiry) c"

text \<open>\<open>digest\<close> stands for the first 16 hexadecimal digits of a SHA-256 digest.\<close>

definition version_key :: "string \<Rightarrow> string" where
  "version_key scope = ''zadara:ver:'' @ scope"

definition response_key :: "string \<Rightarrow> nat \<Rightarrow> string \<Rightarrow> string" where
  "response_key scope version path_digest =
     ''zadara:resp:'' @ scope @ '':'' @ show_nat version @ '':'' @ path_digest"

text \<open>\<open>cache.get(...) or 0\<close>; the counter is only ever set to integers.\<close>

definition scope_version :: "cache \<Rightarrow> int \<Rightarrow> string \<Rightarrow> nat" where
  "scope_version c now scope = (case cache_get c now (version_key scope) of JInt n \<Rightarrow> nat n | _ \<Rightarrow> 0)"

definition invalidate :: "(string \<Rightarrow> string) \<Rightarrow> string \<Rightarrow> int \<Rightarrow> cache \<Rightarrow> cache" where
  "invalidate digest token now c =
     (let scope = digest token in
      cache_set (version_key scope) (JInt (int (scope_version c now scope) + 1)) None c)"

text \<open>\<open>reply\<close> is what the request for this path with this token comes back with, if it is sent.\<close>

definition cached_get :: "(string \<Rightarrow> string) \<Rightarrow> string \<Rightarrow> string \<Rightarrow> zadara_error + response \<Rightarrow> int \<Rightarrow> cache
    \<Rightarrow> cache \<times> (failure + json)" where
  "cached_get digest path token reply now c =
     (let scope = digest token;
          key = response_key scope (scope_version c now scope) (digest path);
          hit = cache_get c now key in
      if hit \<noteq> JNull then (c, Inr hit)
      else (case authed_get reply of
          Inl e \<Rightarrow> (c, Inl e)
        | Inr v \<Rightarrow> (if v \<noteq> JNull then cache_set key v (Some (now + RESPONSE_CACHE_TTL)) c else c, Inr v)))"

subsection \<open>What the cache keeps\<close>

text \<open>A digest is hexadecimal, so it never contains the separator.\<close>

definition plain_digest :: "(string \<Rightarrow> string) \<Rightarrow> bool" where
  "plain_digest digest = (\<forall>x. CHR '':'' \<notin> set (digest x))"

lemma sep_unique:
  assumes "d \<notin> set a" "d \<notin> set b" "a @ d # t = b @ d # u"
  shows "a = b \<and> t = u"
proof -
  have "takeWhile (\<lambda>c. c \<noteq> d) (a @ d # t) = a" "takeWhile (\<lambda>c. c \<noteq> d) (b @ d # u) = b"
  proof -
    have "\<forall>x \<in> set a. x \<noteq> d" "\<forall>x \<in> set b. x \<noteq> d" using assms(1,2) by auto
    then show "takeWhile (\<lambda>c. c \<noteq> d) (a @ d # t) = a" "takeWhile (\<lambda>c. c \<noteq> d) (b @ d # u) = b"
      by (simp_all add: takeWhile_append2)
  qed
  then show ?thesis using assms(3) by auto
qed

lemma response_key_inject:
  assumes "CHR '':'' \<notin> set s" "CHR '':'' \<notin> set s'" "response_key s n p = response_key s' n' p'"
  shows "s = s' \<and> n = n' \<and> p = p'"
proof -
  have eq: "s @ CHR '':'' # (show_nat n @ CHR '':'' # p) = s' @ CHR '':'' # (show_nat n' @ CHR '':'' # p')"
    using assms(3) by (simp add: response_key_def)
  from sep_unique [OF assms(1,2) eq] have s: "s = s'" and rest: "show_nat n @ CHR '':'' # p = show_nat n' @ CHR '':'' # p'"
    by auto
  have "CHR '':'' \<notin> set (show_nat m)" for m using show_nat_digits [of m] by (auto simp: is_digit_def)
  from sep_unique [OF this this rest] show ?thesis using s by (simp add: show_nat_inject)
qed

lemma response_not_version [simp]: "response_key s n p \<noteq> version_key s'"
  by (simp add: response_key_def version_key_def)

lemma version_not_response [simp]: "version_key s' \<noteq> response_key s n p"
  using response_not_version by (rule not_sym)

lemma map_of_cache_set: "map_of (cache_set k v e c) = (map_of c)(k \<mapsto> (v, e))"
  by (simp add: cache_set_def map_of_update)

lemma version_key_inject: "version_key s = version_key s' \<longleftrightarrow> s = s'"
  by (simp add: version_key_def)

definition version :: "cache \<Rightarrow> string \<Rightarrow> nat" where
  "version c s = (case map_of c (version_key s) of Some (JInt n, _) \<Rightarrow> nat n | _ \<Rightarrow> 0)"

definition answered_entry :: "(string \<Rightarrow> string) \<Rightarrow> (string \<Rightarrow> string \<Rightarrow> json \<Rightarrow> bool) \<Rightarrow> cache \<Rightarrow> string \<Rightarrow> json \<Rightarrow> bool" where
  "answered_entry digest answers c k v = (\<exists>token path n. k = response_key (digest token) n (digest path) \<and>
     answers path token v \<and> n \<le> version c (digest token))"

definition version_entry :: "(string \<Rightarrow> string) \<Rightarrow> string \<Rightarrow> json \<times> int option \<Rightarrow> bool" where
  "version_entry digest k e = (\<exists>token n. k = version_key (digest token) \<and> e = (JInt (int n), None))"

definition cache_ok :: "(string \<Rightarrow> string) \<Rightarrow> (string \<Rightarrow> string \<Rightarrow> json \<Rightarrow> bool) \<Rightarrow> cache \<Rightarrow> bool" where
  "cache_ok digest answers c = (\<forall>k e. map_of c k = Some e \<longrightarrow>
     version_entry digest k e \<or> answered_entry digest answers c k (fst e))"

text \<open>
  The caches the program can reach: reads, writes that invalidate, and the passing of time, in any
  order, by any tokens. \<open>answers path token v\<close>: the cloud has answered \<open>v\<close> to this token for this path.
\<close>

inductive cache_run :: "(string \<Rightarrow> string) \<Rightarrow> (string \<Rightarrow> string \<Rightarrow> json \<Rightarrow> bool) \<Rightarrow> cache \<Rightarrow> bool"
  for digest answers where
  start: "cache_run digest answers []"
| read: "cache_run digest answers c \<Longrightarrow> (\<And>v. authed_get reply = Inr v \<Longrightarrow> answers path token v)
    \<Longrightarrow> cache_run digest answers (fst (cached_get digest path token reply now c))"
| invalidated: "cache_run digest answers c \<Longrightarrow> cache_run digest answers (invalidate digest token now c)"

lemma cache_okI:
  "(\<And>k v e. map_of c k = Some (v, e) \<Longrightarrow> version_entry digest k (v, e) \<or> answered_entry digest answers c k v)
   \<Longrightarrow> cache_ok digest answers c"
  by (simp add: cache_ok_def)

lemma cache_okD:
  "cache_ok digest answers c \<Longrightarrow> map_of c k = Some (v, e) \<Longrightarrow>
   version_entry digest k (v, e) \<or> answered_entry digest answers c k v"
  by (fastforce simp: cache_ok_def)

lemma no_answer_under_version: "\<not> answered_entry digest answers c (version_key s) v"
  by (simp add: answered_entry_def)

lemma no_version_under_answer: "\<not> version_entry digest (response_key s n p) e"
  by (simp add: version_entry_def)

lemma cache_ok_version:
  assumes "cache_ok digest answers c"
  shows "scope_version c now s = version c s"
proof (cases "map_of c (version_key s)")
  case None
  then show ?thesis by (simp add: scope_version_def version_def cache_get_def)
next
  case (Some ve)
  obtain v e where ve: "ve = (v, e)" by fastforce
  then have "version_entry digest (version_key s) (v, e)"
    using cache_okD [OF assms, of "version_key s" v e] Some no_answer_under_version by blast
  then show ?thesis using Some ve by (auto simp: version_entry_def scope_version_def version_def cache_get_def)
qed

lemma version_after_response:
  "version (cache_set (response_key s n p) v e c) s' = version c s'"
  by (simp add: version_def map_of_cache_set)

lemma invalidate_eq:
  assumes "cache_ok digest answers c"
  shows "invalidate digest token now c =
    cache_set (version_key (digest token)) (JInt (int (version c (digest token) + 1))) None c"
  by (simp add: invalidate_def Let_def cache_ok_version [OF assms] add.commute)

lemma version_after_invalidate:
  assumes "cache_ok digest answers c"
  shows "version (invalidate digest token now c) s = (if s = digest token then version c s + 1 else version c s)"
  unfolding invalidate_eq [OF assms] version_def [of "cache_set k v e c" for k v e]
  by (auto simp: map_of_cache_set version_key_inject nat_add_distrib version_def [of c s])

lemma answered_mono:
  assumes "answered_entry digest answers c k v" "\<And>s. version c s \<le> version c' s"
  shows "answered_entry digest answers c' k v"
  using assms order_trans unfolding answered_entry_def by blast

lemma cache_ok_read:
  assumes "cache_ok digest answers c" "\<And>v. authed_get reply = Inr v \<Longrightarrow> answers path token v"
  shows "cache_ok digest answers (fst (cached_get digest path token reply now c))"
proof (cases "\<exists>v. authed_get reply = Inr v \<and> v \<noteq> JNull")
  case False
  then show ?thesis using assms(1) by (auto simp: cached_get_def Let_def split: sum.splits)
next
  case True
  then obtain v where v: "authed_get reply = Inr v" "v \<noteq> JNull" by blast
  let ?n = "version c (digest token)" and ?e = "Some (now + RESPONSE_CACHE_TTL)"
  let ?k = "response_key (digest token) ?n (digest path)"
  let ?c = "cache_set ?k v ?e c"
  have new: "answered_entry digest answers ?c ?k v"
    using assms(2) [OF v(1)] by (auto simp: answered_entry_def version_after_response)
  have "cache_ok digest answers ?c"
  proof (rule cache_okI)
    fix k w e assume k: "map_of ?c k = Some (w, e)"
    show "version_entry digest k (w, e) \<or> answered_entry digest answers ?c k w"
    proof (cases "k = ?k")
      case True
      then show ?thesis using k new by (simp add: map_of_cache_set)
    next
      case False
      then have "version_entry digest k (w, e) \<or> answered_entry digest answers c k w"
        using k cache_okD [OF assms(1)] by (simp add: map_of_cache_set)
      then show ?thesis using answered_mono [of digest answers c k w ?c] by (auto simp: version_after_response)
    qed
  qed
  then show ?thesis using assms(1) v by (simp add: cached_get_def Let_def cache_ok_version [OF assms(1)])
qed

lemma cache_ok_write:
  assumes "cache_ok digest answers c"
  shows "cache_ok digest answers (invalidate digest token now c)"
proof (rule cache_okI)
  let ?c = "invalidate digest token now c"
  fix k w e assume k: "map_of ?c k = Some (w, e)"
  show "version_entry digest k (w, e) \<or> answered_entry digest answers ?c k w"
  proof (cases "k = version_key (digest token)")
    case True
    then have "(w, e) = (JInt (int (version c (digest token) + 1)), None)"
      using k by (simp add: invalidate_eq [OF assms] map_of_cache_set)
    then show ?thesis using True unfolding version_entry_def by blast
  next
    case False
    then have "version_entry digest k (w, e) \<or> answered_entry digest answers c k w"
      using k cache_okD [OF assms] by (simp add: invalidate_eq [OF assms] map_of_cache_set)
    moreover have "version c s \<le> version ?c s" for s by (simp add: version_after_invalidate [OF assms])
    ultimately show ?thesis using answered_mono [of digest answers c k w ?c] by blast
  qed
qed

lemma cache_run_ok: "cache_run digest answers c \<Longrightarrow> cache_ok digest answers c"
proof (induction rule: cache_run.induct)
  case start
  then show ?case by (simp add: cache_ok_def)
qed (auto intro: cache_ok_read cache_ok_write)

text \<open>C4. The shared cache keeps tenants apart: what a read returns is an answer the cloud gave to this
  very token for this very path, never another tenant's list, as long as no two tokens or paths in
  use share a digest.\<close>

theorem cache_isolated:
  assumes "cache_run digest answers c" "plain_digest digest"
    "\<And>path' token' v. answers path' token' v \<Longrightarrow> digest path' = digest path \<Longrightarrow> digest token' = digest token
       \<Longrightarrow> path' = path \<and> token' = token"
    "snd (cached_get digest path token reply now c) = Inr v"
  shows "answers path token v \<or> authed_get reply = Inr v"
proof (cases "authed_get reply = Inr v")
  case False
  let ?k = "response_key (digest token) (version c (digest token)) (digest path)"
  have ok: "cache_ok digest answers c" using assms(1) by (rule cache_run_ok)
  have hit: "cache_get c now ?k = v" "v \<noteq> JNull"
    using assms(4) False
    by (auto simp: cached_get_def Let_def cache_ok_version [OF ok] split: if_splits sum.splits)
  then obtain e where e: "map_of c ?k = Some (v, e)"
    by (auto simp: cache_get_def split: option.splits if_splits)
  then have "answered_entry digest answers c ?k v"
    using cache_okD [OF ok] no_version_under_answer by blast
  then obtain token' path' n where k: "?k = response_key (digest token') n (digest path')" "answers path' token' v"
    by (auto simp: answered_entry_def)
  have "digest token' = digest token \<and> digest path' = digest path"
    using response_key_inject [OF _ _ k(1)] assms(2) by (auto simp: plain_digest_def)
  then show ?thesis using assms(3) k(2) by blast
qed simp

text \<open>After a write the writer never reads an older list: the next read of any path with the same
  token goes to the cloud, whatever was cached before.\<close>

theorem write_invalidates:
  assumes "cache_run digest answers c" "plain_digest digest"
  shows "snd (cached_get digest path token reply now' (invalidate digest token now c)) = authed_get reply"
proof -
  let ?c = "invalidate digest token now c" and ?n = "version c (digest token) + 1"
  have ok: "cache_ok digest answers c" using assms(1) by (rule cache_run_ok)
  then have ok': "cache_ok digest answers ?c" by (rule cache_ok_write)
  have v: "version ?c (digest token) = ?n" by (simp add: version_after_invalidate [OF ok])
  have "map_of ?c (response_key (digest token) ?n (digest path)) = None"
  proof (rule ccontr)
    assume "map_of ?c (response_key (digest token) ?n (digest path)) \<noteq> None"
    then obtain w e where "map_of c (response_key (digest token) ?n (digest path)) = Some (w, e)"
      by (auto simp: invalidate_eq [OF ok] map_of_cache_set)
    then have "answered_entry digest answers c (response_key (digest token) ?n (digest path)) w"
      using cache_okD [OF ok] no_version_under_answer by blast
    then obtain token' path' n where
      "response_key (digest token) ?n (digest path) = response_key (digest token') n (digest path')"
      "n \<le> version c (digest token')" by (auto simp: answered_entry_def)
    moreover have "digest token = digest token' \<and> ?n = n \<and> digest path = digest path'"
      by (rule response_key_inject [OF _ _ calculation(1)]) (use assms(2) in \<open>simp_all add: plain_digest_def\<close>)
    ultimately have "?n \<le> version c (digest token)" by metis
    then show False by simp
  qed
  then have "cache_get ?c now' (response_key (digest token) (scope_version ?c now' (digest token)) (digest path)) = JNull"
    by (simp add: cache_get_def cache_ok_version [OF ok'] v)
  then show ?thesis by (auto simp: cached_get_def Let_def split: sum.split)
qed

subsection \<open>A cache to evaluate on\<close>

definition sample_digest :: "string \<Rightarrow> string" where
  "sample_digest x = filter (\<lambda>c. c \<noteq> CHR '':'') x"

definition sample_answers :: "string \<Rightarrow> string \<Rightarrow> json \<Rightarrow> bool" where
  "sample_answers path token v = (path = ''vms'' \<and> token = ''t1'' \<and> v = JStr ''mine'')"

definition mine :: "zadara_error + response" where
  "mine = Inr \<lparr>resp_status = 200, resp_headers = [], resp_json = Some (JStr ''mine'')\<rparr>"

abbreviation warm :: cache where
  "warm \<equiv> fst (cached_get sample_digest ''vms'' ''t1'' mine 0 [])"

lemma mine_answer: "authed_get mine = Inr (JStr ''mine'')"
  by (simp add: authed_get_def mine_def resp_ok_def body_of_def)

lemma warm_run: "cache_run sample_digest sample_answers warm"
  by (intro cache_run.read cache_run.start) (simp add: mine_answer sample_answers_def)

lemma plain_sample_digest: "plain_digest sample_digest"
  by (simp add: plain_digest_def sample_digest_def)

lemma warm_hit: "snd (cached_get sample_digest ''vms'' ''t1'' (Inl (ZadaraError ''timeout'' [] None)) 30 warm) = Inr (JStr ''mine'')"
  by code_simp

lemma cache_isolated_witness:
  "sample_answers ''vms'' ''t1'' (JStr ''mine'') \<or>
   authed_get (Inl (ZadaraError ''timeout'' [] None)) = Inr (JStr ''mine'')"
  by (rule cache_isolated [OF warm_run plain_sample_digest _ warm_hit]) (simp add: sample_answers_def)

lemma write_invalidates_witness:
  "snd (cached_get sample_digest ''vms'' ''t1'' (Inl (ZadaraError ''timeout'' [] None)) 30
      (invalidate sample_digest ''t1'' 20 warm)) = Inl (Zadara (ZadaraError ''timeout'' [] None))"
  using write_invalidates [OF warm_run plain_sample_digest, of "''vms''" "''t1''" "Inl (ZadaraError ''timeout'' [] None)" 30 20]
  by (simp add: authed_get_def)

end
