(* ===== verification/Resources.thy ===== *)
theory Resources
  imports Cloud
begin

text \<open>
  \<open>integrations/zadara/resources.py\<close>: the cloud's objects as the cabinet uses them. A read takes
  \<open>get\<close>, what \<open>_cached_get\<close> gives for each path with the caller's token (see \<open>Cloud\<close>), and
  answers the normalised list or the failure. Normalised objects the program computes with are
  records; those it only passes on are objects with the keys the code gives them. A normaliser is
  \<open>None\<close> where the code would raise on data of an unexpected shape.
\<close>

named_theorems resource_simps \<open>normalisers\<close>

subsection \<open>Shapes\<close>

text \<open>\<open>for x in v\<close>; \<open>None\<close> is a \<open>TypeError\<close>.\<close>

definition iterate :: "json \<Rightarrow> json list option" where
  "iterate v = (case v of
     JList xs \<Rightarrow> Some xs
   | JStr s \<Rightarrow> Some (map (\<lambda>c. JStr [c]) s)
   | JObj kvs \<Rightarrow> Some (map (\<lambda>(k, _). JStr k) kvs)
   | _ \<Rightarrow> None)"

text \<open>\<open>(data or {}).get(key, default)\<close> of an answer that is not a list.\<close>

definition get_of :: "json \<Rightarrow> string \<Rightarrow> json \<Rightarrow> json option" where
  "get_of data key dflt =
     (if \<not> truthy data then Some dflt
      else (case data of JObj o' \<Rightarrow> Some (case map_of o' key of None \<Rightarrow> dflt | Some v \<Rightarrow> v) | _ \<Rightarrow> None))"

definition plain_items :: "json \<Rightarrow> string \<Rightarrow> json list option" where
  "plain_items data key = (case data of JList xs \<Rightarrow> Some xs
     | _ \<Rightarrow> Option.bind (get_of data key (JList [])) iterate)"

definition items :: "json \<Rightarrow> string \<Rightarrow> json list option" where
  "items data key = (case data of JList xs \<Rightarrow> Some xs
     | _ \<Rightarrow> Option.bind (get_of data key (JList [])) (\<lambda>v. iterate (jor v (JList []))))"

text \<open>A list read of normalised objects, skipping what is not an object.\<close>

definition list_of :: "(object \<Rightarrow> 'a option) \<Rightarrow> string \<Rightarrow> json \<Rightarrow> failure + 'a list" where
  "list_of normalise key data =
     from_option (Option.bind (items data key) (\<lambda>xs. mapM normalise (objects xs)))"

definition opt_json :: "string option \<Rightarrow> json" where
  "opt_json v = (case v of None \<Rightarrow> JNull | Some s \<Rightarrow> JStr s)"

text \<open>The field forms the normalisers are made of.\<close>

definition f_str :: "object \<Rightarrow> string \<Rightarrow> json" where "f_str raw k = JStr (str_field raw k [])"
definition f_opt :: "object \<Rightarrow> string \<Rightarrow> json" where "f_opt raw k = opt_json (opt_str_field raw k)"
definition f_or :: "object \<Rightarrow> string \<Rightarrow> string \<Rightarrow> json" where "f_or raw k d = jor (jget raw k) (JStr d)"
definition f_or_none :: "object \<Rightarrow> string \<Rightarrow> json" where "f_or_none raw k = jor (jget raw k) JNull"
definition f_bool :: "object \<Rightarrow> string \<Rightarrow> json" where "f_bool raw k = JBool (truthy (jget raw k))"

subsection \<open>Paths\<close>

definition VMS_PATH :: string where "VMS_PATH = ''/api/v2/vms''"
definition ELASTIC_IPS_PATH :: string where "ELASTIC_IPS_PATH = ''/api/v2/vpcs/elastic-ips''"
definition VOLUMES_PATH :: string where "VOLUMES_PATH = ''/api/v3/volumes''"
definition VOLUME_SNAPSHOTS_PATH :: string where "VOLUME_SNAPSHOTS_PATH = ''/api/v4/snapshots''"
definition VM_SNAPSHOTS_PATH :: string where "VM_SNAPSHOTS_PATH = ''/api/v2/compute/vm-snapshots''"
definition VPCS_PATH :: string where "VPCS_PATH = ''/api/v2/vpcs''"
definition SUBNETS_PATH :: string where "SUBNETS_PATH = ''/api/v2/vpcs/networks''"
definition SECURITY_GROUPS_PATH :: string where "SECURITY_GROUPS_PATH = ''/api/v2/vpcs/security-groups''"
definition INTERNET_GATEWAYS_PATH :: string where "INTERNET_GATEWAYS_PATH = ''/api/v2/vpcs/internet-gateways''"
definition NAT_GATEWAYS_PATH :: string where "NAT_GATEWAYS_PATH = ''/api/v2/vpcs/nat-gateways''"
definition SG_RULES_PATH :: string where "SG_RULES_PATH = ''/api/openstack/networking/v2.0/security-group-rules''"
definition ALARMS_PATH :: string where "ALARMS_PATH = ''/api/v2/alarm/alarms''"
definition VOLUME_TYPES_PATH :: string where "VOLUME_TYPES_PATH = ''/api/v4/volumes/volume-types''"

type_synonym reads = "string \<Rightarrow> failure + json"

subsection \<open>Volume types and media\<close>

record volume_type =
  vt_id :: string
  vt_name :: json
  vt_description :: json
  vt_alias :: json
  vt_storage_class :: string
  vt_available :: bool
  vt_media :: string

definition SSD_HINTS :: "string list" where
  "SSD_HINTS = [''ssd'', ''flash'', ''nvme'', ''general purpose'', ''general-purpose'']"

definition HDD_HINTS :: "string list" where
  "HDD_HINTS = [''hdd'', ''hard drive'', ''hard-drive'', ''spinning'', ''sata'']"

definition media_from_text :: "string \<Rightarrow> string" where
  "media_from_text text =
     (let lowered = lower text;
          ssd = list_ex (contains lowered) SSD_HINTS;
          hdd = list_ex (contains lowered) HDD_HINTS
      in if ssd \<and> \<not> hdd then ''SSD'' else if hdd \<and> \<not> ssd then ''HDD'' else [])"

definition volume_type_of :: "object \<Rightarrow> volume_type" where
  "volume_type_of e =
     (let nm = jor (jget e ''name'') (JStr []); ds = jor (jget e ''description'') (JStr [])
      in \<lparr>vt_id = py_str_of (jget e ''id''), vt_name = nm, vt_description = ds,
          vt_alias = jor (jget e ''alias'') (JStr []), vt_storage_class = str_field e ''storage_class_id'' [],
          vt_available = truthy (jget e ''is_available''),
          vt_media = media_from_text (py_str_of nm @ '' '' @ py_str_of ds)\<rparr>)"

text \<open>The media found in a storage class, each once.\<close>

definition class_media :: "volume_type list \<Rightarrow> string \<Rightarrow> string list" where
  "class_media ts cls = remdups (map vt_media (filter (\<lambda>t. vt_media t \<noteq> [] \<and> vt_storage_class t \<noteq> [] \<and> vt_storage_class t = cls) ts))"

definition inherit_media :: "volume_type list \<Rightarrow> volume_type \<Rightarrow> volume_type" where
  "inherit_media ts t =
     (if vt_media t \<noteq> [] then t
      else (case class_media ts (vt_storage_class t) of [m] \<Rightarrow> t\<lparr>vt_media := m\<rparr> | _ \<Rightarrow> t))"

definition classify_volume_types :: "json list \<Rightarrow> (string \<times> volume_type) list" where
  "classify_volume_types raw =
     (let named = fold (\<lambda>e d. if truthy (jget e ''id'') then AList.update (py_str_of (jget e ''id'')) (volume_type_of e) d else d)
                    (objects raw) []
      in map (\<lambda>(k, t). (k, inherit_media (map snd named) t)) named)"

text \<open>The type index is cached for fifteen minutes; here \<open>get\<close> is the authorised read behind it.\<close>

definition volume_type_index :: "reads \<Rightarrow> failure + (string \<times> volume_type) list" where
  "volume_type_index get =
     sum_bind (get VOLUME_TYPES_PATH) (\<lambda>data. from_option (map_option classify_volume_types (iterate (jor data (JList [])))))"

text \<open>Only a \<open>ZadaraError\<close> is turned into an empty index.\<close>

definition safe_volume_type_index :: "reads \<Rightarrow> failure + (string \<times> volume_type) list" where
  "safe_volume_type_index get = (case volume_type_index get of Inl (Zadara e) \<Rightarrow> Inr [] | r \<Rightarrow> r)"

subsection \<open>Volumes\<close>

record volume =
  vol_id :: string
  vol_name :: json
  vol_sizeGiB :: int
  vol_state :: json
  vol_health :: json
  vol_attachmentStatus :: json
  vol_attachedToId :: "string option"
  vol_guestDevice :: json
  vol_accessMode :: json
  vol_volumeTypeId :: "string option"
  vol_volumeType :: json
  vol_media :: string
  vol_createdAt :: json
  vol_projectId :: "string option"
  vol_canUpdate :: bool
  vol_canDelete :: bool

fun first_instance :: "json list \<Rightarrow> string option" where
  "first_instance [] = None"
| "first_instance (JObj h # hs) =
     (if truthy (jget h ''instance_id'') then Some (py_str_of (jget h ''instance_id'')) else first_instance hs)"
| "first_instance (_ # hs) = first_instance hs"

definition attached_instance :: "object \<Rightarrow> string option option" where
  "attached_instance raw = (case jget raw ''attachment'' of
     JObj a \<Rightarrow> map_option first_instance (iterate (jor (jget a ''hosts'') (JList [])))
   | _ \<Rightarrow> Some None)"

definition normalize_volume :: "object \<Rightarrow> volume option" where
  "normalize_volume raw =
     (let permissions = as_object (jget raw ''permissions'') in
      case (int_field raw ''size_gib'', attached_instance raw) of
        (Some gib, Some host) \<Rightarrow>
          Some \<lparr>vol_id = str_field raw ''id'' [], vol_name = f_or raw ''name'' [], vol_sizeGiB = gib,
            vol_state = f_or raw ''state'' ''unknown'', vol_health = f_or raw ''health'' ''unknown'',
            vol_attachmentStatus = f_or raw ''attachment_status'' ''available'', vol_attachedToId = host,
            vol_guestDevice = jget raw ''guest_device_name'', vol_accessMode = jget raw ''access_mode'',
            vol_volumeTypeId = opt_str_field raw ''storage_pool'', vol_volumeType = JStr [], vol_media = [],
            vol_createdAt = jget raw ''created_at'', vol_projectId = opt_str_field raw ''project_id'',
            vol_canUpdate = truthy (jget permissions ''update''), vol_canDelete = truthy (jget permissions ''delete'')\<rparr>
      | _ \<Rightarrow> None)"

definition label_volume_media :: "(string \<times> volume_type) list \<Rightarrow> volume \<Rightarrow> volume" where
  "label_volume_media types v =
     (case map_of types (case vol_volumeTypeId v of None \<Rightarrow> [] | Some i \<Rightarrow> i) of
        None \<Rightarrow> v\<lparr>vol_volumeType := JStr [], vol_media := []\<rparr>
      | Some t \<Rightarrow> v\<lparr>vol_volumeType := vt_name t, vol_media := vt_media t\<rparr>)"

definition list_volumes :: "reads \<Rightarrow> bool \<Rightarrow> failure + volume list" where
  "list_volumes get label_media =
     sum_bind (get VOLUMES_PATH) (\<lambda>data.
     sum_bind (list_of normalize_volume ''volumes'' data) (\<lambda>vs.
       if label_media
       then sum_bind (safe_volume_type_index get) (\<lambda>types. Inr (map (label_volume_media types) vs))
       else Inr vs))"

record media_row =
  row_media :: string
  row_volumes :: nat
  row_totalGiB :: int

definition media_buckets :: "volume list \<Rightarrow> (string \<times> nat \<times> int) list" where
  "media_buckets vs = fold (\<lambda>v. dict_alter (0, 0) (\<lambda>(n, g). (n + 1, g + vol_sizeGiB v)) (vol_media v)) vs []"

definition media_order :: "media_row \<Rightarrow> bool \<times> int" where
  "media_order r = (row_media r = [], - row_totalGiB r)"

definition media_totals :: "volume list \<Rightarrow> media_row list" where
  "media_totals vs = sort_key media_order
     (map (\<lambda>(m, n, g). \<lparr>row_media = m, row_volumes = n, row_totalGiB = g\<rparr>) (media_buckets vs))"

subsection \<open>Machines\<close>

record vm =
  vm_id :: string
  vm_name :: string
  vm_status :: string
  vm_vcpus :: int
  vm_ramMB :: int
  vm_diskGB :: int
  vm_instanceType :: string
  vm_imageId :: "string option"
  vm_createdAt :: json
  vm_keyPair :: json
  vm_vpcId :: "string option"
  vm_availabilityZone :: json
  vm_privateIps :: "json list"
  vm_tags :: "string list"
  vm_projectId :: "string option"

text \<open>A machine with its addresses and, when asked for, its disks.\<close>

record joined_vm = vm +
  vm_publicIps :: "json list"
  vm_diskGiB :: "int option"
  vm_diskVolumes :: nat
  vm_diskMedia :: "media_row list"

fun private_ips :: "json list \<Rightarrow> json list option" where
  "private_ips [] = Some []"
| "private_ips (JObj n # ns) =
     map_option (\<lambda>rest. if truthy (jget n ''address'') then jget n ''address'' # rest else rest) (private_ips ns)"
| "private_ips (_ # ns) = None"

definition normalize_vm :: "object \<Rightarrow> vm option" where
  "normalize_vm raw =
     (case (int_field raw ''vcpus'', int_field raw ''ramMB'', int_field raw ''diskGB'',
            private_ips (as_list (jget raw ''networks''))) of
        (Some cpus, Some ram, Some disk, Some ips) \<Rightarrow>
          Some \<lparr>vm_id = str_field raw ''id'' [], vm_name = str_field raw ''name'' [],
            vm_status = str_field raw ''status'' ''unknown'', vm_vcpus = cpus, vm_ramMB = ram, vm_diskGB = disk,
            vm_instanceType = str_field raw ''instanceType'' [], vm_imageId = opt_str_field raw ''imageId'',
            vm_createdAt = jor (jget raw ''created'') (jget raw ''launched_at''), vm_keyPair = jget raw ''key_pair'',
            vm_vpcId = opt_str_field raw ''vpc_id'', vm_availabilityZone = jget raw ''availability_zone'',
            vm_privateIps = ips, vm_tags = map py_str_of (as_list (jget raw ''tags'')),
            vm_projectId = opt_str_field raw ''project_id''\<rparr>
      | _ \<Rightarrow> None)"

record elastic_ip =
  eip_id :: string
  eip_publicIp :: json
  eip_publicDnsName :: "string option"
  eip_privateIp :: json
  eip_instanceId :: "string option"
  eip_networkInterfaceId :: json
  eip_projectId :: "string option"

definition rstrip_dots :: "string \<Rightarrow> string" where
  "rstrip_dots s = rev (dropWhile (\<lambda>c. c = CHR ''.'') (rev s))"

definition normalize_eip :: "object \<Rightarrow> elastic_ip option" where
  "normalize_eip e =
     (case jor (jget e ''public_dns_name'') (JStr []) of
        JStr nm \<Rightarrow>
          Some \<lparr>eip_id = str_field e ''id'' [], eip_publicIp = jget e ''public_ip'',
            eip_publicDnsName = (if rstrip_dots nm = [] then None else Some (rstrip_dots nm)),
            eip_privateIp = jget e ''private_ip_address'', eip_instanceId = opt_str_field e ''instance_id'',
            eip_networkInterfaceId = jget e ''network_interface_id'', eip_projectId = opt_str_field e ''project_id''\<rparr>
      | _ \<Rightarrow> None)"

definition list_elastic_ips :: "reads \<Rightarrow> failure + elastic_ip list" where
  "list_elastic_ips get =
     sum_bind (get ELASTIC_IPS_PATH) (\<lambda>data.
       from_option (Option.bind (plain_items data ''elastic_ips'') (\<lambda>xs. mapM normalize_eip (objects xs))))"

text \<open>Instance to public addresses; a \<open>ZadaraError\<close> costs the addresses only.\<close>

definition addresses_of :: "elastic_ip list \<Rightarrow> (string \<times> json list) list" where
  "addresses_of eips =
     fold (\<lambda>e. dict_alter [] (\<lambda>xs. xs @ [eip_publicIp e]) (the (eip_instanceId e)))
       (filter (\<lambda>e. eip_instanceId e \<noteq> None \<and> eip_instanceId e \<noteq> Some [] \<and> truthy (eip_publicIp e)) eips) []"

definition public_ips_by_instance :: "reads \<Rightarrow> failure + (string \<times> json list) list" where
  "public_ips_by_instance get = (case list_elastic_ips get of
     Inr eips \<Rightarrow> Inr (addresses_of eips) | Inl (Zadara e) \<Rightarrow> Inr [] | Inl Crash \<Rightarrow> Inl Crash)"

definition safe_volumes :: "reads \<Rightarrow> failure + volume list option" where
  "safe_volumes get = (case list_volumes get True of
     Inr vs \<Rightarrow> Inr (Some vs) | Inl (Zadara e) \<Rightarrow> Inr None | Inl Crash \<Rightarrow> Inl Crash)"

definition attached_to :: "string \<Rightarrow> volume list \<Rightarrow> volume list" where
  "attached_to i vs =
     (case map_of (group_by (\<lambda>v. the (vol_attachedToId v))
                     (filter (\<lambda>v. vol_attachedToId v \<noteq> None \<and> vol_attachedToId v \<noteq> Some []) vs)) i of
        None \<Rightarrow> [] | Some xs \<Rightarrow> xs)"

definition summarise_vm_disks :: "volume list option \<Rightarrow> joined_vm \<Rightarrow> joined_vm" where
  "summarise_vm_disks volumes v =
     (let attached = attached_to (vm_id v) (case volumes of None \<Rightarrow> [] | Some vs \<Rightarrow> vs) in
      v\<lparr>vm_diskGiB := (case volumes of None \<Rightarrow> None | Some _ \<Rightarrow> Some (\<Sum>a\<leftarrow>attached. vol_sizeGiB a)),
        vm_diskVolumes := length attached, vm_diskMedia := media_totals attached\<rparr>)"

definition with_addresses :: "(string \<times> json list) list \<Rightarrow> vm \<Rightarrow> joined_vm" where
  "with_addresses public v =
     vm.extend v (joined_vm.fields (case map_of public (vm_id v) of None \<Rightarrow> [] | Some ips \<Rightarrow> ips) None 0 [])"

text \<open>
  The three reads of \<open>gather\<close>: only a failed machine list fails the whole; any failure of the
  other two leaves an empty value.
\<close>

definition ok_or :: "'a \<Rightarrow> failure + 'a \<Rightarrow> 'a" where
  "ok_or dflt r = (case r of Inl _ \<Rightarrow> dflt | Inr x \<Rightarrow> x)"

fun all_objects :: "json list \<Rightarrow> object list option" where
  "all_objects [] = Some []"
| "all_objects (JObj o' # xs) = map_option ((#) o') (all_objects xs)"
| "all_objects (_ # xs) = None"

definition list_vms :: "reads \<Rightarrow> bool \<Rightarrow> failure + joined_vm list" where
  "list_vms get with_disks =
     sum_bind (get VMS_PATH) (\<lambda>data.
     sum_bind (from_option (Option.bind (plain_items data ''vms'')
         (\<lambda>xs. Option.bind (all_objects xs) (mapM normalize_vm)))) (\<lambda>vms.
       let joined = map (with_addresses (ok_or [] (public_ips_by_instance get))) vms
       in Inr (if with_disks then map (summarise_vm_disks (ok_or None (safe_volumes get))) joined else joined)))"

subsection \<open>Snapshots\<close>

record volume_snapshot =
  vs_id :: string
  vs_name :: json
  vs_description :: json
  vs_sizeGiB :: int
  vs_state :: json
  vs_health :: json
  vs_sourceVolumeId :: "string option"
  vs_protectionGroupId :: json
  vs_createdAt :: json
  vs_projectId :: "string option"

definition normalize_volume_snapshot :: "object \<Rightarrow> volume_snapshot option" where
  "normalize_volume_snapshot s =
     map_option (\<lambda>gib.
       \<lparr>vs_id = str_field s ''id'' [], vs_name = f_or s ''name'' [], vs_description = f_or_none s ''description'',
        vs_sizeGiB = gib, vs_state = f_or s ''state'' ''unknown'', vs_health = f_or s ''health'' ''unknown'',
        vs_sourceVolumeId = opt_str_field s ''source_volume_id'', vs_protectionGroupId = jget s ''protection_group_id'',
        vs_createdAt = jget s ''created_at'', vs_projectId = opt_str_field s ''project_id''\<rparr>)
     (int_field s ''size_gib'')"

definition list_volume_snapshots :: "reads \<Rightarrow> failure + volume_snapshot list" where
  "list_volume_snapshots get =
     sum_bind (get VOLUME_SNAPSHOTS_PATH) (list_of normalize_volume_snapshot ''snapshots'')"

definition normalize_vm_snapshot :: "object \<Rightarrow> object option" where
  "normalize_vm_snapshot s =
     map_option (\<lambda>n.
       [(''id'', f_str s ''id''), (''name'', f_or s ''name'' []), (''description'', f_or_none s ''description''),
        (''status'', f_or s ''status'' ''unknown''), (''progress'', jget s ''progress''), (''volumes'', JInt n),
        (''sourceVmId'', f_opt s ''source_vm_id''), (''sourceVmName'', f_or s ''source_vm_name'' []),
        (''incremental'', f_bool s ''enable_incremental_backup''), (''protectionGroup'', jget s ''protection_group_name''),
        (''createdAt'', jget s ''created_at''), (''projectId'', f_opt s ''project_id'')])
     (int_field s ''number_of_volumes'')"

definition list_vm_snapshots :: "reads \<Rightarrow> failure + object list" where
  "list_vm_snapshots get = sum_bind (get VM_SNAPSHOTS_PATH) (list_of normalize_vm_snapshot ''vm_snapshots'')"

subsection \<open>Networks\<close>

definition normalize_vpc :: "object \<Rightarrow> object" where
  "normalize_vpc v =
     [(''id'', f_str v ''id''), (''name'', f_or v ''name'' []), (''cidrBlock'', jget v ''cidr_block''),
      (''state'', f_or v ''state'' ''unknown''), (''isDefault'', f_bool v ''is_default''),
      (''projectId'', f_opt v ''project_id'')]"

definition list_vpcs :: "reads \<Rightarrow> failure + object list" where
  "list_vpcs get = sum_bind (get VPCS_PATH) (list_of (\<lambda>v. Some (normalize_vpc v)) ''vpcs'')"

definition normalize_alarm :: "object \<Rightarrow> object option" where
  "normalize_alarm a =
     (case jor (jget a ''state'') (JStr []) of
        JStr st \<Rightarrow> Some
          [(''id'', f_str a ''id''), (''type'', f_or a ''type_name'' []), (''state'', JStr (lower st)),
           (''entityType'', f_or a ''entity_type'' []), (''entityId'', f_or a ''entity_id'' []),
           (''createdAt'', jget a ''created_at''), (''projectId'', f_opt a ''project_id'')]
      | _ \<Rightarrow> None)"

definition list_alarms :: "reads \<Rightarrow> failure + object list" where
  "list_alarms get = sum_bind (get ALARMS_PATH) (list_of normalize_alarm ''alarms'')"

definition normalize_subnet :: "object \<Rightarrow> object option" where
  "normalize_subnet n =
     (case (int_field n ''total_ip_address_count'', int_field n ''available_ip_address_count'') of
        (Some tot, Some free) \<Rightarrow> Some
          [(''id'', f_str n ''id''), (''name'', f_or n ''name'' []), (''cidrBlock'', jget n ''cidr_block''),
           (''vpcId'', f_opt n ''vpc_id''), (''state'', f_or n ''state'' ''unknown''),
           (''isDefault'', f_bool n ''is_default''), (''isDirect'', f_bool n ''is_direct_network''),
           (''networkType'', jget n ''network_type''), (''mtu'', jget n ''mtu''), (''totalIps'', JInt tot),
           (''availableIps'', JInt free), (''projectId'', f_opt n ''project_id'')]
      | _ \<Rightarrow> None)"

definition list_subnets :: "reads \<Rightarrow> failure + object list" where
  "list_subnets get = sum_bind (get SUBNETS_PATH) (list_of normalize_subnet ''networks'')"

fun vpc_ids :: "object list \<Rightarrow> json list" where
  "vpc_ids [] = []"
| "vpc_ids (a # rest) = (if truthy (jget a ''vpc_id'') then JStr (py_str_of (jget a ''vpc_id'')) # vpc_ids rest else vpc_ids rest)"

definition normalize_internet_gateway :: "object \<Rightarrow> object option" where
  "normalize_internet_gateway g =
     map_option (\<lambda>xs. let attachments = objects xs in
       [(''id'', f_str g ''id''), (''name'', f_or g ''name'' []), (''vpcIds'', JList (vpc_ids attachments)),
        (''state'', (case attachments of [] \<Rightarrow> JStr ''detached'' | a # _ \<Rightarrow> jget a ''state'')),
        (''projectId'', f_opt g ''project_id'')])
     (iterate (jor (jget g ''attachment_set'') (JList [])))"

definition list_internet_gateways :: "reads \<Rightarrow> failure + object list" where
  "list_internet_gateways get =
     sum_bind (get INTERNET_GATEWAYS_PATH) (list_of normalize_internet_gateway ''internet_gateways'')"

definition normalize_nat_gateway :: "object \<Rightarrow> object" where
  "normalize_nat_gateway g =
     [(''id'', f_str g ''id''), (''name'', f_or g ''name'' []), (''publicIp'', jget g ''public_ip''),
      (''privateIp'', jget g ''private_ip''), (''state'', f_or g ''state'' ''unknown''), (''vpcId'', f_opt g ''vpc_id''),
      (''failure'', jget g ''failure_message''), (''createdAt'', jget g ''created_at''),
      (''projectId'', f_opt g ''project_id'')]"

definition list_nat_gateways :: "reads \<Rightarrow> failure + object list" where
  "list_nat_gateways get = sum_bind (get NAT_GATEWAYS_PATH) (\<lambda>data.
     from_option (map_option
       (\<lambda>xs. map normalize_nat_gateway (filter (\<lambda>g. \<not> truthy (jget g ''deleted_at'')) (objects xs)))
       (items data ''nat_gateways'')))"

subsection \<open>Security groups and rules\<close>

text \<open>\<open>a == b\<close> of decoded numbers, texts and nulls.\<close>

definition numeric :: "json \<Rightarrow> rat option" where
  "numeric v = (case v of JBool b \<Rightarrow> Some (if b then 1 else 0) | JInt i \<Rightarrow> Some (of_int i) | JNum r \<Rightarrow> Some r | _ \<Rightarrow> None)"

definition py_eq :: "json \<Rightarrow> json \<Rightarrow> bool" where
  "py_eq a b = (case (numeric a, numeric b) of (Some x, Some y) \<Rightarrow> x = y | (None, None) \<Rightarrow> a = b | _ \<Rightarrow> False)"

definition dot :: string where
  "dot = [CHR '' '', CHR 0xC2, CHR 0xB7, CHR '' '']"

fun rule_sources :: "object list \<Rightarrow> string list option" where
  "rule_sources [] = Some []"
| "rule_sources (r # rs) =
     (if \<not> truthy (jget r ''cidr_ip'') then rule_sources rs
      else (case jget r ''cidr_ip'' of JStr c \<Rightarrow> map_option ((#) c) (rule_sources rs) | _ \<Rightarrow> None))"

definition rule_ports :: "json \<Rightarrow> json \<Rightarrow> string" where
  "rule_ports start final =
     (if (start = JNull \<or> py_eq start (JInt 0)) \<and> (final = JNull \<or> py_eq final (JInt 0) \<or> py_eq final (JInt 65535))
      then ''all ports''
      else if py_eq start final \<or> final = JNull then py_str_of start
      else py_str_of start @ ''-'' @ py_str_of final)"

definition describe_rule :: "object \<Rightarrow> string option" where
  "describe_rule rule =
     (let p = str_field rule ''ip_protocol'' ''any''; protocol = (if p = ''-1'' then ''any'' else p);
          ports = rule_ports (jget rule ''from_port'') (jget rule ''to_port'')
      in case (Option.bind (iterate (jor (jget rule ''ip_ranges'') (JList []))) (\<lambda>xs. rule_sources (objects xs)),
               iterate (jor (jget rule ''groups'') (JList []))) of
           (Some cidrs, Some gs) \<Rightarrow>
             let sources = cidrs @ map (\<lambda>_. ''group'') (objects gs)
             in Some (protocol @ '' '' @ ports @ dot @ (if sources = [] then ''no source'' else join '', '' sources))
         | _ \<Rightarrow> None)"

definition described :: "object \<Rightarrow> string \<Rightarrow> json list option" where
  "described g k = Option.bind (iterate (jor (jget g k) (JList [])))
     (\<lambda>xs. map_option (map JStr) (mapM describe_rule (objects xs)))"

definition normalize_security_group :: "object \<Rightarrow> object option" where
  "normalize_security_group g =
     (case (described g ''ip_permissions_ingress'', described g ''ip_permissions_egress'') of
        (Some ins, Some outs) \<Rightarrow> Some
          [(''id'', f_str g ''id''), (''name'', f_or g ''name'' []), (''description'', f_or_none g ''description''),
           (''vpcId'', f_opt g ''vpc_id''), (''ingress'', JList ins), (''egress'', JList outs),
           (''projectId'', f_opt g ''project_id'')]
      | _ \<Rightarrow> None)"

definition list_security_groups :: "reads \<Rightarrow> failure + object list" where
  "list_security_groups get =
     sum_bind (get SECURITY_GROUPS_PATH) (list_of normalize_security_group ''security_groups'')"

definition rule_label :: "object \<Rightarrow> string" where
  "rule_label rule =
     (let protocol = py_str_of (jor (jget rule ''protocol'') (JStr ''any''));
          start = jget rule ''port_range_min''; final = jget rule ''port_range_max'';
          ports = (if start = JNull \<and> final = JNull then ''all ports''
                   else if py_eq start final then py_str_of start
                   else py_str_of start @ ''-'' @ py_str_of final);
          source = (if truthy (jget rule ''remote_ip_prefix'') then py_str_of (jget rule ''remote_ip_prefix'')
                    else if truthy (jget rule ''remote_group_id'') then ''another group'' else ''anywhere'')
      in protocol @ '' '' @ ports @ dot @ source)"

definition normalize_security_group_rule :: "object \<Rightarrow> object" where
  "normalize_security_group_rule raw =
     [(''id'', f_str raw ''id''), (''groupId'', f_str raw ''security_group_id''),
      (''direction'', f_or raw ''direction'' ''ingress''), (''ethertype'', f_or raw ''ethertype'' ''IPv4''),
      (''protocol'', jget raw ''protocol''), (''portFrom'', jget raw ''port_range_min''),
      (''portTo'', jget raw ''port_range_max''), (''cidr'', jget raw ''remote_ip_prefix''),
      (''remoteGroupId'', jget raw ''remote_group_id''), (''description'', f_or raw ''description'' []),
      (''label'', JStr (rule_label raw))]"

definition list_security_group_rules :: "reads \<Rightarrow> failure + object list" where
  "list_security_group_rules get = sum_bind (get SG_RULES_PATH)
     (list_of (\<lambda>r. Some (normalize_security_group_rule r)) ''security_group_rules'')"

text \<open>What is asked for when a rule is created; an empty text is no text.\<close>

record rule_request =
  rr_group :: string
  rr_direction :: string
  rr_protocol :: "string option"
  rr_port_from :: "int option"
  rr_port_to :: "int option"
  rr_cidr :: "string option"
  rr_remote_group :: "string option"
  rr_description :: string
  rr_ethertype :: string

definition rule_body :: "rule_request \<Rightarrow> object" where
  "rule_body q =
     [(''security_group_id'', JStr (rr_group q)), (''direction'', JStr (rr_direction q)),
      (''ethertype'', JStr (rr_ethertype q)), (''description'', JStr (rr_description q))] @
     (if given (rr_protocol q) then [(''protocol'', JStr (the (rr_protocol q)))] else []) @
     (case rr_port_from q of None \<Rightarrow> []
      | Some a \<Rightarrow> [(''port_range_min'', JInt a),
                   (''port_range_max'', JInt (case rr_port_to q of None \<Rightarrow> a | Some b \<Rightarrow> b))]) @
     (if given (rr_cidr q) then [(''remote_ip_prefix'', JStr (the (rr_cidr q)))]
      else if given (rr_remote_group q) then [(''remote_group_id'', JStr (the (rr_remote_group q)))] else [])"

text \<open>Neutron's own explanation; a body that is an array or a scalar is not one it gives.\<close>

definition neutron_message :: "response \<Rightarrow> string option" where
  "neutron_message r =
     (case resp_json r of None \<Rightarrow> Some []
      | Some v \<Rightarrow> (case (if truthy v then v else JObj []) of
          JObj b \<Rightarrow> Some (case jget b ''NeutronError'' of JObj e \<Rightarrow> str_field e ''message'' [] | _ \<Rightarrow> [])
        | _ \<Rightarrow> None))"

definition or_text :: "string \<Rightarrow> string \<Rightarrow> string" where
  "or_text a b = (if a = [] then b else a)"

definition rule_refusal :: "nat \<Rightarrow> string \<Rightarrow> zadara_error" where
  "rule_refusal s m =
     (if s = 401 \<or> s = 403 then ZadaraError ''forbidden'' (or_text m ''You are not allowed to change this security group'') (Some s)
      else if s = 409 then ZadaraError ''conflict'' (or_text m ''That rule already exists in this group'') (Some 409)
      else if s = 400 then ZadaraError ''invalid_request'' (or_text m ''The cloud rejected this rule'') (Some 400)
      else if s = 404 then
        (if m = [] then ZadaraError ''write_not_allowed''
           ''This cloud does not accept firewall changes from your account through this path.'' (Some 404)
         else ZadaraError ''not_found'' m (Some 404))
      else ZadaraError ''upstream_error'' (or_text m (''Zadara returned status '' @ show_nat s)) (Some s))"

definition created_rule :: "response \<Rightarrow> object option" where
  "created_rule r =
     (case resp_json r of None \<Rightarrow> Some []
      | Some v \<Rightarrow> (case (if truthy v then v else JObj []) of
          JObj b \<Rightarrow> (if truthy (jget b ''security_group_rule'')
                    then (case jget b ''security_group_rule'' of JObj o' \<Rightarrow> Some o' | _ \<Rightarrow> None) else Some [])
        | _ \<Rightarrow> None))"

text \<open>
  \<open>post body\<close> is what the cloud answers to the request. The caches of the token's scope are dropped
  once the cloud has accepted the rule, before the answer is normalised.
\<close>

definition create_security_group_rule :: "(string \<Rightarrow> string) \<Rightarrow> (object \<Rightarrow> zadara_error + response) \<Rightarrow> string
    \<Rightarrow> rule_request \<Rightarrow> int \<Rightarrow> cache \<Rightarrow> cache \<times> (failure + object)" where
  "create_security_group_rule digest post token q now c =
     (case post [(''security_group_rule'', JObj (rule_body q))] of
        Inl e \<Rightarrow> (c, Inl (Zadara e))
      | Inr r \<Rightarrow>
          if resp_ok r then
            (case resp_json r of
               Some (JObj b) \<Rightarrow>
                 (invalidate digest token now c,
                  from_option (map_option normalize_security_group_rule (created_rule r)))
             | Some v \<Rightarrow> if truthy v then (c, Inl Crash)
                         else (invalidate digest token now c, Inr (normalize_security_group_rule []))
             | None \<Rightarrow> (invalidate digest token now c, Inr (normalize_security_group_rule [])))
          else (case neutron_message r of
              None \<Rightarrow> (c, Inl Crash)
            | Some m \<Rightarrow> (c, Inl (Zadara (rule_refusal (resp_status r) m)))))"

definition delete_security_group_rule :: "(string \<Rightarrow> string) \<Rightarrow> zadara_error + response \<Rightarrow> string \<Rightarrow> int \<Rightarrow> cache
    \<Rightarrow> cache \<times> (failure + unit)" where
  "delete_security_group_rule digest reply token now c =
     (case reply of Inl e \<Rightarrow> (c, Inl (Zadara e))
      | Inr r \<Rightarrow>
          if resp_status r = 401 \<or> resp_status r = 403 then
            (c, Inl (Zadara (ZadaraError ''forbidden'' ''You are not allowed to change this security group'' (Some (resp_status r)))))
          else if resp_status r = 404 then (c, Inl (Zadara (ZadaraError ''not_found'' ''That rule no longer exists'' (Some 404))))
          else if \<not> resp_ok r then (c, Inl (Zadara (upstream_error (resp_status r))))
          else (invalidate digest token now c, Inr ()))"

subsection \<open>Machine actions\<close>

definition vm_action_request :: "string \<Rightarrow> string \<Rightarrow> bool \<Rightarrow> (string \<times> object option) option" where
  "vm_action_request i action force =
     (if action = ''start'' then Some (VMS_PATH @ ''/'' @ i @ ''/action'', Some [(''action'', JStr ''powerup'')])
      else if action = ''stop'' then
        Some (VMS_PATH @ ''/'' @ i @ ''/action'', Some [(''action'', JStr ''shutdown''), (''force'', JBool force)])
      else if action = ''reboot'' then Some (VMS_PATH @ ''/'' @ i @ ''/actions/guest-reboot'', None)
      else None)"

definition vm_action :: "(string \<Rightarrow> string) \<Rightarrow> (string \<Rightarrow> object option \<Rightarrow> zadara_error + response) \<Rightarrow> string \<Rightarrow> string
    \<Rightarrow> string \<Rightarrow> bool \<Rightarrow> int \<Rightarrow> cache \<Rightarrow> cache \<times> (failure + unit)" where
  "vm_action digest post token i action force now c =
     (case vm_action_request i action force of
        None \<Rightarrow> (c, Inl (Zadara (ZadaraError ''invalid_request'' (''Unknown action: '' @ action) (Some 400))))
      | Some (path, body) \<Rightarrow>
          (case authed_post (post path body) of
             Inl e \<Rightarrow> (c, Inl e)
           | Inr _ \<Rightarrow> (invalidate digest token now c, Inr ())))"

subsection \<open>Quotas\<close>

fun first_volume_type :: "json list \<Rightarrow> string option" where
  "first_volume_type [] = None"
| "first_volume_type (JObj d # ds) =
     (if jget d ''type'' = JStr ''volume_type'' \<and> truthy (jget d ''id'') then Some (py_str_of (jget d ''id''))
      else first_volume_type ds)"
| "first_volume_type (_ # ds) = first_volume_type ds"

definition quota_volume_type :: "object \<Rightarrow> string option option" where
  "quota_volume_type raw = map_option first_volume_type (iterate (jor (jget raw ''dependencies'') (JList [])))"

record quota =
  q_name :: string
  q_displayName :: json
  q_group :: json
  q_category :: json
  q_units :: json
  q_kind :: json
  q_allocated :: json
  q_limit :: json
  q_unlimited :: bool
  q_usedPercent :: "rat option"
  q_volumeTypeId :: "string option"
  q_volumeType :: json
  q_media :: string

definition is_number :: "json \<Rightarrow> bool" where
  "is_number v = (case v of JInt _ \<Rightarrow> True | JNum _ \<Rightarrow> True | _ \<Rightarrow> False)"

text \<open>\<open>round(allocated / total * 100, 1)\<close> in binary floating point.\<close>

definition used_percent :: "rat \<Rightarrow> rat \<Rightarrow> rat" where
  "used_percent allocated tot =
     to_float (of_int (round_half_even (to_float (to_float (allocated / tot) * 100) * 10)) / 10)"

definition normalize_quota :: "object \<Rightarrow> quota option" where
  "normalize_quota raw =
     (let tot = jget raw ''total''; allocated = jor (jget raw ''allocated'') (JInt 0); limited = is_number tot;
          percent = (if limited \<and> truthy tot
                     then (case (numeric allocated, numeric tot) of (Some a, Some t) \<Rightarrow> Some (Some (used_percent a t)) | _ \<Rightarrow> None)
                     else Some None)
      in case (quota_volume_type raw, percent) of
           (Some vt, Some pc) \<Rightarrow>
             Some \<lparr>q_name = str_field raw ''name'' [],
               q_displayName = jor (jget raw ''display_name'') (JStr (str_field raw ''name'' [])),
               q_group = f_or raw ''domain'' [], q_category = f_or raw ''category'' [], q_units = f_or raw ''units'' [],
               q_kind = f_or raw ''type'' ''count'', q_allocated = allocated,
               q_limit = (if limited then tot else JNull), q_unlimited = (\<not> limited), q_usedPercent = pc,
               q_volumeTypeId = vt, q_volumeType = JStr [], q_media = []\<rparr>
         | _ \<Rightarrow> None)"

definition label_quota_media :: "(string \<times> volume_type) list \<Rightarrow> quota \<Rightarrow> quota" where
  "label_quota_media types q =
     (case map_of types (case q_volumeTypeId q of None \<Rightarrow> [] | Some i \<Rightarrow> i) of
        None \<Rightarrow> q\<lparr>q_volumeType := JStr [], q_media := []\<rparr>
      | Some t \<Rightarrow> q\<lparr>q_volumeType := vt_name t, q_media := vt_media t\<rparr>)"

subsection \<open>Events\<close>

definition EVENT_PERIODS :: "(string \<times> int) list" where
  "EVENT_PERIODS = [(''1h'', 3600), (''24h'', 24 * 3600), (''7d'', 7 * 86400), (''30d'', 30 * 86400)]"

definition EVENT_SEVERITIES :: "string list" where
  "EVENT_SEVERITIES = [''INFO'', ''WARNING'', ''ERROR'']"

definition EVENT_FETCH_CAP :: nat where "EVENT_FETCH_CAP = 1000"

definition normalize_event :: "object \<Rightarrow> object option" where
  "normalize_event raw =
     (case jor (jget raw ''severity'') (JStr ''INFO'') of
        JStr sev \<Rightarrow> Some
          [(''id'', f_str raw ''id''), (''timestamp'', jget raw ''timestamp''), (''severity'', JStr (upper sev)),
           (''typeId'', f_or raw ''type_id'' []), (''typeName'', f_or raw ''type_name'' []),
           (''description'', f_or raw ''description'' []), (''entityType'', f_or raw ''entity_type'' []),
           (''entityName'', f_or raw ''entity_name'' []), (''entityId'', f_str raw ''entity_id''),
           (''projectId'', f_opt raw ''project_id''), (''userId'', f_opt raw ''user_id''),
           (''originIp'', f_or raw ''origin_ip'' []), (''hostname'', f_or raw ''hostname'' []),
           (''requestId'', f_str raw ''request_id''),
           (''account'', jor (jget raw ''domain'') (jor (jget raw ''account_name'') (JStr [])))]
      | _ \<Rightarrow> None)"

record event_query =
  ev_project :: string
  ev_period :: string
  ev_severity :: "string option"
  ev_entity_type :: "string option"
  ev_entity_id :: "string option"
  ev_event_type :: "string option"

text \<open>The parameters of the query; only the filters that are given are sent.\<close>

definition event_params :: "event_query \<Rightarrow> int \<Rightarrow> int \<Rightarrow> nat \<Rightarrow> (string \<times> string) list" where
  "event_params q start final limit =
     [(''start_timestamp'', show_int start), (''end_timestamp'', show_int final), (''limit'', show_nat limit),
      (''project_id'', ev_project q)] @
     concat (map (\<lambda>(k, v). if given v then [(k, the v)] else [])
       [(''severity'', map_option upper (ev_severity q)), (''entity_type'', ev_entity_type q),
        (''entity_id'', ev_entity_id q), (''event_type'', ev_event_type q)])"

definition event_time :: "object \<Rightarrow> json" where
  "event_time e = jor (jget e ''timestamp'') (JInt 0)"

text \<open>
  \<open>events.sort(key=..., reverse=True)\<close>: equal times keep their order. One row is never compared; several have
  to be numbers all or texts all, or the comparison raises. (Times that are lists are taken to raise too.)
\<close>

definition text_value :: "json \<Rightarrow> string option" where
  "text_value v = (case v of JStr s \<Rightarrow> Some s | _ \<Rightarrow> None)"

definition newest_first :: "object list \<Rightarrow> object list option" where
  "newest_first es =
     (if length es \<le> 1 then Some es
      else (case mapM (\<lambda>e. numeric (event_time e)) es of
          Some ts \<Rightarrow> Some (map snd (sort_key (\<lambda>(t, _). - t) (zip ts es)))
        | None \<Rightarrow>
            map_option (\<lambda>ss. map snd (rev (sort_key fst (rev (zip ss es)))))
              (mapM (\<lambda>e. text_value (event_time e)) es)))"

record event_window =
  win_events :: "object list"
  win_from :: int
  win_to :: int
  win_period :: string
  win_truncated :: bool

text \<open>\<open>query params\<close> is the authorised read with those parameters; \<open>now\<close> is the time in milliseconds.\<close>

definition list_events :: "((string \<times> string) list \<Rightarrow> failure + json) \<Rightarrow> event_query \<Rightarrow> nat \<Rightarrow> int \<Rightarrow> failure + event_window" where
  "list_events query q limit now =
     (case map_of EVENT_PERIODS (ev_period q) of
        None \<Rightarrow> Inl (Zadara (ZadaraError ''invalid_request'' (''Unknown period: '' @ ev_period q) (Some 400)))
      | Some secs \<Rightarrow>
          if given (ev_severity q) \<and> upper (the (ev_severity q)) \<notin> set EVENT_SEVERITIES then
            Inl (Zadara (ZadaraError ''invalid_request'' (''Unknown severity: '' @ the (ev_severity q)) (Some 400)))
          else
            let start = now - secs * 1000 in
            sum_bind (query (event_params q start now limit)) (\<lambda>data.
            sum_bind (from_option (Option.bind (iterate (jor data (JList []))) (\<lambda>xs.
                Option.bind (mapM normalize_event (objects xs)) newest_first)))
              (\<lambda>es. Inr \<lparr>win_events = es, win_from = start, win_to = now, win_period = ev_period q,
                     win_truncated = (limit \<le> length es)\<rparr>)))"

subsection \<open>Capacity per medium\<close>

lemma buckets_fold:
  assumes "distinct (map fst d)"
  shows "distinct (map fst (fold (\<lambda>v. dict_alter (0, 0) (\<lambda>(n, g). (n + 1, g + vol_sizeGiB v)) (vol_media v)) vs d)) \<and>
    map_of (fold (\<lambda>v. dict_alter (0, 0) (\<lambda>(n, g). (n + 1, g + vol_sizeGiB v)) (vol_media v)) vs d) m =
    (case map_of d m of
       None \<Rightarrow> (if filter (\<lambda>v. vol_media v = m) vs = [] then None
                else Some (length (filter (\<lambda>v. vol_media v = m) vs), \<Sum>v\<leftarrow>filter (\<lambda>v. vol_media v = m) vs. vol_sizeGiB v))
     | Some (n, g) \<Rightarrow> Some (n + length (filter (\<lambda>v. vol_media v = m) vs),
                         g + (\<Sum>v\<leftarrow>filter (\<lambda>v. vol_media v = m) vs. vol_sizeGiB v)))"
  using assms
proof (induction vs arbitrary: d)
  case Nil
  then show ?case by (auto split: option.splits)
next
  case (Cons v vs)
  let ?d = "dict_alter (0, 0) (\<lambda>(n, g). (n + 1, g + vol_sizeGiB v)) (vol_media v) d"
  have "distinct (map fst ?d)" using Cons.prems by (rule distinct_dict_alter)
  then show ?case using Cons.IH [of ?d] by (auto simp: map_of_dict_alter split: option.splits)
qed

text \<open>The row of a medium: the number and the size of the volumes on it.\<close>

lemma media_totals_rows:
  "r \<in> set (media_totals vs) \<longleftrightarrow> row_media r \<in> vol_media ` set vs \<and>
     row_volumes r = length (filter (\<lambda>v. vol_media v = row_media r) vs) \<and>
     row_totalGiB r = (\<Sum>v\<leftarrow>filter (\<lambda>v. vol_media v = row_media r) vs. vol_sizeGiB v)"
proof -
  have d: "distinct (map fst (media_buckets vs))"
    using buckets_fold [of "[]" vs] by (simp add: media_buckets_def)
  have m: "map_of (media_buckets vs) m = (if filter (\<lambda>v. vol_media v = m) vs = [] then None
      else Some (length (filter (\<lambda>v. vol_media v = m) vs), \<Sum>v\<leftarrow>filter (\<lambda>v. vol_media v = m) vs. vol_sizeGiB v))" for m
    using buckets_fold [of "[]" vs m] by (simp add: media_buckets_def)
  have "r \<in> set (media_totals vs) \<longleftrightarrow> (row_media r, row_volumes r, row_totalGiB r) \<in> set (media_buckets vs)"
    by (force simp: media_totals_def)
  also have "\<dots> \<longleftrightarrow> map_of (media_buckets vs) (row_media r) = Some (row_volumes r, row_totalGiB r)"
    using d by (metis map_of_SomeD map_of_is_SomeI)
  finally have "r \<in> set (media_totals vs) \<longleftrightarrow> map_of (media_buckets vs) (row_media r) = Some (row_volumes r, row_totalGiB r)" .
  moreover have "row_media r \<in> vol_media ` set vs \<longleftrightarrow> filter (\<lambda>v. vol_media v = row_media r) vs \<noteq> []"
    by (auto simp: filter_empty_conv intro: rev_image_eqI)
  ultimately show ?thesis unfolding m by auto
qed

lemma media_distinct: "distinct (map row_media (media_totals vs))"
proof -
  have "distinct (map fst (media_buckets vs))"
    using buckets_fold [of "[]" vs] by (simp add: media_buckets_def)
  moreover have "mset (map row_media (media_totals vs)) = mset (map fst (media_buckets vs))"
  proof -
    have "mset (map row_media (media_totals vs)) =
        mset (map row_media (map (\<lambda>(m, n, g). \<lparr>row_media = m, row_volumes = n, row_totalGiB = g\<rparr>) (media_buckets vs)))"
      unfolding media_totals_def mset_map mset_sort ..
    also have "\<dots> = mset (map fst (media_buckets vs))" by (simp add: comp_def case_prod_beta)
    finally show ?thesis .
  qed
  ultimately show ?thesis by (metis mset_eq_imp_distinct_iff)
qed

lemma sum_by_class:
  fixes f :: "'a \<Rightarrow> int"
  shows "(\<Sum>m \<in> key ` set xs. \<Sum>x\<leftarrow>filter (\<lambda>x. key x = m) xs. f x) = (\<Sum>x\<leftarrow>xs. f x)"
proof (induction xs)
  case (Cons x xs)
  let ?S = "\<lambda>m. \<Sum>y\<leftarrow>filter (\<lambda>y. key y = m) xs. f y"
  have zero: "?S (key x) = 0" if "key x \<notin> key ` set xs"
    using that by (subst filter_False) (auto simp: image_iff)
  have "(\<Sum>m \<in> key ` set (x # xs). \<Sum>y\<leftarrow>filter (\<lambda>y. key y = m) (x # xs). f y) =
      (\<Sum>m \<in> insert (key x) (key ` set xs). ?S m + (if m = key x then f x else 0))"
    by (rule sum.cong) auto
  also have "\<dots> = (\<Sum>m \<in> insert (key x) (key ` set xs). ?S m) + f x"
    by (simp add: sum.distrib sum.delta')
  also have "(\<Sum>m \<in> insert (key x) (key ` set xs). ?S m) = (\<Sum>m \<in> key ` set xs. ?S m)"
    using zero by (cases "key x \<in> key ` set xs") (auto simp: insert_absorb)
  finally show ?case using Cons by simp
qed simp

lemma media_set: "row_media ` set (media_totals vs) = vol_media ` set vs"
proof
  show "row_media ` set (media_totals vs) \<subseteq> vol_media ` set vs" using media_totals_rows by auto
    show "vol_media ` set vs \<subseteq> row_media ` set (media_totals vs)"
    proof
      fix m assume "m \<in> vol_media ` set vs"
      then have "\<lparr>row_media = m, row_volumes = length (filter (\<lambda>v. vol_media v = m) vs),
          row_totalGiB = (\<Sum>v\<leftarrow>filter (\<lambda>v. vol_media v = m) vs. vol_sizeGiB v)\<rparr> \<in> set (media_totals vs)"
        by (simp add: media_totals_rows)
      then show "m \<in> row_media ` set (media_totals vs)" by force
    qed
  qed

lemma media_sum: "(\<Sum>r\<leftarrow>media_totals vs. row_totalGiB r) = (\<Sum>v\<leftarrow>vs. vol_sizeGiB v)"
proof -
  have dist: "distinct (media_totals vs)" using media_distinct distinct_map by blast
  have inj: "inj_on row_media (set (media_totals vs))" using media_distinct distinct_map by blast
  have "(\<Sum>r\<leftarrow>media_totals vs. row_totalGiB r) = (\<Sum>r \<in> set (media_totals vs). row_totalGiB r)"
    by (rule sum_list_distinct_conv_sum_set [OF dist])
  also have "\<dots> = (\<Sum>r \<in> set (media_totals vs). \<Sum>v\<leftarrow>filter (\<lambda>v. vol_media v = row_media r) vs. vol_sizeGiB v)"
    by (rule sum.cong) (auto simp: media_totals_rows)
  also have "\<dots> = (\<Sum>m \<in> vol_media ` set vs. \<Sum>v\<leftarrow>filter (\<lambda>v. vol_media v = m) vs. vol_sizeGiB v)"
    unfolding media_set [symmetric] by (simp add: sum.reindex [OF inj])
  also have "\<dots> = (\<Sum>v\<leftarrow>vs. vol_sizeGiB v)" by (rule sum_by_class)
  finally show ?thesis .
qed

text \<open>The capacity summary neither loses nor invents storage: it has one row per medium, each the
  sum over the volumes on it, the rows add up to all volumes and all gibibytes, the largest first
  and the unlabelled storage last.\<close>

theorem media_totals_conserve:
  "(\<Sum>r\<leftarrow>media_totals vs. row_totalGiB r) = (\<Sum>v\<leftarrow>vs. vol_sizeGiB v) \<and>
   distinct (map row_media (media_totals vs)) \<and> row_media ` set (media_totals vs) = vol_media ` set vs \<and>
   map row_volumes (media_totals vs) = map (\<lambda>r. length (filter (\<lambda>v. vol_media v = row_media r) vs)) (media_totals vs) \<and>
   sorted (map media_order (media_totals vs))"
proof -
  have "sorted (map media_order (media_totals vs))" by (simp add: media_totals_def)
  then show ?thesis using media_sum media_set media_distinct by (auto simp: media_totals_rows)
qed

subsection \<open>The disks of a machine\<close>

lemma attached_to_filter:
  assumes "i \<noteq> []"
  shows "attached_to i vs = filter (\<lambda>v. vol_attachedToId v = Some i) vs"
proof -
  have "filter (\<lambda>v. the (vol_attachedToId v) = i) (filter (\<lambda>v. vol_attachedToId v \<noteq> None \<and> vol_attachedToId v \<noteq> Some []) vs) =
      filter (\<lambda>v. vol_attachedToId v = Some i) vs"
    unfolding filter_filter by (rule filter_cong) (use assms in auto)
  then show ?thesis by (simp add: attached_to_def map_of_group_by)
qed

text \<open>A machine reports exactly the volumes attached to it: their number, their total size, and the
  same total split by medium; when the volume list was refused the size is unknown, not zero.\<close>

theorem machine_disks:
  assumes "vm_id v \<noteq> []"
  shows "vm_diskGiB (summarise_vm_disks (Some vs) v) =
      Some (\<Sum>x\<leftarrow>filter (\<lambda>x. vol_attachedToId x = Some (vm_id v)) vs. vol_sizeGiB x) \<and>
    vm_diskVolumes (summarise_vm_disks (Some vs) v) = length (filter (\<lambda>x. vol_attachedToId x = Some (vm_id v)) vs) \<and>
    (\<Sum>r\<leftarrow>vm_diskMedia (summarise_vm_disks (Some vs) v). row_totalGiB r) =
      the (vm_diskGiB (summarise_vm_disks (Some vs) v)) \<and>
    vm_diskGiB (summarise_vm_disks None v) = None"
  using assms by (simp add: summarise_vm_disks_def Let_def attached_to_filter media_sum)

definition sample_volume :: "string \<Rightarrow> int \<Rightarrow> string \<Rightarrow> volume" where
  "sample_volume host gib media =
     \<lparr>vol_id = ''v'', vol_name = JStr [], vol_sizeGiB = gib, vol_state = JStr ''ok'', vol_health = JStr ''ok'',
      vol_attachmentStatus = JStr ''attached'', vol_attachedToId = Some host, vol_guestDevice = JNull,
      vol_accessMode = JNull, vol_volumeTypeId = None, vol_volumeType = JStr [], vol_media = media,
      vol_createdAt = JNull, vol_projectId = None, vol_canUpdate = False, vol_canDelete = False\<rparr>"

definition sample_vm :: "string \<Rightarrow> joined_vm" where
  "sample_vm i =
     \<lparr>vm_id = i, vm_name = i, vm_status = ''active'', vm_vcpus = 2, vm_ramMB = 2048, vm_diskGB = 30,
      vm_instanceType = [], vm_imageId = None, vm_createdAt = JNull, vm_keyPair = JNull, vm_vpcId = None,
      vm_availabilityZone = JNull, vm_privateIps = [], vm_tags = [], vm_projectId = Some ''p1'',
      vm_publicIps = [], vm_diskGiB = None, vm_diskVolumes = 0, vm_diskMedia = []\<rparr>"

lemma machine_disks_witness:
  "let vs = [sample_volume ''a'' 100 ''SSD'', sample_volume ''b'' 7 []]; v = sample_vm ''a'' in
   vm_diskGiB (summarise_vm_disks (Some vs) v) =
      Some (\<Sum>x\<leftarrow>filter (\<lambda>x. vol_attachedToId x = Some (vm_id v)) vs. vol_sizeGiB x) \<and>
    vm_diskVolumes (summarise_vm_disks (Some vs) v) = length (filter (\<lambda>x. vol_attachedToId x = Some (vm_id v)) vs) \<and>
    (\<Sum>r\<leftarrow>vm_diskMedia (summarise_vm_disks (Some vs) v). row_totalGiB r) =
      the (vm_diskGiB (summarise_vm_disks (Some vs) v)) \<and>
    vm_diskGiB (summarise_vm_disks None v) = None"
  unfolding Let_def by (rule machine_disks) (simp add: sample_vm_def)

subsection \<open>Where a medium comes from\<close>

definition type_text :: "volume_type \<Rightarrow> string" where
  "type_text t = py_str_of (vt_name t) @ '' '' @ py_str_of (vt_description t)"

definition own_media :: "volume_type \<Rightarrow> string" where
  "own_media t = media_from_text (type_text t)"

lemma named_types:
  assumes "\<forall>(k, t) \<in> set d. vt_media t = own_media t"
  shows "\<forall>(k, t) \<in> set (fold (\<lambda>e d. if truthy (jget e ''id'') then AList.update (py_str_of (jget e ''id'')) (volume_type_of e) d else d) es d).
    vt_media t = own_media t"
  using assms
proof (induction es arbitrary: d)
  case (Cons e es)
  have "vt_media (volume_type_of e) = own_media (volume_type_of e)"
    by (simp add: volume_type_of_def own_media_def type_text_def Let_def)
  then have "\<forall>(k, t) \<in> set (AList.update (py_str_of (jget e ''id'')) (volume_type_of e) d). vt_media t = own_media t"
    using Cons.prems by (induction d) auto
  then show ?case using Cons by simp
qed simp

lemma inherit_keeps:
  "vt_storage_class (inherit_media ts t) = vt_storage_class t" "own_media (inherit_media ts t) = own_media t"
  by (auto simp: inherit_media_def own_media_def type_text_def split: list.split)

lemma class_media_mem:
  "m \<in> set (class_media ts cls) \<longleftrightarrow> cls \<noteq> [] \<and> m \<noteq> [] \<and> (\<exists>t \<in> set ts. vt_storage_class t = cls \<and> vt_media t = m)"
  by (auto simp: class_media_def)

text \<open>A medium is never guessed: a volume type is labelled by its own text, or, when its text settles
  nothing, by its storage class, and then only when every type of that class whose text does settle
  it says the same; otherwise it stays unlabelled.\<close>

theorem media_never_guessed:
  assumes "(k, t) \<in> set (classify_volume_types raw)"
  shows "(own_media t \<noteq> [] \<longrightarrow> vt_media t = own_media t) \<and>
    (own_media t = [] \<and> vt_media t \<noteq> [] \<longrightarrow> vt_storage_class t \<noteq> [] \<and>
      (\<exists>(k', t') \<in> set (classify_volume_types raw). vt_storage_class t' = vt_storage_class t \<and> own_media t' = vt_media t) \<and>
      (\<forall>(k', t') \<in> set (classify_volume_types raw). vt_storage_class t' = vt_storage_class t \<longrightarrow>
         own_media t' \<noteq> [] \<longrightarrow> own_media t' = vt_media t))"
proof -
  define named where "named = fold (\<lambda>e d. if truthy (jget e ''id'') then AList.update (py_str_of (jget e ''id'')) (volume_type_of e) d else d)
                    (objects raw) []"
  have own: "\<forall>(k, t) \<in> set named. vt_media t = own_media t" unfolding named_def by (rule named_types) simp
  have cl: "classify_volume_types raw = map (\<lambda>(k, t). (k, inherit_media (map snd named) t)) named"
    by (simp add: classify_volume_types_def named_def Let_def)
  obtain t0 where t0: "(k, t0) \<in> set named" "t = inherit_media (map snd named) t0"
    using assms by (auto simp: cl)
  have m0: "vt_media t0 = own_media t" using own t0 inherit_keeps(2) by fastforce
  show ?thesis
  proof (cases "own_media t = []")
    case False
    then have "vt_media t0 \<noteq> []" using m0 by simp
    then have "t = t0" unfolding t0(2) by (simp add: inherit_media_def)
    then show ?thesis using False m0 by simp
  next
    case True
    then have blank: "vt_media t0 = []" using m0 by simp
    show ?thesis
    proof (cases "vt_media t = []")
      case False
      let ?cls = "vt_storage_class t"
      have cls: "vt_storage_class t0 = ?cls" by (simp add: t0(2) inherit_keeps)
      have one: "class_media (map snd named) ?cls = [vt_media t]"
      proof -
        have "t = (case class_media (map snd named) ?cls of [m] \<Rightarrow> t0\<lparr>vt_media := m\<rparr> | _ \<Rightarrow> t0)"
          using t0(2) blank cls by (simp add: inherit_media_def)
        with False blank show ?thesis
          by (cases "class_media (map snd named) ?cls" rule: remdups_adj.cases) auto
      qed
      have "?cls \<noteq> []" using one class_media_mem [of "vt_media t" "map snd named" ?cls] by simp
      moreover have "\<exists>(k', t') \<in> set (classify_volume_types raw). vt_storage_class t' = ?cls \<and> own_media t' = vt_media t"
      proof -
        have "vt_media t \<in> set (class_media (map snd named) ?cls)" using one by simp
        then obtain k' t' where "(k', t') \<in> set named" "vt_storage_class t' = ?cls" "vt_media t' = vt_media t"
          unfolding class_media_mem by auto
        then show ?thesis using own by (force simp: cl inherit_keeps)
      qed
      moreover have "\<forall>(k', t') \<in> set (classify_volume_types raw). vt_storage_class t' = ?cls \<longrightarrow>
          own_media t' \<noteq> [] \<longrightarrow> own_media t' = vt_media t"
      proof (clarsimp simp: cl inherit_keeps)
        fix k' t' assume t': "(k', t') \<in> set named" "vt_storage_class t' = ?cls" "own_media t' \<noteq> []"
        then have "vt_media t' = own_media t'" using own by auto
        then have "own_media t' \<in> set (class_media (map snd named) ?cls)"
          using t' \<open>?cls \<noteq> []\<close> unfolding class_media_mem by force
        then show "own_media t' = vt_media t" using one by simp
      qed
      ultimately show ?thesis using True by blast
    qed (use True in simp)
  qed
qed

definition sample_types :: "json list" where
  "sample_types =
     [JObj [(''id'', JStr ''1''), (''name'', JStr ''EBS_SSD_1''), (''storage_class_id'', JStr ''c'')],
      JObj [(''id'', JStr ''2''), (''name'', JStr ''gp3''), (''storage_class_id'', JStr ''c'')]]"

lemma sample_classified: "map_of (classify_volume_types sample_types) ''2'' =
    Some \<lparr>vt_id = ''2'', vt_name = JStr ''gp3'', vt_description = JStr [], vt_alias = JStr [],
      vt_storage_class = ''c'', vt_available = False, vt_media = ''SSD''\<rparr>"
proof -
  have texts: "media_from_text ''EBS_SSD_1 '' = ''SSD''" "media_from_text ''gp3 '' = []" by code_simp+
  show ?thesis
    by (simp add: classify_volume_types_def sample_types_def volume_type_of_def json_simps Let_def texts
        inherit_media_def class_media_def)
qed

lemma media_never_guessed_witness:
  "let t = \<lparr>vt_id = ''2'', vt_name = JStr ''gp3'', vt_description = JStr [], vt_alias = JStr [],
      vt_storage_class = ''c'', vt_available = False, vt_media = ''SSD''\<rparr>; raw = sample_types in
   (own_media t \<noteq> [] \<longrightarrow> vt_media t = own_media t) \<and>
    (own_media t = [] \<and> vt_media t \<noteq> [] \<longrightarrow> vt_storage_class t \<noteq> [] \<and>
      (\<exists>(k', t') \<in> set (classify_volume_types raw). vt_storage_class t' = vt_storage_class t \<and> own_media t' = vt_media t) \<and>
      (\<forall>(k', t') \<in> set (classify_volume_types raw). vt_storage_class t' = vt_storage_class t \<longrightarrow>
         own_media t' \<noteq> [] \<longrightarrow> own_media t' = vt_media t))"
  unfolding Let_def by (rule media_never_guessed [OF map_of_SomeD [OF sample_classified]])

end
