(* ===== verification/Collector.thy ===== *)
theory Collector
  imports Resources Rates
begin

text \<open>
  \<open>apps/billing/collector.py\<close>: the daily measurement of the whole cluster, grouped by project,
  and the rows it writes. \<open>get\<close> is the authorised read with the service token; the accounts and
  their projects (\<open>service.list_domains\<close>, \<open>service.list_domain_projects\<close>) are arguments.
\<close>

subsection \<open>Measuring\<close>

definition RUNNING :: "string list" where
  "RUNNING = [''active'', ''running'']"

definition blank :: usage where
  "blank = \<lparr>vms_total = 0, vms_running = 0, vcpus = 0, ram_mb = 0, ssd_gib = 0, hdd_gib = 0, unlabelled_gib = 0,
     elastic_ips = 0, snapshot_gib_all = 0, backup_snapshot_gib = 0\<rparr>"

definition is_running :: "'a vm_scheme \<Rightarrow> bool" where
  "is_running v = (lower (vm_status v) \<in> set RUNNING)"

definition count_vm :: "'a vm_scheme \<Rightarrow> usage \<Rightarrow> usage" where
  "count_vm v u =
     (let u = u\<lparr>vms_total := vms_total u + 1\<rparr> in
      if is_running v
      then u\<lparr>vms_running := vms_running u + 1, vcpus := vcpus u + vm_vcpus v, ram_mb := ram_mb u + vm_ramMB v\<rparr>
      else u)"

definition count_volume :: "volume \<Rightarrow> usage \<Rightarrow> usage" where
  "count_volume v u =
     (if vol_media v = ''SSD'' then u\<lparr>ssd_gib := ssd_gib u + vol_sizeGiB v\<rparr>
      else if vol_media v = ''HDD'' then u\<lparr>hdd_gib := hdd_gib u + vol_sizeGiB v\<rparr>
      else u\<lparr>unlabelled_gib := unlabelled_gib u + vol_sizeGiB v\<rparr>)"

definition count_address :: "elastic_ip \<Rightarrow> usage \<Rightarrow> usage" where
  "count_address e u = u\<lparr>elastic_ips := elastic_ips u + 1\<rparr>"

text \<open>A volume snapshot carries the id of its protection group, never the group's name.\<close>

definition snapshot_is_backup :: "volume_snapshot \<Rightarrow> bool" where
  "snapshot_is_backup s = truthy (vs_protectionGroupId s)"

definition count_snapshot :: "volume_snapshot \<Rightarrow> usage \<Rightarrow> usage" where
  "count_snapshot s u =
     (let u = u\<lparr>snapshot_gib_all := snapshot_gib_all u + vs_sizeGiB s\<rparr> in
      if snapshot_is_backup s then u\<lparr>backup_snapshot_gib := backup_snapshot_gib u + vs_sizeGiB s\<rparr> else u)"

text \<open>\<open>bucket(project_id)\<close>: nothing without a project.\<close>

definition in_bucket :: "('a \<Rightarrow> string option) \<Rightarrow> ('a \<Rightarrow> usage \<Rightarrow> usage) \<Rightarrow> 'a \<Rightarrow> (string \<times> usage) list \<Rightarrow> (string \<times> usage) list" where
  "in_bucket project counting x d = (case project x of
     None \<Rightarrow> d | Some p \<Rightarrow> if p = [] then d else dict_alter blank (counting x) p d)"

text \<open>\<open>source(...) or []\<close>: a \<open>ZadaraError\<close> costs this source only, any other exception the whole pass.\<close>

definition source :: "failure + 'a list \<Rightarrow> failure + 'a list" where
  "source r = (case r of Inl (Zadara e) \<Rightarrow> Inr [] | _ \<Rightarrow> r)"

definition tally :: "joined_vm list \<Rightarrow> volume list \<Rightarrow> elastic_ip list \<Rightarrow> volume_snapshot list \<Rightarrow> (string \<times> usage) list" where
  "tally vms vols eips snaps =
     fold (in_bucket vs_projectId count_snapshot) snaps
       (fold (in_bucket eip_projectId count_address) eips
         (fold (in_bucket vol_projectId count_volume) vols
           (fold (in_bucket vm_projectId count_vm) vms [])))"

definition measure_cluster :: "reads \<Rightarrow> failure + (string \<times> usage) list" where
  "measure_cluster get =
     sum_bind (source (list_vms get False)) (\<lambda>vms.
     sum_bind (source (list_volumes get True)) (\<lambda>vols.
     sum_bind (source (list_elastic_ips get)) (\<lambda>eips.
     sum_bind (source (list_volume_snapshots get)) (\<lambda>snaps.
       Inr (tally vms vols eips snaps)))))"

subsection \<open>What each project holds\<close>

definition of_project :: "('a \<Rightarrow> string option) \<Rightarrow> string \<Rightarrow> 'a list \<Rightarrow> 'a list" where
  "of_project project p xs = filter (\<lambda>x. project x = Some p) xs"

definition holdings :: "'a vm_scheme list \<Rightarrow> volume list \<Rightarrow> elastic_ip list \<Rightarrow> volume_snapshot list \<Rightarrow> usage" where
  "holdings vms vols eips snaps =
     \<lparr>vms_total = int (length vms), vms_running = int (length (filter is_running vms)),
      vcpus = (\<Sum>v\<leftarrow>filter is_running vms. vm_vcpus v), ram_mb = (\<Sum>v\<leftarrow>filter is_running vms. vm_ramMB v),
      ssd_gib = (\<Sum>v\<leftarrow>filter (\<lambda>v. vol_media v = ''SSD'') vols. vol_sizeGiB v),
      hdd_gib = (\<Sum>v\<leftarrow>filter (\<lambda>v. vol_media v = ''HDD'') vols. vol_sizeGiB v),
      unlabelled_gib = (\<Sum>v\<leftarrow>filter (\<lambda>v. vol_media v \<notin> {''SSD'', ''HDD''}) vols. vol_sizeGiB v),
      elastic_ips = int (length eips), snapshot_gib_all = (\<Sum>s\<leftarrow>snaps. vs_sizeGiB s),
      backup_snapshot_gib = (\<Sum>s\<leftarrow>filter snapshot_is_backup snaps. vs_sizeGiB s)\<rparr>"

lemma map_of_buckets:
  assumes "p \<noteq> []"
  shows "map_of (fold (in_bucket project counting) xs d) p =
    (if of_project project p xs = [] then map_of d p
     else Some (fold counting (of_project project p xs) (case map_of d p of None \<Rightarrow> blank | Some u \<Rightarrow> u)))"
  using assms
proof (induction xs arbitrary: d)
  case Nil
  then show ?case by (simp add: of_project_def)
next
  case (Cons x xs)
  then show ?case
    by (auto simp: in_bucket_def of_project_def map_of_dict_alter split: option.splits)
qed

lemma no_blank_key:
  assumes "map_of d [] = None"
  shows "map_of (fold (in_bucket project counting) xs d) [] = None"
  using assms by (induction xs arbitrary: d) (auto simp: in_bucket_def map_of_dict_alter split: option.splits)

lemma fold_count_vm:
  "fold count_vm vms u =
     u\<lparr>vms_total := vms_total u + int (length vms), vms_running := vms_running u + int (length (filter is_running vms)),
       vcpus := vcpus u + (\<Sum>v\<leftarrow>filter is_running vms. vm_vcpus v),
       ram_mb := ram_mb u + (\<Sum>v\<leftarrow>filter is_running vms. vm_ramMB v)\<rparr>"
  by (induction vms arbitrary: u) (auto simp: count_vm_def Let_def)

lemma fold_count_volume:
  "fold count_volume vols u =
     u\<lparr>ssd_gib := ssd_gib u + (\<Sum>v\<leftarrow>filter (\<lambda>v. vol_media v = ''SSD'') vols. vol_sizeGiB v),
       hdd_gib := hdd_gib u + (\<Sum>v\<leftarrow>filter (\<lambda>v. vol_media v = ''HDD'') vols. vol_sizeGiB v),
       unlabelled_gib := unlabelled_gib u + (\<Sum>v\<leftarrow>filter (\<lambda>v. vol_media v \<notin> {''SSD'', ''HDD''}) vols. vol_sizeGiB v)\<rparr>"
  by (induction vols arbitrary: u) (auto simp: count_volume_def)

lemma fold_count_address: "fold count_address eips u = u\<lparr>elastic_ips := elastic_ips u + int (length eips)\<rparr>"
  by (induction eips arbitrary: u) (auto simp: count_address_def)

lemma fold_count_snapshot:
  "fold count_snapshot snaps u =
     u\<lparr>snapshot_gib_all := snapshot_gib_all u + (\<Sum>s\<leftarrow>snaps. vs_sizeGiB s),
       backup_snapshot_gib := backup_snapshot_gib u + (\<Sum>s\<leftarrow>filter snapshot_is_backup snaps. vs_sizeGiB s)\<rparr>"
  by (induction snaps arbitrary: u) (auto simp: count_snapshot_def Let_def)

lemmas fold_counts = fold_count_vm fold_count_volume fold_count_address fold_count_snapshot

lemma tally_project:
  assumes "p \<noteq> []"
  shows "map_of (tally vms vols eips snaps) p =
    (if of_project vm_projectId p vms = [] \<and> of_project vol_projectId p vols = [] \<and>
        of_project eip_projectId p eips = [] \<and> of_project vs_projectId p snaps = [] then None
     else Some (holdings (of_project vm_projectId p vms) (of_project vol_projectId p vols)
       (of_project eip_projectId p eips) (of_project vs_projectId p snaps)))"
  unfolding tally_def map_of_buckets [OF assms]
  by (auto simp: fold_counts holdings_def blank_def)

text \<open>C7. A day's measurement charges every project for exactly what it holds: its running machines'
  compute, its disks by medium with the unlabelled ones kept apart, its addresses and its snapshots
  with the backups among them, and nothing of any other project or of resources without one.\<close>

theorem measurement_exact:
  "map_of (tally vms vols eips snaps) p =
    (if p = [] \<or> (of_project vm_projectId p vms = [] \<and> of_project vol_projectId p vols = [] \<and>
        of_project eip_projectId p eips = [] \<and> of_project vs_projectId p snaps = []) then None
     else Some (holdings (of_project vm_projectId p vms) (of_project vol_projectId p vols)
       (of_project eip_projectId p eips) (of_project vs_projectId p snaps)))"
proof (cases "p = []")
  case True
  have "map_of (tally vms vols eips snaps) [] = None"
    unfolding tally_def by (intro no_blank_key) simp
  with True show ?thesis by simp
next
  case False
  then show ?thesis by (simp add: tally_project)
qed

lemma source_ok: "r \<noteq> Inl Crash \<Longrightarrow> source r = Inr (ok_or [] r)"
  by (auto simp: source_def ok_or_def split: sum.splits failure.splits)

text \<open>A source the cloud refuses costs that source only: the other three are measured as always.\<close>

theorem measurement_degrades:
  assumes "list_vms get False \<noteq> Inl Crash" "list_volumes get True \<noteq> Inl Crash"
    "list_elastic_ips get \<noteq> Inl Crash" "list_volume_snapshots get \<noteq> Inl Crash"
  shows "measure_cluster get = Inr (tally (ok_or [] (list_vms get False)) (ok_or [] (list_volumes get True))
    (ok_or [] (list_elastic_ips get)) (ok_or [] (list_volume_snapshots get)))"
  using assms by (simp add: measure_cluster_def sum_bind_def source_ok)

definition refusing_volumes :: reads where
  "refusing_volumes path =
     (if path = VOLUMES_PATH then Inl (Zadara (upstream_error 500))
      else if path = ELASTIC_IPS_PATH then
        Inr (JList [JObj [(''id'', JStr ''e1''), (''public_ip'', JStr ''1.2.3.4''), (''project_id'', JStr ''p1'')]])
      else Inr (JList []))"

lemma refusing_reads:
  "list_vms refusing_volumes False = Inr []" "list_volumes refusing_volumes True = Inl (Zadara (upstream_error 500))"
  "list_elastic_ips refusing_volumes = Inr [\<lparr>eip_id = ''e1'', eip_publicIp = JStr ''1.2.3.4'', eip_publicDnsName = None,
     eip_privateIp = JNull, eip_instanceId = None, eip_networkInterfaceId = JNull, eip_projectId = Some ''p1''\<rparr>]"
  "list_volume_snapshots refusing_volumes = Inr []"
  by (simp_all add: list_vms_def list_volumes_def list_elastic_ips_def list_volume_snapshots_def refusing_volumes_def
      VMS_PATH_def VOLUMES_PATH_def ELASTIC_IPS_PATH_def VOLUME_SNAPSHOTS_PATH_def sum_bind_def from_option_def
      plain_items_def items_def list_of_def normalize_eip_def json_simps rstrip_dots_def)

lemma measurement_degrades_witness:
  "measure_cluster refusing_volumes = Inr (tally (ok_or [] (list_vms refusing_volumes False))
     (ok_or [] (list_volumes refusing_volumes True)) (ok_or [] (list_elastic_ips refusing_volumes))
     (ok_or [] (list_volume_snapshots refusing_volumes)))"
  by (rule measurement_degrades) (simp_all add: refusing_reads)

subsection \<open>Writing the day\<close>

record project_entry =
  pe_account :: string
  pe_domain_id :: string
  pe_name :: string

text \<open>Every project of every account; an account whose projects cannot be read is passed over.\<close>

fun project_directory :: "(string \<times> string) list \<Rightarrow> (string \<Rightarrow> failure + (string \<times> string) list)
    \<Rightarrow> (string \<times> project_entry) list \<Rightarrow> failure + (string \<times> project_entry) list" where
  "project_directory [] projects_of d = Inr d"
| "project_directory ((dom_id, acc) # ds) projects_of d =
     (case projects_of dom_id of
        Inl (Zadara e) \<Rightarrow> project_directory ds projects_of d
      | Inl Crash \<Rightarrow> Inl Crash
      | Inr ps \<Rightarrow> project_directory ds projects_of
          (fold (\<lambda>(p, nm). AList.update p \<lparr>pe_account = acc, pe_domain_id = dom_id, pe_name = nm\<rparr>) ps d))"

definition measured_row :: "(string \<times> project_entry) list \<Rightarrow> int \<Rightarrow> date \<Rightarrow> string \<times> usage \<Rightarrow> usage_snapshot" where
  "measured_row directory now day = (\<lambda>(p, u).
     let known = map_of directory p; col = (\<lambda>f. case known of None \<Rightarrow> [] | Some e \<Rightarrow> f e)
     in usage.extend u (usage_snapshot.fields day now (col pe_account) (col pe_domain_id) p (col pe_name)))"

definition same_day :: "string \<Rightarrow> date \<Rightarrow> usage_snapshot \<Rightarrow> bool" where
  "same_day p day r = (project_id r = p \<and> taken_on r = day)"

definition write_day :: "(string \<times> project_entry) list \<Rightarrow> int \<Rightarrow> date \<Rightarrow> (string \<times> usage) list \<Rightarrow> usage_snapshot list \<Rightarrow> usage_snapshot list" where
  "write_day directory now day measurements rows =
     fold (\<lambda>m. upsert (same_day (fst m) day) (\<lambda>_. measured_row directory now day m) (measured_row directory now day m))
       measurements rows"

text \<open>Rows written, and how many of them belong to no account the service could see.\<close>

record capture_report =
  rep_date :: date
  rep_projects :: nat
  rep_unattributed :: nat

definition capture :: "failure + string \<Rightarrow> (string \<Rightarrow> reads) \<Rightarrow> failure + (string \<times> string) list
    \<Rightarrow> (string \<Rightarrow> failure + (string \<times> string) list) \<Rightarrow> int \<Rightarrow> date \<Rightarrow> usage_snapshot list
    \<Rightarrow> usage_snapshot list \<times> (failure + capture_report)" where
  "capture service_token get_with domains projects_of now day rows =
     (case sum_bind service_token (\<lambda>token. sum_bind (measure_cluster (get_with token)) (\<lambda>ms.
           sum_bind domains (\<lambda>ds. sum_bind (project_directory ds projects_of []) (\<lambda>dir. Inr (ms, dir))))) of
        Inl e \<Rightarrow> (rows, Inl e)
      | Inr (ms, dir) \<Rightarrow>
          (write_day dir now day ms rows,
           Inr \<lparr>rep_date = day, rep_projects = length ms,
             rep_unattributed = length (filter (\<lambda>(p, _). map_of dir p = None) ms)\<rparr>))"

abbreviation day_key :: "usage_snapshot \<Rightarrow> string \<times> date" where
  "day_key r \<equiv> (project_id r, taken_on r)"

lemma measured_row_key: "day_key (measured_row dir now day m) = (fst m, day)"
  by (cases m) (simp add: measured_row_def Let_def usage.defs usage_snapshot.defs)

lemma same_day_key: "same_day p day r \<longleftrightarrow> day_key r = (p, day)"
  by (simp add: same_day_def)

lemma write_day_unique: "unique_on day_key rows \<Longrightarrow> unique_on day_key (write_day dir now day ms rows)"
  unfolding write_day_def
proof (induction ms arbitrary: rows)
  case (Cons m ms)
  have "unique_on day_key (upsert (same_day (fst m) day) (\<lambda>_. measured_row dir now day m) (measured_row dir now day m) rows)"
    using Cons.prems by (rule unique_on_upsert [where k = "(fst m, day)"]) (simp_all add: same_day_key measured_row_key)
  then show ?case using Cons.IH by simp
qed simp

lemma set_upsert_replace:
  assumes "unique_on key rows" "\<And>r. P r \<longleftrightarrow> key r = k"
  shows "set (upsert P (\<lambda>_. new) new rows) = insert new {r \<in> set rows. key r \<noteq> k}"
  using assms(1)
proof (induction rows)
  case (Cons r rows)
  then have "unique_on key rows" "P r \<Longrightarrow> {s \<in> set rows. key s \<noteq> k} = set rows"
    using assms(2) by (auto simp: unique_on_def image_iff)
  with Cons.IH assms(2) show ?case by auto
qed simp

lemma set_write_day:
  assumes "unique_on day_key rows" "distinct (map fst ms)"
  shows "set (write_day dir now day ms rows) =
    measured_row dir now day ` set ms \<union> {r \<in> set rows. \<not> (taken_on r = day \<and> project_id r \<in> fst ` set ms)}"
  using assms
proof (induction ms arbitrary: rows)
  case Nil
  then show ?case by (simp add: write_day_def)
next
  case (Cons m ms)
  let ?new = "measured_row dir now day m"
  let ?rows = "upsert (same_day (fst m) day) (\<lambda>_. ?new) ?new rows"
  have u: "unique_on day_key ?rows"
    using Cons.prems(1) by (rule unique_on_upsert [where k = "(fst m, day)"]) (simp_all add: same_day_key measured_row_key)
  have s: "set ?rows = insert ?new {r \<in> set rows. day_key r \<noteq> (fst m, day)}"
    using Cons.prems(1) by (rule set_upsert_replace) (rule same_day_key)
  have key: "project_id ?new = fst m" "taken_on ?new = day" using measured_row_key [of dir now day m] by simp_all
  have "write_day dir now day (m # ms) rows = write_day dir now day ms ?rows" by (simp add: write_day_def)
  then have "set (write_day dir now day (m # ms) rows) =
      measured_row dir now day ` set ms \<union> {r \<in> set ?rows. \<not> (taken_on r = day \<and> project_id r \<in> fst ` set ms)}"
    using Cons.IH [OF u] Cons.prems(2) by simp
  also have "\<dots> = measured_row dir now day ` set (m # ms) \<union>
      {r \<in> set rows. \<not> (taken_on r = day \<and> project_id r \<in> fst ` set (m # ms))}"
    using Cons.prems(2) by (auto simp: s key) (metis fst_conv image_eqI)
  finally show ?case .
qed

lemma distinct_in_bucket:
  "distinct (map fst d) \<Longrightarrow> distinct (map fst (fold (in_bucket project counting) xs d))"
  by (induction xs arbitrary: d) (auto simp: in_bucket_def distinct_dict_alter split: option.splits)

lemma distinct_tally: "distinct (map fst (tally vms vols eips snaps))"
  unfolding tally_def by (intro distinct_in_bucket) simp

text \<open>C8. A capture leaves exactly one row per measured project for its day, holding what was just
  measured, whether the day was captured before or not, and touches no row of another day or of a
  project it did not measure; the unique constraint of the table is never violated.\<close>

theorem capture_writes_the_day:
  assumes "unique_on day_key rows"
    "service_token = Inr token" "measure_cluster (get_with token) = Inr ms"
    "domains = Inr ds" "project_directory ds projects_of [] = Inr dir"
  shows "let rows' = fst (capture service_token get_with domains projects_of now day rows) in
    unique_on day_key rows' \<and>
    set rows' = measured_row dir now day ` set ms \<union>
      {r \<in> set rows. \<not> (taken_on r = day \<and> project_id r \<in> fst ` set ms)}"
proof -
  have "distinct (map fst ms)"
    using assms(3) distinct_tally by (auto simp: measure_cluster_def sum_bind_def split: sum.splits)
  then show ?thesis
    using write_day_unique [OF assms(1)] set_write_day [OF assms(1)]
    by (simp add: capture_def sum_bind_def assms(2-5))
qed

lemma capture_writes_the_day_witness:
  "\<exists>ms. measure_cluster refusing_volumes = Inr ms \<and>
   (let rows' = fst (capture (Inr ''t'') (\<lambda>_. refusing_volumes) (Inr []) (\<lambda>_. Inr []) 9 (Date 2026 2 3) [sample_row ''d1'' 1]) in
    unique_on day_key rows' \<and>
    set rows' = measured_row [] 9 (Date 2026 2 3) ` set ms \<union>
      {r \<in> set [sample_row ''d1'' 1]. \<not> (taken_on r = Date 2026 2 3 \<and> project_id r \<in> fst ` set ms)})"
proof -
  obtain ms where ms: "measure_cluster refusing_volumes = Inr ms"
    by (simp add: measure_cluster_def refusing_reads sum_bind_def source_def)
  have "unique_on day_key [sample_row ''d1'' 1]" by (simp add: unique_on_def)
  then show ?thesis
    using capture_writes_the_day [where rows = "[sample_row ''d1'' 1]" and service_token = "Inr ''t''" and token = "''t''"
        and get_with = "\<lambda>_. refusing_volumes" and ms = ms and domains = "Inr []" and ds = "[]"
        and projects_of = "\<lambda>_. Inr []" and dir = "[]" and now = 9 and day = "Date 2026 2 3"] ms
    by simp
qed

text \<open>A capture that fails before the rows are written writes none.\<close>

lemma capture_fails_clean:
  "capture service_token get_with domains projects_of now day rows = (rows', Inl e) \<Longrightarrow> rows' = rows"
  by (auto simp: capture_def split: sum.splits prod.splits)

subsection \<open>The command (\<open>capture_usage\<close>)\<close>

text \<open>The day of the command line, today if none is given; one that does not read as a date (\<open>from_iso\<close>) is an
  exception before anything is measured.\<close>

definition capture_usage :: "(string \<Rightarrow> date option) \<Rightarrow> string \<Rightarrow> date
    \<Rightarrow> failure + string \<Rightarrow> (string \<Rightarrow> reads) \<Rightarrow> failure + (string \<times> string) list
    \<Rightarrow> (string \<Rightarrow> failure + (string \<times> string) list) \<Rightarrow> int \<Rightarrow> usage_snapshot list
    \<Rightarrow> usage_snapshot list \<times> (failure + capture_report) option" where
  "capture_usage from_iso chosen today service_token get_with domains projects_of now rows =
     (case if chosen = [] then Some today else from_iso chosen of
        None \<Rightarrow> (rows, None)
      | Some day \<Rightarrow> map_prod id Some (capture service_token get_with domains projects_of now day rows))"

lemma capture_usage_writes_nothing:
  "snd (capture_usage from_iso chosen today service_token get_with domains projects_of now rows) = None \<Longrightarrow>
     fst (capture_usage from_iso chosen today service_token get_with domains projects_of now rows) = rows"
  by (simp add: capture_usage_def split: if_splits option.splits)

end
