(* ===== verification/Tariffs.thy ===== *)
theory Tariffs
  imports Requests Rates
begin

text \<open>
  Price lists: how an account finds its own (\<open>rates.resolve_tariff\<close> and the one-query variant
  \<open>platform_admin/billing_views._Tariffs\<close>), how they are shown, validated and written by the
  cabinet, by the operators, by \<open>set_tariff\<close> and by \<open>ensure_default_tariff\<close>.
\<close>

subsection \<open>The resolver's contract\<close>

text \<open>At most one active list per account, however the account is spelled.\<close>

definition one_list_each :: "tariff list \<Rightarrow> bool" where
  "one_list_each ts = (\<forall>t \<in> set ts. \<forall>t' \<in> set ts. is_active t \<longrightarrow> is_active t' \<longrightarrow> tariff_account t \<noteq> [] \<longrightarrow>
     iexact (tariff_account t) (tariff_account t') \<longrightarrow> t = t')"

definition own_list :: "tariff \<Rightarrow> string \<Rightarrow> bool" where
  "own_list t acc = (is_active t \<and> tariff_account t \<noteq> [] \<and> iexact (tariff_account t) acc)"

definition shared_list :: "tariff list \<Rightarrow> tariff option" where
  "shared_list ts = first_row tariff_order (filter (\<lambda>t. is_active t \<and> tariff_account t = []) ts)"

locale tariff_resolver =
  fixes resolve :: "tariff list \<Rightarrow> string \<Rightarrow> tariff option"
  assumes resolves_own: "one_list_each ts \<Longrightarrow> t \<in> set ts \<Longrightarrow> own_list t acc \<Longrightarrow> resolve ts acc = Some t"
    and resolves_shared: "\<forall>t \<in> set ts. \<not> own_list t acc \<Longrightarrow> resolve ts acc = shared_list ts"
begin

lemma resolved_cases:
  assumes "one_list_each ts" "resolve ts acc = Some t"
  shows "t \<in> set ts \<and> is_active t \<and> (own_list t acc \<or> tariff_account t = [])"
proof (cases "\<exists>t' \<in> set ts. own_list t' acc")
  case True
  then obtain t' where "t' \<in> set ts" "own_list t' acc" by blast
  then show ?thesis using resolves_own [OF assms(1)] assms(2) by (auto simp: own_list_def)
next
  case False
  then have "shared_list ts = Some t" using resolves_shared assms(2) by auto
  then show ?thesis by (auto simp: shared_list_def dest: first_row_mem)
qed

text \<open>No other account's list can decide what this account pays.\<close>

lemma unaffected_by_others:
  assumes "one_list_each ts" "one_list_each ts'"
    "filter (\<lambda>t. own_list t acc \<or> tariff_account t = []) ts = filter (\<lambda>t. own_list t acc \<or> tariff_account t = []) ts'"
  shows "resolve ts acc = resolve ts' acc"
proof -
  have own: "t \<in> set ts \<and> own_list t acc \<longleftrightarrow> t \<in> set ts' \<and> own_list t acc" for t
  proof -
    have "t \<in> set (filter (\<lambda>t. own_list t acc \<or> tariff_account t = []) ts) \<longleftrightarrow>
        t \<in> set (filter (\<lambda>t. own_list t acc \<or> tariff_account t = []) ts')" using assms(3) by simp
    then show ?thesis by auto
  qed
  show ?thesis
  proof (cases "\<exists>t \<in> set ts. own_list t acc")
    case True
    then obtain t where "t \<in> set ts" "own_list t acc" by blast
    then show ?thesis using own resolves_own assms(1,2) by metis
  next
    case False
    then have none: "\<forall>t \<in> set ts. \<not> own_list t acc" "\<forall>t \<in> set ts'. \<not> own_list t acc" using own by blast+
    have shared: "filter (\<lambda>t. is_active t \<and> tariff_account t = []) xs =
        filter (\<lambda>t. is_active t \<and> tariff_account t = []) (filter (\<lambda>t. own_list t acc \<or> tariff_account t = []) xs)" for xs
      unfolding filter_filter by (rule filter_cong) auto
    have "shared_list ts = shared_list ts'" 
      unfolding shared_list_def shared [of ts] shared [of ts'] assms(3) ..
    then show ?thesis using none resolves_shared by simp
  qed
qed

end

lemma first_row_unique:
  assumes "t \<in> set xs" "\<forall>t' \<in> set xs. t' = t"
  shows "first_row key xs = Some t"
proof (cases "first_row key xs")
  case None
  then show ?thesis using assms(1) by auto
next
  case (Some t')
  then show ?thesis using assms(2) first_row_mem by metis
qed

interpretation by_query: tariff_resolver resolve_tariff
proof
  fix ts t acc
  assume one: "one_list_each ts" and t: "t \<in> set ts" "own_list t acc"
  have uniq: "t' = t" if "t' \<in> set ts" "is_active t'" "iexact (tariff_account t') acc" for t'
  proof -
    have "iexact (tariff_account t) (tariff_account t')"
      using that(3) t(2) by (simp add: own_list_def iexact_def)
    then show ?thesis using one t that by (auto simp: one_list_each_def own_list_def)
  qed
  have "first_row tariff_order (filter (\<lambda>t. is_active t \<and> iexact (tariff_account t) acc) ts) = Some t"
  proof (rule first_row_unique)
    show "t \<in> set (filter (\<lambda>t. is_active t \<and> iexact (tariff_account t) acc) ts)"
      using t by (simp add: own_list_def)
    show "\<forall>t' \<in> set (filter (\<lambda>t. is_active t \<and> iexact (tariff_account t) acc) ts). t' = t"
    proof
      fix t' assume "t' \<in> set (filter (\<lambda>t. is_active t \<and> iexact (tariff_account t) acc) ts)"
      then have "t' \<in> set ts" "is_active t'" "iexact (tariff_account t') acc" by auto
      then show "t' = t" by (rule uniq)
    qed
  qed
  then show "resolve_tariff ts acc = Some t" by (simp add: resolve_tariff_def)
next
  fix ts acc
  assume none: "\<forall>t \<in> set ts. \<not> own_list t acc"
  show "resolve_tariff ts acc = shared_list ts"
  proof (cases "acc = []")
    case True
    have blank: "iexact a [] \<longleftrightarrow> a = []" for a by (simp add: iexact_def lower_def)
    show ?thesis by (simp add: resolve_tariff_def shared_list_def True blank split: option.split)
  next
    case False
    have "filter (\<lambda>t. is_active t \<and> iexact (tariff_account t) acc) ts = []"
      using none False by (auto simp: filter_empty_conv own_list_def iexact_def lower_def)
    then show ?thesis by (simp add: resolve_tariff_def shared_list_def)
  qed
qed

subsection \<open>One query for all accounts (\<open>_Tariffs\<close>)\<close>

definition own_index :: "tariff list \<Rightarrow> (string \<times> tariff) list" where
  "own_index listed = fold (\<lambda>t. AList.update (lower (tariff_account t)) t) (filter (\<lambda>t. tariff_account t \<noteq> []) listed) []"

definition tariffs_of :: "tariff list \<Rightarrow> string \<Rightarrow> tariff option" where
  "tariffs_of ts acc =
     (let listed = sort_key tariff_order (filter is_active ts) in
      case map_of (own_index listed) (lower acc) of
        Some t \<Rightarrow> Some t
      | None \<Rightarrow> List.find (\<lambda>t. tariff_account t = []) listed)"

lemma map_of_own_fold:
  "map_of (fold (\<lambda>t. AList.update (key t) t) xs d) k =
     (case filter (\<lambda>t. key t = k) xs of [] \<Rightarrow> map_of d k | y # ys \<Rightarrow> Some (last (y # ys)))"
  by (induction xs arbitrary: d) (auto simp: map_of_update split: list.splits)

lemma own_index_None:
  "\<forall>t \<in> set xs. tariff_account t \<noteq> [] \<longrightarrow> lower (tariff_account t) \<noteq> k \<Longrightarrow> map_of (own_index xs) k = None"
  unfolding own_index_def map_of_own_fold by (auto split: list.split dest: filter_eq_ConsD)

lemma own_index_mem:
  "map_of (own_index xs) k = Some t \<Longrightarrow> t \<in> set xs \<and> tariff_account t \<noteq> [] \<and> lower (tariff_account t) = k"
proof -
  assume "map_of (own_index xs) k = Some t"
  then obtain y ys where ys: "filter (\<lambda>t. lower (tariff_account t) = k) (filter (\<lambda>t. tariff_account t \<noteq> []) xs) = y # ys"
    "t = last (y # ys)"
    unfolding own_index_def map_of_own_fold by (auto split: list.splits)
  then have "t \<in> set (filter (\<lambda>t. lower (tariff_account t) = k) (filter (\<lambda>t. tariff_account t \<noteq> []) xs))"
    by (metis last_in_set list.distinct(1))
  then show ?thesis by auto
qed

lemma find_sorted: "List.find P (sort_key key xs) = first_row key (filter P xs)"
proof -
  have "sort_key key (filter P xs) = filter P (sort_key key xs)" by (rule filter_sort [symmetric])
  moreover have "List.find P ys = (case filter P ys of [] \<Rightarrow> None | y # _ \<Rightarrow> Some y)" for ys
    by (induction ys) auto
  ultimately show ?thesis by (simp add: first_row_def)
qed

interpretation at_once: tariff_resolver tariffs_of
proof
  fix ts t acc
  assume one: "one_list_each ts" and t: "t \<in> set ts" "own_list t acc"
  let ?listed = "sort_key tariff_order (filter is_active ts)"
  have "map_of (own_index ?listed) (lower acc) \<noteq> None"
  proof
    assume "map_of (own_index ?listed) (lower acc) = None"
    then have "filter (\<lambda>t. lower (tariff_account t) = lower acc) (filter (\<lambda>t. tariff_account t \<noteq> []) ?listed) = []"
      unfolding own_index_def map_of_own_fold by (auto split: list.splits)
    then show False using t by (auto simp: filter_empty_conv own_list_def iexact_def)
  qed
  then obtain t' where t': "map_of (own_index ?listed) (lower acc) = Some t'" by auto
  then have "t' \<in> set ts" "is_active t'" "tariff_account t' \<noteq> []" "lower (tariff_account t') = lower acc"
    using own_index_mem [OF t'] by auto
  then have "t = t'" using one t by (auto simp: one_list_each_def own_list_def iexact_def)
  then show "tariffs_of ts acc = Some t" by (simp add: tariffs_of_def t' Let_def)
next
  fix ts acc
  assume none: "\<forall>t \<in> set ts. \<not> own_list t acc"
  let ?listed = "sort_key tariff_order (filter is_active ts)"
  have "map_of (own_index ?listed) (lower acc) = None"
    using none by (intro own_index_None) (auto simp: own_list_def iexact_def)
  then show "tariffs_of ts acc = shared_list ts"
    by (simp add: tariffs_of_def Let_def find_sorted shared_list_def filter_filter conj_commute)
qed

text \<open>The overview and the invoice price an account by the same list: the one-query resolver agrees
  with the per-account one whenever no account has two active lists under different spellings.\<close>

theorem resolvers_agree:
  assumes "one_list_each ts"
  shows "tariffs_of ts acc = resolve_tariff ts acc"
proof (cases "\<exists>t \<in> set ts. own_list t acc")
  case True
  then show ?thesis using at_once.resolves_own by_query.resolves_own assms by metis
next
  case False
  then show ?thesis using at_once.resolves_shared by_query.resolves_shared by metis
qed

definition list_of_account :: "string \<Rightarrow> string \<Rightarrow> (resource \<times> rat) list \<Rightarrow> tariff" where
  "list_of_account acc nm rs =
     \<lparr>tariff_name = nm, tariff_currency = ''UZS'', tariff_account = acc, is_active = True, tariff_rates = rs\<rparr>"

lemma resolvers_agree_witness:
  "tariffs_of [list_of_account ''Acme'' ''a'' [], list_of_account [] ''shared'' []] ''acme'' =
   resolve_tariff [list_of_account ''Acme'' ''a'' [], list_of_account [] ''shared'' []] ''acme''"
  by (rule resolvers_agree) (auto simp: one_list_each_def list_of_account_def iexact_def lower_def)

text \<open>Without that condition they disagree: an account with two active lists that differ in case is
  shown one price on the overview and invoiced at another.\<close>

theorem resolvers_disagree:
  "\<exists>ts acc. map_option rate_map (Some (tariffs_of ts acc)) \<noteq> map_option rate_map (Some (resolve_tariff ts acc))"
proof -
  let ?ts = "[list_of_account ''Acme'' ''a'' [(VCPU, 1)], list_of_account ''acme'' ''b'' [(VCPU, 2)]]"
  have "rate_map (tariffs_of ?ts ''acme'') = [(VCPU, 2)]" by code_simp
  moreover have "rate_map (resolve_tariff ?ts ''acme'') = [(VCPU, 1)]" by code_simp
  ultimately show ?thesis by (intro exI [of _ ?ts] exI [of _ "''acme''"]) simp
qed

text \<open>What an account pays is decided by its own list or the shared one only: changing, adding or
  removing the lists of other accounts never changes its prices.\<close>

theorem prices_isolated:
  assumes "one_list_each ts" "one_list_each ts'"
    "filter (\<lambda>t. own_list t acc \<or> tariff_account t = []) ts = filter (\<lambda>t. own_list t acc \<or> tariff_account t = []) ts'"
  shows "rate_map (resolve_tariff ts acc) = rate_map (resolve_tariff ts' acc) \<and>
    rate_map (tariffs_of ts acc) = rate_map (tariffs_of ts' acc)"
  using by_query.unaffected_by_others [OF assms] at_once.unaffected_by_others [OF assms] by simp

lemma prices_isolated_witness:
  "let ts = [list_of_account ''acme'' ''a'' [(VCPU, 1)]]; ts' = ts @ [list_of_account ''other'' ''o'' [(VCPU, 9)]] in
   rate_map (resolve_tariff ts ''acme'') = rate_map (resolve_tariff ts' ''acme'') \<and>
   rate_map (tariffs_of ts ''acme'') = rate_map (tariffs_of ts' ''acme'')"
  unfolding Let_def
  by (rule prices_isolated)
    (auto simp: one_list_each_def list_of_account_def own_list_def iexact_def lower_def lower_char_def)

subsection \<open>Showing a list\<close>

record rate_row =
  rt_resource :: resource
  rt_label :: string
  rt_price :: rat

definition rate_rows :: "tariff option \<Rightarrow> rate_row list" where
  "rate_rows t =
     map (\<lambda>r. \<lparr>rt_resource = r, rt_label = resource_label r,
        rt_price = to_float (case Option.bind t (\<lambda>t. map_of (tariff_rates t) r) of None \<Rightarrow> 0 | Some p \<Rightarrow> p)\<rparr>)
       all_resources"

record tariff_screen =
  ts_currency :: string
  ts_name :: "string option"
  ts_inherited :: bool
  ts_rates :: "rate_row list"
  ts_has_default :: bool

text \<open>The cabinet's screen; an inactive list is shown here although it does not price.\<close>

definition cabinet_tariff_get :: "tariff list \<Rightarrow> string \<Rightarrow> tariff_screen" where
  "cabinet_tariff_get ts acc =
     (let own = first_row tariff_order (filter (\<lambda>t. iexact (tariff_account t) acc) ts);
          shared = first_row tariff_order (filter (\<lambda>t. tariff_account t = []) ts);
          effective = (case own of Some t \<Rightarrow> Some t | None \<Rightarrow> shared)
      in \<lparr>ts_currency = (case effective of None \<Rightarrow> ''UZS'' | Some t \<Rightarrow> tariff_currency t),
          ts_name = map_option tariff_name effective, ts_inherited = (own = None),
          ts_rates = rate_rows effective, ts_has_default = (shared \<noteq> None)\<rparr>)"

definition platform_tariff_get :: "tariff list \<Rightarrow> json \<Rightarrow> tariff_screen \<times> (string \<times> string \<times> string \<times> bool) list" where
  "platform_tariff_get ts account_param =
     (let acc = strip (py_str_of (jor account_param (JStr [])));
          own = (if acc = [] then None else first_row tariff_order (filter (\<lambda>t. iexact (tariff_account t) acc) ts));
          shared = first_row tariff_order (filter (\<lambda>t. tariff_account t = []) ts);
          effective = (case own of Some t \<Rightarrow> Some t | None \<Rightarrow> shared)
      in (\<lparr>ts_currency = (case effective of None \<Rightarrow> ''UZS'' | Some t \<Rightarrow> tariff_currency t),
           ts_name = map_option tariff_name effective, ts_inherited = (acc \<noteq> [] \<and> own = None),
           ts_rates = rate_rows effective, ts_has_default = (shared \<noteq> None)\<rparr>,
          map (\<lambda>t. (tariff_account t, tariff_name t, tariff_currency t, is_active t)) (sort_key tariff_order ts)))"

subsection \<open>Submitted prices\<close>

definition resource_of :: "string \<Rightarrow> resource option" where
  "resource_of k = List.find (\<lambda>r. resource_value r = k) all_resources"

text \<open>\<open>float(value)\<close> of a decoded value; \<open>None\<close> is \<open>TypeError\<close> or \<open>ValueError\<close>.\<close>

definition float_of_json :: "json \<Rightarrow> number option" where
  "float_of_json v = (case v of
     JBool b \<Rightarrow> Some (Finite (if b then 1 else 0))
   | JInt i \<Rightarrow> Some (Finite (to_float (of_int i)))
   | JNum r \<Rightarrow> Some (Finite r)
   | JStr s \<Rightarrow> py_float s
   | _ \<Rightarrow> None)"

text \<open>\<open>Decimal(str(value))\<close>.\<close>

definition decimal_of_json :: "json \<Rightarrow> number option" where
  "decimal_of_json v = (case v of
     JInt i \<Rightarrow> Some (Finite (of_int i))
   | JNum r \<Rightarrow> Some (Finite (str_float r))
   | JStr s \<Rightarrow> py_decimal s
   | _ \<Rightarrow> None)"

text \<open>\<open>price < 0\<close>: false for a float NaN, an exception for a decimal NaN.\<close>

definition float_negative :: "number \<Rightarrow> bool" where
  "float_negative n = (case n of Finite r \<Rightarrow> r < 0 | Infinite neg \<Rightarrow> neg | NotANumber \<Rightarrow> False)"

definition decimal_negative :: "number \<Rightarrow> bool option" where
  "decimal_negative n = (case n of Finite r \<Rightarrow> Some (r < 0) | Infinite neg \<Rightarrow> Some neg | NotANumber \<Rightarrow> None)"

definition price_error :: "string \<Rightarrow> string \<Rightarrow> refusal" where
  "price_error k what = bad_request (''Price for '' @ k @ '' is '' @ what)"

definition cabinet_price :: "string \<Rightarrow> json \<Rightarrow> refusal + number" where
  "cabinet_price k v = (case float_of_json v of
     None \<Rightarrow> Inl (price_error k ''not a number'')
   | Some n \<Rightarrow> if float_negative n then Inl (price_error k ''negative'') else Inr n)"

definition platform_price :: "string \<Rightarrow> json \<Rightarrow> refusal + number" where
  "platform_price k v = (case decimal_of_json v of
     None \<Rightarrow> Inl (price_error k ''not a number'')
   | Some n \<Rightarrow> (case decimal_negative n of
       None \<Rightarrow> Inl Crashed
     | Some neg \<Rightarrow> if neg then Inl (price_error k ''negative'') else Inr n))"

fun read_prices :: "(string \<Rightarrow> json \<Rightarrow> refusal + number) \<Rightarrow> (string \<times> json) list \<Rightarrow> refusal + (resource \<times> number) list" where
  "read_prices price [] = Inr []"
| "read_prices price ((k, v) # kvs) =
     (case price k v of Inl e \<Rightarrow> Inl e
      | Inr n \<Rightarrow> (case read_prices price kvs of Inl e \<Rightarrow> Inl e
          | Inr ps \<Rightarrow> Inr ((the (resource_of k), n) # ps)))"

text \<open>\<open>_validated_prices\<close>, and the same checks in the cabinet, with the reading of one price.\<close>

definition validated_prices :: "(string \<Rightarrow> json \<Rightarrow> refusal + number) \<Rightarrow> json \<Rightarrow> refusal + (resource \<times> number) list" where
  "validated_prices price submitted =
     (case submitted of
        JObj kvs \<Rightarrow>
          let unknown = filter (\<lambda>k. resource_of k = None) (map fst kvs) in
          if unknown \<noteq> [] then Inl (bad_request (''Unknown resources: '' @ join '', '' (sort unknown)))
          else read_prices price kvs
      | _ \<Rightarrow> Inl (bad_request (''rates must be an object of resource '' @ [CHR 0xE2, CHR 0x86, CHR 0x92] @ '' price per month'')))"

subsection \<open>Writing a list\<close>

text \<open>
  \<open>column\<close> is what the price column stores of a number, \<open>None\<close> where the database refuses it.
  The rows are written one after the other, outside a transaction, so a refusal leaves the earlier
  ones written.
\<close>

fun set_rates :: "(number \<Rightarrow> rat option) \<Rightarrow> (resource \<times> number) list \<Rightarrow> (resource \<times> rat) list \<Rightarrow> (resource \<times> rat) list \<times> bool" where
  "set_rates column [] rs = (rs, True)"
| "set_rates column ((r, n) # ps) rs =
     (case column n of None \<Rightarrow> (rs, False) | Some p \<Rightarrow> set_rates column ps (AList.update r p rs))"

definition with_rates :: "string \<Rightarrow> ((resource \<times> rat) list \<Rightarrow> (resource \<times> rat) list) \<Rightarrow> tariff list \<Rightarrow> tariff list" where
  "with_rates acc f ts = map (\<lambda>t. if tariff_account t = acc then t\<lparr>tariff_rates := f (tariff_rates t)\<rparr> else t) ts"

text \<open>\<open>update_or_create(account=...)\<close> raises when several lists carry the account.\<close>

definition write_list :: "(number \<Rightarrow> rat option) \<Rightarrow> string \<Rightarrow> string \<Rightarrow> string \<Rightarrow> (resource \<times> number) list \<Rightarrow> bool
    \<Rightarrow> tariff list \<Rightarrow> tariff list \<times> bool" where
  "write_list column acc nm cur prices keep_others ts =
     (if 1 < length (filter (\<lambda>t. tariff_account t = acc) ts) then (ts, False)
      else
        let ts1 = upsert (\<lambda>t. tariff_account t = acc)
                    (\<lambda>t. t\<lparr>tariff_name := nm, tariff_currency := cur, is_active := True\<rparr>)
                    \<lparr>tariff_name = nm, tariff_currency = cur, tariff_account = acc, is_active = True, tariff_rates = []\<rparr> ts;
            ok = list_all (\<lambda>(r, n). column n \<noteq> None) prices;
            ts2 = with_rates acc (\<lambda>rs. fst (set_rates column prices rs)) ts1
        in if \<not> ok then (ts2, False)
           else (if keep_others then ts2
                 else with_rates acc (filter (\<lambda>(r, _). r \<in> fst ` set prices)) ts2, True))"

definition own_name :: "string \<Rightarrow> string" where
  "own_name acc = (if acc = [] then ''Default price list'' else acc @ '' price list'')"

definition submitted_currency :: "object \<Rightarrow> string" where
  "submitted_currency payload = take_chars 8 (strip (str_field payload ''currency'' ''UZS''))"

text \<open>\<open>AdminTariffView.put\<close>: the administrator's own account only.\<close>

definition cabinet_tariff_put :: "(number \<Rightarrow> rat option) \<Rightarrow> string \<Rightarrow> json \<Rightarrow> tariff list \<Rightarrow> tariff list \<times> (refusal + tariff_screen)" where
  "cabinet_tariff_put column acc data ts =
     (let payload = as_object data in
      case validated_prices cabinet_price (jget payload ''rates'') of
        Inl e \<Rightarrow> (ts, Inl e)
      | Inr prices \<Rightarrow>
          (case write_list column acc (acc @ '' price list'') (submitted_currency payload) prices False ts of
             (ts', ok) \<Rightarrow> (ts', if ok then Inr (cabinet_tariff_get ts' acc) else Inl Crashed)))"

text \<open>
  \<open>TariffView.put\<close>: any account or the shared list. The account written is the payload's, the
  screen answered is that of the query string.
\<close>

definition platform_tariff_put :: "(number \<Rightarrow> rat option) \<Rightarrow> json \<Rightarrow> json \<Rightarrow> tariff list
    \<Rightarrow> tariff list \<times> (refusal + tariff_screen \<times> (string \<times> string \<times> string \<times> bool) list)" where
  "platform_tariff_put column account_param data ts =
     (let payload = as_object data; acc = strip (str_field payload ''account'' []) in
      case validated_prices platform_price (jget payload ''rates'') of
        Inl e \<Rightarrow> (ts, Inl e)
      | Inr prices \<Rightarrow>
          (case write_list column acc (own_name acc) (submitted_currency payload) prices False ts of
             (ts', ok) \<Rightarrow> (ts', if ok then Inr (platform_tariff_get ts' account_param) else Inl Crashed)))"

subsection \<open>The command line\<close>

text \<open>\<open>set_tariff\<close>: \<open>None\<close> is a \<open>CommandError\<close>. A price given twice counts with its last amount.\<close>

fun command_prices :: "string list \<Rightarrow> (resource \<times> number) list \<Rightarrow> (resource \<times> number) list option" where
  "command_prices [] d = Some d"
| "command_prices (raw # raws) d =
     (case split_at (\<lambda>c. c = CHR ''='') raw of
        (_, None) \<Rightarrow> None
      | (k, Some value) \<Rightarrow>
          (case (resource_of (strip k), py_float value) of
             (Some r, Some n) \<Rightarrow> if float_negative n then None else command_prices raws (AList.update r n d)
           | _ \<Rightarrow> None))"

definition set_tariff :: "(number \<Rightarrow> rat option) \<Rightarrow> string \<Rightarrow> string \<Rightarrow> string \<Rightarrow> string list \<Rightarrow> bool \<Rightarrow> tariff list
    \<Rightarrow> tariff list \<times> bool" where
  "set_tariff column account_opt currency_opt name_opt raws keep_others ts =
     (case command_prices raws [] of
        None \<Rightarrow> (ts, False)
      | Some [] \<Rightarrow> (ts, False)
      | Some prices \<Rightarrow>
          let acc = strip account_opt; nm = (if name_opt = [] then own_name acc else name_opt)
          in write_list column acc nm (strip currency_opt) prices keep_others ts)"

definition DEFAULT_PRICES :: "(resource \<times> rat) list" where
  "DEFAULT_PRICES = [(VCPU, 46000), (RAM_GB, 12600), (SSD_GB, 1900), (HDD_GB, 500), (ELASTIC_IP, 50000), (SNAPSHOT_GB, 500)]"

definition ensure_default_tariff :: "tariff list \<Rightarrow> tariff list \<times> bool" where
  "ensure_default_tariff ts =
     (if ts \<noteq> [] then (ts, False)
      else ([\<lparr>tariff_name = ''Default price list'', tariff_currency = ''UZS'', tariff_account = [], is_active = True,
              tariff_rates = DEFAULT_PRICES\<rparr>], True))"

subsection \<open>A price list is exactly what was submitted\<close>

lemma set_rates_map:
  assumes "distinct (map fst ps)" "\<forall>(r, n) \<in> set ps. column n \<noteq> None"
  shows "map_of (fst (set_rates column ps rs)) r =
    (case map_of ps r of None \<Rightarrow> map_of rs r | Some n \<Rightarrow> column n)"
  using assms
proof (induction ps arbitrary: rs)
  case (Cons p ps)
  obtain r' n where p: "p = (r', n)" by fastforce
  obtain v where v: "column n = Some v" using Cons.prems(2) p by auto
  have "map_of ps r' = None" using Cons.prems(1) p by (simp add: map_of_eq_None_iff)
  then show ?case
    using Cons p v by (auto simp: map_of_update split: option.splits)
qed simp

lemma set_rates_distinct: "distinct (map fst rs) \<Longrightarrow> distinct (map fst (fst (set_rates column ps rs)))"
  by (induction ps arbitrary: rs) (auto simp: distinct_update split: option.split)

lemma map_of_kept:
  "map_of (filter (\<lambda>(r, _). r \<in> S) rs) r = (if r \<in> S then map_of rs r else None)"
  by (induction rs) auto

lemma upsert_one:
  assumes "length (filter P rows) \<le> 1" "\<And>r. P r \<Longrightarrow> P (f r)" "P new"
  shows "\<exists>r. filter P (upsert P f new rows) = [r] \<and> (r = new \<or> (\<exists>r0 \<in> set rows. P r0 \<and> r = f r0))"
  using assms(1)
proof (induction rows)
  case (Cons r rows)
  show ?case
  proof (cases "P r")
    case True
    then have "filter P rows = []" using Cons.prems by simp
    then show ?thesis using True assms(2) by auto
  next
    case False
    then show ?thesis using Cons by auto
  qed
qed (use assms(3) in auto)

lemma with_rates_filter:
  "filter (\<lambda>t. tariff_account t \<noteq> acc) (with_rates acc f ts) = filter (\<lambda>t. tariff_account t \<noteq> acc) ts"
  "filter (\<lambda>t. tariff_account t = acc) (with_rates acc f ts) =
     map (\<lambda>t. t\<lparr>tariff_rates := f (tariff_rates t)\<rparr>) (filter (\<lambda>t. tariff_account t = acc) ts)"
  by (induction ts) (auto simp: with_rates_def)

lemma write_list_exact:
  assumes "length (filter (\<lambda>t. tariff_account t = acc) ts) \<le> 1" "distinct (map fst prices)"
    "\<forall>(r, n) \<in> set prices. column n \<noteq> None"
  shows "snd (write_list column acc nm cur prices False ts)"
    "filter (\<lambda>t. tariff_account t \<noteq> acc) (fst (write_list column acc nm cur prices False ts)) =
       filter (\<lambda>t. tariff_account t \<noteq> acc) ts"
    "\<exists>t. filter (\<lambda>t. tariff_account t = acc) (fst (write_list column acc nm cur prices False ts)) = [t] \<and>
       is_active t \<and> tariff_currency t = cur \<and>
       (\<forall>r. map_of (tariff_rates t) r = Option.bind (map_of prices r) column)"
proof -
  let ?P = "\<lambda>t. tariff_account t = acc"
  let ?f = "\<lambda>t. t\<lparr>tariff_name := nm, tariff_currency := cur, is_active := True\<rparr>"
  let ?new = "\<lparr>tariff_name = nm, tariff_currency = cur, tariff_account = acc, is_active = True, tariff_rates = []\<rparr>"
  let ?ts1 = "upsert ?P ?f ?new ts"
  let ?g = "\<lambda>rs. fst (set_rates column prices rs)"
  let ?h = "filter (\<lambda>(r, _). r \<in> fst ` set prices)"
  have ok: "list_all (\<lambda>(r, n). column n \<noteq> None) prices" using assms(3) by (simp add: list_all_iff)
  have w: "write_list column acc nm cur prices False ts = (with_rates acc ?h (with_rates acc ?g ?ts1), True)"
    using assms(1) ok by (simp add: write_list_def Let_def)
  show "snd (write_list column acc nm cur prices False ts)" by (simp add: w)
  have "filter (\<lambda>t. tariff_account t \<noteq> acc) ?ts1 = filter (\<lambda>t. tariff_account t \<noteq> acc) ts"
    by (rule upsert_filter_other) simp_all
  then show "filter (\<lambda>t. tariff_account t \<noteq> acc) (fst (write_list column acc nm cur prices False ts)) =
       filter (\<lambda>t. tariff_account t \<noteq> acc) ts" by (simp add: w with_rates_filter)
  obtain t1 where t1: "filter ?P ?ts1 = [t1]" "t1 = ?new \<or> (\<exists>t0 \<in> set ts. ?P t0 \<and> t1 = ?f t0)"
    using upsert_one [OF assms(1), of ?f ?new] by auto
  have "map_of (?h (?g rs)) r = Option.bind (map_of prices r) column" for rs r
  proof (cases "map_of prices r")
    case None
    then have "r \<notin> fst ` set prices" by (simp add: map_of_eq_None_iff)
    then show ?thesis using None by (simp add: map_of_kept)
  next
    case (Some n)
    then have "r \<in> fst ` set prices" by (force dest: map_of_SomeD)
    then show ?thesis using Some set_rates_map [OF assms(2,3)] by (simp add: map_of_kept)
  qed
  then show "\<exists>t. filter ?P (fst (write_list column acc nm cur prices False ts)) = [t] \<and>
       is_active t \<and> tariff_currency t = cur \<and>
       (\<forall>r. map_of (tariff_rates t) r = Option.bind (map_of prices r) column)"
    using t1 by (auto simp: w with_rates_filter)
qed

text \<open>Setting a price list makes it exactly what was submitted: every submitted price is stored, every
  resource left out is cleared, the list is active, and no other list is touched.\<close>

theorem tariff_put_exact:
  assumes "acc = strip (str_field (as_object data) ''account'' [])"
    "validated_prices platform_price (jget (as_object data) ''rates'') = Inr prices"
    "length (filter (\<lambda>t. tariff_account t = acc) ts) \<le> 1" "distinct (map fst prices)"
    "\<forall>(r, n) \<in> set prices. column n \<noteq> None"
  shows "let ts' = fst (platform_tariff_put column q data ts) in
    filter (\<lambda>t. tariff_account t \<noteq> acc) ts' = filter (\<lambda>t. tariff_account t \<noteq> acc) ts \<and>
    (\<exists>t. filter (\<lambda>t. tariff_account t = acc) ts' = [t] \<and> is_active t \<and>
       tariff_currency t = submitted_currency (as_object data) \<and>
       (\<forall>r. map_of (tariff_rates t) r = Option.bind (map_of prices r) column))"
proof -
  have "fst (platform_tariff_put column q data ts) =
      fst (write_list column acc (own_name acc) (submitted_currency (as_object data)) prices False ts)"
    by (simp add: platform_tariff_put_def assms(1,2) Let_def split: prod.split)
  then show ?thesis using write_list_exact(2,3) [OF assms(3-5)] by (simp add: Let_def)
qed

definition plain_column :: "number \<Rightarrow> rat option" where
  "plain_column n = (case n of Finite r \<Rightarrow> Some r | _ \<Rightarrow> None)"

lemma plain_column_ok: "plain_column (Finite r) \<noteq> None"
  by (simp add: plain_column_def)

definition sample_put :: json where
  "sample_put = JObj [(''account'', JStr '' acme ''), (''rates'', JObj [(''vcpu'', JInt 7), (''ram_gb'', JStr ''2.5'')])]"

lemma sample_put_prices:
  "validated_prices platform_price (jget (as_object sample_put) ''rates'') = Inr [(VCPU, Finite 7), (RAM_GB, Finite (5 / 2))]"
proof -
  have "py_decimal ''2.5'' = Some (Finite (5 / 2))" by code_simp
  then show ?thesis
    by (simp add: validated_prices_def sample_put_def as_object_def jget_def resource_of_def all_resources_def
        platform_price_def decimal_of_json_def decimal_negative_def)
qed

lemma tariff_put_exact_witness:
  "let ts' = fst (platform_tariff_put plain_column JNull sample_put [list_of_account ''acme'' ''a'' [(SSD_GB, 1)]]) in
    filter (\<lambda>t. tariff_account t \<noteq> ''acme'') ts' = filter (\<lambda>t. tariff_account t \<noteq> ''acme'') [list_of_account ''acme'' ''a'' [(SSD_GB, 1)]] \<and>
    (\<exists>t. filter (\<lambda>t. tariff_account t = ''acme'') ts' = [t] \<and> is_active t \<and>
       tariff_currency t = submitted_currency (as_object sample_put) \<and>
       (\<forall>r. map_of (tariff_rates t) r = Option.bind (map_of [(VCPU, Finite 7), (RAM_GB, Finite (5 / 2))] r) plain_column))"
proof (rule tariff_put_exact [OF _ sample_put_prices])
  have "strip '' acme '' = ''acme''" by code_simp
  then show "''acme'' = strip (str_field (as_object sample_put) ''account'' [])"
    by (simp add: sample_put_def as_object_def json_simps)
qed (simp_all add: plain_column_ok del: not_None_eq)

text \<open>The price check lets one number through that it cannot compare: submitting the text \<open>NaN\<close> ends in
  an unhandled exception instead of a refusal, on the operators' screen.\<close>

theorem nan_price_crashes:
  "snd (platform_tariff_put column q (JObj [(''rates'', JObj [(''vcpu'', JStr ''NaN'')])]) ts) = Inl Crashed"
proof -
  have "py_decimal ''NaN'' = Some NotANumber" by code_simp
  then show ?thesis
    by (simp add: platform_tariff_put_def validated_prices_def as_object_def json_simps resource_of_def
        all_resources_def platform_price_def decimal_of_json_def decimal_negative_def Let_def)
qed

text \<open>The default list is created once and never again: it is written only into an empty table, a
  second start changes nothing, and then every account without a list of its own pays exactly the
  published prices for every resource.\<close>

theorem default_list_once:
  "fst (ensure_default_tariff (fst (ensure_default_tariff ts))) = fst (ensure_default_tariff ts) \<and>
   fst (ensure_default_tariff ts) = (if ts = [] then fst (ensure_default_tariff []) else ts) \<and>
   (\<forall>r. map_of (rate_map (resolve_tariff (fst (ensure_default_tariff [])) acc)) r = map_of DEFAULT_PRICES r \<and>
        map_of DEFAULT_PRICES r \<noteq> None)"
proof -
  let ?t = "\<lparr>tariff_name = ''Default price list'', tariff_currency = ''UZS'', tariff_account = [], is_active = True,
     tariff_rates = DEFAULT_PRICES\<rparr>"
  have "resolve_tariff [?t] acc = Some ?t" by (simp add: resolve_tariff_def split: option.split)
  moreover have "rate_map (Some ?t) = [(ELASTIC_IP, 50000), (HDD_GB, 500), (RAM_GB, 12600), (SNAPSHOT_GB, 500), (SSD_GB, 1900), (VCPU, 46000)]"
    by (simp only: rate_map_def DEFAULT_PRICES_def) code_simp
  ultimately show ?thesis
    by (auto simp: ensure_default_tariff_def DEFAULT_PRICES_def) (metis resource.exhaust)+
qed

end
