(* ===== verification/Identity.thy ===== *)
theory Identity
  imports Requests
begin

text \<open>
  Who is asking. Cabinet users (\<open>apps/accounts\<close>) and platform operators
  (\<open>apps/platform_admin/models.py\<close>) are two unrelated identities; the permission classes of both
  sides, the browser session they share a shape of, the two journals (\<open>apps/audit\<close>,
  \<open>platform_admin/services.record\<close>), and the envelope every error leaves in
  (\<open>apps/common/exceptions.py\<close>).
\<close>

subsection \<open>Cabinet users\<close>

record user =
  u_pk :: nat
  zadara_user_id :: string
  username :: string
  u_email :: "string option"
  u_account :: string
  u_account_id :: string
  app_role :: string
  u_status :: string

definition ADMIN_ROLES :: "string list" where
  "ADMIN_ROLES = [''admin'', ''tenant_admin'', ''account_admin'', ''accountadmin'', ''cloud_admin'',
     ''superadmin'', ''msp_admin'']"

text \<open>\<open>str(r).lower()\<close> of each role, matched whole.\<close>

definition resolve_app_role :: "json list \<Rightarrow> string" where
  "resolve_app_role roles =
     (if list_ex (\<lambda>r. lower (py_str_of r) \<in> set ADMIN_ROLES) roles then ''ADMIN'' else ''USER'')"

definition is_blocked :: "user \<Rightarrow> bool" where
  "is_blocked u = (u_status u = ''blocked'')"

subsection \<open>Platform operators\<close>

datatype role = OWNER | OPS | SUPPORT | FINANCE

record platform_admin =
  pk :: nat
  admin_email :: string
  admin_name :: string
  password_hash :: string
  admin_role :: role
  admin_active :: bool
  totp_secret :: string
  totp_confirmed_at :: "int option"
  access_code_hash :: string
  failed_attempts :: nat
  locked_until :: "int option"
  last_login_at :: "int option"
  last_login_ip :: "string option"

definition WRITE_ROLES :: "role set" where
  "WRITE_ROLES = {OWNER, OPS}"

definition BILLING_ROLES :: "role set" where
  "BILLING_ROLES = {OWNER, FINANCE}"

definition can_write :: "platform_admin \<Rightarrow> bool" where
  "can_write a = (admin_role a \<in> WRITE_ROLES)"

definition can_bill :: "platform_admin \<Rightarrow> bool" where
  "can_bill a = (admin_role a \<in> BILLING_ROLES)"

subsection \<open>Requests\<close>

datatype requester = Anonymous | Cabinet user | Operator platform_admin

text \<open>What a browser session holds: Django's own user id, the operator id, the cloud scope.\<close>

record session_data =
  auth_user_id :: "nat option"
  platform_admin_id :: "nat option"
  zadara_project_id :: "string option"
  zadara_project_name :: "string option"
  zadara_scope :: string
  zadara_roles :: "json list"

definition empty_session :: session_data where
  "empty_session = \<lparr>auth_user_id = None, platform_admin_id = None, zadara_project_id = None,
     zadara_project_name = None, zadara_scope = [], zadara_roles = []\<rparr>"

record web_request =
  forwarded_for :: string
  remote_addr :: "string option"
  http_user_agent :: string
  req_user :: requester
  session_key :: "string option"
  req_session :: session_data

text \<open>The first address of \<open>X-Forwarded-For\<close>, else the peer's.\<close>

definition client_ip :: "web_request \<Rightarrow> string option" where
  "client_ip q = (if forwarded_for q = [] then remote_addr q
     else Some (strip (takeWhile (\<lambda>c. c \<noteq> CHR '','') (forwarded_for q))))"

subsection \<open>Permission classes\<close>

definition IsAuthenticated :: "requester \<Rightarrow> bool" where
  "IsAuthenticated r = (r \<noteq> Anonymous)"

definition IsAdmin :: "requester \<Rightarrow> bool" where
  "IsAdmin r = (case r of Cabinet u \<Rightarrow> app_role u = ''ADMIN'' | _ \<Rightarrow> False)"

definition IsPlatformAdmin :: "requester \<Rightarrow> bool" where
  "IsPlatformAdmin r = (case r of Operator a \<Rightarrow> admin_active a | _ \<Rightarrow> False)"

definition with_operator :: "(platform_admin \<Rightarrow> bool) \<Rightarrow> requester \<Rightarrow> bool" where
  "with_operator P r = (IsPlatformAdmin r \<and> (case r of Operator a \<Rightarrow> P a | _ \<Rightarrow> False))"

definition CanWritePlatform :: "requester \<Rightarrow> bool" where
  "CanWritePlatform = with_operator can_write"

definition CanWriteBilling :: "requester \<Rightarrow> bool" where
  "CanWriteBilling = with_operator can_bill"

definition CanWriteOrBill :: "requester \<Rightarrow> bool" where
  "CanWriteOrBill = with_operator (\<lambda>a. can_write a \<or> can_bill a)"

definition IsPlatformOwner :: "requester \<Rightarrow> bool" where
  "IsPlatformOwner = with_operator (\<lambda>a. admin_role a = OWNER)"

text \<open>\<open>_ReadAnyWriteBilling\<close>.\<close>

definition ReadAnyWriteBilling :: "string \<Rightarrow> requester \<Rightarrow> bool" where
  "ReadAnyWriteBilling verb =
     (if verb \<in> {''PUT'', ''POST'', ''PATCH'', ''DELETE''} then CanWriteBilling else IsPlatformAdmin)"

text \<open>A gate of the operators' side: it opens to active operators holding one of its roles.\<close>

locale operator_gate =
  fixes allows :: "requester \<Rightarrow> bool" and roles :: "role set"
  assumes allows_iff: "allows r = (\<exists>a. r = Operator a \<and> admin_active a \<and> admin_role a \<in> roles)"
begin

lemma cabinet_refused: "\<not> allows (Cabinet u)"
  by (simp add: allows_iff)

lemma anonymous_refused: "\<not> allows Anonymous"
  by (simp add: allows_iff)

lemma inactive_refused: "\<not> admin_active a \<Longrightarrow> \<not> allows (Operator a)"
  by (simp add: allows_iff)

lemma role_decides: "allows (Operator a) = (admin_active a \<and> admin_role a \<in> roles)"
  by (simp add: allows_iff)

lemma allowed_cases:
  assumes "allows r"
  obtains a where "r = Operator a" "admin_active a" "admin_role a \<in> roles"
  using assms by (auto simp: allows_iff)

end

lemmas gate_defs = with_operator_def IsPlatformAdmin_def CanWritePlatform_def CanWriteBilling_def
  CanWriteOrBill_def IsPlatformOwner_def can_write_def can_bill_def WRITE_ROLES_def BILLING_ROLES_def

interpretation reading: operator_gate IsPlatformAdmin UNIV
  by unfold_locales (auto simp: gate_defs split: requester.split)

interpretation writing: operator_gate CanWritePlatform "{OWNER, OPS}"
  by unfold_locales (auto simp: gate_defs split: requester.split)

interpretation billing: operator_gate CanWriteBilling "{OWNER, FINANCE}"
  by unfold_locales (auto simp: gate_defs split: requester.split)

interpretation either: operator_gate CanWriteOrBill "{OWNER, OPS, FINANCE}"
  by unfold_locales (auto simp: gate_defs split: requester.split)

interpretation owning: operator_gate IsPlatformOwner "{OWNER}"
  by unfold_locales (auto simp: gate_defs split: requester.split)

text \<open>No cabinet user and no anonymous caller passes any gate of the operators' side, whatever the cloud says
  of their roles, and no operator passes the cabinet's administrator gate. Among active operators the
  authority to change the platform and the authority to change money meet in the owner alone, and
  support holds neither.\<close>

theorem gates_separate_authorities:
  "\<not> IsPlatformAdmin (Cabinet u) \<and> \<not> CanWritePlatform (Cabinet u) \<and> \<not> CanWriteBilling (Cabinet u) \<and>
   \<not> CanWriteOrBill (Cabinet u) \<and> \<not> IsPlatformOwner (Cabinet u) \<and>
   \<not> IsPlatformAdmin Anonymous \<and> \<not> IsAdmin (Operator a) \<and>
   (CanWritePlatform (Operator a) \<and> CanWriteBilling (Operator a)) = IsPlatformOwner (Operator a) \<and>
   CanWriteOrBill (Operator a) = (IsPlatformAdmin (Operator a) \<and> admin_role a \<noteq> SUPPORT) \<and>
   IsPlatformAdmin (Operator a) = admin_active a"
  unfolding reading.role_decides writing.role_decides billing.role_decides either.role_decides owning.role_decides
  by (cases "admin_role a")
    (auto simp: reading.cabinet_refused writing.cabinet_refused billing.cabinet_refused either.cabinet_refused
      owning.cabinet_refused reading.anonymous_refused IsAdmin_def)

subsection \<open>The journals\<close>

record admin_action =
  actor :: "nat option"
  actor_email :: string
  action :: string
  target_account :: string
  target_type :: string
  target_id :: string
  target_name :: string
  outcome :: string
  error_code :: string
  detail :: object
  ip_address :: "string option"
  user_agent :: string

definition operator_of :: "requester \<Rightarrow> platform_admin option" where
  "operator_of r = (case r of Operator a \<Rightarrow> Some a | _ \<Rightarrow> None)"

text \<open>A row about nothing in particular; callers name the target and the outcome.\<close>

definition entry :: "web_request \<Rightarrow> platform_admin option \<Rightarrow> string \<Rightarrow> admin_action" where
  "entry q who act =
     (let who = (case who of Some a \<Rightarrow> Some a | None \<Rightarrow> operator_of (req_user q));
          mail = (case who of None \<Rightarrow> [] | Some a \<Rightarrow> admin_email a) in
      \<lparr>actor = map_option pk who, actor_email = (if mail = [] then ''anonymous'' else mail), action = act,
       target_account = [], target_type = [], target_id = [], target_name = [], outcome = ''SUCCESS'',
       error_code = [], detail = [], ip_address = client_ip q, user_agent = take_chars 512 (http_user_agent q)\<rparr>)"

definition failed :: "string \<Rightarrow> admin_action \<Rightarrow> admin_action" where
  "failed c row = row\<lparr>outcome := ''FAILURE'', error_code := c\<rparr>"

text \<open>\<open>saves\<close> says whether the database takes the row; a row it refuses is only logged.\<close>

definition record_action :: "(admin_action \<Rightarrow> bool) \<Rightarrow> admin_action \<Rightarrow> admin_action list \<Rightarrow> admin_action list" where
  "record_action saves row journal = (if saves row then journal @ [row] else journal)"

record audit_log =
  log_user :: "nat option"
  log_username :: string
  log_account :: string
  log_project_id :: string
  log_project_name :: string
  log_action :: string
  log_resource_type :: string
  log_resource_id :: string
  log_resource_name :: string
  log_outcome :: string
  log_error_code :: string
  log_detail :: object
  log_ip :: "string option"
  log_user_agent :: string

definition opt_text :: "string option \<Rightarrow> string" where
  "opt_text v = (case v of None \<Rightarrow> [] | Some s \<Rightarrow> s)"

definition audit_entry :: "web_request \<Rightarrow> string \<Rightarrow> audit_log" where
  "audit_entry q act =
     (let who = (case req_user q of Cabinet u \<Rightarrow> Some u | _ \<Rightarrow> None);
          nm = (case who of None \<Rightarrow> [] | Some u \<Rightarrow> username u) in
      \<lparr>log_user = map_option u_pk who, log_username = (if nm = [] then ''anonymous'' else nm),
       log_account = (case who of None \<Rightarrow> [] | Some u \<Rightarrow> u_account u),
       log_project_id = opt_text (zadara_project_id (req_session q)),
       log_project_name = opt_text (zadara_project_name (req_session q)), log_action = act,
       log_resource_type = [], log_resource_id = [], log_resource_name = [], log_outcome = ''SUCCESS'',
       log_error_code = [], log_detail = [], log_ip = client_ip q,
       log_user_agent = take_chars 512 (http_user_agent q)\<rparr>)"

definition audit_record :: "(audit_log \<Rightarrow> bool) \<Rightarrow> audit_log \<Rightarrow> audit_log list \<Rightarrow> audit_log list" where
  "audit_record saves row trail = (if saves row then trail @ [row] else trail)"

text \<open>Both journals keep what they have and gain at most the one row; they never fail their caller.\<close>

locale journal =
  fixes write_row :: "('r \<Rightarrow> bool) \<Rightarrow> 'r \<Rightarrow> 'r list \<Rightarrow> 'r list"
  assumes saved: "saves row \<Longrightarrow> write_row saves row trail = trail @ [row]"
    and refused: "\<not> saves row \<Longrightarrow> write_row saves row trail = trail"
begin

lemma keeps: "\<exists>new. write_row saves row trail = trail @ new \<and> set new \<subseteq> {row} \<and> length new \<le> 1"
  by (cases "saves row") (simp_all add: saved refused)

lemma mono: "set trail \<subseteq> set (write_row saves row trail)"
  by (cases "saves row") (auto simp: saved refused)

end

interpretation operators_journal: journal record_action
  by unfold_locales (simp_all add: record_action_def)

interpretation cabinet_journal: journal audit_record
  by unfold_locales (simp_all add: audit_record_def)

subsection \<open>The error envelope\<close>

text \<open>
  What reaches the handler: an \<open>AppError\<close> with its details, another \<open>APIException\<close> with its detail, or
  an exception REST framework does not handle.
\<close>

datatype raised = AppExc app_error object | ApiExc nat json | Unhandled

record envelope =
  env_status :: nat
  env_code :: string
  env_message :: string
  env_details :: json

text \<open>REST framework's own handler: a list or a dictionary is the body, anything else its \<open>detail\<close>.\<close>

definition drf_response :: "raised \<Rightarrow> (nat \<times> json) option" where
  "drf_response e = (case e of
     AppExc a d \<Rightarrow> Some (status_code a, JObj [(''detail'', JStr (message a))])
   | ApiExc s (JObj o') \<Rightarrow> Some (s, JObj o')
   | ApiExc s (JList l) \<Rightarrow> Some (s, JList l)
   | ApiExc s v \<Rightarrow> Some (s, JObj [(''detail'', v)])
   | Unhandled \<Rightarrow> None)"

definition code_for :: "raised \<Rightarrow> nat \<Rightarrow> string" where
  "code_for e s = (case e of
     AppExc a d \<Rightarrow> code a
   | _ \<Rightarrow> (case map_of [(401, ''unauthenticated''), (403, ''forbidden''), (404, ''not_found''),
             (405, ''method_not_allowed''), (429, ''rate_limited'')] s of
           None \<Rightarrow> ''error'' | Some c \<Rightarrow> c))"

definition message_and_details :: "json \<Rightarrow> json \<times> json" where
  "message_and_details body = (case body of
     JObj o' \<Rightarrow> (case jget o' ''detail'' of
         JNull \<Rightarrow> (JStr ''Validation failed.'', JObj o') | m \<Rightarrow> (m, JObj []))
   | JList l \<Rightarrow> (JStr ''Validation failed.'', JObj [(''errors'', JList l)])
   | v \<Rightarrow> (JStr (py_str_of v), JObj []))"

definition envelope_exception_handler :: "raised \<Rightarrow> envelope option" where
  "envelope_exception_handler e = (case drf_response e of
     None \<Rightarrow> None
   | Some (s, body) \<Rightarrow>
       let (m, d) = message_and_details body; c = code_for e s in
       Some \<lparr>env_status = (if c = ''session_expired'' then 401 else s), env_code = c, env_message = py_str_of m,
         env_details = (case e of AppExc a (kv # kvs) \<Rightarrow> JObj (kv # kvs) | _ \<Rightarrow> d)\<rparr>)"

text \<open>Every error a view raises on purpose reaches the browser with its own code, message and details, and
  with its own status, except that an expired session is always a 401.\<close>

theorem errors_keep_their_code:
  "envelope_exception_handler (AppExc e d) = Some
     \<lparr>env_status = (if code e = ''session_expired'' then 401 else status_code e), env_code = code e,
      env_message = message e, env_details = JObj d\<rparr>"
  by (cases d) (simp_all add: envelope_exception_handler_def drf_response_def message_and_details_def code_for_def py_str_of_def
    jget_def)

end
