(* ===== verification/Characters.thy ===== *)
theory Characters
  imports Requests
begin

text \<open>
  Text as Python sees it, where the code counts or classifies characters: a string here is UTF-8, a character
  is a leading byte with the continuation bytes behind it. The tables are those of Unicode 16, which Python
  3.14 (the image's) carries: \<open>str.isdigit\<close> takes every character whose numeric type is decimal or digit, so
  fullwidth, superscript and circled digits count as well, and \<open>str.strip\<close> takes every white space.
\<close>

subsection \<open>Characters\<close>

function chars :: "string \<Rightarrow> string list" where
  "chars [] = []"
| "chars (c # s) = (c # takeWhile continuation s) # chars (dropWhile continuation s)"
  by pat_completeness auto
termination
proof (relation "measure length")
  fix c :: char and s
  have "length (dropWhile continuation s) \<le> length s" by (rule length_dropWhile_le)
  then show "(dropWhile continuation s, c # s) \<in> measure length" by simp
qed simp

text \<open>\<open>len\<close>.\<close>

definition char_count :: "string \<Rightarrow> nat" where
  "char_count s = length (chars s)"

definition code_point :: "string \<Rightarrow> int" where
  "code_point ch = (case map of_char ch of
     [a] \<Rightarrow> a
   | [a, b] \<Rightarrow> (a mod 32) * 64 + b mod 64
   | [a, b, c] \<Rightarrow> ((a mod 16) * 64 + b mod 64) * 64 + c mod 64
   | [a, b, c, d] \<Rightarrow> (((a mod 8) * 64 + b mod 64) * 64 + c mod 64) * 64 + d mod 64
   | _ \<Rightarrow> 0)"

definition among :: "(int \<times> int) list \<Rightarrow> string \<Rightarrow> bool" where
  "among ranges ch = (let n = code_point ch in list_ex (\<lambda>(a, b). a \<le> n \<and> n \<le> b) ranges)"

lemma concat_chars [simp]: "concat (chars s) = s"
  by (induction s rule: chars.induct) simp_all

text \<open>Text of single bytes is its own list of characters.\<close>

lemma chars_ascii: "list_all (\<lambda>c. \<not> continuation c) s \<Longrightarrow> chars s = map (\<lambda>c. [c]) s"
proof (induction s rule: chars.induct)
  case (2 c s)
  then have "takeWhile continuation s = []" "dropWhile continuation s = s" by (cases s; simp)+
  then show ?case using 2 by simp
qed simp

subsection \<open>Digits and white space\<close>

definition unicode_digits :: "(int \<times> int) list" where
  "unicode_digits = [
     (48, 57), (178, 179), (185, 185), (1632, 1641), (1776, 1785), (1984, 1993), (2406, 2415), (2534, 2543),
     (2662, 2671), (2790, 2799), (2918, 2927), (3046, 3055), (3174, 3183), (3302, 3311), (3430, 3439),
     (3558, 3567), (3664, 3673), (3792, 3801), (3872, 3881), (4160, 4169), (4240, 4249), (4969, 4977),
     (6112, 6121), (6160, 6169), (6470, 6479), (6608, 6618), (6784, 6793), (6800, 6809), (6992, 7001),
     (7088, 7097), (7232, 7241), (7248, 7257), (8304, 8304), (8308, 8313), (8320, 8329), (9312, 9320),
     (9332, 9340), (9352, 9360), (9450, 9450), (9461, 9469), (9471, 9471), (10102, 10110), (10112, 10120),
     (10122, 10130), (42528, 42537), (43216, 43225), (43264, 43273), (43472, 43481), (43504, 43513),
     (43600, 43609), (44016, 44025), (65296, 65305), (66720, 66729), (68160, 68163), (68912, 68921),
     (68928, 68937), (69216, 69224), (69714, 69722), (69734, 69743), (69872, 69881), (69942, 69951),
     (70096, 70105), (70384, 70393), (70736, 70745), (70864, 70873), (71248, 71257), (71360, 71369),
     (71376, 71395), (71472, 71481), (71904, 71913), (72016, 72025), (72688, 72697), (72784, 72793),
     (73040, 73049), (73120, 73129), (73552, 73561), (92768, 92777), (92864, 92873), (93008, 93017),
     (118000, 118009), (120782, 120831), (123200, 123209), (123632, 123641), (124144, 124153),
     (124401, 124410), (125264, 125273), (127232, 127242), (130032, 130041)]"

definition unicode_spaces :: "(int \<times> int) list" where
  "unicode_spaces = [
     (9, 13), (28, 32), (133, 133), (160, 160), (5760, 5760), (8192, 8202), (8232, 8233), (8239, 8239),
     (8287, 8287), (12288, 12288)]"

definition py_isdigit :: "string \<Rightarrow> bool" where
  "py_isdigit s = (s \<noteq> [] \<and> list_all (among unicode_digits) (chars s))"

definition py_strip :: "string \<Rightarrow> string" where
  "py_strip s = concat (rev (dropWhile (among unicode_spaces) (rev (dropWhile (among unicode_spaces) (chars s)))))"

text \<open>Six digits, six fullwidth digits (their UTF-8), and a Roman numeral, which is no digit.\<close>

definition fullwidth :: "nat \<Rightarrow> string" where
  "fullwidth d = [CHR 0xEF, CHR 0xBC, char_of (144 + d)]"

lemma isdigit_examples:
  "py_isdigit ''123456''" "char_count ''123456'' = 6" "\<not> py_isdigit ''12a''" "\<not> py_isdigit []"
  "py_isdigit (concat (map fullwidth [1, 2, 3, 4, 5, 6]))" "char_count (concat (map fullwidth [1, 2, 3, 4, 5, 6])) = 6"
  "\<not> py_isdigit [CHR 0xE2, CHR 0x85, CHR 0xA0]" "py_strip ([CHR 0xC2, CHR 0xA0] @ ''7 '') = ''7''"
  by code_simp+

end
