(* ===== verification/Billing_Views.thy ===== *)
theory Billing_Views
  imports Invoices Collector Tariffs Identity Characters
begin

text \<open>
  The billing endpoints: the cabinet's (\<open>apps/billing/views.py\<close>), pinned to the session's project or
  account, and the operators' (\<open>apps/platform_admin/billing_views.py\<close>), for an account they name.
  A view takes the tables and the request's parameters and answers a record, or a refusal. Who may
  call it is decided by the permission classes (\<open>Platform_Access\<close>).
\<close>

subsection \<open>The month asked about\<close>

definition bad_period :: refusal where
  "bad_period = bad_request ''period must look like 2026-08''"

definition period_label :: "date \<Rightarrow> string" where
  "period_label first = month_text (nat (date_year first)) (nat (date_month first))"

text \<open>\<open>(params.get('period') or '').strip()\<close>; a value that is not text has no \<open>strip\<close>.\<close>

definition period_text :: "json \<Rightarrow> string option" where
  "period_text v = (case jor v (JStr []) of JStr s \<Rightarrow> Some (strip s) | _ \<Rightarrow> None)"

definition month_end :: "date \<Rightarrow> date" where
  "month_end d = Date (date_year d) (date_month d) (days_in_month (date_year d) (date_month d))"

text \<open>\<open>billing.views._period\<close>.\<close>

definition cabinet_period :: "date \<Rightarrow> json \<Rightarrow> refusal + (date \<times> date \<times> string)" where
  "cabinet_period today v =
     (case period_text v of
        None \<Rightarrow> Inl Crashed
      | Some raw \<Rightarrow>
          if raw = [] then
            let first = Date (date_year today) (date_month today) 1
            in Inr (first, month_end first, period_label first)
          else
            (case split_at (\<lambda>c. c = CHR ''-'') raw of
               (a, Some b) \<Rightarrow>
                 (case (py_int a, py_int b) of
                    (Some y, Some m) \<Rightarrow>
                      if valid_date y m 1
                      then let first = Date y m 1 in Inr (first, month_end first, period_label first)
                      else Inl bad_period
                  | _ \<Rightarrow> Inl bad_period)
             | (a, None) \<Rightarrow> Inl bad_period))"

text \<open>\<open>billing_views._period\<close>.\<close>

definition platform_period :: "date \<Rightarrow> json \<Rightarrow> refusal + (date \<times> date \<times> string)" where
  "platform_period today v =
     (case period_text v of
        None \<Rightarrow> Inl Crashed
      | Some raw \<Rightarrow>
          (case month_bounds (if raw = [] then month_text (nat (date_year today)) (nat (date_month today)) else raw) of
             None \<Rightarrow> Inl bad_period
           | Some (first, final) \<Rightarrow> Inr (first, final, period_label first)))"

text \<open>The cabinet and the operators' screens read every period parameter the same way: both answer the
  same month, or refuse it with the same error.\<close>

theorem periods_agree:
  assumes "valid_date (date_year today) (date_month today) 1"
  shows "cabinet_period today v = platform_period today v"
proof (cases "period_text v")
  case None
  then show ?thesis by (simp add: cabinet_period_def platform_period_def)
next
  case (Some raw)
  show ?thesis
  proof (cases "raw = []")
    case True
    then show ?thesis using assms
      by (auto simp: cabinet_period_def platform_period_def Some month_bounds_text valid_date_def month_end_def Let_def)
  next
    case False
    then show ?thesis
      by (auto simp: cabinet_period_def platform_period_def Some month_bounds_def month_end_def Let_def
          split: prod.split option.split)
  qed
qed

lemma periods_agree_witness: "cabinet_period (Date 2026 8 31) (JStr ''2026-2'') = platform_period (Date 2026 8 31) (JStr ''2026-2'')"
  by (rule periods_agree) (simp add: valid_date_def days_in_month_def)

subsection \<open>Who is asking\<close>

text \<open>
  \<open>tenancy.account_domain\<close>: the session's account and its cloud id. \<open>resolve\<close> is
  \<open>service.resolve_domain_id\<close>.
\<close>

definition account_domain :: "string \<Rightarrow> (string \<Rightarrow> failure + string option) \<Rightarrow> refusal + (string \<times> string)" where
  "account_domain user_account resolve =
     (let acc = strip user_account in
      if acc = [] then Inl (Refused (AppError ''Your session has no account, please sign in again.'' ''session_expired'' 401))
      else (case resolve acc of
          Inl (Zadara e) \<Rightarrow> Inl (Refused (AppError ''Failed to reach the cloud'' (zcode e) 502))
        | Inl Crash \<Rightarrow> Inl Crashed
        | Inr found \<Rightarrow>
            if given found then Inr (acc, the found)
            else Inl (Refused (AppError ''Account not found in the cloud.'' ''account_not_found'' 404))))"

subsection \<open>Today's shape of a project\<close>

text \<open>
  \<open>_live_measurements\<close>: the four reads are gathered, so each degrades alone whatever it fails with.
  Without backups the scheduled snapshots are left out at the source.
\<close>

definition live_measurements :: "reads \<Rightarrow> string \<Rightarrow> bool \<Rightarrow> usage \<times> string list" where
  "live_measurements get p with_backups =
     (let vms = list_vms get False; vols = list_volumes get True; eips = list_elastic_ips get;
          snaps = list_volume_snapshots get;
          mine_vms = of_project vm_projectId p (ok_or [] vms);
          mine_vols = of_project vol_projectId p (ok_or [] vols);
          mine_eips = of_project eip_projectId p (ok_or [] eips);
          mine_snaps = filter (\<lambda>s. with_backups \<or> \<not> snapshot_is_backup s) (of_project vs_projectId p (ok_or [] snaps))
      in (fold (\<lambda>s u. u\<lparr>snapshot_gib_all := snapshot_gib_all u + vs_sizeGiB s\<rparr>) mine_snaps
            (fold count_address mine_eips (fold count_volume mine_vols (fold count_vm mine_vms blank))),
          (if isl vms then [''machines''] else []) @ (if isl vols then [''volumes''] else []) @
          (if isl eips then [''addresses''] else []) @ (if isl snaps then [''snapshots''] else [])))"

lemma fold_snapshot_size:
  "fold (\<lambda>s u. u\<lparr>snapshot_gib_all := snapshot_gib_all u + vs_sizeGiB s\<rparr>) snaps u =
     u\<lparr>snapshot_gib_all := snapshot_gib_all u + (\<Sum>s\<leftarrow>snaps. vs_sizeGiB s)\<rparr>"
  by (induction snaps arbitrary: u) auto

text \<open>The estimate prices the same shape a measurement would store: what is read live for a project is
  what the daily capture records for it, with the snapshot storage reduced exactly by the backups
  where the account does not count them.\<close>

theorem live_is_measured:
  assumes "p \<noteq> []"
  shows "fst (live_measurements get p with_backups) =
    (let u = (case map_of (tally (ok_or [] (list_vms get False)) (ok_or [] (list_volumes get True))
                (ok_or [] (list_elastic_ips get)) (ok_or [] (list_volume_snapshots get))) p of
                None \<Rightarrow> blank | Some u \<Rightarrow> u)
     in u\<lparr>snapshot_gib_all := snapshot_gib u with_backups, backup_snapshot_gib := 0\<rparr>)"
proof -
  let ?snaps = "of_project vs_projectId p (ok_or [] (list_volume_snapshots get))"
  have split: "(\<Sum>s\<leftarrow>?snaps. vs_sizeGiB s) =
      (\<Sum>s\<leftarrow>filter snapshot_is_backup ?snaps. vs_sizeGiB s) + (\<Sum>s\<leftarrow>filter (\<lambda>s. \<not> snapshot_is_backup s) ?snaps. vs_sizeGiB s)"
    by (rule sum_list_filter_split)
  show ?thesis
    unfolding live_measurements_def tally_project [OF assms]
    by (cases with_backups)
      (simp_all add: Let_def fold_counts fold_snapshot_size holdings_def blank_def snapshot_gib_def split)
qed

lemma live_is_measured_witness:
  "fst (live_measurements refusing_volumes ''p1'' False) =
    (let u = (case map_of (tally (ok_or [] (list_vms refusing_volumes False)) (ok_or [] (list_volumes refusing_volumes True))
                (ok_or [] (list_elastic_ips refusing_volumes)) (ok_or [] (list_volume_snapshots refusing_volumes))) ''p1'' of
                None \<Rightarrow> blank | Some u \<Rightarrow> u)
     in u\<lparr>snapshot_gib_all := snapshot_gib u False, backup_snapshot_gib := 0\<rparr>)"
  by (rule live_is_measured) simp

subsection \<open>What a screen says of the price list\<close>

record tariff_payload =
  tp_name :: "string option"
  tp_currency :: "string option"
  tp_account :: "string option"
  tp_inherited :: bool
  tp_configured :: bool
  tp_priced :: nat

text \<open>The cabinet's payload names the list's account, the operators' whether it is inherited.\<close>

definition cabinet_tariff_payload :: "tariff option \<Rightarrow> (resource \<times> rat) list \<Rightarrow> tariff_payload" where
  "cabinet_tariff_payload t rates = (case t of
     None \<Rightarrow> \<lparr>tp_name = None, tp_currency = None, tp_account = None, tp_inherited = False, tp_configured = False, tp_priced = 0\<rparr>
   | Some t \<Rightarrow> \<lparr>tp_name = Some (tariff_name t), tp_currency = Some (tariff_currency t),
       tp_account = (if tariff_account t = [] then None else Some (tariff_account t)), tp_inherited = False,
       tp_configured = (rates \<noteq> []), tp_priced = length rates\<rparr>)"

definition platform_tariff_payload :: "tariff option \<Rightarrow> (resource \<times> rat) list \<Rightarrow> string \<Rightarrow> tariff_payload" where
  "platform_tariff_payload t rates acc = (case t of
     None \<Rightarrow> \<lparr>tp_name = None, tp_currency = None, tp_account = None, tp_inherited = True, tp_configured = False, tp_priced = 0\<rparr>
   | Some t \<Rightarrow> \<lparr>tp_name = Some (tariff_name t), tp_currency = Some (tariff_currency t), tp_account = None,
       tp_inherited = (acc = [] \<or> lower (tariff_account t) \<noteq> lower acc),
       tp_configured = (rates \<noteq> []), tp_priced = length rates\<rparr>)"

subsection \<open>The user's bill (\<open>UserBillingView\<close>)\<close>

record user_bill =
  ub_accrued :: bill
  ub_estimate :: bill
  ub_current :: usage
  ub_tariff :: tariff_payload
  ub_period :: string
  ub_account :: string
  ub_unavailable :: "string list"

definition session_gone :: refusal where
  "session_gone = Refused (AppError ''Session expired, please sign in again.'' ''session_expired'' 401)"

definition no_project_scope :: refusal where
  "no_project_scope = Refused (AppError ''This session has no project scope, so there is nothing to price.'' ''no_project_scope'' 409)"

definition project_between :: "usage_snapshot list \<Rightarrow> string \<Rightarrow> date \<Rightarrow> date \<Rightarrow> usage_snapshot list" where
  "project_between rows p first final =
     sort_key snapshot_order (filter (\<lambda>s. project_id s = p \<and> first \<le> taken_on s \<and> taken_on s \<le> final) rows)"

text \<open>\<open>token\<close> is what the vault holds for the session, \<open>project\<close> the session's project.\<close>

definition user_billing :: "string option \<Rightarrow> string option \<Rightarrow> (string \<Rightarrow> reads) \<Rightarrow> refusal + (string \<times> string) \<Rightarrow> date \<Rightarrow> json
    \<Rightarrow> billing_db \<Rightarrow> refusal + user_bill" where
  "user_billing token project get_with who today per db =
     (if \<not> given token then Inl session_gone
      else if \<not> given project then Inl no_project_scope
      else
        sum_bind (cabinet_period today per) (\<lambda>(first, final, label).
        sum_bind who (\<lambda>(acc, dom_id).
          let trf = resolve_tariff (tariffs db) acc; rates = rate_map trf;
              accrued = cost_of (account_settings db) (project_between (snapshots db) (the project) first final) rates;
              (shape, missing) = live_measurements (get_with (the token)) (the project)
                 (counts_backups (account_settings db) dom_id)
          in Inr \<lparr>ub_accrued = accrued, ub_estimate = estimate_month shape rates, ub_current = shape,
               ub_tariff = cabinet_tariff_payload trf rates, ub_period = label, ub_account = acc,
               ub_unavailable = missing\<rparr>)))"

subsection \<open>The account's bill (\<open>AdminBillingView\<close>, \<open>AccountBillingView\<close>)\<close>

record project_bill =
  pb_id :: string
  pb_name :: string
  pb_total :: rat
  pb_days :: nat
  pb_lines :: "bill_line list"
  pb_latest :: usage_snapshot

text \<open>\<open>max(rows, key=taken_on)\<close>: the first row of the newest day.\<close>

definition newest :: "usage_snapshot list \<Rightarrow> usage_snapshot" where
  "newest rows = the (first_row (\<lambda>s. - ordinal (taken_on s)) rows)"

text \<open>\<open>shown\<close> is the newest row as the screen shows it.\<close>

definition project_bill_of :: "account_settings list \<Rightarrow> (resource \<times> rat) list \<Rightarrow> (usage_snapshot \<Rightarrow> usage_snapshot)
    \<Rightarrow> string \<times> usage_snapshot list \<Rightarrow> project_bill" where
  "project_bill_of settings rates shown = (\<lambda>(p, rows).
     let cost = cost_of settings rows rates; latest = newest rows
     in \<lparr>pb_id = p, pb_name = (if project_name latest = [] then p else project_name latest),
         pb_total = bill_total cost, pb_days = bill_days cost, pb_lines = bill_lines cost, pb_latest = shown latest\<rparr>)"

definition by_project :: "account_settings list \<Rightarrow> (resource \<times> rat) list \<Rightarrow> (usage_snapshot \<Rightarrow> usage_snapshot)
    \<Rightarrow> usage_snapshot list \<Rightarrow> project_bill list" where
  "by_project settings rates shown rows =
     sort_key (\<lambda>b. - pb_total b) (map (project_bill_of settings rates shown) (group_by project_id rows))"

record account_bill =
  ab_account :: bill
  ab_projects :: "project_bill list"
  ab_tariff :: tariff_payload
  ab_period :: string
  ab_days_measured :: nat
  ab_days_in_period :: int

text \<open>The cabinet shows the snapshot storage that counts for the account.\<close>

definition shown_counted :: "bool \<Rightarrow> usage_snapshot \<Rightarrow> usage_snapshot" where
  "shown_counted with_backups s = s\<lparr>snapshot_gib_all := snapshot_gib s with_backups\<rparr>"

definition admin_billing :: "refusal + (string \<times> string) \<Rightarrow> date \<Rightarrow> json \<Rightarrow> billing_db \<Rightarrow> refusal + account_bill" where
  "admin_billing who today per db =
     sum_bind who (\<lambda>(acc, dom_id).
     sum_bind (cabinet_period today per) (\<lambda>(first, final, label).
       let trf = resolve_tariff (tariffs db) acc; rates = rate_map trf;
           with_backups = counts_backups (account_settings db) dom_id;
           rows = snapshots_between (snapshots db) dom_id first final
       in Inr \<lparr>ab_account = cost_of (account_settings db) rows rates,
            ab_projects = by_project (account_settings db) rates (shown_counted with_backups) rows,
            ab_tariff = cabinet_tariff_payload trf rates, ab_period = label,
            ab_days_measured = card (set (map taken_on rows)),
            ab_days_in_period = date_diff final first + 1\<rparr>))"

subsection \<open>The export (\<open>AdminUsageExportView\<close>)\<close>

definition export_order :: "usage_snapshot \<Rightarrow> int \<times> string" where
  "export_order s = (ordinal (taken_on s), project_name s)"

text \<open>The rows of the file, with the snapshot storage the bill counted.\<close>

definition usage_export :: "refusal + (string \<times> string) \<Rightarrow> date \<Rightarrow> json \<Rightarrow> billing_db
    \<Rightarrow> refusal + (usage_snapshot list \<times> string)" where
  "usage_export who today per db =
     sum_bind who (\<lambda>(acc, dom_id).
     sum_bind (cabinet_period today per) (\<lambda>(first, final, label).
       let with_backups = counts_backups (account_settings db) dom_id
       in Inr (map (shown_counted with_backups)
            (sort_key export_order (filter (\<lambda>s. domain_id s = dom_id \<and> first \<le> taken_on s \<and> taken_on s \<le> final) (snapshots db))),
          ''usage-'' @ acc @ ''-'' @ label @ ''.csv'')))"

subsection \<open>History\<close>

record month_total =
  mt_period :: string
  mt_total :: rat
  mt_days :: nat

text \<open>\<open>min(max(int(months or 6), 1), 24)\<close>.\<close>

definition history_months :: "json \<Rightarrow> refusal + nat" where
  "history_months v = (case jor v (JInt 6) of
     JStr s \<Rightarrow> (case py_int s of
         None \<Rightarrow> Inl (bad_request ''months must be a number'')
       | Some n \<Rightarrow> Inr (nat (min (max n 1) 24)))
   | w \<Rightarrow> (case py_int_of w of None \<Rightarrow> Inl Crashed | Some n \<Rightarrow> Inr (nat (min (max n 1) 24))))"

definition monthly_history :: "account_settings list \<Rightarrow> (resource \<times> rat) list \<Rightarrow> nat \<Rightarrow> usage_snapshot list \<Rightarrow> month_total list" where
  "monthly_history settings rates months rows =
     (let buckets = sort_key fst (group_by (\<lambda>s. period_label (taken_on s)) (sort_key (\<lambda>s. ordinal (taken_on s)) rows))
      in map (\<lambda>(label, rs). let cost = cost_of settings rs rates
              in \<lparr>mt_period = label, mt_total = bill_total cost, mt_days = bill_days cost\<rparr>)
           (drop (length buckets - months) buckets))"

definition usage_history :: "refusal + (string \<times> string) \<Rightarrow> json \<Rightarrow> billing_db \<Rightarrow> refusal + (month_total list \<times> string option)" where
  "usage_history who months db =
     sum_bind who (\<lambda>(acc, dom_id).
     sum_bind (history_months months) (\<lambda>n.
       let trf = resolve_tariff (tariffs db) acc
       in Inr (monthly_history (account_settings db) (rate_map trf) n (filter (\<lambda>s. domain_id s = dom_id) (snapshots db)),
               map_option tariff_currency trf)))"

subsection \<open>Invoices in the cabinet (\<open>AdminInvoiceView\<close>)\<close>

definition invoice_document :: "billing_settings \<Rightarrow> billing_db \<Rightarrow> string \<Rightarrow> string \<Rightarrow> date \<Rightarrow> date \<Rightarrow> string \<Rightarrow> refusal + document" where
  "invoice_document st db acc dom_id first final label =
     (case existing_invoice (invoices db) acc label of
        Some i \<Rightarrow> Inr (serialize st i)
      | None \<Rightarrow> or_crash (draft st db acc dom_id first final label))"

definition invoice_get :: "billing_settings \<Rightarrow> refusal + (string \<times> string) \<Rightarrow> date \<Rightarrow> json \<Rightarrow> billing_db \<Rightarrow> refusal + document" where
  "invoice_get st who today per db =
     sum_bind who (\<lambda>(acc, dom_id). sum_bind (cabinet_period today per) (\<lambda>(first, final, label).
       invoice_document st db acc dom_id first final label))"

text \<open>The refusals before a number is consumed.\<close>

definition issue_refusal :: "document \<Rightarrow> refusal option" where
  "issue_refusal d =
     (if doc_missing d \<noteq> [] then Some (conflict (''Cannot issue: missing '' @ join '', '' (doc_missing d)) ''requisites_incomplete'')
      else if doc_days_measured d = 0 then
        Some (conflict ''Nothing was measured in that month, so there is nothing to invoice.'' ''nothing_to_invoice'')
      else if \<not> list_ex dl_priced (doc_lines d) then
        Some (conflict (''No priced resources in that month '' @ [CHR 0xE2, CHR 0x80, CHR 0x94] @ '' set a price list first.'')
           ''tariff_not_configured'')
      else None)"

definition not_started :: refusal where
  "not_started = bad_request ''That month has not started yet.''"

definition guarded_issue :: "billing_settings \<Rightarrow> (nat \<Rightarrow> invoice list) \<Rightarrow> date \<Rightarrow> int \<Rightarrow> string \<Rightarrow> string \<Rightarrow> string
    \<Rightarrow> date \<times> date \<times> string \<Rightarrow> billing_db \<Rightarrow> billing_db \<times> (refusal + document)" where
  "guarded_issue st others today now by_whom acc dom_id = (\<lambda>(first, final, label) db.
     if today < first then (db, Inl not_started)
     else (case draft st db acc dom_id first final label of
         None \<Rightarrow> (db, Inl Crashed)
       | Some d \<Rightarrow>
           (case issue_refusal d of
              Some e \<Rightarrow> (db, Inl e)
            | None \<Rightarrow>
                (case issue st others acc dom_id first final label by_whom now db of
                   (db', Inl _) \<Rightarrow> (db', Inl Crashed)
                 | (db', Inr doc) \<Rightarrow> (db', Inr doc)))))"

text \<open>\<open>AdminInvoiceView.post\<close>: an issued document, whether it was issued just now or before, leaves a row in the
  audit trail; a refusal leaves none. The total is written as a float.\<close>

definition invoice_entry :: "web_request \<Rightarrow> string \<Rightarrow> string \<Rightarrow> document \<Rightarrow> audit_log" where
  "invoice_entry q acc label d = audit_entry q ''invoice.issue''
     \<lparr>log_resource_type := ''invoice'', log_resource_id := opt_text (doc_number d), log_resource_name := acc @ '' '' @ label,
      log_detail := [(''total'', JNum (doc_total d)), (''currency'', JStr (doc_currency d))]\<rparr>"

definition invoice_post :: "billing_settings \<Rightarrow> (nat \<Rightarrow> invoice list) \<Rightarrow> refusal + (string \<times> string) \<Rightarrow> date \<Rightarrow> int \<Rightarrow> string
    \<Rightarrow> (audit_log \<Rightarrow> bool) \<Rightarrow> web_request \<Rightarrow> json \<Rightarrow> billing_db \<times> audit_log list
    \<Rightarrow> (billing_db \<times> audit_log list) \<times> (refusal + document)" where
  "invoice_post st others who today now issuer saves q data = (\<lambda>(db, trail).
     case sum_bind who (\<lambda>w. sum_bind (cabinet_period today (jget (as_object data) ''period'')) (\<lambda>p. Inr (w, p))) of
        Inl e \<Rightarrow> ((db, trail), Inl e)
      | Inr ((acc, dom_id), p) \<Rightarrow>
          (case guarded_issue st others today now issuer acc dom_id p db of
             (db', Inl e) \<Rightarrow> ((db', trail), Inl e)
           | (db', Inr d) \<Rightarrow> ((db', audit_record saves (invoice_entry q acc (snd (snd p)) d) trail), Inr d)))"

definition invoice_list :: "refusal + (string \<times> string) \<Rightarrow> billing_db \<Rightarrow> refusal + invoice list" where
  "invoice_list who db =
     sum_bind who (\<lambda>(acc, _). Inr (rev (sort_key period (filter (\<lambda>i. iexact (inv_account i) acc) (invoices db)))))"

subsection \<open>Requisites\<close>

definition profile_of :: "billing_profile list \<Rightarrow> string \<Rightarrow> billing_profile option" where
  "profile_of rows acc = List.find (\<lambda>p. iexact (profile_account p) acc) rows"

definition blank_profile :: "string \<Rightarrow> billing_profile" where
  "blank_profile acc = \<lparr>profile_account = acc, legal_name = [], tax_id = [], address = [], contract = [],
     director = [], email = [], phone = []\<rparr>"

text \<open>What the screen shows: the asked-for spelling of the account, the stored columns or blanks.\<close>

definition profile_payload :: "billing_profile list \<Rightarrow> string \<Rightarrow> billing_profile \<times> bool" where
  "profile_payload rows acc = (case profile_of rows acc of
     None \<Rightarrow> (blank_profile acc, False) | Some p \<Rightarrow> (p\<lparr>profile_account := acc\<rparr>, True))"

text \<open>The cabinet writes the fields that are given, at most 500 characters of each.\<close>

definition field_given :: "object \<Rightarrow> string \<Rightarrow> string \<Rightarrow> string" where
  "field_given payload k old = (case jget payload k of JNull \<Rightarrow> old | v \<Rightarrow> take_chars 500 (strip (py_str_of v)))"

definition cabinet_fields :: "object \<Rightarrow> billing_profile \<Rightarrow> billing_profile" where
  "cabinet_fields pl p = p\<lparr>
     legal_name := field_given pl ''legalName'' (legal_name p), tax_id := field_given pl ''taxId'' (tax_id p),
     address := field_given pl ''address'' (address p), contract := field_given pl ''contract'' (contract p),
     director := field_given pl ''director'' (director p), email := field_given pl ''email'' (email p),
     phone := field_given pl ''phone'' (phone p)\<rparr>"

text \<open>The widths of \<open>BillingProfile\<close>'s columns. The database refuses what does not fit one, and nothing is written.\<close>

definition profile_fits :: "billing_profile \<Rightarrow> bool" where
  "profile_fits p = list_all (\<lambda>(v, width). char_count v \<le> width)
     [(legal_name p, 255), (tax_id p, 32), (address p, 500), (contract p, 120), (director p, 255), (email p, 254), (phone p, 64)]"

definition cabinet_profile_put :: "refusal + (string \<times> string) \<Rightarrow> json \<Rightarrow> billing_db \<Rightarrow> billing_db \<times> (refusal + (billing_profile \<times> bool))" where
  "cabinet_profile_put who data db =
     (case who of
        Inl e \<Rightarrow> (db, Inl e)
      | Inr (acc, _) \<Rightarrow>
          let pl = as_object data;
              rows = upsert (\<lambda>p. profile_account p = acc) (cabinet_fields pl) (cabinet_fields pl (blank_profile acc)) (profiles db)
          in if profile_fits (cabinet_fields pl (blank_profile acc))
             then (db\<lparr>profiles := rows\<rparr>, Inr (profile_payload rows acc))
             else (db, Inl Crashed))"

text \<open>A tax number one character longer than its column is an unhandled error, not a cut value.\<close>

lemma overlong_requisite_crashes:
  "cabinet_profile_put (Inr (acc, dom_id)) (JObj [(''taxId'', JStr (replicate 33 (CHR ''7'')))]) db = (db, Inl Crashed)"
proof -
  let ?p = "cabinet_fields [(''taxId'', JStr (replicate 33 (CHR ''7'')))] (blank_profile acc)"
  have "tax_id ?p = field_given [(''taxId'', JStr (replicate 33 (CHR ''7'')))] ''taxId'' []"
    by (simp add: cabinet_fields_def blank_profile_def)
  moreover have "\<not> char_count (field_given [(''taxId'', JStr (replicate 33 (CHR ''7'')))] ''taxId'' []) \<le> 32" by code_simp
  ultimately have "\<not> profile_fits ?p" by (simp add: profile_fits_def)
  then show ?thesis by (simp add: cabinet_profile_put_def as_object_def)
qed

end
