(* ===== verification/Account_Boundary.thy ===== *)
theory Account_Boundary
  imports Billing_Views
begin

text \<open>
  The account boundary of the cabinet's billing endpoints: what an administrator is shown is a function of
  the rows of their own account, and what they write touches no other account's rows.
\<close>

text \<open>The rows one account's administrator may have anything to do with.\<close>

definition seen_by :: "string \<Rightarrow> string \<Rightarrow> billing_db \<Rightarrow> billing_db" where
  "seen_by acc dom_id db =
     \<lparr>tariffs = filter (\<lambda>t. iexact (tariff_account t) acc \<or> tariff_account t = []) (tariffs db),
      snapshots = filter (\<lambda>s. domain_id s = dom_id) (snapshots db),
      account_settings = filter (\<lambda>r. set_domain_id r = dom_id) (account_settings db),
      profiles = filter (\<lambda>p. iexact (profile_account p) acc) (profiles db),
      invoices = filter (\<lambda>i. iexact (inv_account i) acc) (invoices db)\<rparr>"

named_theorems seen \<open>what is read of the tables is in the account's own rows\<close>

lemma filter_seen: "(\<And>x. P x \<Longrightarrow> Q x) \<Longrightarrow> filter P (filter Q xs) = filter P xs"
  unfolding filter_filter by (rule filter_cong) auto

lemma seen_rows:
  "filter (\<lambda>t. is_active t \<and> iexact (tariff_account t) acc) (tariffs (seen_by acc dom_id db)) =
     filter (\<lambda>t. is_active t \<and> iexact (tariff_account t) acc) (tariffs db)"
  "filter (\<lambda>t. is_active t \<and> tariff_account t = []) (tariffs (seen_by acc dom_id db)) =
     filter (\<lambda>t. is_active t \<and> tariff_account t = []) (tariffs db)"
  "filter (\<lambda>t. iexact (tariff_account t) acc) (tariffs (seen_by acc dom_id db)) = filter (\<lambda>t. iexact (tariff_account t) acc) (tariffs db)"
  "filter (\<lambda>t. tariff_account t = []) (tariffs (seen_by acc dom_id db)) = filter (\<lambda>t. tariff_account t = []) (tariffs db)"
  "filter (\<lambda>s. domain_id s = dom_id \<and> first \<le> taken_on s \<and> taken_on s \<le> final) (snapshots (seen_by acc dom_id db)) =
     filter (\<lambda>s. domain_id s = dom_id \<and> first \<le> taken_on s \<and> taken_on s \<le> final) (snapshots db)"
  "filter (\<lambda>s. domain_id s = dom_id) (snapshots (seen_by acc dom_id db)) = filter (\<lambda>s. domain_id s = dom_id) (snapshots db)"
  "filter (\<lambda>i. iexact (inv_account i) acc \<and> period i = label) (invoices (seen_by acc dom_id db)) =
     filter (\<lambda>i. iexact (inv_account i) acc \<and> period i = label) (invoices db)"
  "filter (\<lambda>i. iexact (inv_account i) acc) (invoices (seen_by acc dom_id db)) = filter (\<lambda>i. iexact (inv_account i) acc) (invoices db)"
  unfolding seen_by_def billing_db.simps by (rule filter_seen; simp)+

lemma resolve_tariff_seen [seen]: "resolve_tariff (tariffs (seen_by acc dom_id db)) acc = resolve_tariff (tariffs db) acc"
  unfolding resolve_tariff_def by (simp only: seen_rows(1) seen_rows(2) [where acc = acc])

lemma snapshots_between_seen [seen]:
  "snapshots_between (snapshots (seen_by acc dom_id db)) dom_id first final = snapshots_between (snapshots db) dom_id first final"
  by (simp add: snapshots_between_def seen_rows)

lemma uncounted_seen:
  assumes "set ds \<subseteq> {dom_id}"
  shows "uncounted (account_settings (seen_by acc dom_id db)) ds = uncounted (account_settings db) ds"
proof -
  have eq: "filter (\<lambda>r. set_domain_id r \<in> set (filter (\<lambda>d. d \<noteq> []) ds) \<and> \<not> count_backup_snapshots r)
      (filter (\<lambda>r. set_domain_id r = dom_id) rows) =
    filter (\<lambda>r. set_domain_id r \<in> set (filter (\<lambda>d. d \<noteq> []) ds) \<and> \<not> count_backup_snapshots r) rows" for rows
    by (rule filter_seen) (use assms in auto)
  show ?thesis by (simp only: uncounted_def seen_by_def billing_db.simps Let_def eq)
qed

lemma counts_backups_seen [seen]:
  "counts_backups (account_settings (seen_by acc dom_id db)) dom_id = counts_backups (account_settings db) dom_id"
  by (simp add: counts_backups_def uncounted_seen)

lemma cost_of_seen:
  assumes "\<forall>s \<in> set snaps. domain_id s = dom_id"
  shows "cost_of (account_settings (seen_by acc dom_id db)) snaps rates = cost_of (account_settings db) snaps rates"
proof -
  have "uncounted (account_settings (seen_by acc dom_id db)) (map domain_id snaps) = uncounted (account_settings db) (map domain_id snaps)"
    by (rule uncounted_seen) (use assms in auto)
  then have "unit_days_of (account_settings (seen_by acc dom_id db)) snaps = unit_days_of (account_settings db) snaps"
    by (simp add: unit_days_of_def Let_def)
  then show ?thesis by (simp add: cost_of_def Let_def)
qed

lemma project_bill_seen:
  assumes "\<forall>s \<in> set rows. domain_id s = dom_id"
  shows "by_project (account_settings (seen_by acc dom_id db)) rates shown rows = by_project (account_settings db) rates shown rows"
proof -
  have "project_bill_of (account_settings (seen_by acc dom_id db)) rates shown g = project_bill_of (account_settings db) rates shown g"
    if "g \<in> set (group_by project_id rows)" for g
  proof -
    obtain p ys where g: "g = (p, ys)" by (cases g)
    then have "ys = filter (\<lambda>s. project_id s = p) rows" using that group_by_members by metis
    then show ?thesis using assms by (simp add: g project_bill_of_def cost_of_seen)
  qed
  then show ?thesis unfolding by_project_def by (metis (no_types, lifting) map_cong)
qed

lemma history_seen:
  assumes "\<forall>s \<in> set rows. domain_id s = dom_id"
  shows "monthly_history (account_settings (seen_by acc dom_id db)) rates n rows = monthly_history (account_settings db) rates n rows"
proof -
  let ?b = "sort_key fst (group_by (\<lambda>s. period_label (taken_on s)) (sort_key (\<lambda>s. ordinal (taken_on s)) rows))"
  have "cost_of (account_settings (seen_by acc dom_id db)) ys rates = cost_of (account_settings db) ys rates"
    if "(label, ys) \<in> set (drop (length ?b - n) ?b)" for label ys
  proof -
    have "(label, ys) \<in> set (group_by (\<lambda>s. period_label (taken_on s)) (sort_key (\<lambda>s. ordinal (taken_on s)) rows))"
      using in_set_dropD [OF that] by simp
    then have "ys = filter (\<lambda>s. period_label (taken_on s) = label) (sort_key (\<lambda>s. ordinal (taken_on s)) rows)"
      by (rule group_by_members)
    then show ?thesis using assms by (intro cost_of_seen) auto
  qed
  then show ?thesis unfolding monthly_history_def Let_def by (intro map_cong) auto
qed

lemma find_seen: "(\<And>x. P x \<Longrightarrow> Q x) \<Longrightarrow> List.find P (filter Q xs) = List.find P xs"
  by (induction xs) auto

lemma buyer_seen [seen]: "buyer (profiles (seen_by acc dom_id db)) acc = buyer (profiles db) acc"
  by (simp add: buyer_def seen_by_def find_seen)

lemma existing_seen [seen]: "existing_invoice (invoices (seen_by acc dom_id db)) acc label = existing_invoice (invoices db) acc label"
  by (simp add: existing_invoice_def seen_rows)

lemma profile_seen [seen]: "profile_payload (profiles (seen_by acc dom_id db)) acc = profile_payload (profiles db) acc"
  by (simp add: profile_payload_def profile_of_def seen_by_def find_seen)

lemma between_domain: "\<forall>s \<in> set (snapshots_between rows dom_id first final). domain_id s = dom_id"
  by (simp add: snapshots_between_def)

lemma draft_seen [seen]:
  "draft st (seen_by acc dom_id db) acc dom_id first final label = draft st db acc dom_id first final label"
  unfolding draft_def seen cost_of_seen [OF between_domain] by (rule refl)

lemma screen_seen [seen]: "cabinet_tariff_get (tariffs (seen_by acc dom_id db)) acc = cabinet_tariff_get (tariffs db) acc"
  by (simp add: cabinet_tariff_get_def seen_rows)

lemma sum_bind_cong: "(\<And>x. v = Inr x \<Longrightarrow> f x = g x) \<Longrightarrow> sum_bind v f = sum_bind v g"
  by (simp add: sum_bind_def split: sum.split)

text \<open>C13. The boundary on reading: the bill, the export, the history, the invoice, the list of documents, the
  price list and the requisites an administrator is shown are what they would be if the tables held
  nothing but their own account's rows and the shared price list.\<close>

theorem administrators_see_their_account:
  "admin_billing (Inr (acc, dom_id)) today per db = admin_billing (Inr (acc, dom_id)) today per (seen_by acc dom_id db) \<and>
   usage_export (Inr (acc, dom_id)) today per db = usage_export (Inr (acc, dom_id)) today per (seen_by acc dom_id db) \<and>
   usage_history (Inr (acc, dom_id)) months db = usage_history (Inr (acc, dom_id)) months (seen_by acc dom_id db) \<and>
   invoice_get st (Inr (acc, dom_id)) today per db = invoice_get st (Inr (acc, dom_id)) today per (seen_by acc dom_id db) \<and>
   invoice_list (Inr (acc, dom_id)) db = invoice_list (Inr (acc, dom_id)) (seen_by acc dom_id db) \<and>
   cabinet_tariff_get (tariffs db) acc = cabinet_tariff_get (tariffs (seen_by acc dom_id db)) acc \<and>
   profile_payload (profiles db) acc = profile_payload (profiles (seen_by acc dom_id db)) acc"
proof (intro conjI)
  show "admin_billing (Inr (acc, dom_id)) today per db = admin_billing (Inr (acc, dom_id)) today per (seen_by acc dom_id db)"
    by (auto simp: admin_billing_def sum_bind_def seen cost_of_seen [OF between_domain] project_bill_seen [OF between_domain]
        Let_def split: sum.split)
  show "usage_export (Inr (acc, dom_id)) today per db = usage_export (Inr (acc, dom_id)) today per (seen_by acc dom_id db)"
    by (simp add: usage_export_def sum_bind_def seen seen_rows Let_def split: sum.split)
  have hist: "monthly_history (account_settings (seen_by acc dom_id db)) rates n (filter (\<lambda>s. domain_id s = dom_id) (snapshots db)) =
      monthly_history (account_settings db) rates n (filter (\<lambda>s. domain_id s = dom_id) (snapshots db))" for rates n
    by (rule history_seen) simp
  show "usage_history (Inr (acc, dom_id)) months db = usage_history (Inr (acc, dom_id)) months (seen_by acc dom_id db)"
    by (simp add: usage_history_def sum_bind_def seen seen_rows hist Let_def split: sum.split)
  show "invoice_get st (Inr (acc, dom_id)) today per db = invoice_get st (Inr (acc, dom_id)) today per (seen_by acc dom_id db)"
    by (simp add: invoice_get_def invoice_document_def sum_bind_def seen split: sum.split option.split)
  show "invoice_list (Inr (acc, dom_id)) db = invoice_list (Inr (acc, dom_id)) (seen_by acc dom_id db)"
    by (simp add: invoice_list_def sum_bind_def seen_rows split: sum.split)
qed (simp_all add: seen)


subsection \<open>Writing\<close>

text \<open>The rows of the tables that belong to anybody else.\<close>

definition beyond :: "string \<Rightarrow> billing_db \<Rightarrow> billing_db" where
  "beyond acc db = db\<lparr>
     tariffs := filter (\<lambda>t. tariff_account t \<noteq> acc) (tariffs db),
     profiles := filter (\<lambda>p. profile_account p \<noteq> acc) (profiles db),
     invoices := filter (\<lambda>i. inv_account i \<noteq> acc) (invoices db)\<rparr>"

lemma write_list_beyond:
  "filter (\<lambda>t. tariff_account t \<noteq> acc) (fst (write_list column acc nm cur prices keep_others ts)) =
   filter (\<lambda>t. tariff_account t \<noteq> acc) ts"
proof -
  have "filter (\<lambda>t. tariff_account t \<noteq> acc) (upsert (\<lambda>t. tariff_account t = acc)
      (\<lambda>t. t\<lparr>tariff_name := nm, tariff_currency := cur, is_active := True\<rparr>)
      \<lparr>tariff_name = nm, tariff_currency = cur, tariff_account = acc, is_active = True, tariff_rates = []\<rparr> ts) =
    filter (\<lambda>t. tariff_account t \<noteq> acc) ts"
    by (rule upsert_filter_other) simp_all
  then show ?thesis by (simp add: write_list_def with_rates_filter Let_def)
qed

lemma cabinet_tariff_beyond:
  "filter (\<lambda>t. tariff_account t \<noteq> acc) (fst (cabinet_tariff_put column acc data ts)) = filter (\<lambda>t. tariff_account t \<noteq> acc) ts"
proof (cases "validated_prices cabinet_price (jget (as_object data) ''rates'')")
  case (Inr prices)
  obtain ts' ok where w: "write_list column acc (acc @ '' price list'') (submitted_currency (as_object data)) prices False ts = (ts', ok)"
    by fastforce
  then have "filter (\<lambda>t. tariff_account t \<noteq> acc) ts' = filter (\<lambda>t. tariff_account t \<noteq> acc) ts"
    using write_list_beyond [of acc column _ _ _ False ts] by (metis fst_conv)
  then show ?thesis by (simp add: cabinet_tariff_put_def Inr w)
qed (simp add: cabinet_tariff_put_def)

lemma cabinet_fields_account [simp]: "profile_account (cabinet_fields pl p) = profile_account p"
  by (simp add: cabinet_fields_def)

lemma cabinet_profile_beyond: "beyond acc (fst (cabinet_profile_put (Inr (acc, dom_id)) data db)) = beyond acc db"
  by (simp add: cabinet_profile_put_def beyond_def Let_def blank_profile_def upsert_filter_other)

lemma claim_alone:
  assumes "list_all (\<lambda>ws. ws = []) wss" "\<And>seq num. inv_account (build seq num) = acc"
  shows "filter (\<lambda>i. inv_account i \<noteq> acc) (fst (claim build year rows wss)) = filter (\<lambda>i. inv_account i \<noteq> acc) rows"
  using assms(1)
proof (induction wss arbitrary: rows)
  case (Cons ws wss)
  obtain seq num where nx: "next_number rows year = (seq, num)" by fastforce
  show ?case using Cons assms(2) by (auto simp: nx Let_def)
qed simp

lemma issue_beyond: "beyond acc (fst (issue st (\<lambda>_. []) acc dom_id first final per by_whom now db)) = beyond acc db"
proof (cases "existing_invoice (invoices db) acc per")
  case None
  show ?thesis
  proof (cases "draft st db acc dom_id first final per")
    case (Some d)
    let ?c = "claim (frozen d dom_id by_whom now) (nat (date_year first)) (invoices db) (map (\<lambda>_. []) [0..<5])"
    have "inv_account (frozen d dom_id by_whom now seq num) = acc" for seq num
      using Some by (simp add: frozen_def draft_def Let_def split: option.splits prod.splits) auto
    then have "filter (\<lambda>i. inv_account i \<noteq> acc) (fst ?c) = filter (\<lambda>i. inv_account i \<noteq> acc) (invoices db)"
      by (intro claim_alone) (simp_all add: list_all_iff)
    then show ?thesis using None Some by (cases ?c) (auto simp: issue_def beyond_def split: option.split)
  qed (simp add: issue_def None)
qed (simp add: issue_def)

lemma guarded_issue_beyond: "beyond acc (fst (guarded_issue st (\<lambda>_. []) today now by_whom acc dom_id p db)) = beyond acc db"
proof -
  obtain first final label where p: "p = (first, final, label)" by (cases p)
  show ?thesis using issue_beyond [of acc st dom_id first final label by_whom now db]
    by (cases "issue st (\<lambda>_. []) acc dom_id first final label by_whom now db")
       (auto simp: p guarded_issue_def split: option.split sum.split)
qed

text \<open>C14. The boundary on writing: whatever an administrator submits as a price list, as requisites or as a
  month to invoice, and whether it is accepted or refused, every price list, every set of requisites and
  every document of any other account, and every measurement and setting, is left as it was.\<close>

theorem administrators_write_their_account:
  "beyond acc (fst (cabinet_profile_put (Inr (acc, dom_id)) data db)) = beyond acc db \<and>
   beyond acc (db\<lparr>tariffs := fst (cabinet_tariff_put column acc data (tariffs db))\<rparr>) = beyond acc db \<and>
   beyond acc (fst (fst (invoice_post st (\<lambda>_. []) (Inr (acc, dom_id)) today now issuer saves q data (db, trail)))) = beyond acc db"
proof (intro conjI)
  show "beyond acc (db\<lparr>tariffs := fst (cabinet_tariff_put column acc data (tariffs db))\<rparr>) = beyond acc db"
    by (simp add: beyond_def cabinet_tariff_beyond)
  have issued: "beyond acc db' = beyond acc db" if "guarded_issue st (\<lambda>_. []) today now issuer acc dom_id p db = (db', r)" for p db' r
    using guarded_issue_beyond [of acc st today now issuer dom_id p db] that by simp
  show "beyond acc (fst (fst (invoice_post st (\<lambda>_. []) (Inr (acc, dom_id)) today now issuer saves q data (db, trail)))) = beyond acc db"
    by (auto simp: invoice_post_def sum_bind_def issued split: sum.split prod.split)
qed (rule cabinet_profile_beyond)

end
