(* ===== verification/Platform_Billing.thy ===== *)
theory Platform_Billing
  imports Billing_Views Identity
begin

text \<open>
  Money across every account (\<open>platform_admin/billing_views.py\<close>): the overview of a month, one account's
  page, issuing, documents, requisites and price lists. Every write leaves a row in the operators'
  journal; \<open>saves\<close> is whether the database takes that row. Who may call is \<open>ReadAnyWriteBilling\<close> and
  \<open>CanWriteBilling\<close> of \<open>Identity\<close>. Pagination of the document list is REST framework's.
\<close>

subsection \<open>The overview (\<open>BillingOverviewView\<close>)\<close>

record overview_row =
  ov_account :: string
  ov_domain :: string
  ov_projects :: nat
  ov_days :: nat
  ov_total :: rat
  ov_currency :: "string option"
  ov_tariff :: tariff_payload
  ov_unpriced :: "string list"
  ov_missing :: "string list"
  ov_invoice :: "(string \<times> rat \<times> int \<times> string) option"

text \<open>Rows of a domain stay together under any name; rows without one are kept by the name they carry.\<close>

definition overview_key :: "usage_snapshot \<Rightarrow> string" where
  "overview_key s = (if domain_id s \<noteq> [] then domain_id s else ''name:'' @ account s)"

definition in_month :: "date \<Rightarrow> date \<Rightarrow> usage_snapshot \<Rightarrow> bool" where
  "in_month first final s = (first \<le> taken_on s \<and> taken_on s \<le> final)"

definition month_rows :: "usage_snapshot list \<Rightarrow> date \<Rightarrow> date \<Rightarrow> usage_snapshot list" where
  "month_rows rows first final = sort_key (\<lambda>s. ordinal (taken_on s)) (filter (in_month first final) rows)"

definition issued_index :: "invoice list \<Rightarrow> string \<Rightarrow> (string \<times> invoice) list" where
  "issued_index rows label =
     fold (\<lambda>i. AList.update (lower (inv_account i)) i) (sort_key inv_account (filter (\<lambda>i. period i = label) rows)) []"

definition overview_row_of :: "billing_settings \<Rightarrow> billing_db \<Rightarrow> string \<Rightarrow> usage_snapshot list \<Rightarrow> overview_row" where
  "overview_row_of st db label rows =
     (let acc = account (last rows); trf = tariffs_of (tariffs db) acc; rates = rate_map trf;
          cost = cost_of (account_settings db) rows rates
      in \<lparr>ov_account = acc,
          ov_domain = (case List.find (\<lambda>s. domain_id s \<noteq> []) rows of None \<Rightarrow> [] | Some s \<Rightarrow> domain_id s),
          ov_projects = card (set (map project_id rows)), ov_days = bill_days cost, ov_total = bill_total cost,
          ov_currency = map_option tariff_currency trf, ov_tariff = platform_tariff_payload trf rates acc,
          ov_unpriced = map bl_label (filter (\<lambda>l. \<not> bl_priced l) (bill_lines cost)),
          ov_missing = (if acc = [] then [] else missing_requisites (seller st) (buyer (profiles db) acc)),
          ov_invoice = map_option (\<lambda>i. (number i, to_float (total i), issued_at i, issued_by i))
             (map_of (issued_index (invoices db) label) (lower acc))\<rparr>)"

definition no_currency :: string where
  "no_currency = [CHR 0xE2, CHR 0x80, CHR 0x94]"

definition row_currency :: "overview_row \<Rightarrow> string" where
  "row_currency r = (case ov_currency r of None \<Rightarrow> no_currency | Some c \<Rightarrow> if c = [] then no_currency else c)"

definition per_currency :: "overview_row list \<Rightarrow> (string \<times> rat) list" where
  "per_currency rows =
     fold (\<lambda>r. dict_alter 0 (\<lambda>x. dec_add x (str_float (ov_total r))) (row_currency r))
       (filter (\<lambda>r. ov_total r \<noteq> 0) rows) []"

record cluster_total =
  ct_by_currency :: "(string \<times> rat) list"
  ct_currency :: "string option"
  ct_total :: "rat option"
  ct_billed :: nat
  ct_issued :: nat

definition cluster_totals :: "overview_row list \<Rightarrow> cluster_total" where
  "cluster_totals rows =
     (let by_currency = sort_key (\<lambda>e. - snd e) (map (\<lambda>(c, t). (c, to_float t)) (per_currency rows))
      in \<lparr>ct_by_currency = by_currency,
          ct_currency = (case by_currency of [(c, t)] \<Rightarrow> Some c | _ \<Rightarrow> None),
          ct_total = (case by_currency of [(c, t)] \<Rightarrow> Some t | _ \<Rightarrow> None),
          ct_billed = length (filter (\<lambda>r. ov_total r \<noteq> 0) rows),
          ct_issued = length (filter (\<lambda>r. ov_invoice r \<noteq> None) rows)\<rparr>)"

record overview =
  ow_accounts :: "overview_row list"
  ow_totals :: cluster_total
  ow_period :: string
  ow_days_measured :: nat
  ow_days_in_period :: int

definition overview_rows :: "billing_settings \<Rightarrow> billing_db \<Rightarrow> date \<Rightarrow> date \<Rightarrow> string \<Rightarrow> overview_row list" where
  "overview_rows st db first final label =
     sort_key (\<lambda>r. - ov_total r)
       (map (overview_row_of st db label \<circ> snd) (group_by overview_key (month_rows (snapshots db) first final)))"

definition billing_overview :: "billing_settings \<Rightarrow> date \<Rightarrow> json \<Rightarrow> billing_db \<Rightarrow> refusal + overview" where
  "billing_overview st today per db =
     sum_bind (platform_period today per) (\<lambda>(first, final, label).
       let rows = overview_rows st db first final label
       in Inr \<lparr>ow_accounts = rows, ow_totals = cluster_totals rows, ow_period = label,
            ow_days_measured = card (set (map taken_on (month_rows (snapshots db) first final))),
            ow_days_in_period = date_diff final first + 1\<rparr>)"

subsection \<open>Which account (\<open>_resolve_account\<close>)\<close>

definition resolve_account :: "usage_snapshot list \<Rightarrow> string \<Rightarrow> refusal + (string \<times> string)" where
  "resolve_account rows name =
     (let nm = strip name in
      if nm = [] then Inl (bad_request ''An account is required.'')
      else (case first_row (\<lambda>s. - ordinal (taken_on s)) (filter (\<lambda>s. iexact (account s) nm) rows) of
          Some s \<Rightarrow> Inr (account s, domain_id s)
        | None \<Rightarrow> Inr (nm, [])))"

subsection \<open>One account's month (\<open>AccountBillingView\<close>)\<close>

definition in_scope :: "string \<Rightarrow> string \<Rightarrow> usage_snapshot \<Rightarrow> bool" where
  "in_scope acc dom_id s = (if dom_id \<noteq> [] then domain_id s = dom_id else iexact (account s) acc)"

record account_page =
  ap_account :: string
  ap_domain :: string
  ap_period :: string
  ap_cost :: bill
  ap_projects :: "project_bill list"
  ap_tariff :: tariff_payload
  ap_history :: "month_total list"
  ap_invoice :: document
  ap_profile :: "billing_profile \<times> bool"
  ap_days_measured :: nat
  ap_days_in_period :: int
  ap_counts_backups :: bool

definition account_billing :: "billing_settings \<Rightarrow> date \<Rightarrow> string \<Rightarrow> json \<Rightarrow> json \<Rightarrow> billing_db \<Rightarrow> refusal + account_page" where
  "account_billing st today name per months db =
     sum_bind (resolve_account (snapshots db) name) (\<lambda>(acc, dom_id).
     sum_bind (platform_period today per) (\<lambda>(first, final, label).
     sum_bind (history_months months) (\<lambda>n.
       let trf = tariffs_of (tariffs db) acc; rates = rate_map trf;
           rows = sort_key snapshot_order (filter (\<lambda>s. in_month first final s \<and> in_scope acc dom_id s) (snapshots db))
       in sum_bind (invoice_document st db acc dom_id first final label) (\<lambda>doc.
          Inr \<lparr>ap_account = acc, ap_domain = dom_id, ap_period = label,
            ap_cost = cost_of (account_settings db) rows rates,
            ap_projects = by_project (account_settings db) rates (\<lambda>s. s) rows,
            ap_tariff = platform_tariff_payload trf rates acc,
            ap_history = monthly_history (account_settings db) rates n (filter (in_scope acc dom_id) (snapshots db)),
            ap_invoice = doc, ap_profile = profile_payload (profiles db) acc,
            ap_days_measured = card (set (map taken_on rows)), ap_days_in_period = date_diff final first + 1,
            ap_counts_backups = counts_backups (account_settings db) dom_id\<rparr>))))"

subsection \<open>Issuing (\<open>AccountInvoiceView\<close>)\<close>

definition issue_entry :: "web_request \<Rightarrow> string \<Rightarrow> string \<Rightarrow> admin_action" where
  "issue_entry q acc label = (entry q None ''invoice.issue'')
     \<lparr>target_account := acc, target_type := ''invoice'', target_name := acc @ '' '' @ label\<rparr>"

definition refusal_code :: "refusal \<Rightarrow> string" where
  "refusal_code e = (case e of Refused a \<Rightarrow> code a | Crashed \<Rightarrow> [])"

definition issued_entry :: "web_request \<Rightarrow> string \<Rightarrow> string \<Rightarrow> document \<Rightarrow> admin_action" where
  "issued_entry q acc label d = (issue_entry q acc label)
     \<lparr>target_id := opt_text (doc_number d),
      detail := [(''total'', JNum (doc_total d)), (''currency'', JStr (doc_currency d)), (''period'', JStr label)]\<rparr>"

text \<open>\<open>mail\<close> is the operator's address, which the document carries as its issuer.\<close>

definition issue_recorded :: "billing_settings \<Rightarrow> (nat \<Rightarrow> invoice list) \<Rightarrow> (admin_action \<Rightarrow> bool) \<Rightarrow> web_request \<Rightarrow> string \<Rightarrow> date
    \<Rightarrow> int \<Rightarrow> string \<Rightarrow> string \<Rightarrow> date \<times> date \<times> string \<Rightarrow> billing_db \<Rightarrow> admin_action list
    \<Rightarrow> billing_db \<times> admin_action list \<times> (refusal + document)" where
  "issue_recorded st others saves q mail today now acc dom_id = (\<lambda>(first, final, label) db acts.
     if today < first then (db, acts, Inl not_started)
     else (case draft st db acc dom_id first final label of
         None \<Rightarrow> (db, acts, Inl Crashed)
       | Some d \<Rightarrow>
           (case issue_refusal d of
              Some e \<Rightarrow> (db, record_action saves (failed (refusal_code e) (issue_entry q acc label)) acts, Inl e)
            | None \<Rightarrow>
                (case issue st others acc dom_id first final label mail now db of
                   (db', Inl _) \<Rightarrow> (db', acts, Inl Crashed)
                 | (db', Inr doc) \<Rightarrow> (db', record_action saves (issued_entry q acc label doc) acts, Inr doc)))))"

definition account_invoice_post :: "billing_settings \<Rightarrow> (nat \<Rightarrow> invoice list) \<Rightarrow> (admin_action \<Rightarrow> bool) \<Rightarrow> web_request \<Rightarrow> string
    \<Rightarrow> date \<Rightarrow> int \<Rightarrow> string \<Rightarrow> json \<Rightarrow> billing_db \<Rightarrow> admin_action list \<Rightarrow> billing_db \<times> admin_action list \<times> (refusal + document)" where
  "account_invoice_post st others saves q mail today now name data db acts =
     (case sum_bind (resolve_account (snapshots db) name) (\<lambda>w.
             sum_bind (platform_period today (jget (as_object data) ''period'')) (\<lambda>p. Inr (w, p))) of
        Inl e \<Rightarrow> (db, acts, Inl e)
      | Inr ((acc, dom_id), p) \<Rightarrow> issue_recorded st others saves q mail today now acc dom_id p db acts)"

subsection \<open>Documents, requisites, price lists\<close>

definition platform_invoice_list :: "string \<Rightarrow> string \<Rightarrow> billing_db \<Rightarrow> invoice list" where
  "platform_invoice_list account_param period_param db =
     (let acc = strip account_param; per = strip period_param in
      sort_key (\<lambda>i. - issued_at i)
        (filter (\<lambda>i. (acc = [] \<or> iexact (inv_account i) acc) \<and> (per = [] \<or> period i = per)) (invoices db)))"

definition profile_text :: "object \<Rightarrow> string \<Rightarrow> nat \<Rightarrow> string" where
  "profile_text pl k n = take_chars n (strip (str_field pl k []))"

text \<open>Every field is written, each cut to what its column holds.\<close>

definition platform_fields :: "object \<Rightarrow> billing_profile \<Rightarrow> billing_profile" where
  "platform_fields pl p = p\<lparr>
     legal_name := profile_text pl ''legalName'' 255, tax_id := profile_text pl ''taxId'' 32,
     address := profile_text pl ''address'' 500, contract := profile_text pl ''contract'' 120,
     director := profile_text pl ''director'' 255, email := profile_text pl ''email'' 254,
     phone := profile_text pl ''phone'' 64\<rparr>"

definition account_profile_get :: "string \<Rightarrow> billing_db \<Rightarrow> refusal + (billing_profile \<times> bool)" where
  "account_profile_get name db =
     sum_bind (resolve_account (snapshots db) name) (\<lambda>(acc, _). Inr (profile_payload (profiles db) acc))"

definition account_profile_put :: "(admin_action \<Rightarrow> bool) \<Rightarrow> web_request \<Rightarrow> string \<Rightarrow> json \<Rightarrow> billing_db \<Rightarrow> admin_action list
    \<Rightarrow> billing_db \<times> admin_action list \<times> (refusal + (billing_profile \<times> bool))" where
  "account_profile_put saves q name data db acts =
     (case resolve_account (snapshots db) name of
        Inl e \<Rightarrow> (db, acts, Inl e)
      | Inr (acc, _) \<Rightarrow>
          let pl = as_object data;
              rows = upsert (\<lambda>p. profile_account p = acc) (platform_fields pl) (platform_fields pl (blank_profile acc)) (profiles db);
              row = (entry q None ''billing.profile.update'')
                \<lparr>target_account := acc, target_type := ''billing_profile'', target_name := acc,
                 detail := [(''legalName'', JStr (profile_text pl ''legalName'' 255)), (''taxId'', JStr (profile_text pl ''taxId'' 32))]\<rparr>
          in (db\<lparr>profiles := rows\<rparr>, record_action saves row acts, Inr (profile_payload rows acc)))"

definition price_detail :: "resource \<times> number \<Rightarrow> string \<times> json" where
  "price_detail = (\<lambda>(r, n). (resource_value r, case n of Finite x \<Rightarrow> JNum (to_float x) | _ \<Rightarrow> JNull))"

definition tariff_entry :: "web_request \<Rightarrow> object \<Rightarrow> (resource \<times> number) list \<Rightarrow> admin_action" where
  "tariff_entry q pl prices =
     (let acc = strip (str_field pl ''account'' []) in
      (entry q None ''billing.tariff.update'')
        \<lparr>target_account := acc, target_type := ''tariff'', target_name := own_name acc,
         detail := [(''currency'', JStr (submitted_currency pl)), (''rates'', JObj (map price_detail prices))]\<rparr>)"

definition tariff_put_recorded :: "(admin_action \<Rightarrow> bool) \<Rightarrow> web_request \<Rightarrow> (number \<Rightarrow> rat option) \<Rightarrow> json \<Rightarrow> json \<Rightarrow> tariff list
    \<Rightarrow> admin_action list \<Rightarrow> tariff list \<times> admin_action list \<times> (refusal + tariff_screen \<times> (string \<times> string \<times> string \<times> bool) list)" where
  "tariff_put_recorded saves q column account_param data ts acts =
     (case platform_tariff_put column account_param data ts of
        (ts', Inl e) \<Rightarrow> (ts', acts, Inl e)
      | (ts', Inr screen) \<Rightarrow>
          (ts', (case validated_prices platform_price (jget (as_object data) ''rates'') of
                   Inl _ \<Rightarrow> acts
                 | Inr prices \<Rightarrow> record_action saves (tariff_entry q (as_object data) prices) acts), Inr screen))"

subsection \<open>Totals per currency\<close>

lemma map_of_sum_fold:
  "map_of (fold (\<lambda>x. dict_alter 0 (\<lambda>v. dec_add v (g x)) (key x)) xs d) k =
     (let ys = map g (filter (\<lambda>x. key x = k) xs) in
      case map_of d k of
        None \<Rightarrow> if ys = [] then None else Some (foldl dec_add 0 ys)
      | Some v \<Rightarrow> Some (foldl dec_add v ys))"
  by (induction xs arbitrary: d) (auto simp: map_of_dict_alter Let_def split: option.splits)

definition billed :: "overview_row list \<Rightarrow> overview_row list" where
  "billed rows = filter (\<lambda>r. ov_total r \<noteq> 0) rows"

lemma map_of_per_currency:
  "map_of (per_currency rows) c =
     (if c \<in> row_currency ` set (billed rows)
      then Some (foldl dec_add 0 (map (\<lambda>r. str_float (ov_total r)) (filter (\<lambda>r. row_currency r = c) (billed rows)))) else None)"
  unfolding per_currency_def map_of_sum_fold billed_def [symmetric]
  by (auto simp: Let_def filter_empty_conv)

lemma distinct_per_currency: "distinct (map fst (per_currency rows))"
  unfolding per_currency_def by (rule distinct_group_fold) simp

lemma keys_per_currency: "fst ` set (per_currency rows) = row_currency ` set (billed rows)"
proof -
  have "fst ` set (per_currency rows) = dom (map_of (per_currency rows))" by (simp add: dom_map_of_conv_image_fst)
  also have "\<dots> = row_currency ` set (billed rows)" by (auto simp: map_of_per_currency dom_def split: if_splits)
  finally show ?thesis .
qed

lemma single_per_currency:
  "(\<exists>x. per_currency rows = [(c, x)]) \<longleftrightarrow> row_currency ` set (billed rows) = {c}"
proof
  assume "\<exists>x. per_currency rows = [(c, x)]"
  then show "row_currency ` set (billed rows) = {c}" using keys_per_currency [of rows] by auto
next
  assume one: "row_currency ` set (billed rows) = {c}"
  have "length (per_currency rows) = card (fst ` set (per_currency rows))"
    using distinct_card [OF distinct_per_currency [of rows]] by simp
  then have "length (per_currency rows) = 1" by (simp add: keys_per_currency one)
  then obtain k x where kx: "per_currency rows = [(k, x)]" by (auto simp: length_Suc_conv)
  then have "k = c" using keys_per_currency [of rows] one by auto
  then show "\<exists>x. per_currency rows = [(c, x)]" using kx by blast
qed

lemma by_currency_single:
  "(\<exists>t. ct_by_currency (cluster_totals rows) = [(c, t)]) \<longleftrightarrow> (\<exists>x. per_currency rows = [(c, x)])"
proof
  assume "\<exists>t. ct_by_currency (cluster_totals rows) = [(c, t)]"
  then obtain t where t: "ct_by_currency (cluster_totals rows) = [(c, t)]" by blast
  let ?f = "\<lambda>(c, t). (c, to_float t)"
  have m: "mset (map ?f (per_currency rows)) = {#(c, t)#}"
    using arg_cong [OF t, of mset] by (simp add: cluster_totals_def Let_def)
  then have "map ?f (per_currency rows) = [(c, t)]" by (metis mset_single_iff)
  then show "\<exists>x. per_currency rows = [(c, x)]" by auto
qed (auto simp: cluster_totals_def Let_def)

text \<open>Money of different currencies is never added up: each currency's total is the sum of the accounts
  billed in it, and the overview names one currency and one total exactly when every billed account is in
  that currency, the total then being the sum over all of them.\<close>

theorem totals_never_mix_currencies:
  "map_of (per_currency rows) c =
     (if c \<in> row_currency ` set (billed rows)
      then Some (foldl dec_add 0 (map (\<lambda>r. str_float (ov_total r)) (filter (\<lambda>r. row_currency r = c) (billed rows)))) else None) \<and>
   (ct_currency (cluster_totals rows) = Some c) = (row_currency ` set (billed rows) = {c}) \<and>
   ct_total (cluster_totals rows) =
     (if card (row_currency ` set (billed rows)) = 1
      then Some (to_float (foldl dec_add 0 (map (\<lambda>r. str_float (ov_total r)) (billed rows)))) else None)"
proof (intro conjI)
  show "map_of (per_currency rows) c =
     (if c \<in> row_currency ` set (billed rows)
      then Some (foldl dec_add 0 (map (\<lambda>r. str_float (ov_total r)) (filter (\<lambda>r. row_currency r = c) (billed rows)))) else None)"
    by (rule map_of_per_currency)
  have cur: "ct_currency (cluster_totals rows) = Some c \<longleftrightarrow> (\<exists>t. ct_by_currency (cluster_totals rows) = [(c, t)])" for c
    by (auto simp: cluster_totals_def Let_def split: list.splits)
  then show "(ct_currency (cluster_totals rows) = Some c) = (row_currency ` set (billed rows) = {c})"
    unfolding cur by_currency_single single_per_currency by simp
  show "ct_total (cluster_totals rows) =
     (if card (row_currency ` set (billed rows)) = 1
      then Some (to_float (foldl dec_add 0 (map (\<lambda>r. str_float (ov_total r)) (billed rows)))) else None)"
  proof (cases "card (row_currency ` set (billed rows)) = 1")
    case True
    then obtain k where k: "row_currency ` set (billed rows) = {k}" by (auto simp: card_1_singleton_iff)
    then obtain x where x: "per_currency rows = [(k, x)]" using single_per_currency by blast
    have "filter (\<lambda>r. row_currency r = k) (billed rows) = billed rows" using k by (auto simp: filter_id_conv)
    then have "x = foldl dec_add 0 (map (\<lambda>r. str_float (ov_total r)) (billed rows))"
      using map_of_per_currency [of rows k] x k by simp
    then show ?thesis using True by (simp add: cluster_totals_def x)
  next
    case False
    have "ct_by_currency (cluster_totals rows) \<noteq> [(k, t)]" for k t
      using False by_currency_single single_per_currency by (metis card_1_singleton_iff One_nat_def)
    then have "ct_total (cluster_totals rows) = None"
      by (auto simp: cluster_totals_def Let_def split: list.splits)
    then show ?thesis using False by simp
  qed
qed

subsection \<open>The overview and the account's page\<close>

lemma overview_group:
  assumes "(key, rows) \<in> set (group_by overview_key (month_rows all first final))"
    "(case List.find (\<lambda>s. domain_id s \<noteq> []) rows of None \<Rightarrow> [] | Some s \<Rightarrow> domain_id s) = d" "d \<noteq> []"
    "\<forall>s \<in> set all. domain_id s = [] \<longrightarrow> ''name:'' @ account s \<noteq> d"
  shows "rows = filter (\<lambda>s. domain_id s = d) (month_rows all first final)"
proof -
  have rows: "rows = filter (\<lambda>s. overview_key s = key) (month_rows all first final)"
    using assms(1) by (rule group_by_members)
  obtain s where "s \<in> set rows" "domain_id s = d"
    using assms(2,3) find_Some_mem by (fastforce split: option.splits)
  then have key: "key = d" using rows assms(3) by (auto simp: overview_key_def)
  show ?thesis unfolding rows key
    by (rule filter_cong) (use assms(3,4) in \<open>auto simp: overview_key_def month_rows_def\<close>)
qed

lemma tariffs_of_lower: "lower a = lower b \<Longrightarrow> tariffs_of ts a = tariffs_of ts b"
  by (simp add: tariffs_of_def)

text \<open>The overview and an account's own page agree: for a measured account found under the same name, the
  row's money and days are the page's, although the two group, order and select the rows differently.\<close>

theorem overview_matches_page:
  assumes "billing_overview st today per db = Inr ow" "r \<in> set (ow_accounts ow)"
    "account_billing st today name per months db = Inr pg"
    "ov_domain r = ap_domain pg" "ap_domain pg \<noteq> []" "iexact (ov_account r) (ap_account pg)"
    "\<forall>s \<in> set (snapshots db). domain_id s = [] \<longrightarrow> ''name:'' @ account s \<noteq> ap_domain pg"
    "wf_snaps (filter (\<lambda>s. domain_id s = ap_domain pg) (snapshots db))"
    "wf_rates (rate_map (tariffs_of (tariffs db) (ap_account pg)))"
  shows "ov_total r = bill_total (ap_cost pg) \<and> ov_days r = bill_days (ap_cost pg)"
proof -
  obtain first final label where per: "platform_period today per = Inr (first, final, label)"
    using assms(1) by (auto simp: billing_overview_def sum_bind_def split: sum.splits)
  obtain key rows where g: "(key, rows) \<in> set (group_by overview_key (month_rows (snapshots db) first final))"
    and r: "r = overview_row_of st db label rows"
    using assms(1,2) per by (auto simp: billing_overview_def overview_rows_def sum_bind_def Let_def)
  let ?d = "ap_domain pg"
  have rows: "rows = filter (\<lambda>s. domain_id s = ?d) (month_rows (snapshots db) first final)"
    by (rule overview_group [OF g]) (use assms(4,5,7) r in \<open>auto simp: overview_row_of_def Let_def\<close>)
  let ?page = "sort_key snapshot_order (filter (\<lambda>s. in_month first final s \<and> in_scope (ap_account pg) ?d s) (snapshots db))"
  have cost: "ap_cost pg = cost_of (account_settings db) ?page (rate_map (tariffs_of (tariffs db) (ap_account pg)))"
    using assms(3) per by (auto simp: account_billing_def sum_bind_def Let_def split: sum.splits)
  have "filter (\<lambda>s. in_month first final s \<and> in_scope (ap_account pg) ?d s) (snapshots db) =
      filter (in_month first final) (filter (\<lambda>s. domain_id s = ?d) (snapshots db))"
    unfolding filter_filter by (rule filter_cong) (use assms(5) in \<open>auto simp: in_scope_def\<close>)
  then have same: "mset rows = mset ?page"
    unfolding rows month_rows_def by (simp add: filter_sort filter_filter conj_commute)
  have sub: "mset rows = mset (filter (in_month first final) (filter (\<lambda>s. domain_id s = ?d) (snapshots db)))"
    unfolding rows month_rows_def by (simp add: filter_sort filter_filter conj_commute)
  have "set rows \<subseteq> set (filter (\<lambda>s. domain_id s = ?d) (snapshots db))"
    using mset_eq_setD [OF sub] by auto
  moreover have "length rows \<le> length (filter (\<lambda>s. domain_id s = ?d) (snapshots db))"
    using mset_eq_length [OF sub] length_filter_le by metis
  ultimately have "wf_snaps rows" using assms(8) by (auto simp: wf_snaps_def)
  moreover have "tariffs_of (tariffs db) (ov_account r) = tariffs_of (tariffs db) (ap_account pg)"
    using assms(6) by (intro tariffs_of_lower) (simp add: iexact_def)
  ultimately have "cost_of (account_settings db) rows (rate_map (tariffs_of (tariffs db) (ov_account r))) = ap_cost pg"
    unfolding cost using cost_of_perm [OF _ assms(9) same] by simp
  then show ?thesis unfolding r by (simp add: overview_row_of_def Let_def)
qed

lemma sample_period: "platform_period (Date 2026 2 15) JNull = Inr (Date 2026 2 1, Date 2026 2 28, ''2026-02'')"
  by code_simp

lemma sample_month_rows: "month_rows (snapshots sample_db) (Date 2026 2 1) (Date 2026 2 28) = [sample_row ''d1'' 1]"
proof -
  have "in_month (Date 2026 2 1) (Date 2026 2 28) (sample_row ''d1'' 1)" by code_simp
  then show ?thesis by (simp add: month_rows_def sample_db_def)
qed

lemma sample_page_rates: "rate_map (tariffs_of (tariffs sample_db) acc) = [(RAM_GB, 333 / 100), (SNAPSHOT_GB, 1 / 4), (VCPU, 5)]"
proof -
  have "tariffs_of (tariffs sample_db) acc = Some sample_tariff"
    by (simp add: tariffs_of_def own_index_def sample_db_def sample_tariff_def Let_def)
  moreover have "rate_map (Some sample_tariff) = [(RAM_GB, 333 / 100), (SNAPSHOT_GB, 1 / 4), (VCPU, 5)]" by code_simp
  ultimately show ?thesis by simp
qed

lemma sample_page:
  "\<exists>pg. account_billing (vat_12 False) (Date 2026 2 15) ''acme'' JNull JNull sample_db = Inr pg \<and> ap_domain pg = ''d1'' \<and> ap_account pg = ''acme''"
proof -
  have who: "resolve_account (snapshots sample_db) ''acme'' = Inr (''acme'', ''d1'')" by code_simp
  have months: "history_months JNull = Inr 6" by code_simp
  obtain d where "draft (vat_12 False) sample_db ''acme'' ''d1'' (Date 2026 2 1) (Date 2026 2 28) ''2026-02'' = Some d"
    using draft_12 by blast
  then have "invoice_document (vat_12 False) sample_db ''acme'' ''d1'' (Date 2026 2 1) (Date 2026 2 28) ''2026-02'' = Inr d"
    by (simp add: invoice_document_def existing_sample or_crash_def)
  then show ?thesis by (simp add: account_billing_def who sample_period months sum_bind_def Let_def)
qed

lemma overview_matches_page_witness:
  "\<exists>ow r pg. billing_overview (vat_12 False) (Date 2026 2 15) JNull sample_db = Inr ow \<and> r \<in> set (ow_accounts ow) \<and>
     account_billing (vat_12 False) (Date 2026 2 15) ''acme'' JNull JNull sample_db = Inr pg \<and>
     ov_total r = bill_total (ap_cost pg) \<and> ov_days r = bill_days (ap_cost pg)"
proof -
  obtain pg where pg: "account_billing (vat_12 False) (Date 2026 2 15) ''acme'' JNull JNull sample_db = Inr pg"
    "ap_domain pg = ''d1''" "ap_account pg = ''acme''" using sample_page by blast
  obtain ow where ow: "billing_overview (vat_12 False) (Date 2026 2 15) JNull sample_db = Inr ow"
    by (simp add: billing_overview_def sample_period sum_bind_def Let_def)
  let ?r = "overview_row_of (vat_12 False) sample_db ''2026-02'' [sample_row ''d1'' 1]"
  have mem: "?r \<in> set (ow_accounts ow)"
    using ow by (auto simp: billing_overview_def sample_period sum_bind_def Let_def overview_rows_def sample_month_rows
        group_by_def dict_alter_def)
  have r: "ov_domain ?r = ''d1''" "ov_account ?r = ''acme''"
    by (simp_all add: overview_row_of_def Let_def) (simp_all add: sample_row_def)
  have "ov_total ?r = bill_total (ap_cost pg) \<and> ov_days ?r = bill_days (ap_cost pg)"
  proof (rule overview_matches_page [OF ow mem pg(1)])
    show "wf_snaps (filter (\<lambda>s. domain_id s = ap_domain pg) (snapshots sample_db))"
      using wf_sample(2) [of "''d1''" 1] by (simp add: sample_db_def pg(2)) (simp add: sample_row_def)
    show "wf_rates (rate_map (tariffs_of (tariffs sample_db) (ap_account pg)))"
      by (simp add: sample_page_rates wf_rates_def is_price_def)
  qed (use pg r in \<open>simp_all add: sample_db_def sample_row_def\<close>)
  then show ?thesis using ow mem pg(1) by blast
qed

subsection \<open>An account that was never measured\<close>

text \<open>C39. An account nobody ever measured resolves to no domain, and its invoice is then drawn on the
  measurements of the projects that could not be placed in any account: wherever one of those lies in the
  month, the draft charges its days to that account although the account's own rows are none.\<close>

theorem unmeasured_account_charged_for_others:
  assumes "strip name \<noteq> []" "filter (\<lambda>s. iexact (account s) (strip name)) (snapshots db) = []"
    "u \<in> set (snapshots db)" "domain_id u = []" "in_month first final u"
    "draft st db (strip name) [] first final label = Some d"
  shows "resolve_account (snapshots db) name = Inr (strip name, []) \<and>
    filter (in_scope (strip name) []) (snapshots db) = [] \<and> 0 < doc_days_measured d"
proof -
  have "u \<in> set (snapshots_between (snapshots db) [] first final)"
    using assms(3-5) by (simp add: snapshots_between_def in_month_def)
  then have "0 < card (set (map taken_on (snapshots_between (snapshots db) [] first final)))"
    by (auto simp: card_gt_0_iff)
  then have "0 < doc_days_measured d"
    using assms(6) by (auto simp: draft_def cost_of_def Let_def split: option.splits prod.splits)
  then show ?thesis using assms(1,2) by (simp add: resolve_account_def Let_def in_scope_def [abs_def])
qed

definition orphan_db :: billing_db where
  "orphan_db = sample_db\<lparr>snapshots := [(sample_row [] 1)\<lparr>account := []\<rparr>]\<rparr>"

lemma unmeasured_account_charged_for_others_witness:
  "\<exists>d. draft (vat_12 False) orphan_db ''newco'' [] (Date 2026 2 1) (Date 2026 2 28) ''2026-02'' = Some d \<and>
     resolve_account (snapshots orphan_db) ''newco'' = Inr (''newco'', []) \<and> 0 < doc_days_measured d"
proof -
  obtain d where d: "draft (vat_12 False) orphan_db ''newco'' [] (Date 2026 2 1) (Date 2026 2 28) ''2026-02'' = Some d"
    using draft_12 by blast
  have nm: "strip ''newco'' = ''newco''" by code_simp
  have "in_month (Date 2026 2 1) (Date 2026 2 28) ((sample_row [] 1)\<lparr>account := []\<rparr>)" by code_simp
  then have "resolve_account (snapshots orphan_db) ''newco'' = Inr (strip ''newco'', []) \<and>
      filter (in_scope (strip ''newco'') []) (snapshots orphan_db) = [] \<and> 0 < doc_days_measured d"
    using d by (intro unmeasured_account_charged_for_others [where u = "(sample_row [] 1)\<lparr>account := []\<rparr>"])
      (simp_all add: nm orphan_db_def iexact_def lower_def sample_row_def)
  then show ?thesis using d nm by simp
qed

subsection \<open>Issuing\<close>

text \<open>The operators' screen and the cabinet issue by the same rules: for one account and month they leave the
  same register and give the same answer, whatever other issuers do meanwhile; the operators' differs
  only by the row in its journal.\<close>

theorem issuing_agrees:
  "(case issue_recorded st others saves q who today now acc dom_id per db acts of (db', acts', r) \<Rightarrow> (db', r)) =
   guarded_issue st others today now who acc dom_id per db"
  by (auto simp: issue_recorded_def guarded_issue_def split: prod.split option.split sum.split)

text \<open>A number is only ever consumed for a document that can be one: when issuing answers a document, the month
  had started, the requisites of both sides were complete, something was measured and something priced;
  when it refuses, the register is untouched and, where a month was examined, the refusal is in the
  journal under the operator who asked.\<close>

theorem issued_only_when_due:
  "case issue_recorded st others (\<lambda>_. True) q who today now acc dom_id (first, final, label) db acts of
     (db', acts', Inr doc) \<Rightarrow>
       first \<le> today \<and> acts' = acts @ [issued_entry q acc label doc] \<and>
       (\<exists>d. draft st db acc dom_id first final label = Some d \<and> doc_missing d = [] \<and> doc_days_measured d \<noteq> 0 \<and>
          list_ex dl_priced (doc_lines d))
   | (db', acts', Inl (Refused e)) \<Rightarrow>
       db' = db \<and> acts' = (if today < first then acts else acts @ [failed (code e) (issue_entry q acc label)])
   | (db', acts', Inl Crashed) \<Rightarrow> acts' = acts"
  by (auto simp: issue_recorded_def issue_refusal_def conflict_def not_started_def bad_request_def refusal_code_def
      record_action_def not_less split: prod.split option.split sum.split refusal.split if_splits)

end
