(* ===== verification/Operators.thy ===== *)
theory Operators
  imports Identity Characters
begin

text \<open>
  Operators of the admin panel: their table and its lockout (\<open>platform_admin/models.py\<close>), login tickets
  (\<open>tickets.py\<close>), one-time codes (\<open>totp.py\<close>), their sessions (\<open>authentication.py\<close>), the two-step
  sign-in (\<open>auth_views.py\<close>) and the two commands that create an operator and set an access code.

  Password hashing, TOTP arithmetic, Fernet and random tokens are third-party: they are the fields of
  \<open>toolkit\<close> and the arguments named \<open>fresh\<close>. One request runs at a time.
\<close>

subsection \<open>Third-party functions\<close>

text \<open>
  \<open>hash_check raw encoded\<close>, \<open>hash_usable\<close> and \<open>hash_make salt raw\<close> are Django's hashers;
  \<open>otp_verify secret code window now\<close> is \<open>pyotp\<close>, which compares codes after Unicode normalisation (NFKC); \<open>unseal\<close> is \<open>None\<close> where Fernet refuses the text.
\<close>

record toolkit =
  hash_check :: "json \<Rightarrow> string \<Rightarrow> bool"
  hash_usable :: "string \<Rightarrow> bool"
  hash_make :: "string \<Rightarrow> string \<Rightarrow> string"
  otp_verify :: "string \<Rightarrow> string \<Rightarrow> nat \<Rightarrow> int \<Rightarrow> bool"
  seal :: "string \<Rightarrow> string"
  unseal :: "string \<Rightarrow> string option"
  provisioning :: "string \<Rightarrow> string \<Rightarrow> string"

subsection \<open>The operator's row\<close>

definition MAX_FAILED_ATTEMPTS :: nat where "MAX_FAILED_ATTEMPTS = 5"

definition LOCKOUT_SECONDS :: int where "LOCKOUT_SECONDS = 15 * 60"

definition check_password :: "toolkit \<Rightarrow> platform_admin \<Rightarrow> json \<Rightarrow> bool" where
  "check_password k a raw = (hash_usable k (password_hash a) \<and> hash_check k raw (password_hash a))"

definition set_password :: "toolkit \<Rightarrow> string \<Rightarrow> string \<Rightarrow> platform_admin \<Rightarrow> platform_admin" where
  "set_password k salt raw a = a\<lparr>password_hash := hash_make k salt raw\<rparr>"

definition uses_access_code :: "toolkit \<Rightarrow> platform_admin \<Rightarrow> bool" where
  "uses_access_code k a = (access_code_hash a \<noteq> [] \<and> hash_usable k (access_code_hash a))"

definition set_access_code :: "toolkit \<Rightarrow> string \<Rightarrow> string option \<Rightarrow> platform_admin \<Rightarrow> platform_admin" where
  "set_access_code k salt raw a = a\<lparr>access_code_hash := (if given raw then hash_make k salt (the raw) else [])\<rparr>"

definition check_access_code :: "toolkit \<Rightarrow> platform_admin \<Rightarrow> string \<Rightarrow> bool" where
  "check_access_code k a raw = (uses_access_code k a \<and> hash_check k (JStr raw) (access_code_hash a))"

definition is_locked :: "platform_admin \<Rightarrow> int \<Rightarrow> bool" where
  "is_locked a now = (case locked_until a of None \<Rightarrow> False | Some t \<Rightarrow> now < t)"

definition note_failure :: "int \<Rightarrow> platform_admin \<Rightarrow> platform_admin" where
  "note_failure now a =
     (if MAX_FAILED_ATTEMPTS \<le> failed_attempts a + 1
      then a\<lparr>locked_until := Some (now + LOCKOUT_SECONDS), failed_attempts := 0\<rparr>
      else a\<lparr>failed_attempts := failed_attempts a + 1\<rparr>)"

definition note_success :: "int \<Rightarrow> string option \<Rightarrow> platform_admin \<Rightarrow> platform_admin" where
  "note_success now ip a = a\<lparr>failed_attempts := 0, locked_until := None, last_login_at := Some now, last_login_ip := ip\<rparr>"

subsection \<open>State of the panel\<close>

record login_ticket =
  lt_admin_id :: nat
  lt_enrolling :: bool
  lt_pending_secret :: "string option"

record panel =
  operators :: "platform_admin list"
  tickets :: "login_ticket shelf"
  used_codes :: "unit shelf"
  sessions :: "session_data shelf"
  actions :: "admin_action list"

definition save_operator :: "platform_admin \<Rightarrow> panel \<Rightarrow> panel" where
  "save_operator a p = p\<lparr>operators := map (\<lambda>b. if pk b = pk a then a else b) (operators p)\<rparr>"

definition log_action :: "(admin_action \<Rightarrow> bool) \<Rightarrow> admin_action \<Rightarrow> panel \<Rightarrow> panel" where
  "log_action saves row p = p\<lparr>actions := record_action saves row (actions p)\<rparr>"

text \<open>\<open>PlatformAdmin.objects.filter(pk=..., is_active=True).first()\<close>.\<close>

definition active_operator :: "panel \<Rightarrow> nat \<Rightarrow> platform_admin option" where
  "active_operator p i = List.find (\<lambda>a. pk a = i \<and> admin_active a) (operators p)"

subsection \<open>Tickets (\<open>tickets.py\<close>)\<close>

definition TICKET_TTL :: int where "TICKET_TTL = 4 * 60"

definition ticket_key :: "string \<Rightarrow> string" where
  "ticket_key t = ''platform_login_ticket:'' @ t"

definition issue_ticket :: "string \<Rightarrow> nat \<Rightarrow> bool \<Rightarrow> string option \<Rightarrow> int \<Rightarrow> panel \<Rightarrow> panel" where
  "issue_ticket fresh i enrolling pending now p =
     p\<lparr>tickets := shelf_set (ticket_key fresh)
        \<lparr>lt_admin_id = i, lt_enrolling = enrolling, lt_pending_secret = pending\<rparr> (now + TICKET_TTL) (tickets p)\<rparr>"

definition load_ticket :: "string \<Rightarrow> int \<Rightarrow> panel \<Rightarrow> login_ticket option" where
  "load_ticket t now p = (if t = [] then None else shelf_get (tickets p) now (ticket_key t))"

definition revoke_ticket :: "string \<Rightarrow> panel \<Rightarrow> panel" where
  "revoke_ticket t p = p\<lparr>tickets := shelf_delete (ticket_key t) (tickets p)\<rparr>"

subsection \<open>One-time codes (\<open>totp.py\<close>)\<close>

definition VALID_WINDOW :: nat where "VALID_WINDOW = 1"

definition REPLAY_TTL :: int where "REPLAY_TTL = 30 * (2 * int VALID_WINDOW + 1)"

definition replay_key :: "nat \<Rightarrow> string \<Rightarrow> string" where
  "replay_key i c = ''platform_totp_used:'' @ show_nat i @ '':'' @ c"

definition unseal_text :: "toolkit \<Rightarrow> string \<Rightarrow> string option" where
  "unseal_text k stored = (if stored = [] then None else unseal k stored)"

definition plain_code :: "string \<Rightarrow> string" where
  "plain_code c = filter (\<lambda>x. x \<noteq> CHR '' '') (py_strip c)"

definition totp_verify :: "toolkit \<Rightarrow> string \<Rightarrow> string \<Rightarrow> nat \<Rightarrow> int \<Rightarrow> unit shelf \<Rightarrow> unit shelf \<times> bool" where
  "totp_verify k secret raw i now used =
     (let c = plain_code raw in
      if secret = [] \<or> \<not> py_isdigit c \<or> char_count c \<noteq> 6 then (used, False)
      else if \<not> otp_verify k secret c VALID_WINDOW now then (used, False)
      else shelf_add (replay_key i c) () (now + REPLAY_TTL) now used)"

subsection \<open>Sessions (\<open>authentication.py\<close>)\<close>

definition SESSION_SECONDS :: int where "SESSION_SECONDS = 8 * 60 * 60"

text \<open>\<open>cycle_key\<close> moves what the browser had to a fresh key; then the operator is written into it.\<close>

definition start_session :: "string \<Rightarrow> string option \<Rightarrow> nat \<Rightarrow> int \<Rightarrow> panel \<Rightarrow> panel" where
  "start_session fresh cookie i now p =
     (let old = (case cookie of None \<Rightarrow> None | Some c \<Rightarrow> shelf_get (sessions p) now c);
          data = (case old of None \<Rightarrow> empty_session | Some d \<Rightarrow> d);
          rest = (case cookie of None \<Rightarrow> sessions p | Some c \<Rightarrow> shelf_delete c (sessions p))
      in p\<lparr>sessions := shelf_set fresh (data\<lparr>platform_admin_id := Some i\<rparr>) (now + SESSION_SECONDS) rest\<rparr>)"

definition end_session :: "string option \<Rightarrow> panel \<Rightarrow> panel" where
  "end_session cookie p = (case cookie of None \<Rightarrow> p | Some c \<Rightarrow> p\<lparr>sessions := shelf_delete c (sessions p)\<rparr>)"

datatype authenticated = Nobody | CsrfRefused | SignedIn platform_admin

text \<open>\<open>csrf\<close> is the outcome of REST framework's own check.\<close>

definition authenticate_operator :: "bool \<Rightarrow> string option \<Rightarrow> int \<Rightarrow> panel \<Rightarrow> panel \<times> authenticated" where
  "authenticate_operator csrf cookie now p =
     (case Option.bind cookie (shelf_get (sessions p) now) of
        None \<Rightarrow> (p, Nobody)
      | Some d \<Rightarrow>
          (case platform_admin_id d of
             None \<Rightarrow> (p, Nobody)
           | Some i \<Rightarrow>
               if i = 0 then (p, Nobody)
               else (case active_operator p i of
                   None \<Rightarrow> (end_session cookie p, Nobody)
                 | Some a \<Rightarrow> (p, if csrf then SignedIn a else CsrfRefused))))"

end
