(* ===== verification/Sign_In.thy ===== *)
theory Sign_In
  imports Operators
begin

text \<open>
  The operators' sign-in (\<open>platform_admin/auth_views.py\<close>): a password buys a ticket, a second factor turns
  the ticket into a session. Then password changes and the two commands.
\<close>

definition BAD_CREDENTIALS :: refusal where
  "BAD_CREDENTIALS = unauthorized ''Invalid e-mail or password.'' ''invalid_credentials''"

definition LOCKED_OUT :: refusal where
  "LOCKED_OUT = forbidden ''Too many failed attempts. Try again in a few minutes.'' ''account_locked''"

definition TICKET_EXPIRED :: refusal where
  "TICKET_EXPIRED = unauthorized ''This sign-in attempt expired. Start again.'' ''mfa_expired''"

definition BAD_ACCESS_CODE :: refusal where
  "BAD_ACCESS_CODE = unauthorized ''That code is not valid.'' ''invalid_access_code''"

definition BAD_TOTP :: refusal where
  "BAD_TOTP = unauthorized ''That code is not valid.'' ''invalid_mfa_code''"

lemmas sign_in_errors = BAD_CREDENTIALS_def LOCKED_OUT_def TICKET_EXPIRED_def BAD_ACCESS_CODE_def BAD_TOTP_def
  unauthorized_def forbidden_def

text \<open>A refusal that leaves a row in the journal.\<close>

definition refuse :: "(admin_action \<Rightarrow> bool) \<Rightarrow> admin_action \<Rightarrow> refusal \<Rightarrow> panel \<Rightarrow> panel \<times> (refusal + 'a)" where
  "refuse saves row e p = (log_action saves row p, Inl e)"

subsection \<open>Step 1: the password\<close>

datatype stage = CodeStage | TotpStage | EnrollStage (enroll_secret: string) (enroll_uri: string)

record login_answer =
  la_stage :: stage
  la_ticket :: string

definition password_accepted :: "toolkit \<Rightarrow> string \<Rightarrow> string \<Rightarrow> int \<Rightarrow> platform_admin \<Rightarrow> panel \<Rightarrow> panel \<times> (refusal + login_answer)" where
  "password_accepted k fresh secret now a p =
     (if uses_access_code k a then
        (issue_ticket fresh (pk a) False None now p, Inr \<lparr>la_stage = CodeStage, la_ticket = fresh\<rparr>)
      else if totp_confirmed_at a \<noteq> None \<and> totp_secret a \<noteq> [] then
        (issue_ticket fresh (pk a) False None now p, Inr \<lparr>la_stage = TotpStage, la_ticket = fresh\<rparr>)
      else
        (issue_ticket fresh (pk a) True (Some (seal k secret)) now p,
         Inr \<lparr>la_stage = EnrollStage secret (provisioning k secret (admin_email a)), la_ticket = fresh\<rparr>))"

text \<open>\<open>fresh\<close> and \<open>secret\<close> are the random ticket and TOTP secret this request would draw.\<close>

definition login_post :: "toolkit \<Rightarrow> (admin_action \<Rightarrow> bool) \<Rightarrow> string \<Rightarrow> string \<Rightarrow> web_request \<Rightarrow> int \<Rightarrow> json
    \<Rightarrow> panel \<Rightarrow> panel \<times> (refusal + login_answer)" where
  "login_post k saves fresh secret q now data p =
     (case sum_bind (text_field data ''email'') (\<lambda>mail.
             sum_bind (body_field data ''password'') (\<lambda>pw. Inr (lower mail, jor pw (JStr [])))) of
        Inl e \<Rightarrow> (p, Inl e)
      | Inr (mail, pw) \<Rightarrow>
          (case List.find (\<lambda>a. admin_email a = mail) (operators p) of
             None \<Rightarrow>
               refuse saves (failed ''unknown_operator'' (entry q None ''admin.login''\<lparr>detail := [(''email'', JStr mail)]\<rparr>))
                 BAD_CREDENTIALS p
           | Some a \<Rightarrow>
               if \<not> admin_active a then
                 refuse saves (failed ''unknown_operator'' (entry q None ''admin.login''\<lparr>detail := [(''email'', JStr mail)]\<rparr>))
                   BAD_CREDENTIALS p
               else if is_locked a now then
                 refuse saves (failed ''locked'' (entry q (Some a) ''admin.login'')) LOCKED_OUT p
               else if \<not> check_password k a pw then
                 refuse saves (failed ''bad_password'' (entry q (Some a) ''admin.login'')) BAD_CREDENTIALS
                   (save_operator (note_failure now a) p)
               else password_accepted k fresh secret now a p))"

subsection \<open>Step 2: the second factor\<close>

record me =
  me_id :: nat
  me_email :: string
  me_name :: string
  me_role :: role
  me_can_write :: bool
  me_can_bill :: bool
  me_last_login :: "int option"

definition me_payload :: "platform_admin \<Rightarrow> me" where
  "me_payload a = \<lparr>me_id = pk a, me_email = admin_email a, me_name = admin_name a, me_role = admin_role a,
     me_can_write = can_write a, me_can_bill = can_bill a, me_last_login = last_login_at a\<rparr>"

text \<open>The factor the operator is on now decides, not the stage step 1 announced.\<close>

definition second_factor :: "toolkit \<Rightarrow> login_ticket \<Rightarrow> string \<Rightarrow> int \<Rightarrow> platform_admin \<Rightarrow> unit shelf
    \<Rightarrow> unit shelf \<times> (refusal + string option)" where
  "second_factor k t c now a used =
     (if uses_access_code k a then (used, if check_access_code k a c then Inr None else Inl BAD_ACCESS_CODE)
      else
        (case (if lt_enrolling t then Option.bind (lt_pending_secret t) (unseal_text k) else unseal_text k (totp_secret a)) of
           None \<Rightarrow> (used, Inl BAD_TOTP)
         | Some secret \<Rightarrow>
             (case totp_verify k secret c (pk a) now used of
                (used', ok) \<Rightarrow>
                  (used', if ok then Inr (if lt_enrolling t then Some secret else None) else Inl BAD_TOTP))))"

text \<open>The code a failed second factor leaves in the journal.\<close>

definition factor_failure :: "toolkit \<Rightarrow> platform_admin \<Rightarrow> string" where
  "factor_failure k a = (if uses_access_code k a then ''bad_access_code'' else ''bad_totp'')"

definition enrol :: "toolkit \<Rightarrow> (admin_action \<Rightarrow> bool) \<Rightarrow> web_request \<Rightarrow> int \<Rightarrow> string option \<Rightarrow> platform_admin \<Rightarrow> panel
    \<Rightarrow> platform_admin \<times> panel" where
  "enrol k saves q now proved a p = (case proved of
     None \<Rightarrow> (a, p)
   | Some secret \<Rightarrow>
       let a' = a\<lparr>totp_secret := seal k secret, totp_confirmed_at := Some now\<rparr>
       in (a', log_action saves (entry q (Some a') ''admin.totp.enroll'') (save_operator a' p)))"

definition complete_sign_in :: "(admin_action \<Rightarrow> bool) \<Rightarrow> string \<Rightarrow> web_request \<Rightarrow> int \<Rightarrow> string \<Rightarrow> platform_admin \<Rightarrow> panel
    \<Rightarrow> panel \<times> (refusal + me)" where
  "complete_sign_in saves fresh q now t a p =
     (let a' = note_success now (client_ip q) a;
          p' = save_operator a' (start_session fresh (session_key q) (pk a) now (revoke_ticket t p))
      in (log_action saves (entry q (Some a') ''admin.login'') p', Inr (me_payload a')))"

definition verify_post :: "toolkit \<Rightarrow> (admin_action \<Rightarrow> bool) \<Rightarrow> string \<Rightarrow> web_request \<Rightarrow> int \<Rightarrow> json
    \<Rightarrow> panel \<Rightarrow> panel \<times> (refusal + me)" where
  "verify_post k saves fresh q now data p =
     (case sum_bind (text_field data ''ticket'') (\<lambda>t. sum_bind (text_field data ''code'') (\<lambda>c. Inr (t, c))) of
        Inl e \<Rightarrow> (p, Inl e)
      | Inr (t, c) \<Rightarrow>
          (case load_ticket t now p of
             None \<Rightarrow> (p, Inl TICKET_EXPIRED)
           | Some tk \<Rightarrow>
               (case active_operator p (lt_admin_id tk) of
                  None \<Rightarrow> (revoke_ticket t p, Inl BAD_CREDENTIALS)
                | Some a \<Rightarrow>
                    if is_locked a now then
                      refuse saves (failed ''locked'' (entry q (Some a) ''admin.login'')) LOCKED_OUT (revoke_ticket t p)
                    else
                      (case second_factor k tk c now a (used_codes p) of
                         (used, Inl e) \<Rightarrow>
                           refuse saves (failed (factor_failure k a) (entry q (Some a) ''admin.login'')) e
                             (save_operator (note_failure now a) (p\<lparr>used_codes := used\<rparr>))
                       | (used, Inr proved) \<Rightarrow>
                           (case enrol k saves q now proved a (p\<lparr>used_codes := used\<rparr>) of
                              (a', p') \<Rightarrow> complete_sign_in saves fresh q now t a' p')))))"

definition logout_post :: "(admin_action \<Rightarrow> bool) \<Rightarrow> web_request \<Rightarrow> panel \<Rightarrow> panel" where
  "logout_post saves q p = end_session (session_key q) (log_action saves (entry q None ''admin.logout'') p)"

subsection \<open>Passwords and access codes\<close>

text \<open>
  \<open>len(password or '')\<close> and \<open>isdigit\<close>/\<open>isalpha\<close>; a number has no length, a list no \<open>isdigit\<close>. Of the letters
  only those of ASCII are taken for letters.
\<close>

definition password_problem :: "json \<Rightarrow> refusal + string option" where
  "password_problem v = (case v of
     JStr s \<Rightarrow>
       Inr (if char_count s < 12 then Some ''Password must be at least 12 characters.''
            else if py_isdigit s \<or> list_all is_alpha s
            then Some ''Password must mix letters, digits and punctuation.'' else None)
   | JList l \<Rightarrow> if length l < 12 then Inr (Some ''Password must be at least 12 characters.'') else Inl Crashed
   | JObj l \<Rightarrow> if length l < 12 then Inr (Some ''Password must be at least 12 characters.'') else Inl Crashed
   | w \<Rightarrow> if truthy w then Inl Crashed else Inr (Some ''Password must be at least 12 characters.''))"

definition ACCESS_CODE_MIN_LENGTH :: nat where "ACCESS_CODE_MIN_LENGTH = 6"

definition access_code_problem :: "toolkit \<Rightarrow> platform_admin \<Rightarrow> string \<Rightarrow> string option" where
  "access_code_problem k a c =
     (if char_count c < ACCESS_CODE_MIN_LENGTH
      then Some (''The access code must be at least '' @ show_nat ACCESS_CODE_MIN_LENGTH @ '' characters.'')
      else if check_password k a (JStr c) then Some ''The access code must differ from the password.'' else None)"

text \<open>\<open>PasswordChangeView\<close>, for the operator who is signed in.\<close>

definition password_change :: "toolkit \<Rightarrow> (admin_action \<Rightarrow> bool) \<Rightarrow> string \<Rightarrow> web_request \<Rightarrow> platform_admin \<Rightarrow> json \<Rightarrow> panel
    \<Rightarrow> panel \<times> (refusal + unit)" where
  "password_change k saves salt q a data p =
     (case sum_bind (body_field data ''currentPassword'') (\<lambda>c. sum_bind (body_field data ''newPassword'') (\<lambda>n.
             Inr (jor c (JStr []), jor n (JStr [])))) of
        Inl e \<Rightarrow> (p, Inl e)
      | Inr (current, new) \<Rightarrow>
          if \<not> check_password k a current then
            refuse saves (failed ''bad_password'' (entry q None ''admin.password.change''))
              (unauthorized ''Current password is not correct.'' ''invalid_credentials'') p
          else (case password_problem new of
              Inl e \<Rightarrow> (p, Inl e)
            | Inr (Some problem) \<Rightarrow> (p, Inl (Refused (AppError problem ''weak_password'' 400)))
            | Inr None \<Rightarrow>
                (log_action saves (entry q None ''admin.password.change'')
                   (save_operator (set_password k salt (py_str_of new) a) p), Inr ())))"

datatype command_error = CommandError string

text \<open>\<open>ask_twice\<close>: what was typed, and typed again.\<close>

definition ask_twice :: "string \<Rightarrow> string \<times> string \<Rightarrow> command_error + string" where
  "ask_twice label typed =
     (if fst typed \<noteq> snd typed then Inl (CommandError (''The two '' @ lower label @ ''s do not match.''))
      else Inr (fst typed))"

definition checked :: "(string \<Rightarrow> string option) \<Rightarrow> string \<Rightarrow> command_error + string" where
  "checked problem s = (case problem s of Some e \<Rightarrow> Inl (CommandError e) | None \<Rightarrow> Inr s)"

definition password_text_problem :: "string \<Rightarrow> string option" where
  "password_text_problem s = (case password_problem (JStr s) of Inr v \<Rightarrow> v | Inl _ \<Rightarrow> None)"

definition new_operator :: "nat \<Rightarrow> string \<Rightarrow> string \<Rightarrow> role \<Rightarrow> platform_admin" where
  "new_operator new_pk mail nm r =
     \<lparr>pk = new_pk, admin_email = mail, admin_name = (if nm = [] then mail else nm), password_hash = [],
      admin_role = r, admin_active = True, totp_secret = [], totp_confirmed_at = None, access_code_hash = [],
      failed_attempts = 0, locked_until = None, last_login_at = None, last_login_ip = None\<rparr>"

text \<open>
  \<open>createplatformadmin\<close>: \<open>new_pk\<close> is the key the database assigns, \<open>typed_code\<close> the answers to the prompts of
  \<open>--access-code\<close>.
\<close>

definition createplatformadmin :: "toolkit \<Rightarrow> string \<Rightarrow> nat \<Rightarrow> string \<Rightarrow> string \<Rightarrow> role \<Rightarrow> string \<times> string
    \<Rightarrow> (string \<times> string) option \<Rightarrow> panel \<Rightarrow> panel \<times> (command_error + platform_admin)" where
  "createplatformadmin k salt new_pk mail_arg nm r typed typed_code p =
     (let mail = lower (strip mail_arg) in
      if list_ex (\<lambda>a. admin_email a = mail) (operators p) then (p, Inl (CommandError (mail @ '' already exists.'')))
      else
        (case sum_bind (sum_bind (ask_twice ''Password'' typed) (checked password_text_problem)) (\<lambda>pw.
                let a = set_password k salt pw (new_operator new_pk mail nm r) in
                case typed_code of
                  None \<Rightarrow> Inr a
                | Some tc \<Rightarrow>
                    sum_bind (sum_bind (ask_twice ''Access code'' tc) (checked (access_code_problem k a))) (\<lambda>c.
                      Inr (set_access_code k salt (Some c) a))) of
           Inl e \<Rightarrow> (p, Inl e)
         | Inr a \<Rightarrow> (p\<lparr>operators := operators p @ [a]\<rparr>, Inr a)))"

text \<open>\<open>setplatformadmincode\<close>: \<open>None\<close> is \<open>--clear\<close>.\<close>

definition setplatformadmincode :: "toolkit \<Rightarrow> string \<Rightarrow> string \<Rightarrow> (string \<times> string) option \<Rightarrow> panel
    \<Rightarrow> panel \<times> (command_error + platform_admin)" where
  "setplatformadmincode k salt mail_arg typed_code p =
     (let mail = lower (strip mail_arg) in
      case List.find (\<lambda>a. admin_email a = mail) (operators p) of
        None \<Rightarrow> (p, Inl (CommandError (''No operator '' @ mail @ ''.'')))
      | Some a \<Rightarrow>
          (case (case typed_code of
                   None \<Rightarrow> Inr (set_access_code k salt None a)
                 | Some tc \<Rightarrow>
                     sum_bind (sum_bind (ask_twice ''Access code'' tc) (checked (access_code_problem k a))) (\<lambda>c.
                       Inr (set_access_code k salt (Some c) a))) of
             Inl e \<Rightarrow> (p, Inl e)
           | Inr a' \<Rightarrow> (save_operator a' p, Inr a')))"

end
