(* ===== verification/Sign_In_Safety.thy ===== *)
theory Sign_In_Safety
  imports Sign_In
begin

text \<open>
  What the sign-in guarantees: no session without a password and then a second factor, five wrong guesses
  per lockout whichever step they are made at, a code accepted once, and a row of an operator that leaves
  the panel authenticating nobody.
\<close>

named_theorems panel_simps \<open>what each operation leaves of the panel\<close>

lemma panel_save [panel_simps]:
  "tickets (save_operator a p) = tickets p" "sessions (save_operator a p) = sessions p"
  "used_codes (save_operator a p) = used_codes p" "actions (save_operator a p) = actions p"
  by (simp_all add: save_operator_def)

lemma panel_log [panel_simps]:
  "tickets (log_action saves row p) = tickets p" "sessions (log_action saves row p) = sessions p"
  "used_codes (log_action saves row p) = used_codes p" "operators (log_action saves row p) = operators p"
  by (simp_all add: log_action_def)

lemma panel_issue [panel_simps]:
  "sessions (issue_ticket f i b s now p) = sessions p" "operators (issue_ticket f i b s now p) = operators p"
  "tickets (issue_ticket f i b s now p) =
     shelf_set (ticket_key f) \<lparr>lt_admin_id = i, lt_enrolling = b, lt_pending_secret = s\<rparr> (now + TICKET_TTL) (tickets p)"
  by (simp_all add: issue_ticket_def)

lemma panel_revoke [panel_simps]:
  "sessions (revoke_ticket t p) = sessions p" "operators (revoke_ticket t p) = operators p"
  "used_codes (revoke_ticket t p) = used_codes p" "tickets (revoke_ticket t p) = shelf_delete (ticket_key t) (tickets p)"
  by (simp_all add: revoke_ticket_def)

lemma panel_start [panel_simps]:
  "tickets (start_session f c i now p) = tickets p" "operators (start_session f c i now p) = operators p"
  "used_codes (start_session f c i now p) = used_codes p"
  by (simp_all add: start_session_def Let_def)

lemma panel_end [panel_simps]:
  "tickets (end_session c p) = tickets p" "operators (end_session c p) = operators p"
  by (simp_all add: end_session_def split: option.split)

lemma panel_enrol [panel_simps]:
  "tickets (snd (enrol k saves q now pr a p)) = tickets p" "sessions (snd (enrol k saves q now pr a p)) = sessions p"
  "pk (fst (enrol k saves q now pr a p)) = pk a"
  by (simp_all add: enrol_def panel_simps Let_def split: option.split)

lemma ticket_key_inject [simp]: "ticket_key s = ticket_key t \<longleftrightarrow> s = t"
  by (simp add: ticket_key_def)

subsection \<open>What each step does\<close>

definition credentials_of :: "json \<Rightarrow> refusal + (string \<times> json)" where
  "credentials_of data = sum_bind (text_field data ''email'') (\<lambda>mail.
     sum_bind (body_field data ''password'') (\<lambda>pw. Inr (lower mail, jor pw (JStr []))))"

text \<open>The password of this request was right for this operator, who was active and not locked.\<close>

definition right_password :: "toolkit \<Rightarrow> panel \<Rightarrow> int \<Rightarrow> json \<Rightarrow> platform_admin \<Rightarrow> bool" where
  "right_password k p now data a =
     (\<exists>mail pw. credentials_of data = Inr (mail, pw) \<and> List.find (\<lambda>a. admin_email a = mail) (operators p) = Some a \<and>
        admin_active a \<and> \<not> is_locked a now \<and> check_password k a pw)"

definition ticketed :: "string \<Rightarrow> nat \<Rightarrow> int \<Rightarrow> login_ticket shelf \<Rightarrow> login_ticket shelf \<Rightarrow> bool" where
  "ticketed fresh i now ts ts' =
     (\<exists>b s. ts' = shelf_set (ticket_key fresh) \<lparr>lt_admin_id = i, lt_enrolling = b, lt_pending_secret = s\<rparr> (now + TICKET_TTL) ts)"

lemma ticketedI [simp]:
  "ticketed f i now ts (shelf_set (ticket_key f) \<lparr>lt_admin_id = i, lt_enrolling = b, lt_pending_secret = s\<rparr> (now + TICKET_TTL) ts)"
  unfolding ticketed_def by blast

lemma password_accepted_tickets:
  assumes "password_accepted k fresh secret now a p = (p', r)"
  shows "ticketed fresh (pk a) now (tickets p) (tickets p') \<and> sessions p' = sessions p \<and> (\<exists>ans. r = Inr ans)"
  using assms by (auto simp: password_accepted_def panel_simps split: if_splits)

lemma login_post_cases:
  assumes "login_post k saves fresh secret q now data p = (p', r)"
  shows "sessions p' = sessions p \<and>
    ((\<exists>e. r = Inl e) \<and> tickets p' = tickets p \<or>
     (\<exists>a. right_password k p now data a \<and> ticketed fresh (pk a) now (tickets p) (tickets p')))"
proof (cases "credentials_of data")
  case (Inl e)
  with assms show ?thesis by (auto simp: login_post_def credentials_of_def)
next
  case (Inr mp)
  obtain mail pw where mp: "mp = (mail, pw)" by (cases mp)
  note l = assms [unfolded login_post_def credentials_of_def [symmetric] Inr mp sum.case prod.case]
  show ?thesis
  proof (cases "\<exists>a. List.find (\<lambda>a. admin_email a = mail) (operators p) = Some a \<and> admin_active a \<and> \<not> is_locked a now \<and> check_password k a pw")
    case True
    then obtain a where a: "List.find (\<lambda>a. admin_email a = mail) (operators p) = Some a" "admin_active a"
      "\<not> is_locked a now" "check_password k a pw" by blast
    then have "password_accepted k fresh secret now a p = (p', r)" using l by simp
    moreover have "right_password k p now data a" using a Inr mp by (auto simp: right_password_def)
    ultimately show ?thesis using password_accepted_tickets by blast
  next
    case False
    then show ?thesis using l by (auto simp: refuse_def panel_simps split: option.splits if_splits)
  qed
qed

text \<open>The second factor of this request was right for the operator the ticket stands for.\<close>

definition right_factor :: "toolkit \<Rightarrow> panel \<Rightarrow> int \<Rightarrow> string \<Rightarrow> platform_admin \<Rightarrow> login_ticket \<Rightarrow> bool" where
  "right_factor k p now c a tk =
     (if uses_access_code k a then check_access_code k a c
      else (\<exists>secret. (if lt_enrolling tk then Option.bind (lt_pending_secret tk) (unseal_text k) else unseal_text k (totp_secret a)) = Some secret \<and>
              otp_verify k secret (plain_code c) VALID_WINDOW now \<and>
              shelf_get (used_codes p) now (replay_key (pk a) (plain_code c)) = None))"

definition accepted_factor :: "toolkit \<Rightarrow> panel \<Rightarrow> int \<Rightarrow> json \<Rightarrow> string \<Rightarrow> platform_admin \<Rightarrow> bool" where
  "accepted_factor k p now data t a =
     (\<exists>c tk. text_field data ''ticket'' = Inr t \<and> text_field data ''code'' = Inr c \<and>
        load_ticket t now p = Some tk \<and> active_operator p (lt_admin_id tk) = Some a \<and> \<not> is_locked a now \<and>
        right_factor k p now c a tk)"

lemma totp_verify_True:
  assumes "totp_verify k secret c i now used = (used', True)"
  shows "otp_verify k secret (plain_code c) VALID_WINDOW now \<and> shelf_get used now (replay_key i (plain_code c)) = None \<and>
    used' = shelf_set (replay_key i (plain_code c)) () (now + REPLAY_TTL) used"
  using assms by (auto simp: totp_verify_def shelf_add_def Let_def split: if_splits)

lemma second_factor_accepts:
  assumes "second_factor k tk c now a (used_codes p) = (used, Inr proved)"
  shows "right_factor k p now c a tk"
  using assms
  by (auto simp: second_factor_def right_factor_def split: if_splits option.splits prod.splits dest!: totp_verify_True)

lemma sessions_log_save:
  "sessions (log_action saves row (save_operator a p)) = sessions p"
  by (simp add: panel_simps)

lemma active_operator_pk: "active_operator p i = Some a \<Longrightarrow> pk a = i \<and> admin_active a \<and> a \<in> set (operators p)"
  by (auto simp: active_operator_def dest: find_Some_mem)

definition opened :: "string \<Rightarrow> string option \<Rightarrow> nat \<Rightarrow> int \<Rightarrow> session_data shelf \<Rightarrow> session_data shelf \<Rightarrow> bool" where
  "opened fresh cookie i now ss ss' =
     (\<exists>d rest. ss' = shelf_set fresh (d\<lparr>platform_admin_id := Some i\<rparr>) (now + SESSION_SECONDS) rest \<and>
        (rest = ss \<or> (\<exists>c. rest = shelf_delete c ss)))"

lemma start_session_opens:
  "opened fresh cookie i now (sessions p) (sessions (start_session fresh cookie i now p))"
  by (cases cookie) (auto simp: start_session_def opened_def Let_def)

lemma verify_post_cases:
  assumes "verify_post k saves fresh q now data p = (p', r)"
  shows "(tickets p' = tickets p \<or> (\<exists>t. tickets p' = shelf_delete (ticket_key t) (tickets p))) \<and>
    ((\<exists>e. r = Inl e) \<and> sessions p' = sessions p \<or>
     (\<exists>t a. accepted_factor k p now data t a \<and>
        opened fresh (session_key q) (pk a) now (sessions p) (sessions p')))"
proof (cases "sum_bind (text_field data ''ticket'') (\<lambda>t. sum_bind (text_field data ''code'') (\<lambda>c. Inr (t, c)))")
  case (Inl e)
  with assms show ?thesis by (auto simp: verify_post_def)
next
  case (Inr tc)
  then obtain t c where tc: "text_field data ''ticket'' = Inr t" "text_field data ''code'' = Inr c" "tc = (t, c)"
    by (auto simp: sum_bind_def split: sum.splits)
  note v = assms [unfolded verify_post_def Inr tc(3) sum.case prod.case]
  consider "load_ticket t now p = None"
    | tk where "load_ticket t now p = Some tk" "active_operator p (lt_admin_id tk) = None"
    | tk a where "load_ticket t now p = Some tk" "active_operator p (lt_admin_id tk) = Some a" "is_locked a now"
    | tk a used e where "load_ticket t now p = Some tk" "active_operator p (lt_admin_id tk) = Some a" "\<not> is_locked a now"
        "second_factor k tk c now a (used_codes p) = (used, Inl e)"
    | tk a used proved where "load_ticket t now p = Some tk" "active_operator p (lt_admin_id tk) = Some a" "\<not> is_locked a now"
        "second_factor k tk c now a (used_codes p) = (used, Inr proved)"
    by (cases "load_ticket t now p"; cases "active_operator p (lt_admin_id (the (load_ticket t now p)))")
      (auto, metis old.sum.exhaust surj_pair)
  then show ?thesis
  proof cases
    case (5 tk a used proved)
    let ?e = "enrol k saves q now proved a (p\<lparr>used_codes := used\<rparr>)"
    have p': "p' = fst (complete_sign_in saves fresh q now t (fst ?e) (snd ?e))"
      and r: "r = snd (complete_sign_in saves fresh q now t (fst ?e) (snd ?e))"
      using v by (simp_all add: 5 split_beta)
    have "accepted_factor k p now data t a"
      using 5 tc second_factor_accepts by (auto simp: accepted_factor_def)
    moreover have "opened fresh (session_key q) (pk a) now (sessions p) (sessions p')"
    proof -
      have "sessions p' = sessions (start_session fresh (session_key q) (pk a) now (revoke_ticket t (snd ?e)))"
        by (simp add: p' complete_sign_in_def Let_def panel_simps)
      moreover have "sessions (revoke_ticket t (snd ?e)) = sessions p" by (simp add: panel_simps)
      ultimately show ?thesis using start_session_opens by metis
    qed
    moreover have "tickets p' = shelf_delete (ticket_key t) (tickets p)"
      by (simp add: p' complete_sign_in_def Let_def panel_simps)
    ultimately show ?thesis by blast
  qed (use v in \<open>auto simp: refuse_def panel_simps\<close>)
qed

subsection \<open>Runs of the panel\<close>

text \<open>
  The requests that matter, each with the panel it met. Operators may change in any way between them
  (passwords, codes, roles, new rows), and browsers may hold any session of the cabinet.
\<close>

datatype sign_in_event =
    Login string int json
  | Verify string int json
  | Other

inductive sign_in_run :: "toolkit \<Rightarrow> (sign_in_event \<times> panel) list \<Rightarrow> panel \<Rightarrow> bool" for k where
  start: "tickets p = [] \<Longrightarrow> sessions p = [] \<Longrightarrow> sign_in_run k [] p"
| login: "sign_in_run k tr p \<Longrightarrow> login_post k saves fresh secret q now data p = (p', r) \<Longrightarrow>
    sign_in_run k (tr @ [(Login fresh now data, p)]) p'"
| verify: "sign_in_run k tr p \<Longrightarrow> verify_post k saves fresh q now data p = (p', r) \<Longrightarrow>
    sign_in_run k (tr @ [(Verify fresh now data, p)]) p'"
| logout: "sign_in_run k tr p \<Longrightarrow> sign_in_run k (tr @ [(Other, p)]) (logout_post saves q p)"
| authenticate: "sign_in_run k tr p \<Longrightarrow> sign_in_run k (tr @ [(Other, p)]) (fst (authenticate_operator csrf cookie now p))"
| management: "sign_in_run k tr p \<Longrightarrow> sign_in_run k (tr @ [(Other, p)]) (p\<lparr>operators := ops, actions := acts\<rparr>)"
| cabinet: "sign_in_run k tr p \<Longrightarrow> platform_admin_id d = None \<Longrightarrow>
    sign_in_run k (tr @ [(Other, p)]) (p\<lparr>sessions := shelf_set c d e (sessions p)\<rparr>)"

definition gave_password :: "toolkit \<Rightarrow> nat \<Rightarrow> string \<Rightarrow> sign_in_event \<times> panel \<Rightarrow> bool" where
  "gave_password k i t = (\<lambda>(ev, p). case ev of
     Login fresh now data \<Rightarrow> fresh = t \<and> (\<exists>a. pk a = i \<and> right_password k p now data a) | _ \<Rightarrow> False)"

definition gave_factor :: "toolkit \<Rightarrow> nat \<Rightarrow> string \<Rightarrow> string \<Rightarrow> sign_in_event \<times> panel \<Rightarrow> bool" where
  "gave_factor k i t c = (\<lambda>(ev, p). case ev of
     Verify fresh now data \<Rightarrow> fresh = c \<and> (\<exists>a. pk a = i \<and> accepted_factor k p now data t a) | _ \<Rightarrow> False)"

definition one_then_other :: "('e \<Rightarrow> bool) \<Rightarrow> ('e \<Rightarrow> bool) \<Rightarrow> 'e list \<Rightarrow> bool" where
  "one_then_other P Q tr = (\<exists>before x between y after. tr = before @ x # between @ y # after \<and> P x \<and> Q y)"

lemma one_then_other_append: "one_then_other P Q tr \<Longrightarrow> one_then_other P Q (tr @ rest)"
  unfolding one_then_other_def by (metis append_Cons append_assoc)

lemma one_then_other_last:
  assumes "x \<in> set tr" "P x" "Q y"
  shows "one_then_other P Q (tr @ [y])"
proof -
  obtain before between where "tr = before @ x # between" using split_list [OF assms(1)] by blast
  then have "tr @ [y] = before @ x # between @ y # []" by simp
  then show ?thesis using assms(2,3) unfolding one_then_other_def by blast
qed

definition tickets_earned :: "toolkit \<Rightarrow> (sign_in_event \<times> panel) list \<Rightarrow> panel \<Rightarrow> bool" where
  "tickets_earned k tr p = (\<forall>t tk e. map_of (tickets p) (ticket_key t) = Some (tk, e) \<longrightarrow>
     (\<exists>x \<in> set tr. gave_password k (lt_admin_id tk) t x))"

definition sessions_earned :: "toolkit \<Rightarrow> (sign_in_event \<times> panel) list \<Rightarrow> panel \<Rightarrow> bool" where
  "sessions_earned k tr p = (\<forall>c d e i. map_of (sessions p) c = Some (d, e) \<longrightarrow> platform_admin_id d = Some i \<longrightarrow>
     (\<exists>t. one_then_other (gave_password k i t) (gave_factor k i t c) tr))"

text \<open>A step that takes tickets and sessions away keeps both.\<close>

lemma earned_shrink:
  assumes "tickets_earned k tr p" "sessions_earned k tr p"
    "\<And>t x. map_of (tickets p') t = Some x \<Longrightarrow> map_of (tickets p) t = Some x"
    "\<And>c d e. map_of (sessions p') c = Some (d, e) \<Longrightarrow> map_of (sessions p) c = Some (d, e) \<or> platform_admin_id d = None"
  shows "tickets_earned k (tr @ [x]) p' \<and> sessions_earned k (tr @ [x]) p'"
proof
  show "tickets_earned k (tr @ [x]) p'"
    using assms(1,3) unfolding tickets_earned_def by (metis Un_iff set_append)
  show "sessions_earned k (tr @ [x]) p'"
    using assms(2,4) one_then_other_append unfolding sessions_earned_def by (metis option.distinct(1))
qed

lemma earned_ticket:
  assumes "tickets_earned k tr p" "sessions_earned k tr p" "sessions p' = sessions p"
    "ticketed fresh (pk a) now (tickets p) (tickets p')" "right_password k p now data a"
  shows "tickets_earned k (tr @ [(Login fresh now data, p)]) p' \<and> sessions_earned k (tr @ [(Login fresh now data, p)]) p'"
proof
  have new: "gave_password k (pk a) fresh (Login fresh now data, p)" using assms(5) by (auto simp: gave_password_def)
  show "tickets_earned k (tr @ [(Login fresh now data, p)]) p'"
    unfolding tickets_earned_def
  proof (intro allI impI)
    fix t tk e
    assume a: "map_of (tickets p') (ticket_key t) = Some (tk, e)"
    show "\<exists>x \<in> set (tr @ [(Login fresh now data, p)]). gave_password k (lt_admin_id tk) t x"
    proof (cases "t = fresh")
      case True
      then have "lt_admin_id tk = pk a"
        using a assms(4) by (auto simp: ticketed_def shelf_set_def map_of_update)
      then show ?thesis using new True by auto
    next
      case False
      then have "map_of (tickets p) (ticket_key t) = Some (tk, e)"
        using a assms(4) by (auto simp: ticketed_def shelf_set_def map_of_update)
      then show ?thesis using assms(1) by (fastforce simp: tickets_earned_def)
    qed
  qed
  show "sessions_earned k (tr @ [(Login fresh now data, p)]) p'"
    using assms(2,3) one_then_other_append unfolding sessions_earned_def by metis
qed

lemma earned_session:
  assumes "tickets_earned k tr p" "sessions_earned k tr p"
    "\<And>t x. map_of (tickets p') t = Some x \<Longrightarrow> map_of (tickets p) t = Some x"
    "accepted_factor k p now data t a" "opened fresh cookie (pk a) now (sessions p) (sessions p')"
  shows "tickets_earned k (tr @ [(Verify fresh now data, p)]) p' \<and> sessions_earned k (tr @ [(Verify fresh now data, p)]) p'"
proof
  let ?ev = "(Verify fresh now data, p)"
  show "tickets_earned k (tr @ [?ev]) p'"
    using assms(1,3) unfolding tickets_earned_def by (metis Un_iff set_append)
  obtain tk e where tk: "map_of (tickets p) (ticket_key t) = Some (tk, e)" "lt_admin_id tk = pk a"
    using assms(4) active_operator_pk
    by (fastforce simp: accepted_factor_def load_ticket_def shelf_get_def split: if_splits option.splits)
  obtain x where x: "x \<in> set tr" "gave_password k (pk a) t x"
    using assms(1) tk unfolding tickets_earned_def by metis
  have "gave_factor k (pk a) t fresh ?ev" using assms(4) by (auto simp: gave_factor_def)
  then have new: "one_then_other (gave_password k (pk a) t) (gave_factor k (pk a) t fresh) (tr @ [?ev])"
    using x one_then_other_last by metis
  have old: "map_of (sessions p) c = Some (d, e) \<or> c = fresh \<and> platform_admin_id d = Some (pk a)"
    if "map_of (sessions p') c = Some (d, e)" for c d e
    using assms(5) that
    by (auto simp: opened_def shelf_set_def map_of_update map_of_shelf_delete split: if_splits)
  show "sessions_earned k (tr @ [?ev]) p'"
    unfolding sessions_earned_def
  proof (intro allI impI)
    fix c d e i
    assume a: "map_of (sessions p') c = Some (d, e)" "platform_admin_id d = Some i"
    show "\<exists>t. one_then_other (gave_password k i t) (gave_factor k i t c) (tr @ [?ev])"
      using old [OF a(1)]
    proof
      assume "map_of (sessions p) c = Some (d, e)"
      then show ?thesis using a(2) assms(2) one_then_other_append unfolding sessions_earned_def by metis
    next
      assume "c = fresh \<and> platform_admin_id d = Some (pk a)"
      then show ?thesis using new a(2) by auto
    qed
  qed
qed

lemma shrink_delete: "map_of (shelf_delete c s) k = Some x \<Longrightarrow> map_of s k = Some x"
  by (simp add: map_of_shelf_delete split: if_splits)

lemma sign_in_run_earned:
  assumes "sign_in_run k tr p"
  shows "tickets_earned k tr p \<and> sessions_earned k tr p"
  using assms
proof induction
  case (start p)
  then show ?case by (simp add: tickets_earned_def sessions_earned_def)
next
  case (login tr p saves fresh secret q now data p' r)
  have same: "sessions p' = sessions p" using login_post_cases [OF login(2)] by blast
  from login_post_cases [OF login(2)] consider "tickets p' = tickets p"
    | a where "right_password k p now data a" "ticketed fresh (pk a) now (tickets p) (tickets p')" by blast
  then show ?case
  proof cases
    case 1
    then show ?thesis using same login.IH by (intro earned_shrink) auto
  next
    case 2
    then show ?thesis using same login.IH earned_ticket by blast
  qed
next
  case (verify tr p saves fresh q now data p' r)
  have less: "map_of (tickets p') t = Some x \<Longrightarrow> map_of (tickets p) t = Some x" for t x
    using verify_post_cases [OF verify(2)] shrink_delete by metis
  from verify_post_cases [OF verify(2)] consider "sessions p' = sessions p"
    | t a where "accepted_factor k p now data t a" "opened fresh (session_key q) (pk a) now (sessions p) (sessions p')" by blast
  then show ?case
  proof cases
    case 1
    then show ?thesis using less verify.IH by (intro earned_shrink [of k tr p p']) auto
  next
    case 2
    then show ?thesis using less verify.IH earned_session by blast
  qed
next
  case (logout tr p saves q)
  have "sessions (logout_post saves q p) = sessions p \<or> (\<exists>c. sessions (logout_post saves q p) = shelf_delete c (sessions p))"
    by (auto simp: logout_post_def end_session_def panel_simps split: option.split)
  moreover have "tickets (logout_post saves q p) = tickets p" by (simp add: logout_post_def panel_simps)
  ultimately show ?case using logout.IH shrink_delete by (intro earned_shrink) (auto, fastforce+)
next
  case (authenticate tr p csrf cookie now)
  let ?p' = "fst (authenticate_operator csrf cookie now p)"
  have "?p' = p \<or> ?p' = end_session cookie p"
    by (auto simp: authenticate_operator_def split: option.split)
  then have "(sessions ?p' = sessions p \<or> (\<exists>c. sessions ?p' = shelf_delete c (sessions p))) \<and> tickets ?p' = tickets p"
    by (auto simp: end_session_def split: option.splits)
  then show ?case using authenticate.IH shrink_delete by (intro earned_shrink) (auto, fastforce+)
next
  case (management tr p ops acts)
  then show ?case by (intro earned_shrink) auto
next
  case (cabinet tr p d c e)
  then show ?case by (intro earned_shrink) (auto simp: shelf_set_def map_of_update split: if_splits)
qed

text \<open>C9. Nobody holds an operator's session without both factors: whatever requests, changes to operators and
  cabinet sessions came before, the session of operator \<open>i\<close> was preceded by a request with that operator's
  right password while active and unlocked, and after it by a request carrying the ticket that password
  bought and the operator's right second factor, and that request opened this session (the access code where one is set, else a one-time code
  not used before), again while active and unlocked.\<close>

theorem session_needs_both_factors:
  assumes "sign_in_run k tr p" "map_of (sessions p) c = Some (d, e)" "platform_admin_id d = Some i"
  shows "\<exists>t. one_then_other (gave_password k i t) (gave_factor k i t c) tr"
  using sign_in_run_earned [OF assms(1)] assms(2,3) by (auto simp: sessions_earned_def)

subsection \<open>Five guesses per lockout\<close>

definition wf_operators :: "platform_admin list \<Rightarrow> bool" where
  "wf_operators ops = (distinct (map pk ops) \<and> distinct (map admin_email ops))"

lemma find_key: "distinct (map f xs) \<Longrightarrow> x \<in> set xs \<Longrightarrow> List.find (\<lambda>y. f y = f x) xs = Some x"
  by (induction xs) auto

lemma find_conj_key:
  "distinct (map f xs) \<Longrightarrow> x \<in> set xs \<Longrightarrow> P x \<Longrightarrow> List.find (\<lambda>y. f y = f x \<and> P y) xs = Some x"
  by (induction xs) auto

text \<open>What a request leaves of an operator besides the lock: the row stays theirs and active.\<close>

definition same_operator :: "platform_admin \<Rightarrow> platform_admin \<Rightarrow> bool" where
  "same_operator a b = (pk b = pk a \<and> admin_email b = admin_email a \<and> admin_active b = admin_active a)"

definition lock_of :: "platform_admin \<Rightarrow> nat \<times> int option" where
  "lock_of a = (failed_attempts a, locked_until a)"

lemma same_operator_notes [simp]:
  "same_operator a a" "same_operator a (note_failure now a)" "same_operator a (note_success now ip b) = same_operator a b"
  "same_operator a (fst (enrol k saves q now proved a p))"
  by (simp_all add: same_operator_def note_failure_def note_success_def enrol_def Let_def split: option.split)

lemma operator_unique:
  assumes "wf_operators ops" "a \<in> set ops" "b \<in> set ops" "pk b = pk a \<or> admin_email b = admin_email a"
  shows "b = a"
  using assms by (auto simp: wf_operators_def distinct_map dest: inj_onD)

text \<open>One row is written: the others stay, and the table stays a table of distinct operators.\<close>

lemma save_operator_rows:
  assumes "wf_operators ops" "a \<in> set ops" "b \<in> set ops" "same_operator b b'"
  defines "ops' \<equiv> map (\<lambda>c. if pk c = pk b' then b' else c) ops"
  shows "wf_operators ops'" "(if b = a then b' else a) \<in> set ops'"
proof -
  have "admin_email c = admin_email b'" if "c \<in> set ops" "pk c = pk b'" for c
    using operator_unique [OF assms(1) assms(3) that(1)] that assms(4) by (auto simp: same_operator_def)
  then have "map admin_email ops' = map admin_email ops" "map pk ops' = map pk ops"
    by (auto simp: ops'_def)
  then show "wf_operators ops'" using assms(1) by (simp add: wf_operators_def)
  have "pk a \<noteq> pk b'" if "b \<noteq> a" using operator_unique [OF assms(1-3)] that assms(4) by (auto simp: same_operator_def)
  then show "(if b = a then b' else a) \<in> set ops'"
    using assms(2-4) by (force simp: ops'_def same_operator_def)
qed

lemma note_failure_pk: "pk (note_failure now a) = pk a"
  by (simp add: note_failure_def)

lemma operators_save: "operators (save_operator b p) = map (\<lambda>c. if pk c = pk b then b else c) (operators p)"
  by (simp add: save_operator_def)

text \<open>A request at either step of the sign-in, with any content and against any operator.\<close>

datatype guess =
    Password_guess string string web_request int json
  | Factor_guess string web_request int json

fun guessed_at :: "guess \<Rightarrow> int" where
  "guessed_at (Password_guess _ _ _ now _) = now"
| "guessed_at (Factor_guess _ _ now _) = now"

definition refusal_of :: "refusal + 'a \<Rightarrow> refusal option" where
  "refusal_of r = (case r of Inl e \<Rightarrow> Some e | Inr _ \<Rightarrow> None)"

lemma refusal_of_simps [simp]: "refusal_of (Inl e) = Some e" "refusal_of (Inr v) = None"
  by (simp_all add: refusal_of_def)

fun make_guess :: "toolkit \<Rightarrow> (admin_action \<Rightarrow> bool) \<Rightarrow> guess \<Rightarrow> panel \<Rightarrow> panel \<times> refusal option" where
  "make_guess k saves (Password_guess fresh secret q now data) p =
     map_prod id refusal_of (login_post k saves fresh secret q now data p)"
| "make_guess k saves (Factor_guess fresh q now data) p =
     map_prod id refusal_of (verify_post k saves fresh q now data p)"

text \<open>Each request with the panel it met and how it was refused, if it was.\<close>

fun guess_run :: "toolkit \<Rightarrow> (admin_action \<Rightarrow> bool) \<Rightarrow> guess list \<Rightarrow> panel \<Rightarrow> (guess \<times> panel \<times> refusal option) list" where
  "guess_run k saves [] p = []"
| "guess_run k saves (g # gs) p = (case make_guess k saves g p of (p', r) \<Rightarrow> (g, p, r) # guess_run k saves gs p')"

text \<open>The request is about this operator: their address at step one, a live ticket of theirs at step two.\<close>

fun aimed_at :: "platform_admin \<Rightarrow> guess \<Rightarrow> panel \<Rightarrow> bool" where
  "aimed_at a (Password_guess _ _ _ _ data) p =
     (case credentials_of data of Inl _ \<Rightarrow> False | Inr (mail, _) \<Rightarrow> mail = admin_email a)"
| "aimed_at a (Factor_guess _ _ now data) p =
     (case sum_bind (text_field data ''ticket'') (\<lambda>t. sum_bind (text_field data ''code'') (\<lambda>c. Inr t)) of
        Inl _ \<Rightarrow> False
      | Inr t \<Rightarrow> (case load_ticket t now p of None \<Rightarrow> False | Some tk \<Rightarrow> lt_admin_id tk = pk a))"

declare aimed_at.simps [simp del]

fun right_guess :: "toolkit \<Rightarrow> platform_admin \<Rightarrow> guess \<Rightarrow> panel \<Rightarrow> bool" where
  "right_guess k a (Password_guess _ _ _ now data) p = (\<exists>b. same_operator a b \<and> right_password k p now data b)"
| "right_guess k a (Factor_guess _ _ now data) p = (\<exists>b t. same_operator a b \<and> accepted_factor k p now data t b)"

text \<open>The answers that say a credential was looked at and found wrong.\<close>

definition looked_at :: "refusal option \<Rightarrow> bool" where
  "looked_at r = (r \<in> {Some BAD_CREDENTIALS, Some BAD_ACCESS_CODE, Some BAD_TOTP})"

lemma looked_at_simps [simp]:
  "\<not> looked_at (Some LOCKED_OUT)" "\<not> looked_at (Some TICKET_EXPIRED)" "looked_at (Some BAD_CREDENTIALS)"
  "looked_at (Some BAD_ACCESS_CODE)" "looked_at (Some BAD_TOTP)" "\<not> looked_at None"
  by (simp_all add: looked_at_def sign_in_errors)

fun found_wrong :: "platform_admin \<Rightarrow> guess \<times> panel \<times> refusal option \<Rightarrow> bool" where
  "found_wrong a (g, p, r) = (aimed_at a g p \<and> looked_at r)"

fun lets_in :: "platform_admin \<Rightarrow> guess \<times> panel \<times> refusal option \<Rightarrow> bool" where
  "lets_in a (Factor_guess f q now data, p, r) = (aimed_at a (Factor_guess f q now data) p \<and> r = None)"
| "lets_in a _ = False"

text \<open>One request: what it does to this operator's lock, and how it may be answered if it is about them.\<close>

definition guess_effect :: "toolkit \<Rightarrow> platform_admin \<Rightarrow> guess \<Rightarrow> panel \<Rightarrow> refusal option \<Rightarrow> panel \<Rightarrow> bool" where
  "guess_effect k a g p r p' =
     (wf_operators (operators p') \<and>
      (\<exists>b \<in> set (operators p'). same_operator a b \<and>
        (if found_wrong a (g, p, r) then \<not> is_locked a (guessed_at g) \<and> lock_of b = lock_of (note_failure (guessed_at g) a)
         else if lets_in a (g, p, r) then \<not> is_locked a (guessed_at g) \<and> lock_of b = (0, None)
         else lock_of b = lock_of a)) \<and>
      (aimed_at a g p \<longrightarrow> (r = None \<and> right_guess k a g p) \<or> looked_at r \<or> (r = Some LOCKED_OUT \<and> is_locked a (guessed_at g))))"

lemma guess_effectI:
  assumes "wf_operators (operators p)" "a \<in> set (operators p)" "b \<in> set (operators p)" "same_operator b b'"
    "operators p' = map (\<lambda>c. if pk c = pk b' then b' else c) (operators p)"
    "if found_wrong a (g, p, r) then b = a \<and> \<not> is_locked a (guessed_at g) \<and> lock_of b' = lock_of (note_failure (guessed_at g) a)
     else if lets_in a (g, p, r) then b = a \<and> \<not> is_locked a (guessed_at g) \<and> lock_of b' = (0, None)
     else b = a \<longrightarrow> lock_of b' = lock_of a"
    "aimed_at a g p \<longrightarrow> (r = None \<and> right_guess k a g p) \<or> looked_at r \<or> (r = Some LOCKED_OUT \<and> is_locked a (guessed_at g))"
  shows "guess_effect k a g p r p'"
  unfolding guess_effect_def
  using save_operator_rows [OF assms(1-4)] assms(4-7)
  by (intro conjI bexI [of _ "if b = a then b' else a"]) (auto split: if_splits)

lemma guess_effect_idle:
  assumes "wf_operators (operators p)" "a \<in> set (operators p)" "operators p' = operators p"
    "\<not> found_wrong a (g, p, r)" "\<not> lets_in a (g, p, r)"
    "aimed_at a g p \<longrightarrow> (r = None \<and> right_guess k a g p) \<or> (r = Some LOCKED_OUT \<and> is_locked a (guessed_at g))"
  shows "guess_effect k a g p r p'"
  unfolding guess_effect_def using assms by (auto intro!: bexI [of _ a])

lemma password_guess_effect:
  assumes "wf_operators (operators p)" "a \<in> set (operators p)" "admin_active a"
    "make_guess k saves (Password_guess fresh secret q now data) p = (p', r)"
  shows "guess_effect k a (Password_guess fresh secret q now data) p r p'"
proof (cases "credentials_of data")
  case (Inl e)
  then show ?thesis using assms(1,2,4)
    by (intro guess_effect_idle) (auto simp: login_post_def credentials_of_def [symmetric] panel_simps aimed_at.simps)
next
  case (Inr mp)
  obtain mail pw where mp: "mp = (mail, pw)" by (cases mp)
  have aimed: "aimed_at a (Password_guess fresh secret q now data) p = (mail = admin_email a)"
    by (simp add: aimed_at.simps Inr mp)
  note l = assms(4) [unfolded make_guess.simps login_post_def credentials_of_def [symmetric] Inr mp sum.case prod.case]
  let ?found = "List.find (\<lambda>b. admin_email b = mail) (operators p)"
  have mine: "?found = Some a" if "mail = admin_email a"
    using find_key [of admin_email "operators p" a] assms(1,2) that by (simp add: wf_operators_def)
  have theirs: "b \<in> set (operators p)" "admin_email b = mail" if "?found = Some b" for b
    using that by (auto simp: find_Some_iff)
  consider (idle) "operators p' = operators p" "mail \<noteq> admin_email a"
    | (locked) "?found = Some a" "operators p' = operators p" "is_locked a now" "r = Some LOCKED_OUT"
    | (wrong) b where "?found = Some b" "r = Some BAD_CREDENTIALS" "\<not> is_locked b now"
        "operators p' = operators (save_operator (note_failure now b) p)"
    | (right) "?found = Some a" "operators p' = operators p" "r = None" "\<not> is_locked a now" "check_password k a pw"
  proof (cases "mail = admin_email a")
    case True
    show ?thesis
    proof (cases "is_locked a now")
      case lock: True
      show ?thesis using l assms(3) lock by (intro locked mine True) (auto simp: mine [OF True] refuse_def panel_simps)
    next
      case open': False
      show ?thesis
      proof (cases "check_password k a pw")
        case False
        show ?thesis using l assms(3) open' False
          by (intro wrong mine True) (auto simp: mine [OF True] refuse_def panel_simps)
      next
        case yes: True
        show ?thesis using l assms(3) open' yes
          by (intro right mine True) (auto simp: mine [OF True] password_accepted_def panel_simps split: if_splits)
      qed
    qed
  next
    case False
    show ?thesis
    proof (cases "\<exists>b. ?found = Some b \<and> admin_active b \<and> \<not> is_locked b now \<and> \<not> check_password k b pw")
      case True
      then obtain b where b: "?found = Some b" "admin_active b" "\<not> is_locked b now" "\<not> check_password k b pw" by blast
      show ?thesis using l b by (intro wrong) (auto simp: refuse_def panel_simps)
    next
      case no: False
      show ?thesis using l no False
        by (intro idle) (auto simp: refuse_def panel_simps password_accepted_def split: option.splits if_splits)
    qed
  qed
  then show ?thesis
  proof cases
    case idle
    then show ?thesis by (intro guess_effect_idle assms(1,2)) (simp_all add: aimed)
  next
    case locked
    then show ?thesis by (intro guess_effect_idle assms(1,2)) simp_all
  next
    case (wrong b)
    have same: "(mail = admin_email a) = (b = a)"
      using theirs(2) [OF wrong(1)] mine wrong(1) by (metis option.inject)
    show ?thesis
    proof (rule guess_effectI [OF assms(1,2) theirs(1) [OF wrong(1)], of "note_failure now b"])
      show "operators p' = map (\<lambda>c. if pk c = pk (note_failure now b) then note_failure now b else c) (operators p)"
        using wrong(4) by (simp only: operators_save)
      show "if found_wrong a (Password_guess fresh secret q now data, p, r)
          then b = a \<and> \<not> is_locked a (guessed_at (Password_guess fresh secret q now data)) \<and>
            lock_of (note_failure now b) = lock_of (note_failure (guessed_at (Password_guess fresh secret q now data)) a)
          else if lets_in a (Password_guess fresh secret q now data, p, r)
          then b = a \<and> \<not> is_locked a (guessed_at (Password_guess fresh secret q now data)) \<and> lock_of (note_failure now b) = (0, None)
          else b = a \<longrightarrow> lock_of (note_failure now b) = lock_of a"
      proof (cases "b = a")
        case True
        then have "aimed_at a (Password_guess fresh secret q now data) p" by (simp only: aimed same)
        then show ?thesis using wrong(2,3) True by simp
      next
        case False
        then have "\<not> aimed_at a (Password_guess fresh secret q now data) p" by (simp only: aimed same not_False_eq_True)
        then show ?thesis using False by simp
      qed
    qed (simp_all add: wrong(2))
  next
    case right
    have "right_password k p now data a" using right assms(3) by (auto simp: right_password_def Inr mp)
    then have "right_guess k a (Password_guess fresh secret q now data) p" by (auto intro: exI [of _ a])
    then show ?thesis using right by (intro guess_effect_idle assms(1,2)) simp_all
  qed
qed

lemma factor_guess_effect:
  assumes "wf_operators (operators p)" "a \<in> set (operators p)" "admin_active a"
    "make_guess k saves (Factor_guess fresh q now data) p = (p', r)"
  shows "guess_effect k a (Factor_guess fresh q now data) p r p'"
proof -
  let ?g = "Factor_guess fresh q now data"
  let ?field = "sum_bind (text_field data ''ticket'') (\<lambda>t. sum_bind (text_field data ''code'') (\<lambda>c. Inr (t, c)))"
  note v = assms(4) [unfolded make_guess.simps verify_post_def]
  have idle: ?thesis if "operators p' = operators p" "\<not> aimed_at a ?g p \<or> r = Some LOCKED_OUT \<and> is_locked a now"
    using that by (intro guess_effect_idle assms(1,2)) auto
  show ?thesis
  proof (cases ?field)
    case (Inl e)
    then have "\<not> aimed_at a ?g p" by (auto simp: aimed_at.simps sum_bind_def split: sum.splits)
    then show ?thesis using v Inl by (intro idle) auto
  next
    case (Inr tc)
    then obtain t c where tc: "text_field data ''ticket'' = Inr t" "text_field data ''code'' = Inr c" "tc = (t, c)"
      by (auto simp: sum_bind_def split: sum.splits)
    have fields: "sum_bind (text_field data ''ticket'') (\<lambda>t. sum_bind (text_field data ''code'') (\<lambda>c. Inr t)) = Inr t"
      by (simp add: tc sum_bind_def)
    show ?thesis
    proof (cases "load_ticket t now p")
      case None
      then show ?thesis using v Inr tc(3) by (intro idle) (auto simp: aimed_at.simps fields)
    next
      case (Some tk)
      have aimed: "aimed_at a ?g p = (lt_admin_id tk = pk a)" by (simp add: aimed_at.simps fields Some)
      show ?thesis
      proof (cases "active_operator p (lt_admin_id tk)")
        case None
        have "active_operator p (pk a) = Some a"
          using assms(1-3) find_conj_key [of pk "operators p" a admin_active] by (auto simp: wf_operators_def active_operator_def)
        then have "lt_admin_id tk \<noteq> pk a" using None by auto
        then show ?thesis using v Inr tc(3) Some None by (intro idle) (auto simp: aimed panel_simps)
      next
        case b: (Some b)
        note pkb = active_operator_pk [OF b]
        have same: "(lt_admin_id tk = pk a) = (b = a)" using operator_unique [OF assms(1,2), of b] pkb by auto
        note w = v [unfolded Inr tc(3) sum.case prod.case Some option.case b]
        show ?thesis
        proof (cases "is_locked b now")
          case True
          then show ?thesis using w by (intro idle) (auto simp: aimed same refuse_def panel_simps)
        next
          case open': False
          obtain used res where f: "second_factor k tk c now b (used_codes p) = (used, res)" by fastforce
          show ?thesis
          proof (cases res)
            case (Inl e)
            have "e \<in> {BAD_ACCESS_CODE, BAD_TOTP}" using f Inl by (auto simp: second_factor_def split: if_splits option.splits prod.splits)
            then have "looked_at (Some e)" by auto
            moreover have "r = Some e" "operators p' = map (\<lambda>c. if pk c = pk b then note_failure now b else c) (operators p)"
              using w open' f Inl by (auto simp: refuse_def panel_simps operators_save save_operator_def note_failure_def)
            ultimately show ?thesis using pkb open'
              by (intro guess_effectI [OF assms(1,2), of b "note_failure now b"]; cases "b = a")
                (simp_all add: aimed same note_failure_pk)
          next
            case (Inr proved)
            have right: "accepted_factor k p now data t b"
              using tc Some b open' second_factor_accepts [OF f [unfolded Inr]] by (auto simp: accepted_factor_def)
            let ?b = "note_success now (client_ip q) (fst (enrol k saves q now proved b (p\<lparr>used_codes := used\<rparr>)))"
            have ops: "operators p' = map (\<lambda>c. if pk c = pk ?b then ?b else c) (operators p)" "r = None"
              using w open' f Inr
              by (auto simp: complete_sign_in_def Let_def panel_simps enrol_def operators_save note_success_def split: option.splits)
            have "right_guess k a ?g p" if "b = a" using right that by (auto intro: exI [of _ a])
            moreover have "lock_of ?b = (0, None)" by (simp add: lock_of_def note_success_def)
            moreover have "same_operator b ?b" by simp
            ultimately show ?thesis using pkb open' ops
              by (intro guess_effectI [OF assms(1,2), of b ?b]; cases "b = a") (simp_all add: aimed same)
          qed
        qed
      qed
    qed
  qed
qed

lemma guess_effects:
  assumes "wf_operators (operators p)" "a \<in> set (operators p)" "admin_active a" "make_guess k saves g p = (p', r)"
  shows "guess_effect k a g p r p'"
  using assms password_guess_effect factor_guess_effect by (cases g) (simp_all del: make_guess.simps)

text \<open>The guesses a lock still allows in the quarter of an hour from \<open>T\<close>.\<close>

definition remaining :: "int \<Rightarrow> nat \<times> int option \<Rightarrow> nat" where
  "remaining T l = (if (case snd l of None \<Rightarrow> False | Some u \<Rightarrow> T + LOCKOUT_SECONDS \<le> u) then 0
     else MAX_FAILED_ATTEMPTS - fst l)"

lemma remaining_drops:
  assumes "\<not> is_locked a now" "T \<le> now" "now < T + LOCKOUT_SECONDS" "fst (lock_of a) < MAX_FAILED_ATTEMPTS"
  shows "Suc (remaining T (lock_of (note_failure now a))) = remaining T (lock_of a) \<and>
    fst (lock_of (note_failure now a)) < MAX_FAILED_ATTEMPTS"
  using assms
  by (auto simp: remaining_def lock_of_def note_failure_def is_locked_def MAX_FAILED_ATTEMPTS_def split: option.splits)

lemma same_operator_aimed:
  assumes "same_operator a b"
  shows "aimed_at b g p = aimed_at a g p" "found_wrong b x = found_wrong a x" "lets_in b x = lets_in a x"
    "right_guess k b g p = right_guess k a g p"
proof -
  show aimed: "aimed_at b g p = aimed_at a g p" for g p
    using assms by (cases g) (simp_all add: aimed_at.simps same_operator_def cong: sum.case_cong option.case_cong prod.case_cong)
  show "found_wrong b x = found_wrong a x" by (cases x) (simp add: aimed)
  show "lets_in b x = lets_in a x" by (cases x; cases "fst x") (simp_all add: aimed)
  have "same_operator b c = same_operator a c" for c using assms by (auto simp: same_operator_def)
  then show "right_guess k b g p = right_guess k a g p" by (cases g) simp_all
qed

lemma guesses_bounded:
  assumes "wf_operators (operators p)" "a \<in> set (operators p)" "admin_active a"
    "fst (lock_of a) < MAX_FAILED_ATTEMPTS" "\<forall>g \<in> set gs. T \<le> guessed_at g \<and> guessed_at g < T + LOCKOUT_SECONDS"
  shows "length (filter (found_wrong a) (guess_run k saves gs p))
      \<le> remaining T (lock_of a) + 5 * length (filter (lets_in a) (guess_run k saves gs p)) \<and>
    list_all (\<lambda>(g, p, r). aimed_at a g p \<longrightarrow> (r = None \<and> right_guess k a g p) \<or> looked_at r \<or> r = Some LOCKED_OUT)
      (guess_run k saves gs p)"
  using assms
proof (induction gs arbitrary: p a)
  case (Cons g gs)
  obtain p' r where pr: "make_guess k saves g p = (p', r)" by fastforce
  have effect: "guess_effect k a g p r p'" using Cons.prems pr by (intro guess_effects) auto
  then obtain b where b: "b \<in> set (operators p')" "same_operator a b" "wf_operators (operators p')"
    and lock: "if found_wrong a (g, p, r) then \<not> is_locked a (guessed_at g) \<and> lock_of b = lock_of (note_failure (guessed_at g) a)
         else if lets_in a (g, p, r) then \<not> is_locked a (guessed_at g) \<and> lock_of b = (0, None)
         else lock_of b = lock_of a"
    and told: "aimed_at a g p \<longrightarrow> (r = None \<and> right_guess k a g p) \<or> looked_at r \<or> r = Some LOCKED_OUT"
    unfolding guess_effect_def by blast
  have drop: "Suc (remaining T (lock_of b)) = remaining T (lock_of a) \<and> fst (lock_of b) < MAX_FAILED_ATTEMPTS"
    if "found_wrong a (g, p, r)"
    using that lock Cons.prems remaining_drops [of a "guessed_at g" T] by simp
  have fresh: "remaining T (lock_of b) = 5 \<and> fst (lock_of b) < MAX_FAILED_ATTEMPTS"
    if "lets_in a (g, p, r)" "\<not> found_wrong a (g, p, r)"
    using that lock by (simp add: remaining_def MAX_FAILED_ATTEMPTS_def)
  have "fst (lock_of b) < MAX_FAILED_ATTEMPTS" using drop fresh lock Cons.prems(4) by (cases "found_wrong a (g, p, r)"; cases "lets_in a (g, p, r)") simp_all
  moreover have "admin_active b" using b(2) Cons.prems(3) by (simp add: same_operator_def)
  ultimately have later: "length (filter (found_wrong b) (guess_run k saves gs p'))
      \<le> remaining T (lock_of b) + 5 * length (filter (lets_in b) (guess_run k saves gs p')) \<and>
    list_all (\<lambda>(g, p, r). aimed_at b g p \<longrightarrow> (r = None \<and> right_guess k b g p) \<or> looked_at r \<or> r = Some LOCKED_OUT)
      (guess_run k saves gs p')"
    using Cons.prems(5) b by (intro Cons.IH) auto
  have not_both: "\<not> (found_wrong a (g, p, r) \<and> lets_in a (g, p, r))" by (cases g; cases r) simp_all
  have "remaining T (lock_of b) + of_bool (found_wrong a (g, p, r))
      \<le> remaining T (lock_of a) + 5 * of_bool (lets_in a (g, p, r))"
    using drop fresh lock not_both
    by (cases "found_wrong a (g, p, r)"; cases "lets_in a (g, p, r)") (simp_all del: found_wrong.simps lets_in.simps)
  moreover have "found_wrong b = found_wrong a" "lets_in b = lets_in a"
    by (intro ext same_operator_aimed [OF b(2)])+
  ultimately show ?case using later told
    by (cases "found_wrong a (g, p, r)"; cases "lets_in a (g, p, r)")
      (simp_all add: pr same_operator_aimed [OF b(2)] del: found_wrong.simps lets_in.simps)
qed simp

text \<open>C12. Guessing is bounded at both steps together, whatever else goes on: in any sequence of requests within
  fifteen minutes, right or wrong, about this operator or others, the wrong passwords and second factors tried
  against one operator that are looked at at all are at most five, and five more for every time the
  operator gets in in between, which resets the count. Every other request about the operator is
  answered as locked out, or carried a right password or a right second factor.\<close>

theorem five_guesses_per_lockout:
  assumes "wf_operators (operators p)" "a \<in> set (operators p)" "admin_active a" "failed_attempts a < MAX_FAILED_ATTEMPTS"
    "\<forall>g \<in> set gs. T \<le> guessed_at g \<and> guessed_at g < T + LOCKOUT_SECONDS"
  shows "length (filter (found_wrong a) (guess_run k saves gs p))
      \<le> 5 * Suc (length (filter (lets_in a) (guess_run k saves gs p))) \<and>
    list_all (\<lambda>(g, p, r). aimed_at a g p \<longrightarrow> (r = None \<and> right_guess k a g p) \<or> looked_at r \<or> r = Some LOCKED_OUT)
      (guess_run k saves gs p)"
proof -
  have "fst (lock_of a) < MAX_FAILED_ATTEMPTS" using assms(4) by (simp add: lock_of_def)
  note bound = guesses_bounded [OF assms(1-3) this assms(5), of k saves]
  have "remaining T (lock_of a) \<le> 5" by (simp add: remaining_def MAX_FAILED_ATTEMPTS_def)
  then show ?thesis using bound by auto
qed

subsection \<open>A code is accepted once\<close>

definition taken_until :: "string \<Rightarrow> int \<Rightarrow> unit shelf \<Rightarrow> bool" where
  "taken_until key t used = (\<exists>e. map_of used key = Some ((), e) \<and> t \<le> e)"

lemma totp_verify_taken:
  assumes "taken_until key t used" "0 \<le> REPLAY_TTL"
  shows "taken_until key t (fst (totp_verify k secret c i now used))"
  using assms
  by (auto simp: totp_verify_def shelf_add_def shelf_get_def shelf_set_def map_of_update taken_until_def Let_def
      split: if_splits option.splits)

definition verifications :: "toolkit \<Rightarrow> (string \<times> string \<times> nat \<times> int) list \<Rightarrow> unit shelf \<Rightarrow> unit shelf" where
  "verifications k = fold (\<lambda>(secret, c, i, now) used. fst (totp_verify k secret c i now used))"

lemma verifications_taken: "taken_until key t used \<Longrightarrow> taken_until key t (verifications k vs used)"
proof (induction vs arbitrary: used)
  case (Cons v vs)
  have "0 \<le> REPLAY_TTL" by (simp add: REPLAY_TTL_def)
  then show ?case using Cons totp_verify_taken by (cases v) (simp add: verifications_def)
qed (simp add: verifications_def)

lemma totp_refused_taken:
  assumes "taken_until (replay_key i (plain_code c)) t used" "now < t"
  shows "\<not> snd (totp_verify k secret c i now used)"
  using assms
  by (auto simp: totp_verify_def shelf_add_def shelf_get_def taken_until_def Let_def split: if_splits option.splits)

lemma replay_key_other: "plain_code c' \<noteq> plain_code c \<Longrightarrow> replay_key i (plain_code c') \<noteq> replay_key i (plain_code c)"
  by (simp add: replay_key_def)

text \<open>C38. A one-time code works once as it is spelt: after an operator's code is accepted, the same text, however
  it is spaced, is refused to that operator for the whole time it could still be valid, whatever other codes
  are verified in between, for this operator or for others. The accepted code stands in the way of nothing
  else: any other text, the same digits spelt in another script included, is judged as if it had not been
  presented.\<close>

theorem code_accepted_once:
  assumes "totp_verify k secret c i now used = (used', True)" "now' < now + 90"
  shows "if plain_code c' = plain_code c then \<not> snd (totp_verify k secret' c' i now' (verifications k vs used'))
    else snd (totp_verify k secret' c' i now' used') = snd (totp_verify k secret' c' i now' used)"
proof -
  have used: "used' = shelf_set (replay_key i (plain_code c)) () (now + REPLAY_TTL) used"
    using totp_verify_True [OF assms(1)] by blast
  then have "taken_until (replay_key i (plain_code c)) (now + 90) used'"
    by (simp add: taken_until_def shelf_set_def map_of_update REPLAY_TTL_def VALID_WINDOW_def)
  then have same: "\<not> snd (totp_verify k secret' c' i now' (verifications k vs used'))" if "plain_code c' = plain_code c"
    using verifications_taken totp_refused_taken assms(2) that by metis
  have "snd (totp_verify k secret' c' i now' used') = snd (totp_verify k secret' c' i now' used)" if "plain_code c' \<noteq> plain_code c"
    using replay_key_other [OF that, of i] by (simp add: totp_verify_def Let_def shelf_add_def used shelf.look_put)
  with same show ?thesis by simp
qed

subsection \<open>A sign-in from beginning to end\<close>

definition demo_kit :: toolkit where
  "demo_kit = \<lparr>hash_check = (\<lambda>raw enc. raw = JStr enc), hash_usable = (\<lambda>enc. enc \<noteq> []), hash_make = (\<lambda>salt raw. raw),
     otp_verify = (\<lambda>secret c w now. c = secret), seal = (\<lambda>s. s), unseal = Some, provisioning = (\<lambda>s m. m)\<rparr>"

definition demo_operator :: platform_admin where
  "demo_operator = \<lparr>pk = 7, admin_email = ''o@x'', admin_name = ''O'', password_hash = ''pw'', admin_role = FINANCE,
     admin_active = True, totp_secret = ''123456'', totp_confirmed_at = Some 1, access_code_hash = [],
     failed_attempts = 0, locked_until = None, last_login_at = None, last_login_ip = None\<rparr>"

definition demo_panel :: panel where
  "demo_panel = \<lparr>operators = [demo_operator], tickets = [], used_codes = [], sessions = [], actions = []\<rparr>"

definition demo_request :: web_request where
  "demo_request = \<lparr>forwarded_for = [], remote_addr = None, http_user_agent = [], req_user = Anonymous, session_key = None,
     req_session = empty_session\<rparr>"

definition demo_login :: json where
  "demo_login = JObj [(''email'', JStr ''O@x ''), (''password'', JStr ''pw'')]"

definition demo_code :: "string \<Rightarrow> json" where
  "demo_code c = JObj [(''ticket'', JStr ''t1''), (''code'', JStr c)]"

definition no_row :: "admin_action \<Rightarrow> bool" where "no_row row = False"

abbreviation demo_ticketed :: panel where
  "demo_ticketed \<equiv> fst (login_post demo_kit no_row ''t1'' ''new'' demo_request 100 demo_login demo_panel)"

abbreviation demo_signed_in :: panel where
  "demo_signed_in \<equiv> fst (verify_post demo_kit no_row ''s1'' demo_request 110 (demo_code ''123 456'') demo_ticketed)"

abbreviation demo_trace :: "(sign_in_event \<times> panel) list" where
  "demo_trace \<equiv> ([] @ [(Login ''t1'' 100 demo_login, demo_panel)]) @ [(Verify ''s1'' 110 (demo_code ''123 456''), demo_ticketed)]"

lemma demo_session: "map_of (sessions demo_signed_in) ''s1'' = Some (empty_session\<lparr>platform_admin_id := Some 7\<rparr>, 110 + SESSION_SECONDS)"
  by code_simp

lemma demo_run: "sign_in_run demo_kit demo_trace demo_signed_in"
proof -
  have "sign_in_run demo_kit [] demo_panel" by (rule sign_in_run.start) (simp_all add: demo_panel_def)
  then have "sign_in_run demo_kit ([] @ [(Login ''t1'' 100 demo_login, demo_panel)]) demo_ticketed"
    by (rule sign_in_run.login) (rule prod.collapse [symmetric])
  then show ?thesis by (rule sign_in_run.verify) (rule prod.collapse [symmetric])
qed

lemma session_needs_both_factors_witness:
  "\<exists>t. one_then_other (gave_password demo_kit 7 t) (gave_factor demo_kit 7 t ''s1'') demo_trace"
  by (rule session_needs_both_factors [OF demo_run demo_session]) simp

text \<open>Three wrong codes, the right one, a new ticket, seven wrong ones.\<close>

definition demo_guesses :: "guess list" where
  "demo_guesses =
     map (\<lambda>i. Factor_guess ''s1'' demo_request (200 + i) (demo_code ''000000'')) [0, 1, 2] @
     [Factor_guess ''s1'' demo_request 210 (demo_code ''123456''),
      Password_guess ''t1'' ''new'' demo_request 211 demo_login] @
     map (\<lambda>i. Factor_guess ''s1'' demo_request (220 + i) (demo_code ''000000'')) [0, 1, 2, 3, 4, 5, 6]"

abbreviation demo_guess_run :: "(guess \<times> panel \<times> refusal option) list" where
  "demo_guess_run \<equiv> guess_run demo_kit no_row demo_guesses demo_ticketed"

lemma five_guesses_per_lockout_witness:
  "length (filter (found_wrong demo_operator) demo_guess_run)
     \<le> 5 * Suc (length (filter (lets_in demo_operator) demo_guess_run))"
proof (rule five_guesses_per_lockout [of _ _ _ 200, THEN conjunct1])
  have "operators demo_ticketed = [demo_operator]" by code_simp
  then show "wf_operators (operators demo_ticketed)" "demo_operator \<in> set (operators demo_ticketed)"
    by (simp_all add: wf_operators_def)
  show "\<forall>g \<in> set demo_guesses. 200 \<le> guessed_at g \<and> guessed_at g < 200 + LOCKOUT_SECONDS"
    by (simp add: demo_guesses_def LOCKOUT_SECONDS_def)
qed (simp_all add: demo_operator_def MAX_FAILED_ATTEMPTS_def)

lemma code_accepted_once_witness:
  "\<not> snd (totp_verify demo_kit ''123456'' ''123456'' 7 130
      (verifications demo_kit [(''654321'', ''654321'', 8, 105)] (fst (totp_verify demo_kit ''123456'' ''123 456'' 7 100 []))))"
proof -
  have "totp_verify demo_kit ''123456'' ''123 456'' 7 100 [] = (fst (totp_verify demo_kit ''123456'' ''123 456'' 7 100 []), True)"
    by code_simp
  from code_accepted_once [OF this, where now' = 130 and c' = "''123456''" and secret' = "''123456''" and vs = "[(''654321'', ''654321'', 8, 105)]"]
  have "if plain_code ''123456'' = plain_code ''123 456'' then
      \<not> snd (totp_verify demo_kit ''123456'' ''123456'' 7 130
        (verifications demo_kit [(''654321'', ''654321'', 8, 105)] (fst (totp_verify demo_kit ''123456'' ''123 456'' 7 100 []))))
    else True" by simp
  moreover have "plain_code ''123456'' = plain_code ''123 456''" by code_simp
  ultimately show ?thesis by simp
qed

text \<open>The same code, half a minute later in fullwidth digits. A verifier that normalises its input, as \<open>pyotp\<close>
  does, reads the same digits; the entry that should stop the replay is kept under the text as typed.\<close>

fun narrowed :: "string \<Rightarrow> string" where
  "narrowed (a # b # c # s) =
     (if a = CHR 0xEF \<and> b = CHR 0xBC then char_of ((of_char c :: int) - 96) # narrowed s else a # narrowed (b # c # s))"
| "narrowed s = s"

definition normalising_kit :: toolkit where
  "normalising_kit = demo_kit\<lparr>otp_verify := (\<lambda>secret c w now. narrowed c = secret)\<rparr>"

lemma respelt_code_accepted_again:
  "snd (totp_verify normalising_kit ''123456'' ''123456'' 7 100 [])"
  "snd (totp_verify normalising_kit ''123456'' (concat (map fullwidth [1, 2, 3, 4, 5, 6])) 7 110
     (fst (totp_verify normalising_kit ''123456'' ''123456'' 7 100 [])))"
  "\<not> snd (totp_verify normalising_kit ''123456'' ''123456'' 7 110
     (fst (totp_verify normalising_kit ''123456'' ''123456'' 7 100 [])))"
  by code_simp+

end
