(* ===== verification/Keystone.thy ===== *)
theory Keystone
  imports Resources
begin

text \<open>
  Signing in to the cloud (\<open>integrations/zadara/auth.py\<close>, \<open>dto.py\<close>): the payloads of the three
  Keystone methods, what the answers mean, and the flows built on them. The cloud is
  \<open>idp payload headers\<close>: what \<open>request('POST', AUTH_PATH, ...)\<close> comes back with.
\<close>

subsection \<open>Errors that carry details\<close>

record keystone_error = zadara_error +
  zdetails :: object

datatype auth_failure = Rejected keystone_error | AuthCrash

type_synonym identity_provider = "object \<Rightarrow> (string \<times> string) list \<Rightarrow> zadara_error + response"

definition rejected :: "string \<Rightarrow> string \<Rightarrow> nat option \<Rightarrow> object \<Rightarrow> auth_failure" where
  "rejected c m s d = Rejected \<lparr>zcode = c, zmessage = m, zstatus = s, zdetails = d\<rparr>"

text \<open>A transport error has no details; what other callers see of a refusal has none either.\<close>

definition transport :: "zadara_error \<Rightarrow> auth_failure" where
  "transport e = rejected (zcode e) (zmessage e) (zstatus e) []"

definition plain_failure :: "auth_failure \<Rightarrow> failure" where
  "plain_failure e = (case e of Rejected k \<Rightarrow> Zadara (zadara_error.truncate k) | AuthCrash \<Rightarrow> Crash)"

definition some_or_crash :: "'a option \<Rightarrow> auth_failure + 'a" where
  "some_or_crash v = (case v of None \<Rightarrow> Inl AuthCrash | Some x \<Rightarrow> Inr x)"

subsection \<open>Reading answers\<close>

text \<open>Header names are compared without case.\<close>

definition header :: "response \<Rightarrow> string \<Rightarrow> string option" where
  "header r k = map_of (map (\<lambda>(n, v). (lower n, v)) (resp_headers r)) (lower k)"

text \<open>\<open>value or {}\<close>, as something to call \<open>get\<close> on.\<close>

definition soft :: "json \<Rightarrow> object option" where
  "soft v = (case jor v (JObj []) of JObj o' \<Rightarrow> Some o' | _ \<Rightarrow> None)"

definition is_mfa_required :: "response \<Rightarrow> bool option" where
  "is_mfa_required r =
     (if given (header r ''openstack-auth-receipt'') then Some True
      else (case resp_json r of
          None \<Rightarrow> Some False
        | Some (JObj b) \<Rightarrow> Some (truthy (jget b ''receipt'') \<or> truthy (jget b ''required_auth_methods''))
        | Some _ \<Rightarrow> None))"

definition mfa_error :: "response \<Rightarrow> auth_failure" where
  "mfa_error r =
     (let receipt = header r ''openstack-auth-receipt'' in
      case Option.bind (soft (body_of r)) (\<lambda>b. soft (jget b ''receipt'')) of
        None \<Rightarrow> AuthCrash
      | Some rc \<Rightarrow>
          rejected ''mfa_required'' ''A one-time MFA code is required'' (Some 401)
            ((if given receipt then [(''receipt'', JStr (the receipt))] else []) @
             (if truthy (jget rc ''expires_at'') then [(''expiresAt'', jget rc ''expires_at'')] else [])))"

definition enrollment_secret :: "response \<Rightarrow> string option option" where
  "enrollment_secret r = (case resp_json r of
     None \<Rightarrow> Some None | Some v \<Rightarrow> map_option (\<lambda>b. opt_str_field b ''mfa_secret'') (soft v))"

text \<open>\<open>urllib.parse.quote\<close>.\<close>

definition hex_upper :: "nat \<Rightarrow> char" where
  "hex_upper d = (if d < 10 then digit_char d else char_of (55 + d :: nat))"

definition quote_char :: "char \<Rightarrow> string" where
  "quote_char c =
     (let n = (of_char c :: nat) in
      if is_alpha c \<or> is_digit c \<or> c \<in> set ''_.-~/'' then [c]
      else [CHR ''%'', hex_upper (n div 16), hex_upper (n mod 16)])"

definition quote :: "string \<Rightarrow> string" where
  "quote s = concat (map quote_char s)"

definition enrollment_error :: "string \<Rightarrow> string \<Rightarrow> string \<Rightarrow> auth_failure" where
  "enrollment_error secret account username =
     (let uri = ''otpauth://totp/'' @ quote (account @ '':'' @ username) @ ''?secret='' @ secret @ ''&issuer='' @
          quote account @ ''&algorithm=SHA1&digits=6&period=30'' in
      rejected ''mfa_enrollment_required'' ''Multi-factor authentication is required: register your authenticator app''
        (Some 401) [(''secret'', JStr secret), (''otpauthUri'', JStr uri)])"

record auth_result =
  ar_token :: string
  ar_scope :: string
  ar_user_id :: string
  ar_user_name :: string
  ar_email :: json
  ar_account_id :: "string option"
  ar_account_name :: string
  ar_project_id :: "string option"
  ar_project_name :: "string option"
  ar_roles :: "json list"
  ar_expires_at :: json

text \<open>A role's name, or the role itself.\<close>

definition role_name :: "json \<Rightarrow> json" where
  "role_name r = (case r of JObj o' \<Rightarrow> jget o' ''name'' | _ \<Rightarrow> r)"

definition parse_auth_body :: "string \<Rightarrow> string \<Rightarrow> json \<Rightarrow> string \<Rightarrow> auth_result option" where
  "parse_auth_body token scope body fallback_account =
     Option.bind (soft body) (\<lambda>b. Option.bind (soft (jget b ''token'')) (\<lambda>t. Option.bind (soft (jget t ''user'')) (\<lambda>u.
     Option.bind (soft (jget t ''project'')) (\<lambda>p.
     Option.bind (soft (jor (jget t ''domain'') (jor (jget p ''domain'') (jget u ''domain'')))) (\<lambda>d.
     Option.bind (iterate (jor (jget t ''roles'') (JList []))) (\<lambda>roles.
       Some \<lparr>ar_token = token, ar_scope = scope,
         ar_user_id = py_str_of (jor (jget u ''id'') (jor (jget u ''name'') (JStr []))),
         ar_user_name = str_field u ''name'' [], ar_email = jget u ''email'',
         ar_account_id = opt_str_field d ''id'', ar_account_name = str_field d ''name'' fallback_account,
         ar_project_id = opt_str_field p ''id'', ar_project_name = opt_str_field p ''name'',
         ar_roles = filter truthy (map role_name roles), ar_expires_at = jget t ''expires_at''\<rparr>))))))"

definition to_result :: "response \<Rightarrow> string \<Rightarrow> string \<Rightarrow> auth_failure + auth_result" where
  "to_result r scope account =
     (case header r ''x-subject-token'' of
        Some (c # t) \<Rightarrow> some_or_crash (parse_auth_body (c # t) scope (body_of r) account)
      | _ \<Rightarrow> Inl (rejected ''unexpected'' ''Zadara did not return an auth token'' None []))"

definition error_message :: "response \<Rightarrow> string" where
  "error_message r = (case resp_json r of
     Some (JObj b) \<Rightarrow>
       (case jget b ''error'' of
          JObj e \<Rightarrow> str_field e ''message'' []
        | _ \<Rightarrow> py_str_of (jor (jget b ''description'') (jor (jget b ''message'') (JStr []))))
   | _ \<Rightarrow> [])"

definition PASSWORD_EXPIRED :: string where "PASSWORD_EXPIRED = ''The password is expired''"
definition ACCOUNT_LOCKED :: string where "ACCOUNT_LOCKED = ''The account is locked for user''"

definition auth_status_error :: "response \<Rightarrow> auth_failure" where
  "auth_status_error r =
     (let s = resp_status r; m = error_message r in
      if starts_with m PASSWORD_EXPIRED then
        rejected ''password_expired'' ''Your password has expired and must be changed'' (Some 401) []
      else if starts_with m ACCOUNT_LOCKED then
        rejected ''account_locked'' ''This account is locked. Contact your administrator.'' (Some 403) []
      else if s = 401 \<or> s = 403 then
        rejected ''invalid_credentials'' ''Invalid account, username or password'' (Some s) []
      else if s = 404 then rejected ''account_not_found'' ''Account not found'' (Some s) []
      else if s = 429 then rejected ''rate_limited'' ''Too many login attempts, please try again later'' (Some s) []
      else rejected ''upstream_error'' (''Zadara returned an unexpected status ('' @ show_nat s @ '')'') (Some s) [])"

subsection \<open>Payloads\<close>

definition user_named :: "string \<Rightarrow> string \<Rightarrow> string \<times> json \<Rightarrow> json" where
  "user_named account username proof_field =
     JObj [(''user'', JObj [(''domain'', JObj [(''name'', JStr account)]), (''name'', JStr username), proof_field])]"

definition password_identity :: "string \<Rightarrow> string \<Rightarrow> json \<Rightarrow> string option \<Rightarrow> object" where
  "password_identity account username password totp =
     (let p = (''password'', user_named account username (''password'', password)) in
      if given totp then
        [(''methods'', JList [JStr ''password'', JStr ''totp'']), p,
         (''totp'', user_named account username (''passcode'', JStr (the totp)))]
      else [(''methods'', JList [JStr ''password'']), p])"

definition totp_identity :: "string \<Rightarrow> string \<Rightarrow> string \<Rightarrow> object" where
  "totp_identity account username passcode =
     [(''methods'', JList [JStr ''totp'']), (''totp'', user_named account username (''passcode'', JStr passcode))]"

definition auth_payload :: "object \<Rightarrow> object \<Rightarrow> bool \<Rightarrow> object" where
  "auth_payload identity scope enroll =
     [(''auth'', JObj ([(''scope'', JObj scope), (''identity'', JObj identity)] @
        (if enroll then [(''auto_enable_mfa'', JBool True)] else [])))]"

definition domain_scope :: "string \<Rightarrow> object" where
  "domain_scope account = [(''domain'', JObj [(''name'', JStr account)])]"

definition project_scope :: "json \<Rightarrow> string \<Rightarrow> object" where
  "project_scope name account =
     [(''project'', JObj [(''name'', name), (''domain'', JObj [(''name'', JStr account)])])]"

text \<open>\<open>(project or '').strip() or account\<close>.\<close>

definition project_or_account :: "string option \<Rightarrow> string \<Rightarrow> string" where
  "project_or_account project account = or_text (strip (case project of None \<Rightarrow> [] | Some p \<Rightarrow> p)) account"

subsection \<open>The flows\<close>

definition mfa_due :: "bool \<Rightarrow> response \<Rightarrow> auth_failure + unit" where
  "mfa_due enroll r =
     (if enroll then (case is_mfa_required r of
          None \<Rightarrow> Inl AuthCrash | Some True \<Rightarrow> Inl (mfa_error r) | Some False \<Rightarrow> Inr ())
      else Inr ())"

definition enrollment_due :: "bool \<Rightarrow> response \<Rightarrow> string \<Rightarrow> string \<Rightarrow> auth_failure + unit" where
  "enrollment_due enroll r account username =
     (if enroll then (case enrollment_secret r of
          None \<Rightarrow> Inl AuthCrash | Some (Some s) \<Rightarrow> Inl (enrollment_error s account username) | Some None \<Rightarrow> Inr ())
      else Inr ())"

text \<open>Project scope first, domain scope where that is a 401. A code of its own asks for neither challenge.\<close>

definition authenticate :: "identity_provider \<Rightarrow> string \<Rightarrow> string \<Rightarrow> json \<Rightarrow> string option \<Rightarrow> string option
    \<Rightarrow> auth_failure + auth_result" where
  "authenticate idp account username password project totp =
     (if account = [] \<or> username = [] \<or> \<not> truthy password then
        Inl (rejected ''invalid_credentials'' ''Account, username and password are required'' None [])
      else
        let identity = password_identity account username password totp; enroll = \<not> given totp in
        case idp (auth_payload identity (project_scope (JStr (project_or_account project account)) account) enroll) [] of
          Inl e \<Rightarrow> Inl (transport e)
        | Inr r \<Rightarrow>
            if resp_ok r then to_result r ''project'' account
            else sum_bind (mfa_due enroll r) (\<lambda>_.
              if resp_status r = 401 then
                (case idp (auth_payload identity (domain_scope account) enroll) [] of
                   Inl e \<Rightarrow> Inl (transport e)
                 | Inr d \<Rightarrow>
                     if resp_ok d then to_result d ''domain'' account
                     else sum_bind (mfa_due enroll d) (\<lambda>_. sum_bind (enrollment_due enroll d account username) (\<lambda>_.
                       Inl (auth_status_error d))))
              else Inl (auth_status_error r)))"

text \<open>Re-scoping a token needs no password.\<close>

definition exchange_project :: "identity_provider \<Rightarrow> string \<Rightarrow> json \<Rightarrow> string \<Rightarrow> auth_failure + auth_result" where
  "exchange_project idp token project_name account =
     (let identity = [(''methods'', JList [JStr ''token'']), (''token'', JObj [(''id'', JStr token)])] in
      case idp [(''auth'', JObj [(''identity'', JObj identity), (''scope'', JObj (project_scope project_name account))])] [] of
        Inl e \<Rightarrow> Inl (transport e)
      | Inr r \<Rightarrow>
          if resp_status r = 401 \<or> resp_status r = 403 then
            Inl (rejected ''forbidden'' ''You cannot access this project'' (Some (resp_status r)) [])
          else if \<not> resp_ok r then
            Inl (rejected ''upstream_error'' (''Zadara returned status '' @ show_nat (resp_status r)) (Some (resp_status r)) [])
          else to_result r ''project'' account)"

definition totp_payload :: "string \<Rightarrow> string \<Rightarrow> string \<Rightarrow> object" where
  "totp_payload account username passcode =
     [(''auth'', JObj [(''identity'', JObj (totp_identity account username passcode)), (''scope'', JObj (domain_scope account))])]"

definition authenticate_totp :: "identity_provider \<Rightarrow> string \<Rightarrow> string \<Rightarrow> string \<Rightarrow> string \<Rightarrow> string option
    \<Rightarrow> auth_failure + auth_result" where
  "authenticate_totp idp account username passcode receipt project =
     (if passcode = [] \<or> receipt = [] then
        Inl (rejected ''invalid_mfa_code'' ''A one-time MFA code is required'' (Some 401) [])
      else
        case idp (totp_payload account username passcode) [(''openstack-auth-receipt'', receipt)] of
          Inl e \<Rightarrow> Inl (transport e)
        | Inr r \<Rightarrow>
            if \<not> resp_ok r then
              Inl (if resp_status r = 401 \<or> resp_status r = 403
                   then rejected ''invalid_mfa_code'' ''Invalid or expired MFA code'' (Some 401) []
                   else auth_status_error r)
            else sum_bind (to_result r ''domain'' account) (\<lambda>res.
              case exchange_project idp (ar_token res) (JStr (project_or_account project account)) account of
                Inr res' \<Rightarrow> Inr res'
              | Inl (Rejected _) \<Rightarrow> Inr res
              | Inl AuthCrash \<Rightarrow> Inl AuthCrash))"

subsection \<open>Projects a token can list\<close>

record project_summary =
  ps_id :: string
  ps_name :: string
  ps_description :: json
  ps_is_vpc :: bool

text \<open>Blank rows and domains are skipped; anything else must be an object.\<close>

fun project_summaries :: "json list \<Rightarrow> project_summary list option" where
  "project_summaries [] = Some []"
| "project_summaries (p # ps) =
     (if \<not> truthy p then project_summaries ps
      else (case p of
          JObj o' \<Rightarrow>
            if truthy (jget o' ''is_domain'') then project_summaries ps
            else map_option (\<lambda>rest. \<lparr>ps_id = py_str_of (jget o' ''id''), ps_name = str_field o' ''name'' [],
                ps_description = f_or_none o' ''description'', ps_is_vpc = truthy (jget o' ''is_vpc'')\<rparr> # rest)
              (project_summaries ps)
        | _ \<Rightarrow> None))"

definition list_projects :: "zadara_error + response \<Rightarrow> failure + project_summary list" where
  "list_projects reply =
     (case reply of
        Inl e \<Rightarrow> Inl (Zadara e)
      | Inr r \<Rightarrow>
          if resp_status r = 403 then Inl (Zadara (ZadaraError ''forbidden'' ''Not authorized to list projects'' (Some 403)))
          else if \<not> resp_ok r then Inl (Zadara (upstream_error (resp_status r)))
          else from_option (Option.bind
            (case resp_json r of
               None \<Rightarrow> Some []
             | Some (JList xs) \<Rightarrow> Some xs
             | Some (JObj o') \<Rightarrow> (case map_of o' ''projects'' of None \<Rightarrow> Some [] | Some v \<Rightarrow> iterate v)
             | Some _ \<Rightarrow> None) project_summaries))"

end
