(* ===== verification/Directory.thy ===== *)
theory Directory
  imports Keystone
begin

text \<open>
  The service account (\<open>integrations/zadara/service.py\<close>): its cached token, reads with one retry on a
  refused token, the cached directory of accounts and projects, and what is read from it.
  Times are seconds; within one read the cloud's answers are indexed by the attempt.
\<close>

subsection \<open>The service token\<close>

record service_config =
  ZADARA_SERVICE_ACCOUNT :: string
  ZADARA_SERVICE_USERNAME :: string
  ZADARA_SERVICE_PASSWORD :: string
  ZADARA_SERVICE_PROJECT :: string

record service_state =
  svc_token :: "string option"
  svc_exp :: int
  svc_cache :: "json shelf"

definition SERVICE_TTL :: int where "SERVICE_TTL = 3 * 60 * 60"

definition DIRECTORY_CACHE_TTL :: int where "DIRECTORY_CACHE_TTL = 300"

definition get_service_token :: "service_config \<Rightarrow> identity_provider \<Rightarrow> int \<Rightarrow> bool \<Rightarrow> service_state
    \<Rightarrow> service_state \<times> (failure + string)" where
  "get_service_token cfg idp now force st =
     (if \<not> force \<and> given (svc_token st) \<and> now < svc_exp st - 120 then (st, Inr (the (svc_token st)))
      else if ZADARA_SERVICE_USERNAME cfg = [] \<or> ZADARA_SERVICE_PASSWORD cfg = [] then
        (st, Inl (Zadara (ZadaraError ''unexpected'' ''Service account is not configured'' None)))
      else (case authenticate idp (ZADARA_SERVICE_ACCOUNT cfg) (ZADARA_SERVICE_USERNAME cfg)
                 (JStr (ZADARA_SERVICE_PASSWORD cfg)) (or_none (ZADARA_SERVICE_PROJECT cfg)) None of
          Inl e \<Rightarrow> (st, Inl (plain_failure e))
        | Inr res \<Rightarrow> (st\<lparr>svc_token := Some (ar_token res), svc_exp := now + SERVICE_TTL\<rparr>, Inr (ar_token res))))"

text \<open>When the cloud is asked, and what it issues then.\<close>

definition asks_cloud :: "service_config \<Rightarrow> int \<Rightarrow> bool \<Rightarrow> service_state \<Rightarrow> bool" where
  "asks_cloud cfg now force st =
     ((force \<or> \<not> given (svc_token st) \<or> svc_exp st - 120 \<le> now) \<and>
      ZADARA_SERVICE_USERNAME cfg \<noteq> [] \<and> ZADARA_SERVICE_PASSWORD cfg \<noteq> [])"

definition tokens_issued :: "service_config \<Rightarrow> identity_provider \<Rightarrow> int \<Rightarrow> (string \<times> int) set" where
  "tokens_issued cfg idp now =
     (case authenticate idp (ZADARA_SERVICE_ACCOUNT cfg) (ZADARA_SERVICE_USERNAME cfg)
         (JStr (ZADARA_SERVICE_PASSWORD cfg)) (or_none (ZADARA_SERVICE_PROJECT cfg)) None of
        Inl _ \<Rightarrow> {} | Inr res \<Rightarrow> {(ar_token res, now)})"

definition issued_then :: "service_config \<Rightarrow> identity_provider \<Rightarrow> int \<Rightarrow> bool \<Rightarrow> service_state \<Rightarrow> (string \<times> int) set" where
  "issued_then cfg idp now force st = (if asks_cloud cfg now force st then tokens_issued cfg idp now else {})"

text \<open>A process from its start: any calls at any times, with the tokens the cloud has issued to it so far.\<close>

inductive service_run :: "service_config \<Rightarrow> (string \<times> int) set \<Rightarrow> service_state \<Rightarrow> bool" for cfg where
  starting: "service_run cfg {} \<lparr>svc_token = None, svc_exp = 0, svc_cache = []\<rparr>"
| asking: "service_run cfg issued st \<Longrightarrow> get_service_token cfg idp now force st = (st', res) \<Longrightarrow>
    service_run cfg (issued \<union> issued_then cfg idp now force st) st'"
| caching: "service_run cfg issued st \<Longrightarrow> service_run cfg issued (st\<lparr>svc_cache := entries\<rparr>)"

definition token_dated :: "(string \<times> int) set \<Rightarrow> service_state \<Rightarrow> bool" where
  "token_dated issued st = (\<forall>t. svc_token st = Some t \<longrightarrow> (t, svc_exp st - SERVICE_TTL) \<in> issued)"

lemma get_service_token_dated:
  assumes "token_dated issued st" "get_service_token cfg idp now force st = (st', res)"
  shows "token_dated (issued \<union> issued_then cfg idp now force st) st'"
    and "res = Inr t \<Longrightarrow> \<exists>t0. (t, t0) \<in> issued \<union> issued_then cfg idp now force st \<and> now - t0 < SERVICE_TTL - 120 \<and> (force \<longrightarrow> t0 = now)"
  using assms
  by (auto simp: token_dated_def get_service_token_def issued_then_def asks_cloud_def tokens_issued_def SERVICE_TTL_def
      given_def split: if_splits sum.splits)

lemma service_run_dated: "service_run cfg issued st \<Longrightarrow> token_dated issued st"
proof (induction rule: service_run.induct)
  case starting
  show ?case by (simp add: token_dated_def)
next
  case (asking issued st idp now force st' res)
  from asking.IH asking.hyps(2) show ?case by (rule get_service_token_dated(1))
next
  case (caching issued st entries)
  then show ?case by (simp add: token_dated_def)
qed

text \<open>C21. Whatever the service account has been used for before, the token a read is made with was issued to it by
  the cloud less than three hours less two minutes ago, so before the expiry the program counts on,
  and one that was asked for by force was issued just then.\<close>

theorem service_token_recent:
  assumes "service_run cfg issued st" "get_service_token cfg idp now force st = (st', Inr t)"
  shows "\<exists>t0. (t, t0) \<in> issued \<union> issued_then cfg idp now force st \<and> now - t0 < 10680 \<and> (force \<longrightarrow> t0 = now)"
  using get_service_token_dated(2) [OF service_run_dated [OF assms(1)] assms(2), of t] by (simp add: SERVICE_TTL_def)

definition demo_service :: service_config where
  "demo_service = \<lparr>ZADARA_SERVICE_ACCOUNT = ''msp'', ZADARA_SERVICE_USERNAME = ''reader'', ZADARA_SERVICE_PASSWORD = ''pw'',
     ZADARA_SERVICE_PROJECT = []\<rparr>"

definition demo_idp :: identity_provider where
  "demo_idp payload hdrs = Inr \<lparr>resp_status = 201, resp_headers = [(''X-Subject-Token'', ''gAAA'')], resp_json = Some (JObj [])\<rparr>"

lemma demo_token:
  "get_service_token demo_service demo_idp 50 False \<lparr>svc_token = None, svc_exp = 0, svc_cache = []\<rparr> =
     (\<lparr>svc_token = Some ''gAAA'', svc_exp = 10850, svc_cache = []\<rparr>, Inr ''gAAA'')"
  by code_simp

lemma demo_issued: "issued_then demo_service demo_idp 50 False \<lparr>svc_token = None, svc_exp = 0, svc_cache = []\<rparr> = {(''gAAA'', 50)}"
  by code_simp

lemma service_token_recent_witness:
  "\<exists>t0. (''gAAA'', t0) \<in> {(''gAAA'', 50 :: int)} \<and> 10000 - t0 < (10680 :: int)"
proof -
  have "service_run demo_service {(''gAAA'', 50)} \<lparr>svc_token = Some ''gAAA'', svc_exp = 10850, svc_cache = []\<rparr>"
    using service_run.asking [OF service_run.starting demo_token] by (simp add: demo_issued)
  then show ?thesis
    using service_token_recent [of demo_service "{(''gAAA'', 50)}" "\<lparr>svc_token = Some ''gAAA'', svc_exp = 10850, svc_cache = []\<rparr>"
        demo_idp 10000 False]
    by (simp add: get_service_token_def given_def issued_then_def asks_cloud_def)
qed

subsection \<open>Reads\<close>

definition svc_answer :: "string \<Rightarrow> zadara_error + response \<Rightarrow> failure + json" where
  "svc_answer path reply =
     (case reply of
        Inl e \<Rightarrow> Inl (Zadara e)
      | Inr r \<Rightarrow>
          if resp_ok r then Inr (body_of r)
          else Inl (Zadara (ZadaraError ''upstream_error''
            (''Zadara returned '' @ show_nat (resp_status r) @ '' for '' @ path) (Some (resp_status r)))))"

text \<open>\<open>idp k\<close> and \<open>api k\<close>: what the cloud answers to the first attempt and to the second.\<close>

definition svc_get :: "service_config \<Rightarrow> (nat \<Rightarrow> identity_provider) \<Rightarrow> (nat \<Rightarrow> string \<Rightarrow> string \<Rightarrow> zadara_error + response)
    \<Rightarrow> string \<Rightarrow> int \<Rightarrow> service_state \<Rightarrow> service_state \<times> (failure + json)" where
  "svc_get cfg idp api path now st =
     (case get_service_token cfg (idp 0) now False st of
        (st, Inl e) \<Rightarrow> (st, Inl e)
      | (st, Inr t) \<Rightarrow>
          (case api 0 t path of
             Inr r \<Rightarrow>
               if resp_status r = 401 then
                 (case get_service_token cfg (idp 1) now True st of
                    (st, Inl e) \<Rightarrow> (st, Inl e)
                  | (st, Inr t) \<Rightarrow> (st, svc_answer path (api 1 t path)))
               else (st, svc_answer path (Inr r))
           | Inl e \<Rightarrow> (st, svc_answer path (Inl e))))"

definition directory_key :: "(string \<Rightarrow> string) \<Rightarrow> string \<Rightarrow> string" where
  "directory_key digest path = ''zadara:svc:'' @ digest path"

definition svc_get_cached :: "(string \<Rightarrow> string) \<Rightarrow> service_config \<Rightarrow> (nat \<Rightarrow> identity_provider)
    \<Rightarrow> (nat \<Rightarrow> string \<Rightarrow> string \<Rightarrow> zadara_error + response) \<Rightarrow> string \<Rightarrow> int \<Rightarrow> service_state \<Rightarrow> service_state \<times> (failure + json)" where
  "svc_get_cached digest cfg idp api path now st =
     (case shelf_get (svc_cache st) now (directory_key digest path) of
        Some hit \<Rightarrow> (st, Inr hit)
      | None \<Rightarrow>
          (case svc_get cfg idp api path now st of
             (st, Inl e) \<Rightarrow> (st, Inl e)
           | (st, Inr data) \<Rightarrow>
               (if data = JNull then st
                else st\<lparr>svc_cache := shelf_set (directory_key digest path) data (now + DIRECTORY_CACHE_TTL) (svc_cache st)\<rparr>,
                Inr data)))"

subsection \<open>The directory\<close>

text \<open>What follows reads through \<open>get\<close>, what the two functions above give for each path.\<close>

definition DOMAINS_PATH :: string where "DOMAINS_PATH = ''/api/v2/identity/domains''"

definition users_path :: "string \<Rightarrow> string" where
  "users_path d = ''/api/v2/identity/users?domain_id='' @ d"

definition projects_path :: "string \<Rightarrow> string" where
  "projects_path d = ''/api/v2/identity/projects?domain_id='' @ d"

definition assignments_path :: "string \<Rightarrow> string" where
  "assignments_path u = ''/api/v2/identity/role_assignments?user.id='' @ u"

text \<open>\<open>d.get(key, default)\<close>.\<close>

definition get_default :: "object \<Rightarrow> string \<Rightarrow> json \<Rightarrow> json" where
  "get_default o' k dflt = (case map_of o' k of None \<Rightarrow> dflt | Some v \<Rightarrow> v)"

text \<open>The rows of an answer that must all be objects.\<close>

definition rows_of :: "string \<Rightarrow> json \<Rightarrow> object list option" where
  "rows_of key data = Option.bind (plain_items data key) all_objects"

definition list_domains :: "reads \<Rightarrow> failure + (string \<times> json) list" where
  "list_domains get = sum_bind (get DOMAINS_PATH) (\<lambda>data. from_option (map_option
     (\<lambda>ds. map (\<lambda>d. (py_str_of (jget d ''id''), get_default d ''name'' (JStr []))) (filter (\<lambda>d. truthy (jget d ''id'')) ds))
     (rows_of ''domains'' data)))"

text \<open>The first row of that name in any case; rows after it are not looked at.\<close>

fun find_named :: "string \<Rightarrow> json list \<Rightarrow> object option option" where
  "find_named nm [] = Some None"
| "find_named nm (JObj o' # xs) =
     (if iexact (py_str_of (get_default o' ''name'' (JStr []))) nm then Some (Some o') else find_named nm xs)"
| "find_named nm (_ # xs) = None"

definition resolve_domain_id :: "reads \<Rightarrow> string \<Rightarrow> failure + string option" where
  "resolve_domain_id get account_name = sum_bind (get DOMAINS_PATH) (\<lambda>data.
     from_option (Option.bind (plain_items data ''domains'') (\<lambda>xs. Option.bind (find_named account_name xs) (\<lambda>found.
       case found of None \<Rightarrow> Some None | Some d \<Rightarrow> map_option (\<lambda>v. Some (py_str_of v)) (map_of d ''id'')))))"

record directory_user =
  dir_id :: string
  dir_name :: json
  dir_email :: json
  dir_domain_id :: string
  dir_default_project_id :: json

definition resolve_user :: "reads \<Rightarrow> string \<Rightarrow> string \<Rightarrow> failure + directory_user option" where
  "resolve_user get account_name username = sum_bind (resolve_domain_id get account_name) (\<lambda>d.
     if \<not> given d then Inr None
     else sum_bind (get (users_path (the d))) (\<lambda>data.
       from_option (Option.bind (plain_items data ''users'') (\<lambda>xs. map_option (\<lambda>found.
         case found of
           None \<Rightarrow> None
         | Some [] \<Rightarrow> None
         | Some u \<Rightarrow> Some \<lparr>dir_id = py_str_of (jget u ''id''), dir_name = jget u ''name'', dir_email = jget u ''email'',
             dir_domain_id = the d, dir_default_project_id = jget u ''default_project_id''\<rparr>) (find_named username xs)))))"

text \<open>\<open>(((a or {}).get('scope') or {}).get('project') or {}).get('id')\<close>.\<close>

definition assigned_project :: "json \<Rightarrow> json option" where
  "assigned_project a =
     Option.bind (soft a) (\<lambda>a. Option.bind (soft (jget a ''scope'')) (\<lambda>s. map_option (\<lambda>p. jget p ''id'') (soft (jget s ''project''))))"

definition add_project_id :: "json \<Rightarrow> string list \<Rightarrow> string list" where
  "add_project_id pid ids = (if truthy pid \<and> pid \<notin> set (map JStr ids) then ids @ [py_str_of pid] else ids)"

definition project_ids :: "json list \<Rightarrow> string list option" where
  "project_ids xs = map_option (\<lambda>pids. fold add_project_id pids []) (mapM assigned_project xs)"

definition get_user_project_ids :: "reads \<Rightarrow> string \<Rightarrow> failure + string list" where
  "get_user_project_ids get user_id = sum_bind (get (assignments_path user_id)) (\<lambda>data.
     from_option (Option.bind (plain_items data ''role_assignments'') project_ids))"

definition project_names :: "object list \<Rightarrow> (string \<times> json) list" where
  "project_names ps = fold (\<lambda>p. AList.update (py_str_of (jget p ''id'')) (get_default p ''name'' (JStr [])))
     (filter (\<lambda>p. truthy (jget p ''id'')) ps) []"

definition list_domain_projects :: "reads \<Rightarrow> string \<Rightarrow> failure + (string \<times> json) list" where
  "list_domain_projects get d = sum_bind (get (projects_path d)) (\<lambda>data.
     from_option (map_option project_names (rows_of ''projects'' data)))"

definition get_user_projects :: "reads \<Rightarrow> string \<Rightarrow> string \<Rightarrow> failure + (string \<times> json) list" where
  "get_user_projects get account_name username = sum_bind (resolve_user get account_name username) (\<lambda>found.
     case found of
       None \<Rightarrow> Inr []
     | Some u \<Rightarrow> sum_bind (get_user_project_ids get (dir_id u)) (\<lambda>ids.
         sum_bind (list_domain_projects get (dir_domain_id u)) (\<lambda>names.
           Inr (map (\<lambda>i. (i, get_default names i (JStr i))) ids))))"

record domain_user =
  du_id :: string
  du_name :: json
  du_email :: json
  du_enabled :: bool
  du_mfaEnabled :: bool
  du_isLocal :: bool
  du_systemUser :: bool
  du_createdAt :: json
  du_passwordExpiresAt :: json
  du_defaultProjectId :: json

definition domain_user_of :: "object \<Rightarrow> domain_user" where
  "domain_user_of u =
     \<lparr>du_id = str_field u ''id'' [], du_name = f_or u ''name'' [], du_email = jget u ''email'',
      du_enabled = truthy (jget u ''enabled''), du_mfaEnabled = truthy (jget u ''mfa_enabled''),
      du_isLocal = truthy (jget u ''is_local''), du_systemUser = truthy (jget u ''system_user''),
      du_createdAt = jget u ''created_at'', du_passwordExpiresAt = jget u ''password_expires_at'',
      du_defaultProjectId = jget u ''default_project_id''\<rparr>"

definition list_domain_users :: "reads \<Rightarrow> string \<Rightarrow> failure + domain_user list" where
  "list_domain_users get d = sum_bind (get (users_path d)) (\<lambda>data.
     from_option (map_option (\<lambda>xs. map domain_user_of (objects xs)) (plain_items data ''users'')))"

record project_detail =
  pd_id :: string
  pd_name :: json
  pd_description :: json
  pd_enabled :: bool
  pd_isVpc :: bool

definition project_detail_of :: "object \<Rightarrow> project_detail" where
  "project_detail_of p =
     \<lparr>pd_id = str_field p ''id'' [], pd_name = f_or p ''name'' [], pd_description = f_or_none p ''description'',
      pd_enabled = truthy (get_default p ''enabled'' (JBool True)), pd_isVpc = truthy (jget p ''is_vpc'')\<rparr>"

definition list_domain_project_details :: "reads \<Rightarrow> string \<Rightarrow> failure + project_detail list" where
  "list_domain_project_details get d = sum_bind (get (projects_path d)) (\<lambda>data.
     from_option (map_option (\<lambda>xs. map project_detail_of (filter (\<lambda>p. \<not> truthy (jget p ''is_domain'')) (objects xs)))
       (plain_items data ''projects'')))"

end
