(* ===== verification/Cloud_Users.thy ===== *)
theory Cloud_Users
  imports Directory
begin

text \<open>
  Changing users and passwords in the cloud (\<open>integrations/zadara/identity.py\<close>, \<open>password.py\<close>).
  \<open>call verb path token body\<close> is what \<open>request\<close> comes back with.
\<close>

type_synonym cloud_call = "string \<Rightarrow> string \<Rightarrow> string option \<Rightarrow> object option \<Rightarrow> zadara_error + response"

subsection \<open>Users and roles (\<open>identity.py\<close>)\<close>

definition USERS_PATH :: string where "USERS_PATH = ''/api/v2/identity/users''"
definition PROJECTS_PATH :: string where "PROJECTS_PATH = ''/api/v2/identity/projects''"
definition DEFAULT_ROLE :: string where "DEFAULT_ROLE = ''_member_''"

text \<open>The cloud's answer to a write, \<open>None\<close> where it is not an object.\<close>

definition identity_result :: "string \<Rightarrow> response \<Rightarrow> failure + object option" where
  "identity_result action r =
     (let s = resp_status r in
      if s = 401 \<or> s = 403 then Inl (Zadara (ZadaraError ''forbidden'' (''You are not allowed to '' @ action) (Some s)))
      else if s = 404 then Inl (Zadara (ZadaraError ''not_found'' ''That user or project no longer exists'' (Some 404)))
      else if s = 409 then Inl (Zadara (ZadaraError ''conflict'' ''A user with that name already exists'' (Some 409)))
      else if s = 400 then
        (case soft (body_of r) of
           None \<Rightarrow> Inl Crash
         | Some b \<Rightarrow> Inl (Zadara (ZadaraError ''invalid_request''
             (py_str_of (jor (jget b ''description'') (JStr ''The cloud rejected these details''))) (Some 400))))
      else if \<not> resp_ok r then Inl (Zadara (upstream_error s))
      else Inr (case resp_json r of Some (JObj b) \<Rightarrow> Some b | _ \<Rightarrow> None))"

definition identity_call :: "string \<Rightarrow> zadara_error + response \<Rightarrow> failure + object option" where
  "identity_call action reply = (case reply of Inl e \<Rightarrow> Inl (Zadara e) | Inr r \<Rightarrow> identity_result action r)"

definition create_user :: "cloud_call \<Rightarrow> string \<Rightarrow> string \<Rightarrow> string \<Rightarrow> string \<Rightarrow> json \<Rightarrow> bool \<Rightarrow> string
    \<Rightarrow> failure + object option" where
  "create_user call token dom_id name email password must_change project =
     identity_call ''create users'' (call ''POST'' USERS_PATH (Some token)
       (Some [(''name'', JStr name), (''email'', JStr email), (''password'', password), (''project_id'', JStr project),
          (''domain_id'', JStr dom_id), (''must_change_password'', JBool must_change)]))"

text \<open>Only what is given is sent.\<close>

definition update_user :: "cloud_call \<Rightarrow> string \<Rightarrow> string \<Rightarrow> object \<Rightarrow> failure + object option" where
  "update_user call token user_id changes =
     (let payload = filter (\<lambda>(k, v). v \<noteq> JNull) changes in
      if payload = [] then Inl (Zadara (ZadaraError ''invalid_request'' ''Nothing to change'' (Some 400)))
      else identity_call ''change this user'' (call ''PUT'' (USERS_PATH @ ''/'' @ user_id) (Some token) (Some payload)))"

definition delete_user :: "cloud_call \<Rightarrow> string \<Rightarrow> string \<Rightarrow> failure + unit" where
  "delete_user call token user_id = sum_bind
     (identity_call ''delete this user'' (call ''DELETE'' (USERS_PATH @ ''/'' @ user_id) (Some token) None)) (\<lambda>_. Inr ())"

definition role_path :: "string \<Rightarrow> string \<Rightarrow> string \<Rightarrow> string" where
  "role_path project_id user_id r = PROJECTS_PATH @ ''/'' @ project_id @ ''/users/'' @ user_id @ ''/roles/'' @ r"

definition grant_project_role :: "cloud_call \<Rightarrow> string \<Rightarrow> string \<Rightarrow> string \<Rightarrow> string \<Rightarrow> failure + unit" where
  "grant_project_role call token project_id user_id r = sum_bind
     (identity_call ''grant roles in this project'' (call ''PUT'' (role_path project_id user_id r) (Some token) None)) (\<lambda>_. Inr ())"

definition revoke_project_role :: "cloud_call \<Rightarrow> string \<Rightarrow> string \<Rightarrow> string \<Rightarrow> string \<Rightarrow> failure + unit" where
  "revoke_project_role call token project_id user_id r = sum_bind
     (identity_call ''revoke roles in this project'' (call ''DELETE'' (role_path project_id user_id r) (Some token) None)) (\<lambda>_. Inr ())"

subsection \<open>Passwords (\<open>password.py\<close>)\<close>

definition CHANGE_PATH :: string where "CHANGE_PATH = ''/api/v2/identity/users/myself/password''"
definition CHANGE_VIA_AUTH_PATH :: string where "CHANGE_VIA_AUTH_PATH = ''/api/v2/identity/auth/password''"
definition RESET_PATH :: string where "RESET_PATH = ''/api/v2/identity/auth/password-reset''"
definition VERIFY_PATH :: string where "VERIFY_PATH = RESET_PATH @ ''/verify''"
definition SECRET_PLACEHOLDER :: string where "SECRET_PLACEHOLDER = ''$secret''"

definition payload_for :: "object \<Rightarrow> string \<Rightarrow> object" where
  "payload_for identity account =
     [(''auth'', JObj [(''identity'', JObj identity), (''scope'', JObj (domain_scope account))])]"

text \<open>\<open>None\<close>: an \<open>error\<close> that is neither missing nor an object.\<close>

definition description_of :: "response \<Rightarrow> string option" where
  "description_of r = (case resp_json r of
     Some (JObj b) \<Rightarrow>
       (if truthy (jget b ''description'') then Some (py_str_of (jget b ''description''))
        else map_option (\<lambda>e. str_field e ''message'' []) (soft (jget b ''error'')))
   | _ \<Rightarrow> Some [])"

definition PASSWORD_REUSED :: string where
  "PASSWORD_REUSED = ''Password validation error: The new password cannot be''"

definition looks_like_policy_violation :: "string \<Rightarrow> bool" where
  "looks_like_policy_violation text =
     list_ex (\<lambda>w. contains (lower text) w) [''password'', ''character'', ''length'', ''digit'', ''special'']"

text \<open>What a refused new password is reported as, if that is what was refused.\<close>

definition new_password_error :: "response \<Rightarrow> string \<Rightarrow> zadara_error option" where
  "new_password_error r d =
     (if starts_with d PASSWORD_REUSED then
        Some (ZadaraError ''password_reused'' ''You cannot reuse one of your last passwords'' (Some 400))
      else if resp_status r = 400 \<and> looks_like_policy_violation d then
        Some (ZadaraError ''weak_password'' (or_text d ''The new password was rejected'') (Some 400))
      else None)"

definition change_refused :: "response \<Rightarrow> string \<Rightarrow> zadara_error" where
  "change_refused r d =
     (case new_password_error r d of
        Some e \<Rightarrow> e
      | None \<Rightarrow>
          let s = resp_status r in
          if s = 401 \<or> s = 403 then ZadaraError ''invalid_credentials'' ''Your current password is not correct'' (Some s)
          else if s = 400 then ZadaraError ''weak_password'' (or_text d ''The new password was rejected'') (Some 400)
          else upstream_error s)"

definition password_answer :: "(response \<Rightarrow> string \<Rightarrow> zadara_error) \<Rightarrow> zadara_error + response \<Rightarrow> failure + unit" where
  "password_answer refused reply =
     (case reply of
        Inl e \<Rightarrow> Inl (Zadara e)
      | Inr r \<Rightarrow>
          if resp_ok r then Inr ()
          else (case description_of r of None \<Rightarrow> Inl Crash | Some d \<Rightarrow> Inl (Zadara (refused r d))))"

definition new_password_identity :: "string \<Rightarrow> string \<Rightarrow> json \<Rightarrow> json \<Rightarrow> string option \<Rightarrow> object" where
  "new_password_identity account username current new totp =
     (let user = JObj [(''domain'', JObj [(''name'', JStr account)]), (''name'', JStr username), (''password'', current)] in
      [(''methods'', JList ([JStr ''password''] @ (if given totp then [JStr ''totp''] else []))),
       (''new_password'', new), (''password'', JObj [(''user'', user)])] @
      (if given totp then [(''totp'', user_named account username (''passcode'', JStr (the totp)))] else []))"

definition change_password_in_cloud :: "cloud_call \<Rightarrow> string \<Rightarrow> string \<Rightarrow> json \<Rightarrow> json \<Rightarrow> string option \<Rightarrow> string option
    \<Rightarrow> failure + unit" where
  "change_password_in_cloud call account username current new totp token =
     password_answer change_refused
       (if given token then
          call ''POST'' CHANGE_PATH token (Some [(''original_password'', current), (''password'', new)])
        else
          call ''POST'' CHANGE_VIA_AUTH_PATH None
            (Some (payload_for (new_password_identity account username current new totp) account)))"

definition request_reset :: "cloud_call \<Rightarrow> string \<Rightarrow> string \<Rightarrow> string \<Rightarrow> string \<Rightarrow> failure + unit" where
  "request_reset call account username email url_template =
     (if \<not> contains url_template SECRET_PLACEHOLDER then
        Inl (Zadara (ZadaraError ''unexpected'' ''url_template must contain $secret'' None))
      else password_answer (\<lambda>r d. ZadaraError ''reset_refused'' ''Zadara refused the reset request'' (Some (resp_status r)))
        (call ''POST'' RESET_PATH None (Some [(''domain_name'', JStr account), (''user_name'', JStr username),
           (''user_email'', JStr email), (''url_template'', JStr url_template)])))"

definition verify_refused :: "response \<Rightarrow> string \<Rightarrow> zadara_error" where
  "verify_refused r d =
     (case new_password_error r d of
        Some e \<Rightarrow> e
      | None \<Rightarrow>
          let s = resp_status r in
          if s \<in> {400, 401, 403, 404} then
            ZadaraError ''invalid_reset_link'' ''This reset link is invalid or has expired'' (Some s)
          else upstream_error s)"

definition verify_reset :: "cloud_call \<Rightarrow> string \<Rightarrow> json \<Rightarrow> failure + unit" where
  "verify_reset call secret new =
     password_answer verify_refused
       (call ''POST'' VERIFY_PATH None (Some [(''secret'', JStr secret), (''new_password'', new)]))"

end
