(* ===== verification/Cabinet_Sign_In.thy ===== *)
theory Cabinet_Sign_In
  imports Cloud_Users Operators Billing_Data
begin

text \<open>
  Signing in to the cabinet (\<open>apps/authentication\<close>): the token vault, the tickets of a pending second
  factor, the local user row, and the views. The cloud is Keystone's \<open>idp\<close>, the service account's
  directory \<open>dir\<close> and \<open>call\<close>; encryption is \<open>toolkit\<close>'s, random values are the arguments named
  \<open>fresh\<close>. Django's \<open>login\<close> and \<open>logout\<close> act on the stored sessions as documented: an anonymous
  session is moved to a new key, another user's is thrown away, and a session without a key gets one
  when the response is saved.
\<close>

subsection \<open>State\<close>

record mfa_ticket =
  mt_account :: string
  mt_username :: string
  mt_project :: "string option"
  mt_receipt :: string

record cabinet =
  cabinet_users :: "user list"
  vault :: "string shelf"
  receipts :: "mfa_ticket shelf"
  browsers :: "session_data shelf"

subsection \<open>The token vault (\<open>vault.py\<close>)\<close>

text \<open>The key is formatted into the cache key, so a session without one is stored under \<open>None\<close>.\<close>

definition vault_key :: "string option \<Rightarrow> string" where
  "vault_key s = ''zadara_token:'' @ (case s of None \<Rightarrow> ''None'' | Some k \<Rightarrow> k)"

definition vault_store :: "toolkit \<Rightarrow> int \<Rightarrow> int \<Rightarrow> string option \<Rightarrow> string \<Rightarrow> cabinet \<Rightarrow> cabinet" where
  "vault_store k ttl now s token c = c\<lparr>vault := shelf_set (vault_key s) (seal k token) (now + ttl) (vault c)\<rparr>"

definition vault_get :: "toolkit \<Rightarrow> int \<Rightarrow> string option \<Rightarrow> cabinet \<Rightarrow> string option" where
  "vault_get k now s c = (case shelf_get (vault c) now (vault_key s) of
     None \<Rightarrow> None | Some e \<Rightarrow> if e = [] then None else unseal k e)"

definition vault_delete :: "string option \<Rightarrow> cabinet \<Rightarrow> cabinet" where
  "vault_delete s c = c\<lparr>vault := shelf_delete (vault_key s) (vault c)\<rparr>"

text \<open>Every reader first looks whether the session has a key.\<close>

definition session_token :: "toolkit \<Rightarrow> int \<Rightarrow> string option \<Rightarrow> cabinet \<Rightarrow> string option" where
  "session_token k now s c = (if given s then vault_get k now s c else None)"

subsection \<open>Tickets of a pending second factor (\<open>mfa.py\<close>)\<close>

definition MFA_TTL :: int where "MFA_TTL = 4 * 60"

definition mfa_key :: "string \<Rightarrow> string" where
  "mfa_key t = ''mfa_receipt:'' @ t"

definition mfa_issue :: "toolkit \<Rightarrow> string \<Rightarrow> int \<Rightarrow> string \<Rightarrow> string \<Rightarrow> string option \<Rightarrow> string \<Rightarrow> cabinet \<Rightarrow> cabinet" where
  "mfa_issue k fresh now acc nm project receipt c =
     c\<lparr>receipts := shelf_set (mfa_key fresh)
        \<lparr>mt_account = acc, mt_username = nm, mt_project = project, mt_receipt = seal k receipt\<rparr>
        (now + MFA_TTL) (receipts c)\<rparr>"

definition mfa_load :: "toolkit \<Rightarrow> int \<Rightarrow> string \<Rightarrow> cabinet \<Rightarrow> mfa_ticket option" where
  "mfa_load k now t c = Option.bind (shelf_get (receipts c) now (mfa_key t))
     (\<lambda>e. map_option (\<lambda>r. e\<lparr>mt_receipt := r\<rparr>) (unseal k (mt_receipt e)))"

definition mfa_revoke :: "string \<Rightarrow> cabinet \<Rightarrow> cabinet" where
  "mfa_revoke t c = c\<lparr>receipts := shelf_delete (mfa_key t) (receipts c)\<rparr>"

subsection \<open>Refusals\<close>

text \<open>An \<open>AppError\<close> with its details.\<close>

type_synonym detailed = "refusal \<times> object"

definition STATUS_BY_CODE :: "(string \<times> nat) list" where
  "STATUS_BY_CODE = [(''invalid_credentials'', 401), (''mfa_required'', 401), (''invalid_mfa_code'', 401),
     (''mfa_enrollment_required'', 401), (''weak_password'', 400), (''password_reused'', 400),
     (''password_expired'', 401), (''account_locked'', 403), (''invalid_reset_link'', 400), (''mfa_expired'', 401),
     (''account_not_found'', 404), (''forbidden'', 403), (''rate_limited'', 429), (''timeout'', 504),
     (''network_error'', 502), (''upstream_error'', 502)]"

definition status_by_code :: "string \<Rightarrow> nat" where
  "status_by_code c = (case map_of STATUS_BY_CODE c of None \<Rightarrow> 502 | Some s \<Rightarrow> s)"

definition raise_from_zadara :: "failure \<Rightarrow> refusal" where
  "raise_from_zadara e = (case e of
     Zadara z \<Rightarrow> Refused (AppError (zmessage z) (zcode z) (status_by_code (zcode z))) | Crash \<Rightarrow> Crashed)"

definition no_details :: "refusal + 'a \<Rightarrow> detailed + 'a" where
  "no_details v = (case v of Inl e \<Rightarrow> Inl (e, []) | Inr x \<Rightarrow> Inr x)"

text \<open>What a failed password step becomes: a ticket, an enrolment, or the error as it is.\<close>

definition challenge :: "toolkit \<Rightarrow> string \<Rightarrow> int \<Rightarrow> string \<Rightarrow> string \<Rightarrow> string option \<Rightarrow> auth_failure \<Rightarrow> cabinet
    \<Rightarrow> cabinet \<times> detailed" where
  "challenge k fresh now acc nm project e c =
     (case e of
        AuthCrash \<Rightarrow> (c, Crashed, [])
      | Rejected z \<Rightarrow>
          let receipt = jget (zdetails z) ''receipt'' in
          if zcode z = ''mfa_required'' \<and> truthy receipt then
            (mfa_issue k fresh now acc nm project (py_str_of receipt) c,
             Refused (AppError (zmessage z) ''mfa_required'' 401), [(''mfaToken'', JStr fresh)])
          else if zcode z = ''mfa_enrollment_required'' then
            (c, Refused (AppError (zmessage z) ''mfa_enrollment_required'' 401),
             [(''mfaSecret'', jget (zdetails z) ''secret''), (''otpauthUri'', jget (zdetails z) ''otpauthUri'')])
          else (c, raise_from_zadara (plain_failure e), []))"

definition MFA_EXPIRED :: refusal where
  "MFA_EXPIRED = unauthorized ''Your sign-in session expired, please start again.'' ''mfa_expired''"

definition MFA_RESTART :: refusal where
  "MFA_RESTART = unauthorized ''Please start the sign-in again.'' ''mfa_expired''"

text \<open>The second step: the ticket's own account, user and receipt; only success uses it up.\<close>

definition complete_mfa :: "toolkit \<Rightarrow> identity_provider \<Rightarrow> string \<Rightarrow> string option \<Rightarrow> string \<Rightarrow> string \<Rightarrow> int \<Rightarrow> cabinet
    \<Rightarrow> cabinet \<times> (refusal + auth_result)" where
  "complete_mfa k idp mfa_token mfa_code acc nm now c =
     (case mfa_load k now mfa_token c of
        None \<Rightarrow> (c, Inl MFA_EXPIRED)
      | Some t \<Rightarrow>
          if \<not> iexact acc (mt_account t) \<or> \<not> iexact nm (mt_username t) then (c, Inl MFA_RESTART)
          else
            (case authenticate_totp idp (mt_account t) (mt_username t) (case mfa_code of None \<Rightarrow> [] | Some x \<Rightarrow> x)
                   (mt_receipt t) (mt_project t) of
               Inl e \<Rightarrow> (c, Inl (raise_from_zadara (plain_failure e)))
             | Inr res \<Rightarrow> (mfa_revoke mfa_token c, Inr res)))"

subsection \<open>The local user and the session (\<open>services.py\<close>)\<close>

definition json_text :: "json \<Rightarrow> string option" where
  "json_text v = (if truthy v then Some (py_str_of v) else None)"

text \<open>The columns taken from the cloud; whether the user is blocked is not among them.\<close>

definition mirrored :: "auth_result \<Rightarrow> user \<Rightarrow> user" where
  "mirrored res u = u\<lparr>username := ar_user_name res, u_email := json_text (ar_email res), u_account := ar_account_name res,
     u_account_id := opt_text (ar_account_id res), app_role := resolve_app_role (ar_roles res)\<rparr>"

definition upsert_user :: "nat \<Rightarrow> auth_result \<Rightarrow> user list \<Rightarrow> user list" where
  "upsert_user new_pk res =
     upsert (\<lambda>u. zadara_user_id u = ar_user_id res) (mirrored res)
       (mirrored res \<lparr>u_pk = new_pk, zadara_user_id = ar_user_id res, username = [], u_email = None, u_account = [],
          u_account_id = [], app_role = [], u_status = ''active''\<rparr>)"

definition user_row :: "auth_result \<Rightarrow> user list \<Rightarrow> user option" where
  "user_row res us = List.find (\<lambda>u. zadara_user_id u = ar_user_id res) us"

text \<open>The session a cookie names, and the key it is kept under.\<close>

definition browser_session :: "cabinet \<Rightarrow> int \<Rightarrow> string option \<Rightarrow> string option \<times> session_data" where
  "browser_session c now cookie = (case Option.bind cookie (shelf_get (browsers c) now) of
     None \<Rightarrow> (None, empty_session) | Some d \<Rightarrow> (cookie, d))"

definition drop_session :: "string option \<Rightarrow> cabinet \<Rightarrow> cabinet" where
  "drop_session s c = (case s of None \<Rightarrow> c | Some key \<Rightarrow> c\<lparr>browsers := shelf_delete key (browsers c)\<rparr>)"

text \<open>\<open>django.contrib.auth.login\<close>.\<close>

definition django_login :: "string \<Rightarrow> user \<Rightarrow> string option \<times> session_data \<Rightarrow> cabinet
    \<Rightarrow> cabinet \<times> string option \<times> session_data" where
  "django_login fresh u s c =
     (case auth_user_id (snd s) of
        None \<Rightarrow> (drop_session (fst s) c, Some fresh, (snd s)\<lparr>auth_user_id := Some (u_pk u)\<rparr>)
      | Some i \<Rightarrow>
          if i \<noteq> u_pk u then (drop_session (fst s) c, None, empty_session\<lparr>auth_user_id := Some (u_pk u)\<rparr>)
          else (c, fst s, snd s))"

definition scoped :: "auth_result \<Rightarrow> session_data \<Rightarrow> session_data" where
  "scoped res d = d\<lparr>zadara_project_id := ar_project_id res, zadara_project_name := ar_project_name res,
     zadara_scope := ar_scope res, zadara_roles := ar_roles res\<rparr>"

text \<open>The response carries the session's key; \<open>fresh\<close> is drawn where it has none yet.\<close>

definition save_session :: "string \<Rightarrow> int \<Rightarrow> int \<Rightarrow> string option \<Rightarrow> session_data \<Rightarrow> cabinet \<Rightarrow> cabinet \<times> string" where
  "save_session fresh ttl now s d c =
     (let key = (case s of None \<Rightarrow> fresh | Some x \<Rightarrow> x) in (c\<lparr>browsers := shelf_set key d (now + ttl) (browsers c)\<rparr>, key))"

record cabinet_me =
  cm_name :: string
  cm_email :: "string option"
  cm_appRole :: string
  cm_zadaraUserId :: string
  cm_zadaraAccount :: string
  cm_zadaraAccountId :: "string option"
  cm_zadaraProjectId :: "string option"
  cm_zadaraProjectName :: "string option"
  cm_zadaraRoles :: "json list"

definition cabinet_me_payload :: "user \<Rightarrow> session_data \<Rightarrow> cabinet_me" where
  "cabinet_me_payload u d =
     \<lparr>cm_name = username u, cm_email = u_email u, cm_appRole = app_role u, cm_zadaraUserId = zadara_user_id u,
      cm_zadaraAccount = u_account u, cm_zadaraAccountId = or_none (u_account_id u),
      cm_zadaraProjectId = zadara_project_id d, cm_zadaraProjectName = zadara_project_name d, cm_zadaraRoles = zadara_roles d\<rparr>"


subsection \<open>Signing in (\<open>LoginView\<close>)\<close>

text \<open>The random values one request may draw, and the key the database gives a new user.\<close>

record drawn =
  fresh_ticket :: string
  fresh_key :: string
  fresh_save :: string
  fresh_pk :: nat

record login_form =
  lf_account :: string
  lf_username :: string
  lf_password :: json
  lf_project :: "string option"
  lf_mfa_code :: "string option"
  lf_mfa_token :: "string option"

definition login_form_of :: "json \<Rightarrow> refusal + login_form" where
  "login_form_of data =
     sum_bind (text_field data ''account'') (\<lambda>acc. sum_bind (text_field data ''username'') (\<lambda>nm.
     sum_bind (body_field data ''password'') (\<lambda>pw. sum_bind (text_field data ''project'') (\<lambda>pr.
     sum_bind (text_field data ''mfaCode'') (\<lambda>mc. sum_bind (text_field data ''mfaToken'') (\<lambda>mt.
       Inr \<lparr>lf_account = acc, lf_username = nm, lf_password = jor pw (JStr []), lf_project = or_none pr,
         lf_mfa_code = or_none mc, lf_mfa_token = or_none mt\<rparr>))))))"

text \<open>Who the cloud says this is.\<close>

definition identified :: "toolkit \<Rightarrow> identity_provider \<Rightarrow> string \<Rightarrow> int \<Rightarrow> login_form \<Rightarrow> cabinet
    \<Rightarrow> cabinet \<times> (detailed + auth_result)" where
  "identified k idp fresh now f c =
     (case lf_mfa_token f of
        Some t \<Rightarrow>
          (case complete_mfa k idp t (lf_mfa_code f) (lf_account f) (lf_username f) now c of (c, r) \<Rightarrow> (c, no_details r))
      | None \<Rightarrow>
          (case authenticate idp (lf_account f) (lf_username f) (lf_password f) (lf_project f) (lf_mfa_code f) of
             Inr res \<Rightarrow> (c, Inr res)
           | Inl e \<Rightarrow>
               (case challenge k fresh now (lf_account f) (lf_username f) (lf_project f) e c of (c, d) \<Rightarrow> (c, Inl d))))"

text \<open>A token without a project is exchanged for one of the user's projects, where one is found.\<close>

definition rescoped :: "identity_provider \<Rightarrow> reads \<Rightarrow> login_form \<Rightarrow> auth_result \<Rightarrow> refusal + auth_result" where
  "rescoped idp dir f res =
     (if ar_scope res \<noteq> ''project'' \<and> lf_project f = None then
        (case get_user_projects dir (lf_account f) (lf_username f) of
           Inl (Zadara _) \<Rightarrow> Inr res
         | Inl Crash \<Rightarrow> Inl Crashed
         | Inr [] \<Rightarrow> Inr res
         | Inr ((_, name) # _) \<Rightarrow>
             (case exchange_project idp (ar_token res) name (lf_account f) of
                Inr res' \<Rightarrow> Inr res' | Inl (Rejected _) \<Rightarrow> Inr res | Inl AuthCrash \<Rightarrow> Inl Crashed))
      else Inr res)"

definition open_session :: "toolkit \<Rightarrow> int \<Rightarrow> drawn \<Rightarrow> string option \<Rightarrow> int \<Rightarrow> auth_result \<Rightarrow> user \<Rightarrow> cabinet
    \<Rightarrow> cabinet \<times> (detailed + cabinet_me \<times> string)" where
  "open_session k ttl d cookie now res u c =
     (case django_login (fresh_key d) u (browser_session c now cookie) c of (c, s, dt) \<Rightarrow>
        case save_session (fresh_save d) ttl now s (scoped res dt) (vault_store k ttl now s (ar_token res) c) of
          (c, key) \<Rightarrow> (c, Inr (cabinet_me_payload u (scoped res dt), key)))"

definition cabinet_login_post :: "toolkit \<Rightarrow> identity_provider \<Rightarrow> reads \<Rightarrow> int \<Rightarrow> drawn \<Rightarrow> string option \<Rightarrow> int \<Rightarrow> json
    \<Rightarrow> cabinet \<Rightarrow> cabinet \<times> (detailed + cabinet_me \<times> string)" where
  "cabinet_login_post k idp dir ttl d cookie now data c =
     (case login_form_of data of
        Inl e \<Rightarrow> (c, Inl (e, []))
      | Inr f \<Rightarrow>
          (case identified k idp (fresh_ticket d) now f c of
             (c, Inl e) \<Rightarrow> (c, Inl e)
           | (c, Inr res) \<Rightarrow>
               (case rescoped idp dir f res of
                  Inl e \<Rightarrow> (c, Inl (e, []))
                | Inr res \<Rightarrow>
                    let c = c\<lparr>cabinet_users := upsert_user (fresh_pk d) res (cabinet_users c)\<rparr> in
                    (case user_row res (cabinet_users c) of
                       None \<Rightarrow> (c, Inl (Crashed, []))
                     | Some u \<Rightarrow>
                         if is_blocked u then (c, Inl (forbidden ''This account is blocked.'' ''forbidden'', []))
                         else open_session k ttl d cookie now res u c))))"

subsection \<open>The other views\<close>

definition signed_user :: "cabinet \<Rightarrow> int \<Rightarrow> string option \<Rightarrow> user option" where
  "signed_user c now cookie =
     Option.bind (auth_user_id (snd (browser_session c now cookie))) (\<lambda>i. List.find (\<lambda>u. u_pk u = i) (cabinet_users c))"

text \<open>REST framework's answer to a caller who has to be signed in and is not.\<close>

definition not_signed_in :: refusal where
  "not_signed_in = forbidden ''Authentication credentials were not provided.'' ''forbidden''"

definition cabinet_me_get :: "string option \<Rightarrow> int \<Rightarrow> cabinet \<Rightarrow> refusal + cabinet_me" where
  "cabinet_me_get cookie now c = (case signed_user c now cookie of
     None \<Rightarrow> Inl not_signed_in | Some u \<Rightarrow> Inr (cabinet_me_payload u (snd (browser_session c now cookie))))"

text \<open>\<open>django.contrib.auth.logout\<close> after the token has been forgotten.\<close>

definition forget_browser :: "string option \<Rightarrow> int \<Rightarrow> cabinet \<Rightarrow> cabinet" where
  "forget_browser cookie now c =
     (let s = fst (browser_session c now cookie) in drop_session s (if given s then vault_delete s c else c))"

definition cabinet_logout_post :: "string option \<Rightarrow> int \<Rightarrow> cabinet \<Rightarrow> cabinet \<times> (refusal + unit)" where
  "cabinet_logout_post cookie now c = (case signed_user c now cookie of
     None \<Rightarrow> (c, Inl not_signed_in) | Some u \<Rightarrow> (forget_browser cookie now c, Inr ()))"

definition SESSION_EXPIRED :: refusal where
  "SESSION_EXPIRED = unauthorized ''Session expired, please sign in again.'' ''session_expired''"

definition refresh_post :: "toolkit \<Rightarrow> string option \<Rightarrow> int \<Rightarrow> cabinet \<Rightarrow> refusal + cabinet_me" where
  "refresh_post k cookie now c = (case signed_user c now cookie of
     None \<Rightarrow> Inl not_signed_in
   | Some u \<Rightarrow>
       if given (session_token k now (fst (browser_session c now cookie)) c)
       then Inr (cabinet_me_payload u (snd (browser_session c now cookie))) else Inl SESSION_EXPIRED)"

text \<open>Always the same answer; \<open>template\<close> is the setting \<open>PASSWORD_RESET_URL_TEMPLATE\<close>.\<close>

definition reset_request_post :: "cloud_call \<Rightarrow> string \<Rightarrow> json \<Rightarrow> refusal + string" where
  "reset_request_post call template data =
     sum_bind (text_field data ''account'') (\<lambda>acc. sum_bind (text_field data ''username'') (\<lambda>nm.
     sum_bind (text_field data ''email'') (\<lambda>mail.
       let sent = Inr ''If the details match an account, a reset link has been sent.'' in
       if acc \<noteq> [] \<and> nm \<noteq> [] \<and> mail \<noteq> [] then
         (case request_reset call acc nm mail template of Inl Crash \<Rightarrow> Inl Crashed | _ \<Rightarrow> sent)
       else sent)))"

definition reset_verify_post :: "cloud_call \<Rightarrow> json \<Rightarrow> refusal + unit" where
  "reset_verify_post call data =
     sum_bind (text_field data ''secret'') (\<lambda>secret. sum_bind (body_field data ''newPassword'') (\<lambda>new.
       if secret = [] \<or> \<not> truthy new then Inl (bad_request ''A reset link and a new password are required.'')
       else (case verify_reset call secret new of Inl e \<Rightarrow> Inl (raise_from_zadara e) | Inr _ \<Rightarrow> Inr ())))"

text \<open>Signed in, the session says whose password it is; otherwise the form does.\<close>

definition password_owner :: "user option \<Rightarrow> json \<Rightarrow> refusal + (string \<times> string)" where
  "password_owner who data = (case who of
     Some u \<Rightarrow> Inr (u_account u, username u)
   | None \<Rightarrow> sum_bind (text_field data ''account'') (\<lambda>acc. sum_bind (text_field data ''username'') (\<lambda>nm. Inr (acc, nm))))"

definition cabinet_password_change :: "toolkit \<Rightarrow> cloud_call \<Rightarrow> string option \<Rightarrow> int \<Rightarrow> json \<Rightarrow> cabinet \<Rightarrow> cabinet \<times> (refusal + unit)" where
  "cabinet_password_change k call cookie now data c =
     (case sum_bind (body_field data ''currentPassword'') (\<lambda>current. sum_bind (body_field data ''newPassword'') (\<lambda>new.
             sum_bind (password_owner (signed_user c now cookie) data) (\<lambda>(acc, nm).
             if acc = [] \<or> nm = [] \<or> \<not> truthy current \<or> \<not> truthy new then
               Inl (bad_request ''Account, username, the current password and a new password are required.'')
             else sum_bind (text_field data ''mfaCode'') (\<lambda>totp.
               case change_password_in_cloud call acc nm current new (or_none totp)
                      (session_token k now (fst (browser_session c now cookie)) c) of
                 Inl e \<Rightarrow> Inl (raise_from_zadara e) | Inr _ \<Rightarrow> Inr ())))) of
        Inl e \<Rightarrow> (c, Inl e)
      | Inr _ \<Rightarrow> (forget_browser cookie now c, Inr ()))"

end
