(* ===== verification/Machines.thy ===== *)
theory Machines
  imports Keystone
begin

text \<open>
  The rest of \<open>integrations/zadara/resources.py\<close>: one machine with its details, its console, utilisation
  series and quota lists. \<open>reply\<close> is what the request for the one path comes back with, \<open>get\<close> the
  cached reads of \<open>Resources\<close>.
\<close>

subsection \<open>Comparing what Python compares\<close>

text \<open>Text of a value; values that are not text are not compared with text.\<close>

definition text_of :: "json \<Rightarrow> string option" where
  "text_of v = (case v of JStr s \<Rightarrow> Some s | _ \<Rightarrow> None)"

definition all_text :: "('a \<Rightarrow> json) \<Rightarrow> 'a list \<Rightarrow> bool" where
  "all_text f xs = list_all (\<lambda>x. text_of (f x) \<noteq> None) xs"

text \<open>\<open>f(x).lower()\<close>.\<close>

definition lowered :: "json \<Rightarrow> string" where
  "lowered v = (case v of JStr s \<Rightarrow> lower s | _ \<Rightarrow> [])"

subsection \<open>The index of volume types\<close>

text \<open>
  One entry for every token: whoever reads first fills it, also with an empty index. \<open>Resources\<close> takes what
  the entry or the read behind it gives.
\<close>

definition VOLUME_TYPES_CACHE_KEY :: string where "VOLUME_TYPES_CACHE_KEY = ''zadara:volume_types''"
definition VOLUME_TYPES_CACHE_TTL :: int where "VOLUME_TYPES_CACHE_TTL = 15 * 60"

type_synonym type_cache = "(string \<times> volume_type) list shelf"

definition cached_volume_types :: "reads \<Rightarrow> int \<Rightarrow> type_cache \<Rightarrow> type_cache \<times> (failure + (string \<times> volume_type) list)" where
  "cached_volume_types get now s =
     (case shelf_get s now VOLUME_TYPES_CACHE_KEY of
        Some types \<Rightarrow> (s, Inr types)
      | None \<Rightarrow> (case volume_type_index get of
          Inl e \<Rightarrow> (s, Inl e)
        | Inr types \<Rightarrow> (shelf_set VOLUME_TYPES_CACHE_KEY types (now + VOLUME_TYPES_CACHE_TTL) s, Inr types)))"

text \<open>Medium, then the lower-cased name.\<close>

definition list_volume_types :: "failure + (string \<times> volume_type) list \<Rightarrow> failure + volume_type list" where
  "list_volume_types types =
     sum_bind types (\<lambda>ts. let xs = map snd ts in
       if list_all (\<lambda>t. text_of (vt_name t) \<noteq> None) xs then Inr (sort_key (\<lambda>t. [vt_media t, lowered (vt_name t)]) xs)
       else Inl Crash)"

text \<open>For fifteen minutes every other token is given what the first one was answered, an empty index included.\<close>

lemma first_reader_labels_everyone:
  assumes "cached_volume_types get now s = (s', Inr types)" "shelf_get s now VOLUME_TYPES_CACHE_KEY = None"
    and "now \<le> later" "later < now + VOLUME_TYPES_CACHE_TTL"
  shows "cached_volume_types get' later s' = (s', Inr types)"
  using assms by (auto simp: cached_volume_types_def shelf.look_put split: sum.splits)

lemma empty_answer_unlabels_everyone:
  assumes "get VOLUME_TYPES_PATH = Inr (JList [])" "shelf_get s now VOLUME_TYPES_CACHE_KEY = None"
    and "now \<le> later" "later < now + VOLUME_TYPES_CACHE_TTL"
  shows "\<exists>s'. cached_volume_types get now s = (s', Inr []) \<and> cached_volume_types get' later s' = (s', Inr [])"
proof -
  have "volume_type_index get = Inr []"
    using assms(1) by (simp add: volume_type_index_def sum_bind_def from_option_def iterate_def jor_def classify_volume_types_def)
  then obtain s' where "cached_volume_types get now s = (s', Inr [])"
    using assms(2) by (auto simp: cached_volume_types_def)
  then show ?thesis using first_reader_labels_everyone assms(2-4) by blast
qed

subsection \<open>One machine\<close>

definition safe_elastic_ips :: "reads \<Rightarrow> failure + elastic_ip list" where
  "safe_elastic_ips get = (case list_elastic_ips get of Inl (Zadara e) \<Rightarrow> Inr [] | r \<Rightarrow> r)"

record vm_detail = vm +
  vd_publicIps :: "json list"
  vd_publicDnsNames :: "string list"
  vd_securityGroups :: json
  vd_subnetId :: json
  vd_bootVolumeId :: json
  vd_userData :: bool
  vd_launchedAt :: json
  vd_description :: json

definition vm_answer :: "zadara_error \<Rightarrow> zadara_error + response \<Rightarrow> failure + response" where
  "vm_answer refused reply =
     (case reply of
        Inl e \<Rightarrow> Inl (Zadara e)
      | Inr r \<Rightarrow>
          if resp_status r = 404 then Inl (Zadara (ZadaraError ''not_found'' ''This virtual machine no longer exists'' (Some 404)))
          else if resp_status r = 403 then Inl (Zadara refused)
          else if resp_status r = 401 then Inl (Zadara session_expired)
          else if \<not> resp_ok r then Inl (Zadara (upstream_error (resp_status r)))
          else Inr r)"

definition detailed_vm :: "object \<Rightarrow> vm \<Rightarrow> elastic_ip list \<Rightarrow> vm_detail" where
  "detailed_vm raw v eips =
     (let matching = filter (\<lambda>e. eip_instanceId e = Some (vm_id v)) eips in
      vm.extend v (vm_detail.fields (filter truthy (map eip_publicIp matching))
        (filter (\<lambda>n. n \<noteq> []) (List.map_filter eip_publicDnsName matching))
        (jor (jget raw ''security_groups'') (JList [])) (jget raw ''subnet_id'') (jget raw ''boot_volume_id'')
        (truthy (jget raw ''user_data'')) (jget raw ''launched_at'') (jget raw ''description'')))"

text \<open>An answer that is JSON but no object is normalised as an empty one and then fails on its fields.\<close>

definition get_vm :: "zadara_error + response \<Rightarrow> reads \<Rightarrow> failure + vm_detail" where
  "get_vm reply get =
     sum_bind (vm_answer (ZadaraError ''forbidden'' ''You are not authorized to view this machine'' (Some 403)) reply) (\<lambda>r.
       case (case resp_json r of None \<Rightarrow> Some [] | Some (JObj o') \<Rightarrow> Some o' | Some _ \<Rightarrow> None) of
         None \<Rightarrow> Inl Crash
       | Some raw \<Rightarrow> sum_bind (from_option (normalize_vm raw)) (\<lambda>v.
           sum_bind (safe_elastic_ips get) (\<lambda>eips. Inr (detailed_vm raw v eips))))"

subsection \<open>The console\<close>

definition CONSOLE_CLIENT_PATH :: string where "CONSOLE_CLIENT_PATH = ''/vnc/vnc_auto.html''"

definition slash :: "char \<Rightarrow> bool" where
  "slash c = (c = CHR ''/'')"

definition absolute :: "string \<Rightarrow> string \<Rightarrow> string" where
  "absolute base_url url =
     (if starts_with url ''http://'' \<or> starts_with url ''https://'' then url
      else rev (dropWhile slash (rev base_url)) @ ''/'' @ dropWhile slash url)"

text \<open>Where the session is: the redirect, a bare string, one of four fields, or a nested \<open>console\<close>.\<close>

definition console_address :: "response \<Rightarrow> json" where
  "console_address r =
     (let body = (if contains (case header r ''Content-Type'' of None \<Rightarrow> [] | Some t \<Rightarrow> t) ''json'' then body_of r else JNull) in
      if given (header r ''Location'') then JStr (the (header r ''Location''))
      else (case body of
          JStr s \<Rightarrow> JStr (strip s)
        | JObj o' \<Rightarrow>
            (case List.find (\<lambda>k. truthy (jget o' k)) [''url'', ''console_url'', ''link'', ''href''] of
               Some k \<Rightarrow> JStr (py_str_of (jget o' k))
             | None \<Rightarrow> (case jget o' ''console'' of JObj c \<Rightarrow> jget c ''url'' | _ \<Rightarrow> JNull))
        | _ \<Rightarrow> JNull))"

record console_session =
  cs_url :: string
  cs_clientPath :: string
  cs_status :: nat

definition get_vm_console :: "string \<Rightarrow> zadara_error + response \<Rightarrow> failure + console_session" where
  "get_vm_console base_url reply =
     sum_bind (vm_answer (ZadaraError ''console_forbidden'' ''Console access is not allowed for this machine'' (Some 403)) reply)
       (\<lambda>r. let url = console_address r in
         if \<not> truthy url then
           Inl (Zadara (ZadaraError ''console_unavailable'' ''The cloud did not return a console address'' (Some 502)))
         else (case url of
             JStr s \<Rightarrow> Inr \<lparr>cs_url = absolute base_url s, cs_clientPath = CONSOLE_CLIENT_PATH, cs_status = resp_status r\<rparr>
           | _ \<Rightarrow> Inl Crash))"

subsection \<open>Utilisation\<close>

definition VM_METRICS :: "(string \<times> string) list" where
  "VM_METRICS = [(''cpuPercent'', ''cpu__used__of__vm__in__percent''),
     (''memoryUsedMiB'', ''memory__used_by_guest_os__of__vm__in__MiB''),
     (''memorySizeMiB'', ''memory__size__of__vm__in__MiB''),
     (''networkRxKbps'', ''network__rx_kbps__of__vm__in__kbps''),
     (''networkTxKbps'', ''network__tx_kbps__of__vm__in__kbps'')]"

definition PROJECT_METRICS :: "(string \<times> string) list" where
  "PROJECT_METRICS = [(''cpuMHz'', ''cpu__used__of__tenant__in__MHz''),
     (''memoryMiB'', ''memory__used__of__tenant__in__MiB''),
     (''networkRxKbps'', ''network__rx_kbps__of__tenant__in__kbps''),
     (''networkTxKbps'', ''network__tx_kbps__of__tenant__in__kbps''),
     (''networkRxErrors'', ''network__rx_errors__of__tenant__in__packets_per_sec''),
     (''networkTxErrors'', ''network__tx_errors__of__tenant__in__packets_per_sec'')]"

text \<open>Seconds back, bucket size, bucket unit.\<close>

definition METRIC_PERIODS :: "(string \<times> int \<times> int \<times> string) list" where
  "METRIC_PERIODS = [(''1h'', 3600, 3, ''minutes''), (''6h'', 6 * 3600, 10, ''minutes''), (''24h'', 24 * 3600, 30, ''minutes''),
     (''7d'', 7 * 86400, 3, ''hours''), (''30d'', 30 * 86400, 12, ''hours'')]"

definition history_query :: "string \<Rightarrow> int \<Rightarrow> int \<Rightarrow> int \<Rightarrow> string \<Rightarrow> string \<Rightarrow> json" where
  "history_query entity start final interval unit_name metric =
     JList [JStr ''query_history_group_by_time'', JObj [(''metric_name'', JStr metric), (''entity_ids'', JList [JStr entity]),
       (''start_timestamp'', JInt start), (''end_timestamp'', JInt final), (''statistic'', JStr ''max''),
       (''interval'', JInt interval), (''time_type'', JStr unit_name), (''fill_type'', JStr ''null'')]]"

text \<open>\<open>round(float(value), 3)\<close>.\<close>

definition round_3 :: "number \<Rightarrow> number" where
  "round_3 n = (case n of Finite r \<Rightarrow> Finite (to_float (of_int (round_half_even (r * 1000)) / 1000)) | _ \<Rightarrow> n)"

definition py_float_of :: "json \<Rightarrow> number option" where
  "py_float_of v = (case v of JStr s \<Rightarrow> py_float s | _ \<Rightarrow> map_option (\<lambda>r. Finite (to_float r)) (numeric v))"

text \<open>A point is a pair; one without a value is skipped.\<close>

definition metric_point :: "json \<Rightarrow> (int \<times> number) option option" where
  "metric_point p = (case iterate p of
     Some [ts, v] \<Rightarrow>
       (if v = JNull then Some None
        else (case (py_int_of ts, py_float_of v) of (Some t, Some x) \<Rightarrow> Some (Some (t, round_3 x)) | _ \<Rightarrow> None))
   | _ \<Rightarrow> None)"

text \<open>A metric the cluster does not collect has no list of entries, and no points.\<close>

definition metric_series :: "json \<Rightarrow> (int \<times> number) list option" where
  "metric_series entries =
     (case entries of
        JList (JObj e # _) \<Rightarrow>
          Option.bind (iterate (jor (jget e ''points'') (JList []))) (\<lambda>ps. map_option (List.map_filter id) (mapM metric_point ps))
      | _ \<Rightarrow> Some [])"

record utilisation =
  ut_period :: string
  ut_from :: int
  ut_to :: int
  ut_intervalMinutes :: int
  ut_series :: "(string \<times> (int \<times> number) list) list"

text \<open>\<open>ask\<close>: what the metrics endpoint answers to the queries.\<close>

definition query_history :: "(object \<Rightarrow> failure + json) \<Rightarrow> (string \<times> string) list \<Rightarrow> string \<Rightarrow> string \<Rightarrow> int
    \<Rightarrow> failure + utilisation" where
  "query_history ask metrics entity per now =
     (case map_of METRIC_PERIODS per of
        None \<Rightarrow> Inl (Zadara (ZadaraError ''invalid_request'' (''Unknown period: '' @ per) (Some 400)))
      | Some (back, interval, unit_name) \<Rightarrow>
          sum_bind (ask (map (\<lambda>(k, name). (k, history_query entity (now - back) now interval unit_name name)) metrics)) (\<lambda>data.
            from_option (Option.bind (soft data) (\<lambda>o'. map_option (\<lambda>series.
              \<lparr>ut_period = per, ut_from = (now - back) * 1000, ut_to = now * 1000,
               ut_intervalMinutes = interval * (if unit_name = ''hours'' then 60 else 1),
               ut_series = zip (map fst metrics) series\<rparr>) (mapM (\<lambda>(k, _). metric_series (jget o' k)) metrics)))))"

definition get_project_metrics :: "(object \<Rightarrow> failure + json) \<Rightarrow> string \<Rightarrow> string \<Rightarrow> int \<Rightarrow> failure + utilisation" where
  "get_project_metrics ask = query_history ask PROJECT_METRICS"

definition get_vm_metrics :: "(object \<Rightarrow> failure + json) \<Rightarrow> string \<Rightarrow> string \<Rightarrow> int \<Rightarrow> failure + utilisation" where
  "get_vm_metrics ask = query_history ask VM_METRICS"

subsection \<open>Quota lists\<close>

definition quota_domain_path :: "string \<Rightarrow> string" where
  "quota_domain_path d = ''/api/v2/quotas/limits/domains/'' @ d"

definition quota_project_path :: "string \<Rightarrow> string" where
  "quota_project_path p = ''/api/v2/quotas/limits/projects/'' @ p"

definition quota_text :: "json \<Rightarrow> string" where
  "quota_text v = (case text_of v of None \<Rightarrow> [] | Some s \<Rightarrow> s)"

text \<open>Group, category, medium, lower-cased name.\<close>

definition quota_order :: "quota \<Rightarrow> string list" where
  "quota_order q = [quota_text (q_group q), quota_text (q_category q), q_media q, lowered (q_displayName q)]"

definition list_quotas :: "reads \<Rightarrow> string \<Rightarrow> failure + quota list" where
  "list_quotas get path =
     sum_bind (get path) (\<lambda>data.
     sum_bind (from_option (Option.bind (iterate (jor data (JList []))) (\<lambda>xs. mapM normalize_quota (objects xs)))) (\<lambda>qs.
     sum_bind (safe_volume_type_index get) (\<lambda>types.
       if all_text q_group qs \<and> all_text q_category qs \<and> all_text q_displayName qs
       then Inr (sort_key quota_order (map (label_quota_media types) qs)) else Inl Crash)))"

definition list_domain_quotas :: "reads \<Rightarrow> string \<Rightarrow> failure + quota list" where
  "list_domain_quotas get d = list_quotas get (quota_domain_path d)"

definition list_project_quotas :: "reads \<Rightarrow> string \<Rightarrow> failure + quota list" where
  "list_project_quotas get p = list_quotas get (quota_project_path p)"

end
