(* ===== verification/Account_Admin.thy ===== *)
theory Account_Admin
  imports Cabinet_Sign_In Machines Billing_Views
begin

text \<open>
  The account administrator's screens (\<open>apps/admin_api/views.py\<close>): machines, users, projects and quotas of
  the caller's own account, its audit trail, and the changes to its users. \<open>dir\<close> reads the directory with
  the service account, \<open>svc\<close> is what the resources are read with (its token may fail), \<open>call\<close> is the
  cloud with the administrator's own token. \<open>last_seen_at\<close> is not part of the user's row here.
\<close>

subsection \<open>Failures of the cloud\<close>

text \<open>A \<open>ZadaraError\<close> caught becomes a 502 with its code; one that is not caught is a 500.\<close>

definition gateway :: "string \<Rightarrow> failure + 'a \<Rightarrow> refusal + 'a" where
  "gateway m v = (case v of
     Inl (Zadara e) \<Rightarrow> Inl (Refused (AppError m (zcode e) 502)) | Inl Crash \<Rightarrow> Inl Crashed | Inr x \<Rightarrow> Inr x)"

definition uncaught :: "failure + 'a \<Rightarrow> refusal + 'a" where
  "uncaught v = (case v of Inl e \<Rightarrow> Inl Crashed | Inr x \<Rightarrow> Inr x)"

definition session_without_account :: refusal where
  "session_without_account = unauthorized ''Your session has no account, please sign in again.'' ''session_expired''"

definition own_account :: "user \<Rightarrow> reads \<Rightarrow> refusal + (string \<times> string)" where
  "own_account who dir = account_domain (u_account who) (resolve_domain_id dir)"

subsection \<open>Machines of the account\<close>

text \<open>Sorting does not compare a single row with anything.\<close>

definition sorted_on :: "('a \<Rightarrow> json) \<Rightarrow> 'a list \<Rightarrow> refusal + 'a list" where
  "sorted_on f xs = (if length xs \<le> 1 then Inr xs
     else if all_text f xs then Inr (sort_key (\<lambda>x. quota_text (f x)) xs) else Inl Crashed)"

record admin_machines =
  am_vms :: "(joined_vm \<times> json) list"
  am_total :: nat
  am_diskInfo :: bool
  am_account :: string
  am_projects :: "(string \<times> json) list"

definition allowed_projects :: "string \<Rightarrow> (string \<times> json) list \<Rightarrow> string set" where
  "allowed_projects requested projects =
     (if requested = [] then fst ` set projects else {requested} \<inter> fst ` set projects)"

definition in_allowed :: "string set \<Rightarrow> joined_vm \<Rightarrow> bool" where
  "in_allowed allowed v = (case vm_projectId v of None \<Rightarrow> False | Some p \<Rightarrow> p \<in> allowed)"

definition project_label :: "(string \<times> json) list \<Rightarrow> joined_vm \<Rightarrow> json" where
  "project_label projects v = get_default projects (case vm_projectId v of None \<Rightarrow> [] | Some p \<Rightarrow> p) (JStr [])"

definition admin_resources :: "user \<Rightarrow> (failure + reads) \<Rightarrow> reads \<Rightarrow> string \<Rightarrow> refusal + admin_machines" where
  "admin_resources who svc dir requested =
     (let acc = strip (u_account who); failed_load = ''Failed to load account resources'' in
      if acc = [] then Inl session_without_account
      else sum_bind (gateway failed_load svc) (\<lambda>get.
        sum_bind (gateway failed_load (resolve_domain_id dir acc)) (\<lambda>d.
        if \<not> given d then Inl (Refused (AppError ''Account not found in the cloud.'' ''account_not_found'' 404))
        else sum_bind (gateway failed_load (list_domain_projects dir (the d))) (\<lambda>projects.
          sum_bind (gateway failed_load (list_vms get True)) (\<lambda>vms.
          let mine = filter (in_allowed (allowed_projects requested projects)) vms in
          sum_bind (sorted_on snd projects) (\<lambda>listed.
            Inr \<lparr>am_vms = map (\<lambda>v. (v, project_label projects v)) mine, am_total = length mine,
              am_diskInfo = list_ex (\<lambda>v. vm_diskGiB v \<noteq> None) mine, am_account = acc, am_projects = listed\<rparr>))))))"

subsection \<open>The audit trail\<close>

text \<open>Newest first; each filter given must match exactly.\<close>

definition admin_audit :: "user \<Rightarrow> (string \<times> string) list \<Rightarrow> audit_log list \<Rightarrow> audit_log list" where
  "admin_audit who params trail =
     (let wanted = (\<lambda>k v. let w = strip (case map_of params k of None \<Rightarrow> [] | Some s \<Rightarrow> s) in w = [] \<or> v = w) in
      rev (filter (\<lambda>l. log_account l = u_account who \<and> wanted ''action'' (audit_log.log_action l) \<and> wanted ''username'' (log_username l) \<and>
        wanted ''resource_id'' (log_resource_id l) \<and> wanted ''outcome'' (log_outcome l)) trail))"

subsection \<open>Users of the account\<close>

record admin_user = domain_user +
  au_appRole :: "string option"
  au_status :: "string option"

definition with_local :: "user list \<Rightarrow> domain_user \<Rightarrow> admin_user" where
  "with_local known du =
     (let row = List.find (\<lambda>u. zadara_user_id u = du_id du) (rev known) in
      domain_user.extend du (admin_user.fields (map_option app_role row) (map_option u_status row)))"

definition admin_users :: "user \<Rightarrow> reads \<Rightarrow> user list \<Rightarrow> refusal + admin_user list \<times> string" where
  "admin_users who dir us =
     sum_bind (own_account who dir) (\<lambda>(acc, d).
     sum_bind (gateway ''Failed to load account users'' (list_domain_users dir d)) (\<lambda>found.
       let rows = map (with_local (filter (\<lambda>u. iexact (u_account u) acc) us)) found in
       if all_text du_name rows then Inr (sort_key (\<lambda>r. (du_systemUser r, lowered (du_name r))) rows, acc) else Inl Crashed))"

subsection \<open>Projects of the account\<close>

record tenant_use =
  tu_vms :: int
  tu_running :: int
  tu_vcpus :: int
  tu_ramMB :: int

definition idle :: tenant_use where
  "idle = \<lparr>tu_vms = 0, tu_running = 0, tu_vcpus = 0, tu_ramMB = 0\<rparr>"

definition add_machine :: "joined_vm \<Rightarrow> tenant_use \<Rightarrow> tenant_use" where
  "add_machine v u =
     \<lparr>tu_vms = tu_vms u + 1, tu_running = tu_running u + (if lower (vm_status v) \<in> {''active'', ''running''} then 1 else 0),
      tu_vcpus = tu_vcpus u + vm_vcpus v, tu_ramMB = tu_ramMB u + vm_ramMB v\<rparr>"

definition tenant_usage :: "string set \<Rightarrow> joined_vm list \<Rightarrow> (string \<times> tenant_use) list" where
  "tenant_usage owned vms =
     fold (\<lambda>v m. case vm_projectId v of
         None \<Rightarrow> m
       | Some p \<Rightarrow> if p \<in> owned then dict_alter idle (add_machine v) p m else m) vms []"

definition use_of :: "(string \<times> tenant_use) list \<Rightarrow> string \<Rightarrow> tenant_use" where
  "use_of m p = (case map_of m p of None \<Rightarrow> idle | Some u \<Rightarrow> u)"

definition admin_tenants :: "user \<Rightarrow> (failure + reads) \<Rightarrow> reads \<Rightarrow> refusal + (project_detail \<times> tenant_use) list \<times> string" where
  "admin_tenants who svc dir =
     sum_bind (own_account who dir) (\<lambda>(acc, d).
     sum_bind (gateway ''Failed to load account projects''
         (sum_bind (list_domain_project_details dir d) (\<lambda>ps. sum_bind svc (\<lambda>get.
            sum_bind (list_vms get False) (\<lambda>vms. Inr (ps, vms)))))) (\<lambda>(ps, vms).
       let m = tenant_usage (set (map pd_id ps)) vms; rows = map (\<lambda>p. (p, use_of m (pd_id p))) ps in
       if all_text (\<lambda>(p, u). pd_name p) rows
       then Inr (sort_key (\<lambda>(p, u). (- tu_vms u, lowered (pd_name p))) rows, acc) else Inl Crashed))"

subsection \<open>Quotas of the account\<close>

record admin_quotas =
  aq_account :: "quota list"
  aq_projects :: "(string \<times> json \<times> quota list) list"
  aq_limitsSet :: nat
  aq_nearLimit :: nat
  aq_unavailable :: "json list"

definition near_limit :: "quota \<Rightarrow> bool" where
  "near_limit q = (case q_usedPercent q of None \<Rightarrow> False | Some p \<Rightarrow> 80 \<le> p)"

definition limited :: "quota list \<Rightarrow> quota list" where
  "limited qs = filter (\<lambda>q. \<not> q_unlimited q) qs"

text \<open>A project whose document is refused is named; anything else it can fail with is not caught.\<close>

fun project_quota_rows :: "reads \<Rightarrow> (string \<times> json) list \<Rightarrow> refusal + (string \<times> json \<times> quota list) list \<times> json list" where
  "project_quota_rows get [] = Inr ([], [])"
| "project_quota_rows get ((p, name) # ps) =
     (case list_project_quotas get p of
        Inl Crash \<Rightarrow> Inl Crashed
      | Inl (Zadara _) \<Rightarrow> sum_bind (project_quota_rows get ps) (\<lambda>(rows, un). Inr (rows, name # un))
      | Inr qs \<Rightarrow> sum_bind (project_quota_rows get ps) (\<lambda>(rows, un).
          Inr ((p, name, filter (\<lambda>q. truthy (q_allocated q) \<or> \<not> q_unlimited q) qs) # rows, un)))"

definition admin_quota :: "user \<Rightarrow> (failure + reads) \<Rightarrow> reads \<Rightarrow> refusal + admin_quotas" where
  "admin_quota who svc dir =
     sum_bind (own_account who dir) (\<lambda>(acc, d).
     sum_bind (uncaught svc) (\<lambda>get.
     sum_bind (gateway ''Failed to load account quotas'' (list_domain_quotas get d)) (\<lambda>account_quotas.
     sum_bind (gateway ''Failed to load account quotas'' (list_domain_projects dir d)) (\<lambda>projects.
     sum_bind (if all_text snd projects then Inr (sort_key (\<lambda>p. lowered (snd p)) projects) else Inl Crashed) (\<lambda>listed.
     sum_bind (project_quota_rows get listed) (\<lambda>(rows, un).
       Inr \<lparr>aq_account = account_quotas, aq_projects = rows, aq_limitsSet = length (limited account_quotas),
         aq_nearLimit = length (filter near_limit (limited account_quotas)), aq_unavailable = un\<rparr>))))))"


subsection \<open>Changing users\<close>

text \<open>What a change needs besides its form: the caller, their request, the database taking audit rows.\<close>

record change_context =
  cx_user :: user
  cx_request :: web_request
  cx_saves :: "audit_log \<Rightarrow> bool"
  cx_token :: "string option"
  cx_dir :: reads
  cx_call :: cloud_call

definition admin_token :: "change_context \<Rightarrow> refusal + string" where
  "admin_token x = (if given (cx_token x) then Inr (the (cx_token x)) else Inl SESSION_EXPIRED)"

definition user_of_account :: "change_context \<Rightarrow> string \<Rightarrow> refusal + domain_user" where
  "user_of_account x user_id =
     sum_bind (own_account (cx_user x) (cx_dir x)) (\<lambda>(acc, d).
     sum_bind (gateway ''Failed to reach the cloud'' (list_domain_users (cx_dir x) d)) (\<lambda>found.
       case List.find (\<lambda>u. du_id u = user_id) found of
         None \<Rightarrow> Inl (Refused (AppError ''No such user in your account.'' ''not_found'' 404))
       | Some u \<Rightarrow> Inr u))"

definition user_entry :: "change_context \<Rightarrow> string \<Rightarrow> string \<Rightarrow> string \<Rightarrow> audit_log" where
  "user_entry x act i nm = audit_entry (cx_request x) act\<lparr>log_resource_type := ''user'', log_resource_id := i, log_resource_name := nm\<rparr>"

definition audit_failed :: "string \<Rightarrow> audit_log \<Rightarrow> audit_log" where
  "audit_failed c row = row\<lparr>log_outcome := ''FAILURE'', log_error_code := c\<rparr>"

definition WRITE_STATUS :: "(string \<times> nat) list" where
  "WRITE_STATUS = [(''forbidden'', 403), (''not_found'', 404), (''conflict'', 409), (''invalid_request'', 400)]"

definition write_status :: "string \<Rightarrow> nat" where
  "write_status c = (case map_of WRITE_STATUS c of None \<Rightarrow> 502 | Some s \<Rightarrow> s)"

text \<open>A refused write is recorded and passed on; a crash is neither.\<close>

definition write_failed :: "change_context \<Rightarrow> failure \<Rightarrow> string \<Rightarrow> string \<Rightarrow> string \<Rightarrow> audit_log list
    \<Rightarrow> audit_log list \<times> (refusal + 'a)" where
  "write_failed x e act i nm trail =
     (case e of
        Crash \<Rightarrow> (trail, Inl Crashed)
      | Zadara z \<Rightarrow> (audit_record (cx_saves x) (audit_failed (zcode z) (user_entry x act i nm)) trail,
          Inl (Refused (AppError (zmessage z) (zcode z) (write_status (zcode z))))))"

record user_form =
  uf_name :: string
  uf_email :: string
  uf_password :: json
  uf_project :: string
  uf_must_change :: bool

definition user_form_of :: "json \<Rightarrow> refusal + user_form" where
  "user_form_of data =
     sum_bind (text_field data ''name'') (\<lambda>nm. sum_bind (text_field data ''email'') (\<lambda>mail.
     sum_bind (body_field data ''password'') (\<lambda>pw. sum_bind (text_field data ''projectId'') (\<lambda>pr.
     sum_bind (body_field data ''mustChangePassword'') (\<lambda>mc.
       Inr \<lparr>uf_name = nm, uf_email = mail, uf_password = jor pw (JStr []), uf_project = pr,
         uf_must_change = (mc = JNull \<or> truthy mc)\<rparr>)))))"

text \<open>The directory read that checks the project is not guarded against a \<open>ZadaraError\<close>.\<close>

definition create_allowed :: "change_context \<Rightarrow> string \<Rightarrow> user_form \<Rightarrow> refusal + unit" where
  "create_allowed x d f =
     (if uf_name f = [] \<or> \<not> truthy (uf_password f) then Inl (bad_request ''A username and a password are required.'')
      else if uf_project f = [] then Inr ()
      else sum_bind (uncaught (list_domain_projects (cx_dir x) d)) (\<lambda>projects.
        if uf_project f \<in> fst ` set projects then Inr () else Inl (bad_request ''No such project in your account.'')))"

definition created_id :: "object option \<Rightarrow> string" where
  "created_id v = (case v of None \<Rightarrow> [] | Some b \<Rightarrow> str_field b ''id'' [])"

text \<open>Membership of the project is a second write; its failure is recorded and does not undo the first.\<close>

definition grant_membership :: "change_context \<Rightarrow> string \<Rightarrow> user_form \<Rightarrow> string \<Rightarrow> audit_log list
    \<Rightarrow> audit_log list \<times> (refusal + bool)" where
  "grant_membership x token f i trail =
     (if uf_project f = [] \<or> i = [] then (trail, Inr False)
      else (case grant_project_role (cx_call x) token (uf_project f) i DEFAULT_ROLE of
          Inr _ \<Rightarrow> (trail, Inr True)
        | Inl Crash \<Rightarrow> (trail, Inl Crashed)
        | Inl (Zadara z) \<Rightarrow>
            (audit_record (cx_saves x) (audit_failed (zcode z) (user_entry x ''user.grant_role'' i (uf_name f)
               \<lparr>log_detail := [(''projectId'', JStr (uf_project f))]\<rparr>)) trail, Inr False)))"

definition admin_user_create :: "change_context \<Rightarrow> json \<Rightarrow> audit_log list \<Rightarrow> audit_log list \<times> (refusal + object option \<times> bool)" where
  "admin_user_create x data trail =
     (case sum_bind (own_account (cx_user x) (cx_dir x)) (\<lambda>(acc, d). sum_bind (admin_token x) (\<lambda>token.
             sum_bind (user_form_of data) (\<lambda>f. sum_bind (create_allowed x d f) (\<lambda>_. Inr (d, token, f))))) of
        Inl e \<Rightarrow> (trail, Inl e)
      | Inr (d, token, f) \<Rightarrow>
          (case create_user (cx_call x) token d (uf_name f) (uf_email f) (uf_password f) (uf_must_change f) (uf_project f) of
             Inl e \<Rightarrow> write_failed x e ''user.create'' [] (uf_name f) trail
           | Inr created \<Rightarrow>
               (case grant_membership x token f (created_id created) trail of
                  (trail, Inl e) \<Rightarrow> (trail, Inl e)
                | (trail, Inr granted) \<Rightarrow>
                    (audit_record (cx_saves x) (user_entry x ''user.create'' (created_id created) (uf_name f)
                       \<lparr>log_detail := [(''projectId'', JStr (uf_project f)), (''roleGranted'', JBool granted),
                          (''mustChangePassword'', JBool (uf_must_change f))]\<rparr>) trail, Inr (created, granted)))))"

text \<open>The fields a change may name, in the order the code builds them.\<close>

definition user_changes :: "object \<Rightarrow> object" where
  "user_changes o' =
     (if jget o' ''name'' = JNull then [] else [(''name'', JStr (strip (py_str_of (jget o' ''name''))))]) @
     (if jget o' ''email'' = JNull then [] else [(''email'', JStr (strip (py_str_of (jget o' ''email''))))]) @
     (if jget o' ''enabled'' = JNull then [] else [(''enabled'', JBool (truthy (jget o' ''enabled'')))]) @
     (if truthy (jget o' ''password'') then [(''password'', jget o' ''password'')] else []) @
     (if jget o' ''passwordNeverExpires'' = JNull then []
      else [(''password_never_expires'', JBool (truthy (jget o' ''passwordNeverExpires'')))])"

definition changed_fields :: "object \<Rightarrow> object" where
  "changed_fields changes =
     [(''fields'', JList (map JStr (sort (filter (\<lambda>k. k \<noteq> ''password'') (map fst changes))))),
      (''passwordSet'', JBool (''password'' \<in> fst ` set changes))]"

definition patch_checked :: "change_context \<Rightarrow> string \<Rightarrow> json \<Rightarrow> refusal + domain_user \<times> string \<times> object" where
  "patch_checked x user_id data =
     sum_bind (user_of_account x user_id) (\<lambda>target. sum_bind (admin_token x) (\<lambda>token.
       case data of
         JObj o' \<Rightarrow>
           let changes = user_changes o' in
           if changes = [] then Inl (bad_request ''Nothing to change.'')
           else if jget changes ''enabled'' = JBool False \<and> user_id = zadara_user_id (cx_user x) then
             Inl (bad_request ''You cannot disable your own account.'')
           else Inr (target, token, changes)
       | _ \<Rightarrow> Inl Crashed))"

definition admin_user_patch :: "change_context \<Rightarrow> string \<Rightarrow> json \<Rightarrow> audit_log list \<Rightarrow> audit_log list \<times> (refusal + object option)" where
  "admin_user_patch x user_id data trail =
     (case patch_checked x user_id data of
        Inl e \<Rightarrow> (trail, Inl e)
      | Inr (target, token, changes) \<Rightarrow>
          (case update_user (cx_call x) token user_id changes of
             Inl e \<Rightarrow> write_failed x e ''user.update'' user_id (py_str_of (du_name target)) trail
           | Inr updated \<Rightarrow>
               (audit_record (cx_saves x) (user_entry x ''user.update'' user_id (py_str_of (du_name target))
                  \<lparr>log_detail := changed_fields changes\<rparr>) trail, Inr updated)))"

definition delete_checked :: "change_context \<Rightarrow> string \<Rightarrow> refusal + domain_user \<times> string" where
  "delete_checked x user_id =
     sum_bind (user_of_account x user_id) (\<lambda>target. sum_bind (admin_token x) (\<lambda>token.
       if user_id = zadara_user_id (cx_user x) then Inl (bad_request ''You cannot delete your own account.'')
       else Inr (target, token)))"

text \<open>\<open>AuditLog.user\<close> is \<open>SET_NULL\<close>: rows outlive the users they name.\<close>

definition forget_users :: "user list \<Rightarrow> audit_log list \<Rightarrow> audit_log list" where
  "forget_users gone = map (\<lambda>row. case log_user row of
     None \<Rightarrow> row | Some i \<Rightarrow> if i \<in> u_pk ` set gone then row\<lparr>log_user := None\<rparr> else row)"

definition admin_user_delete :: "change_context \<Rightarrow> string \<Rightarrow> user list \<times> audit_log list
    \<Rightarrow> (user list \<times> audit_log list) \<times> (refusal + string)" where
  "admin_user_delete x user_id st =
     (case delete_checked x user_id of
        Inl e \<Rightarrow> (st, Inl e)
      | Inr (target, token) \<Rightarrow>
          (case delete_user (cx_call x) token user_id of
             Inl e \<Rightarrow>
               (case write_failed x e ''user.delete'' user_id (py_str_of (du_name target)) (snd st) of
                  (trail, r) \<Rightarrow> ((fst st, trail), r))
           | Inr _ \<Rightarrow>
               (let gone = filter (\<lambda>u. zadara_user_id u = user_id) (fst st);
                    trail = audit_record (cx_saves x) (user_entry x ''user.delete'' user_id (py_str_of (du_name target))) (snd st)
                in ((filter (\<lambda>u. zadara_user_id u \<noteq> user_id) (fst st), forget_users gone trail),
                    Inr (''User '' @ py_str_of (du_name target) @ '' was deleted.'')))))"

end
