(* ===== verification/Account_Safety.thy ===== *)
theory Account_Safety
  imports Account_Admin
begin

text \<open>
  What the account administrator's screens guarantee: the machines, projects and users they show and
  change are those of the caller's own account, and every change the cloud was asked for is in the
  audit trail.
\<close>

subsection \<open>Reading\<close>

text \<open>C20. An administrator is shown exactly the machines of their own account's projects, of the one project they
  ask for if they ask for one, and a project of another account yields nothing.\<close>

theorem admin_sees_own_machines:
  assumes "admin_resources who svc dir requested = Inr res"
  shows "\<exists>d projects get vms. resolve_domain_id dir (strip (u_account who)) = Inr (Some d) \<and>
    list_domain_projects dir d = Inr projects \<and> svc = Inr get \<and> list_vms get True = Inr vms \<and>
    map fst (am_vms res) = filter (\<lambda>v. \<exists>p. vm_projectId v = Some p \<and> p \<in> fst ` set projects \<and> (requested = [] \<or> p = requested)) vms"
proof -
  have "in_allowed (allowed_projects requested projects) v \<longleftrightarrow>
      (\<exists>p. vm_projectId v = Some p \<and> p \<in> fst ` set projects \<and> (requested = [] \<or> p = requested))" for projects v
    by (auto simp: in_allowed_def allowed_projects_def split: option.split)
  then have "filter (in_allowed (allowed_projects requested projects)) vms =
      filter (\<lambda>v. \<exists>p. vm_projectId v = Some p \<and> p \<in> fst ` set projects \<and> (requested = [] \<or> p = requested)) vms" for projects vms
    by (intro filter_cong) auto
  then show ?thesis
    using assms
    by (auto simp: admin_resources_def gateway_def sum_bind_def Let_def given_def comp_def
        split: sum.splits failure.splits if_splits)
qed

lemma map_of_tenant_usage:
  "map_of (fold (\<lambda>v m. case vm_projectId v of
       None \<Rightarrow> m | Some p \<Rightarrow> if p \<in> owned then dict_alter idle (add_machine v) p m else m) vms m) p =
   (if p \<in> owned \<and> of_project vm_projectId p vms \<noteq> [] then
      Some (fold add_machine (of_project vm_projectId p vms) (case map_of m p of None \<Rightarrow> idle | Some u \<Rightarrow> u))
    else map_of m p)"
  by (induction vms arbitrary: m) (auto simp: of_project_def map_of_dict_alter split: option.splits)

lemma fold_add_machine:
  "fold add_machine vms u =
     \<lparr>tu_vms = tu_vms u + int (length vms),
      tu_running = tu_running u + int (length (filter (\<lambda>v. lower (vm_status v) \<in> {''active'', ''running''}) vms)),
      tu_vcpus = tu_vcpus u + (\<Sum>v\<leftarrow>vms. vm_vcpus v), tu_ramMB = tu_ramMB u + (\<Sum>v\<leftarrow>vms. vm_ramMB v)\<rparr>"
  by (induction vms arbitrary: u) (auto simp: add_machine_def)

text \<open>The project list counts each project's own machines exactly, running ones, cores and memory, and the
  machines of other accounts, which the service token reads as well, change none of the numbers.\<close>

theorem tenants_count_own_machines:
  assumes "p \<in> owned"
  shows "use_of (tenant_usage owned vms) p =
      \<lparr>tu_vms = int (length (of_project vm_projectId p vms)),
       tu_running = int (length (filter (\<lambda>v. lower (vm_status v) \<in> {''active'', ''running''}) (of_project vm_projectId p vms))),
       tu_vcpus = (\<Sum>v\<leftarrow>of_project vm_projectId p vms. vm_vcpus v),
       tu_ramMB = (\<Sum>v\<leftarrow>of_project vm_projectId p vms. vm_ramMB v)\<rparr> \<and>
    tenant_usage owned (filter (in_allowed owned) vms) = tenant_usage owned vms"
proof
  show "use_of (tenant_usage owned vms) p =
      \<lparr>tu_vms = int (length (of_project vm_projectId p vms)),
       tu_running = int (length (filter (\<lambda>v. lower (vm_status v) \<in> {''active'', ''running''}) (of_project vm_projectId p vms))),
       tu_vcpus = (\<Sum>v\<leftarrow>of_project vm_projectId p vms. vm_vcpus v),
       tu_ramMB = (\<Sum>v\<leftarrow>of_project vm_projectId p vms. vm_ramMB v)\<rparr>"
    using assms by (simp add: use_of_def tenant_usage_def map_of_tenant_usage fold_add_machine idle_def)
  have "fold (\<lambda>v m. case vm_projectId v of
         None \<Rightarrow> m | Some p \<Rightarrow> if p \<in> owned then dict_alter idle (add_machine v) p m else m) (filter (in_allowed owned) vms) m =
      fold (\<lambda>v m. case vm_projectId v of
         None \<Rightarrow> m | Some p \<Rightarrow> if p \<in> owned then dict_alter idle (add_machine v) p m else m) vms m" for m
    by (induction vms arbitrary: m) (auto simp: in_allowed_def split: option.splits)
  then show "tenant_usage owned (filter (in_allowed owned) vms) = tenant_usage owned vms" by (simp add: tenant_usage_def)
qed

subsection \<open>Changing\<close>

text \<open>One more row, about that action on that user by that caller, with the outcome the caller is told; of the
  rows before it, those of users who are gone no longer name them.\<close>

definition audited :: "change_context \<Rightarrow> string \<Rightarrow> string \<Rightarrow> user list \<Rightarrow> audit_log list \<Rightarrow> audit_log list \<Rightarrow> refusal + 'a \<Rightarrow> bool" where
  "audited x act i gone trail trail' r = (\<exists>row.
     trail' = map (\<lambda>old. old\<lparr>log_user := if log_user old \<in> Some ` u_pk ` set gone then None else log_user old\<rparr>) trail @ [row] \<and>
     audit_log.log_action row = act \<and> log_resource_id row = i \<and> log_user row = Some (u_pk (cx_user x)) \<and>
     (log_outcome row = ''SUCCESS'') = (\<not> isl r))"

lemma forget_users_map:
  "forget_users gone trail = map (\<lambda>old. old\<lparr>log_user := if log_user old \<in> Some ` u_pk ` set gone then None else log_user old\<rparr>) trail"
  by (auto simp: forget_users_def split: option.split)

lemma forget_nobody [simp]:
  "map (\<lambda>old. old\<lparr>log_user := if log_user old \<in> Some ` u_pk ` set [] then None else log_user old\<rparr>) trail = trail"
  by (simp add: map_idI)

lemma forget_users_append: "forget_users gone (trail @ [row]) = forget_users gone trail @ forget_users gone [row]"
  by (simp add: forget_users_def)

lemma forget_users_spares: "log_user row = Some i \<Longrightarrow> i \<notin> u_pk ` set gone \<Longrightarrow> forget_users gone [row] = [row]"
  by (simp add: forget_users_def)

lemma context_fields:
  "cx_user (x\<lparr>cx_call := c\<rparr>) = cx_user x" "cx_dir (x\<lparr>cx_call := c\<rparr>) = cx_dir x" "cx_token (x\<lparr>cx_call := c\<rparr>) = cx_token x"
  by simp_all

lemma context_call [simp]:
  "patch_checked (x\<lparr>cx_call := c\<rparr>) i data = patch_checked x i data"
  "delete_checked (x\<lparr>cx_call := c\<rparr>) i = delete_checked x i"
  unfolding patch_checked_def delete_checked_def user_of_account_def admin_token_def context_fields by (rule refl)+

lemma user_entry_names:
  assumes "req_user (cx_request x) = Cabinet (cx_user x)"
  shows "log_user (user_entry x act i nm) = Some (u_pk (cx_user x))" "audit_log.log_action (user_entry x act i nm) = act"
    "log_resource_id (user_entry x act i nm) = i" "log_outcome (user_entry x act i nm) = ''SUCCESS''"
  using assms by (simp_all add: user_entry_def audit_entry_def Let_def)

lemma write_failed_audited:
  assumes "cx_saves x = (\<lambda>_. True)" "req_user (cx_request x) = Cabinet (cx_user x)"
    "write_failed x e act i nm trail = (trail', r)"
  shows "isl r" "if e = Crash then trail' = trail \<and> r = Inl Crashed else audited x act i [] trail trail' r"
  using assms(1,3) user_entry_names [OF assms(2), of act i nm]
  by (auto simp: write_failed_def audited_def audit_record_def audit_failed_def split: failure.splits)

lemma patch_audited:
  assumes "cx_saves x = (\<lambda>_. True)" "req_user (cx_request x) = Cabinet (cx_user x)"
    "admin_user_patch x i data trail = (trail', r)"
  shows "(\<forall>c. admin_user_patch (x\<lparr>cx_call := c\<rparr>) i data trail = (trail, r)) \<or>
    (\<exists>target token form. user_of_account x i = Inr target \<and> cx_token x = Some token \<and> data = JObj form \<and>
       \<not> (i = zadara_user_id (cx_user x) \<and> jget (user_changes form) ''enabled'' = JBool False) \<and>
       (if update_user (cx_call x) token i (user_changes form) = Inl Crash then trail' = trail \<and> r = Inl Crashed
        else audited x ''user.update'' i [] trail trail' r))"
proof (cases "patch_checked x i data")
  case (Inl e)
  then show ?thesis using assms(3) by (simp add: admin_user_patch_def)
next
  case (Inr v)
  obtain target token changes where v: "v = (target, token, changes)" by (cases v)
  obtain form where t: "user_of_account x i = Inr target" "cx_token x = Some token" "data = JObj form" "changes = user_changes form"
    "\<not> (i = zadara_user_id (cx_user x) \<and> jget changes ''enabled'' = JBool False)"
    using Inr v by (auto simp: patch_checked_def admin_token_def given_def sum_bind_def Let_def
        split: sum.splits json.splits if_splits option.splits)
  have "if update_user (cx_call x) token i changes = Inl Crash then trail' = trail \<and> r = Inl Crashed
      else audited x ''user.update'' i [] trail trail' r"
  proof (cases "update_user (cx_call x) token i changes")
    case (Inl e)
    then have "write_failed x e ''user.update'' i (py_str_of (du_name target)) trail = (trail', r)"
      using assms(3) by (simp add: admin_user_patch_def Inr v)
    from write_failed_audited(2) [OF assms(1,2) this] Inl show ?thesis by simp
  next
    case ok: (Inr updated)
    show ?thesis
      using assms(1,3) user_entry_names [OF assms(2), of "''user.update''" i "py_str_of (du_name target)"]
      by (auto simp: admin_user_patch_def Inr v ok audited_def audit_record_def)
  qed
  with t show ?thesis by blast
qed

lemma delete_audited:
  assumes "cx_saves x = (\<lambda>_. True)" "req_user (cx_request x) = Cabinet (cx_user x)"
    "cx_user x \<in> set us" "distinct (map u_pk us)" "admin_user_delete x i (us, trail) = ((us', trail'), r)"
  shows "(\<forall>c. admin_user_delete (x\<lparr>cx_call := c\<rparr>) i (us, trail) = ((us, trail), r)) \<or>
    (\<exists>target token. user_of_account x i = Inr target \<and> cx_token x = Some token \<and> i \<noteq> zadara_user_id (cx_user x) \<and>
       (if delete_user (cx_call x) token i = Inl Crash then us' = us \<and> trail' = trail \<and> r = Inl Crashed
        else if isl r then us' = us \<and> audited x ''user.delete'' i [] trail trail' r
        else us' = filter (\<lambda>u. zadara_user_id u \<noteq> i) us \<and>
          audited x ''user.delete'' i (filter (\<lambda>u. zadara_user_id u = i) us) trail trail' r))"
proof (cases "delete_checked x i")
  case (Inl e)
  then show ?thesis using assms(5) by (simp add: admin_user_delete_def)
next
  case (Inr v)
  obtain target token where v: "v = (target, token)" by (cases v)
  have t: "user_of_account x i = Inr target" "cx_token x = Some token" "i \<noteq> zadara_user_id (cx_user x)"
    using Inr v by (auto simp: delete_checked_def admin_token_def given_def sum_bind_def split: sum.splits if_splits option.splits)
  have "if delete_user (cx_call x) token i = Inl Crash then us' = us \<and> trail' = trail \<and> r = Inl Crashed
      else if isl r then us' = us \<and> audited x ''user.delete'' i [] trail trail' r
      else us' = filter (\<lambda>u. zadara_user_id u \<noteq> i) us \<and>
        audited x ''user.delete'' i (filter (\<lambda>u. zadara_user_id u = i) us) trail trail' r"
  proof (cases "delete_user (cx_call x) token i")
    case (Inl e)
    obtain trail1 r1 where w: "write_failed x e ''user.delete'' i (py_str_of (du_name target)) trail = (trail1, r1 :: refusal + string)"
      by fastforce
    then have "us' = us" "trail1 = trail'" "r1 = r" using assms(5) by (simp_all add: admin_user_delete_def Inr v Inl)
    with write_failed_audited [OF assms(1,2) w] Inl show ?thesis by (cases "e = Crash") simp_all
  next
    case ok: (Inr updated)
    let ?row = "user_entry x ''user.delete'' i (py_str_of (du_name target))"
    let ?gone = "filter (\<lambda>u. zadara_user_id u = i) us"
    have "u = cx_user x" if "u \<in> set us" "u_pk u = u_pk (cx_user x)" for u
      using that assms(3,4) by (auto simp: distinct_map dest: inj_onD)
    then have "u_pk (cx_user x) \<notin> u_pk ` set ?gone" using t(3) by auto
    note spared = forget_users_spares [OF user_entry_names(1) [OF assms(2)] this, of "''user.delete''" i "py_str_of (du_name target)"]
    have "us' = filter (\<lambda>u. zadara_user_id u \<noteq> i) us" "trail' = forget_users ?gone trail @ [?row]" "\<not> isl r"
      using assms(1,5) by (auto simp: admin_user_delete_def Inr v ok audit_record_def forget_users_append spared)
    then show ?thesis using user_entry_names [OF assms(2), of "''user.delete''" i "py_str_of (du_name target)"]
      by (simp add: ok audited_def forget_users_map)
  qed
  with t show ?thesis by blast
qed

text \<open>C19. A change of a user either never depended on the cloud and left no trace, or was asked of the cloud for a
  user of the caller's own account. It then left exactly one audit row, which names the caller, the user and
  the outcome the caller is told; only where the cloud rejects it with an answer the code cannot read is
  no row written and nothing changed here. A deletion takes the user's own row, keeps every earlier audit row and takes from
  those the reference to the deleted user alone. Nobody can delete or disable themselves.\<close>

theorem user_changes_audited:
  assumes "cx_saves x = (\<lambda>_. True)" "req_user (cx_request x) = Cabinet (cx_user x)" "cx_user x \<in> set us" "distinct (map u_pk us)"
  shows "(case admin_user_patch x i data trail of (trail', r) \<Rightarrow>
      (\<forall>c. admin_user_patch (x\<lparr>cx_call := c\<rparr>) i data trail = (trail, r)) \<or>
      (\<exists>target token form. user_of_account x i = Inr target \<and> cx_token x = Some token \<and> data = JObj form \<and>
         \<not> (i = zadara_user_id (cx_user x) \<and> jget (user_changes form) ''enabled'' = JBool False) \<and>
         (if update_user (cx_call x) token i (user_changes form) = Inl Crash then trail' = trail \<and> r = Inl Crashed
          else audited x ''user.update'' i [] trail trail' r))) \<and>
    (case admin_user_delete x i (us, trail) of ((us', trail'), r) \<Rightarrow>
      (\<forall>c. admin_user_delete (x\<lparr>cx_call := c\<rparr>) i (us, trail) = ((us, trail), r)) \<or>
      (\<exists>target token. user_of_account x i = Inr target \<and> cx_token x = Some token \<and> i \<noteq> zadara_user_id (cx_user x) \<and>
         (if delete_user (cx_call x) token i = Inl Crash then us' = us \<and> trail' = trail \<and> r = Inl Crashed
          else if isl r then us' = us \<and> audited x ''user.delete'' i [] trail trail' r
          else us' = filter (\<lambda>u. zadara_user_id u \<noteq> i) us \<and>
            audited x ''user.delete'' i (filter (\<lambda>u. zadara_user_id u = i) us) trail trail' r)))"
proof -
  obtain trail1 r1 where p: "admin_user_patch x i data trail = (trail1, r1)" by fastforce
  obtain us2 trail2 r2 where d: "admin_user_delete x i (us, trail) = ((us2, trail2), r2)" by (metis prod.exhaust)
  show ?thesis
    unfolding p d prod.case by (intro conjI patch_audited [OF assms(1,2) p] delete_audited [OF assms d])
qed

subsection \<open>The hypotheses hold\<close>

definition demo_admin :: user where
  "demo_admin = \<lparr>u_pk = 1, zadara_user_id = ''u7'', username = ''dana'', u_email = None, u_account = ''Acme'', u_account_id = ''d1'',
     app_role = ''ADMIN'', u_status = ''active''\<rparr>"

definition demo_dir :: reads where
  "demo_dir path =
     (if path = DOMAINS_PATH then Inr (JList [JObj [(''id'', JStr ''d0''), (''name'', JStr ''other'')], JObj [(''id'', JStr ''d1''), (''name'', JStr ''acme'')]])
      else if path = projects_path ''d1'' then Inr (JList [JObj [(''id'', JStr ''p1''), (''name'', JStr ''web'')]])
      else if path = users_path ''d1'' then
        Inr (JList [JObj [(''id'', JStr ''u7''), (''name'', JStr ''dana'')], JObj [(''id'', JStr ''u9''), (''name'', JStr ''lee'')]])
      else Inl Crash)"

definition demo_machine :: "string \<Rightarrow> string \<Rightarrow> json" where
  "demo_machine i p = JObj [(''id'', JStr i), (''status'', JStr ''ACTIVE''), (''vcpus'', JInt 2), (''ramMB'', JInt 4096), (''project_id'', JStr p)]"

definition demo_get :: reads where
  "demo_get path = (if path = VMS_PATH then Inr (JList [demo_machine ''v1'' ''p1'', demo_machine ''v2'' ''p0'']) else Inl (Zadara session_expired))"

lemma demo_listing:
  "map (\<lambda>(v, _). vm_id v) (am_vms (projr (admin_resources demo_admin (Inr demo_get) demo_dir []))) = [''v1'']"
  "\<not> isl (admin_resources demo_admin (Inr demo_get) demo_dir [])"
  by code_simp+

lemma admin_sees_own_machines_witness:
  "\<exists>projects vms. list_domain_projects demo_dir ''d1'' = Inr projects \<and> list_vms demo_get True = Inr vms \<and>
     map fst (am_vms (projr (admin_resources demo_admin (Inr demo_get) demo_dir []))) =
       filter (\<lambda>v. \<exists>p. vm_projectId v = Some p \<and> p \<in> fst ` set projects) vms"
proof -
  have d: "resolve_domain_id demo_dir (strip (u_account demo_admin)) = Inr (Some ''d1'')" by code_simp
  have "admin_resources demo_admin (Inr demo_get) demo_dir [] = Inr (projr (admin_resources demo_admin (Inr demo_get) demo_dir []))"
    using demo_listing(2) by (metis sum.collapse(2))
  from admin_sees_own_machines [OF this] d show ?thesis by auto
qed

definition demo_vms :: "joined_vm list" where
  "demo_vms = [\<lparr>vm_id = ''v1'', vm_name = [], vm_status = ''Running'', vm_vcpus = 2, vm_ramMB = 4096, vm_diskGB = 0, vm_instanceType = [],
     vm_imageId = None, vm_createdAt = JNull, vm_keyPair = JNull, vm_vpcId = None, vm_availabilityZone = JNull, vm_privateIps = [],
     vm_tags = [], vm_projectId = Some ''p1'', vm_publicIps = [], vm_diskGiB = None, vm_diskVolumes = 0, vm_diskMedia = []\<rparr>]"

lemma tenants_count_own_machines_witness:
  "use_of (tenant_usage {''p1''} demo_vms) ''p1'' = \<lparr>tu_vms = 1, tu_running = 1, tu_vcpus = 2, tu_ramMB = 4096\<rparr>"
proof -
  have "lower ''Running'' = ''running''" by code_simp
  then show ?thesis
    using tenants_count_own_machines [of "''p1''" "{''p1''}" demo_vms] by (simp add: demo_vms_def of_project_def)
qed

definition demo_context :: change_context where
  "demo_context = \<lparr>cx_user = demo_admin, cx_request = \<lparr>forwarded_for = [], remote_addr = None, http_user_agent = [],
       req_user = Cabinet demo_admin, session_key = Some ''k1'', req_session = empty_session\<rparr>,
     cx_saves = (\<lambda>_. True), cx_token = Some ''gAAA'', cx_dir = demo_dir,
     cx_call = (\<lambda>verb path token body. Inr \<lparr>resp_status = if verb = ''DELETE'' then 204 else 409, resp_headers = [], resp_json = None\<rparr>)\<rparr>"

text \<open>Lee is deleted; Lee's own row in the trail stays and no longer names a user.\<close>

definition demo_lee :: user where
  "demo_lee = demo_admin\<lparr>u_pk := 2, zadara_user_id := ''u9'', username := ''lee'', app_role := ''USER''\<rparr>"

definition demo_row :: audit_log where
  "demo_row = audit_entry ((cx_request demo_context)\<lparr>req_user := Cabinet demo_lee\<rparr>) ''vm.start''"

definition demo_deletion :: "(user list \<times> audit_log list) \<times> (refusal + string)" where
  "demo_deletion = admin_user_delete demo_context ''u9'' ([demo_admin, demo_lee], [demo_row])"

lemma demo_deleted:
  "\<not> isl (snd demo_deletion)" "length (snd (fst demo_deletion)) = 2" "delete_user (cx_call demo_context) ''gAAA'' ''u9'' = Inr ()"
  "filter (\<lambda>u. zadara_user_id u = ''u9'') [demo_admin, demo_lee] = [demo_lee]" "cx_token demo_context = Some ''gAAA''"
  by code_simp+

lemma user_changes_audited_witness:
  "audited demo_context ''user.delete'' ''u9'' [demo_lee] [demo_row] (snd (fst demo_deletion)) (snd demo_deletion)"
proof -
  obtain us' trail' r where d: "demo_deletion = ((us', trail'), r)" by (metis prod.exhaust)
  have "admin_user_delete demo_context ''u9'' ([demo_admin, demo_lee], [demo_row]) = ((us', trail'), r)"
    using d by (simp only: demo_deletion_def)
  then have "(\<forall>c. admin_user_delete (demo_context\<lparr>cx_call := c\<rparr>) ''u9'' ([demo_admin, demo_lee], [demo_row]) = (([demo_admin, demo_lee], [demo_row]), r)) \<or>
      (\<exists>target token. user_of_account demo_context ''u9'' = Inr target \<and> cx_token demo_context = Some token \<and>
         ''u9'' \<noteq> zadara_user_id (cx_user demo_context) \<and>
         (if delete_user (cx_call demo_context) token ''u9'' = Inl Crash then us' = [demo_admin, demo_lee] \<and> trail' = [demo_row] \<and> r = Inl Crashed
          else if isl r then us' = [demo_admin, demo_lee] \<and> audited demo_context ''user.delete'' ''u9'' [] [demo_row] trail' r
          else us' = filter (\<lambda>u. zadara_user_id u \<noteq> ''u9'') [demo_admin, demo_lee] \<and>
            audited demo_context ''user.delete'' ''u9'' (filter (\<lambda>u. zadara_user_id u = ''u9'') [demo_admin, demo_lee]) [demo_row] trail' r))"
    using user_changes_audited [THEN conjunct2, of demo_context "[demo_admin, demo_lee]" "''u9''" "[demo_row]"]
    by (simp only: prod.case) (simp add: demo_context_def demo_lee_def demo_admin_def)
  then show ?thesis
  proof
    assume "\<forall>c. admin_user_delete (demo_context\<lparr>cx_call := c\<rparr>) ''u9'' ([demo_admin, demo_lee], [demo_row]) = (([demo_admin, demo_lee], [demo_row]), r)"
    from spec [OF this, of "cx_call demo_context"] have same: "demo_deletion = (([demo_admin, demo_lee], [demo_row]), r)"
      by (simp add: demo_deletion_def)
    have "length (snd (fst demo_deletion)) = 1" unfolding same by simp
    with demo_deleted(2) show ?thesis by linarith
  next
    assume "\<exists>target token. user_of_account demo_context ''u9'' = Inr target \<and> cx_token demo_context = Some token \<and>
         ''u9'' \<noteq> zadara_user_id (cx_user demo_context) \<and>
         (if delete_user (cx_call demo_context) token ''u9'' = Inl Crash then us' = [demo_admin, demo_lee] \<and> trail' = [demo_row] \<and> r = Inl Crashed
          else if isl r then us' = [demo_admin, demo_lee] \<and> audited demo_context ''user.delete'' ''u9'' [] [demo_row] trail' r
          else us' = filter (\<lambda>u. zadara_user_id u \<noteq> ''u9'') [demo_admin, demo_lee] \<and>
            audited demo_context ''user.delete'' ''u9'' (filter (\<lambda>u. zadara_user_id u = ''u9'') [demo_admin, demo_lee]) [demo_row] trail' r)"
    then show ?thesis using demo_deleted(1,3) by (simp only: demo_deleted(4,5) d) auto
  qed
qed

end
