(* ===== verification/Cluster_Picture.thy ===== *)
theory Cluster_Picture
  imports Collector Directory Machines
begin

text \<open>
  The operators' picture of the whole cluster (\<open>platform_admin/snapshot.py\<close>): every list the service
  token can read, attributed to accounts and projects, with what could not be read marked as unknown,
  and the two cached copies. The dictionaries a project is known by share one object, so projects live
  in a store of cells that accounts and the project index point into. How long a build took is left out.
\<close>

subsection \<open>Figures\<close>

text \<open>\<open>None\<close> is a number nobody could read.\<close>

record footprint =
  vmCount :: "int option"
  runningVms :: "int option"
  fp_vcpus :: "int option"
  fp_ramMB :: "int option"
  volumeCount :: "int option"
  storageGiB :: "int option"
  storageByMedia :: "media_row list option"
  volumeSnapshotCount :: "int option"
  volumeSnapshotGiB :: "int option"
  backupSnapshotCount :: "int option"
  backupSnapshotGiB :: "int option"
  vmSnapshotCount :: "int option"
  publicIps :: "int option"
  vpcCount :: "int option"
  subnetCount :: "int option"
  securityGroupCount :: "int option"

definition blank_usage :: footprint where
  "blank_usage = \<lparr>vmCount = Some 0, runningVms = Some 0, fp_vcpus = Some 0, fp_ramMB = Some 0, volumeCount = Some 0,
     storageGiB = Some 0, storageByMedia = Some [], volumeSnapshotCount = Some 0, volumeSnapshotGiB = Some 0,
     backupSnapshotCount = Some 0, backupSnapshotGiB = Some 0, vmSnapshotCount = Some 0, publicIps = Some 0,
     vpcCount = Some 0, subnetCount = Some 0, securityGroupCount = Some 0\<rparr>"

datatype listing = Vms | Volumes | VolumeSnapshots | VmSnapshots | PublicIps | Vpcs | Subnets | SecurityGroups

definition SOURCES :: "listing list" where
  "SOURCES = [Vms, Volumes, VolumeSnapshots, VmSnapshots, PublicIps, Vpcs, Subnets, SecurityGroups]"

text \<open>\<open>FIELDS_BY_SOURCE\<close>, as the marking of one source's fields.\<close>

fun mark :: "listing \<Rightarrow> 'a footprint_scheme \<Rightarrow> 'a footprint_scheme" where
  "mark Vms u = u\<lparr>vmCount := None, runningVms := None, fp_vcpus := None, fp_ramMB := None\<rparr>"
| "mark Volumes u = u\<lparr>volumeCount := None, storageGiB := None, storageByMedia := None\<rparr>"
| "mark VolumeSnapshots u = u\<lparr>volumeSnapshotCount := None, volumeSnapshotGiB := None, backupSnapshotCount := None,
     backupSnapshotGiB := None\<rparr>"
| "mark VmSnapshots u = u\<lparr>vmSnapshotCount := None\<rparr>"
| "mark PublicIps u = u\<lparr>publicIps := None\<rparr>"
| "mark Vpcs u = u\<lparr>vpcCount := None\<rparr>"
| "mark Subnets u = u\<lparr>subnetCount := None\<rparr>"
| "mark SecurityGroups u = u\<lparr>securityGroupCount := None\<rparr>"

definition mark_unavailable :: "listing list \<Rightarrow> 'a footprint_scheme \<Rightarrow> 'a footprint_scheme" where
  "mark_unavailable ls u = fold mark ls u"

subsection \<open>Rows\<close>

datatype row = VmRow joined_vm | VolumeRow volume | SnapshotRow volume_snapshot | AddressRow elastic_ip
  | PlainRow object

definition row_project :: "row \<Rightarrow> string" where
  "row_project r = (case r of
     VmRow v \<Rightarrow> (case vm_projectId v of None \<Rightarrow> [] | Some p \<Rightarrow> p)
   | VolumeRow v \<Rightarrow> (case vol_projectId v of None \<Rightarrow> [] | Some p \<Rightarrow> p)
   | SnapshotRow s \<Rightarrow> (case vs_projectId s of None \<Rightarrow> [] | Some p \<Rightarrow> p)
   | AddressRow e \<Rightarrow> (case eip_projectId e of None \<Rightarrow> [] | Some p \<Rightarrow> p)
   | PlainRow o' \<Rightarrow> (case jget o' ''projectId'' of JStr p \<Rightarrow> p | _ \<Rightarrow> []))"

definition bump :: "int \<Rightarrow> int option \<Rightarrow> int option" where
  "bump k = map_option (\<lambda>n. n + k)"

definition add_vm :: "joined_vm \<Rightarrow> footprint \<Rightarrow> footprint" where
  "add_vm v u = u\<lparr>vmCount := bump 1 (vmCount u), fp_vcpus := bump (vm_vcpus v) (fp_vcpus u),
     fp_ramMB := bump (vm_ramMB v) (fp_ramMB u), runningVms := bump (if is_running v then 1 else 0) (runningVms u)\<rparr>"

definition add_volume :: "volume \<Rightarrow> footprint \<Rightarrow> footprint" where
  "add_volume v u = u\<lparr>volumeCount := bump 1 (volumeCount u), storageGiB := bump (vol_sizeGiB v) (storageGiB u)\<rparr>"

definition add_volume_snapshot :: "volume_snapshot \<Rightarrow> footprint \<Rightarrow> footprint" where
  "add_volume_snapshot s u =
     (let u = u\<lparr>volumeSnapshotCount := bump 1 (volumeSnapshotCount u),
                volumeSnapshotGiB := bump (vs_sizeGiB s) (volumeSnapshotGiB u)\<rparr> in
      if snapshot_is_backup s
      then u\<lparr>backupSnapshotCount := bump 1 (backupSnapshotCount u), backupSnapshotGiB := bump (vs_sizeGiB s) (backupSnapshotGiB u)\<rparr>
      else u)"

text \<open>\<open>_FOLD\<close>: the listing says how its rows are counted.\<close>

definition add_row :: "listing \<Rightarrow> row \<Rightarrow> footprint \<Rightarrow> footprint" where
  "add_row l r u = (case r of
     VmRow v \<Rightarrow> add_vm v u
   | VolumeRow v \<Rightarrow> add_volume v u
   | SnapshotRow s \<Rightarrow> add_volume_snapshot s u
   | AddressRow e \<Rightarrow> u\<lparr>publicIps := bump 1 (publicIps u)\<rparr>
   | PlainRow o' \<Rightarrow> (case l of
         VmSnapshots \<Rightarrow> u\<lparr>vmSnapshotCount := bump 1 (vmSnapshotCount u)\<rparr>
       | Vpcs \<Rightarrow> u\<lparr>vpcCount := bump 1 (vpcCount u)\<rparr>
       | Subnets \<Rightarrow> u\<lparr>subnetCount := bump 1 (subnetCount u)\<rparr>
       | SecurityGroups \<Rightarrow> u\<lparr>securityGroupCount := bump 1 (securityGroupCount u)\<rparr>
       | _ \<Rightarrow> u))"

subsection \<open>Reading every list (\<open>_fetch\<close>)\<close>

definition read_listing :: "reads \<Rightarrow> listing \<Rightarrow> failure + row list" where
  "read_listing get l = (case l of
     Vms \<Rightarrow> map_sum id (map VmRow) (list_vms get False)
   | Volumes \<Rightarrow> map_sum id (map VolumeRow) (list_volumes get True)
   | VolumeSnapshots \<Rightarrow> map_sum id (map SnapshotRow) (list_volume_snapshots get)
   | VmSnapshots \<Rightarrow> map_sum id (map PlainRow) (list_vm_snapshots get)
   | PublicIps \<Rightarrow> map_sum id (map AddressRow) (list_elastic_ips get)
   | Vpcs \<Rightarrow> map_sum id (map PlainRow) (list_vpcs get)
   | Subnets \<Rightarrow> map_sum id (map PlainRow) (list_subnets get)
   | SecurityGroups \<Rightarrow> map_sum id (map PlainRow) (list_security_groups get))"

text \<open>What was read and the names of what was not; without the machines there is no picture.\<close>

definition fetch :: "reads \<Rightarrow> failure + (listing \<times> row list) list \<times> listing list" where
  "fetch get =
     (let results = map (\<lambda>l. (l, read_listing get l)) SOURCES;
          rows = List.map_filter (\<lambda>(l, r). case r of Inl _ \<Rightarrow> None | Inr xs \<Rightarrow> Some (l, xs)) results;
          unavailable = map fst (filter (\<lambda>(l, r). isl r) results)
      in case read_listing get Vms of Inl e \<Rightarrow> Inl e | Inr _ \<Rightarrow> Inr (rows, unavailable))"


subsection \<open>Accounts and projects\<close>

record project_cell =
  pc_detail :: project_detail
  pc_usage :: footprint

record account_cell =
  ac_id :: string
  ac_name :: json
  ac_projects :: "nat list"
  ac_usage :: footprint

text \<open>\<open>projects\<close> and the lists of the accounts hold addresses of \<open>cells\<close>.\<close>

record picture =
  accounts :: "(string \<times> account_cell) list"
  cells :: "project_cell list"
  projects :: "(string \<times> nat) list"
  account_of_project :: "(string \<times> string) list"
  unreadable :: "json list"
  unattributed :: "(listing \<times> int) list"
  volumes_of_account :: "(string \<times> volume list) list"
  volumes_of_project :: "(string \<times> volume list) list"

definition blank_account :: "string \<times> json \<Rightarrow> account_cell" where
  "blank_account d = \<lparr>ac_id = fst d, ac_name = snd d, ac_projects = [], ac_usage = blank_usage\<rparr>"

definition blank_picture :: "(string \<times> json) list \<Rightarrow> picture" where
  "blank_picture domains =
     \<lparr>accounts = fold (\<lambda>d. AList.update (fst d) (blank_account d)) domains [], cells = [], projects = [],
      account_of_project = [], unreadable = [], unattributed = [], volumes_of_account = [], volumes_of_project = []\<rparr>"

definition enter_projects :: "string \<Rightarrow> project_detail list \<Rightarrow> picture \<Rightarrow> picture" where
  "enter_projects d listed p =
     (let addresses = [length (cells p)..<length (cells p) + length listed] in
      p\<lparr>cells := cells p @ map (\<lambda>x. \<lparr>pc_detail = x, pc_usage = blank_usage\<rparr>) listed,
        projects := fold (\<lambda>(x, a). AList.update (pd_id x) a) (zip listed addresses) (projects p),
        account_of_project := fold (\<lambda>x. AList.update (pd_id x) d) listed (account_of_project p),
        accounts := AList.map_entry d (\<lambda>ac. ac\<lparr>ac_projects := addresses\<rparr>) (accounts p)\<rparr>)"

fun read_directory :: "reads \<Rightarrow> (string \<times> json) list \<Rightarrow> picture \<Rightarrow> failure + picture" where
  "read_directory dir [] p = Inr p"
| "read_directory dir ((d, name) # ds) p =
     (case list_domain_project_details dir d of
        Inl Crash \<Rightarrow> Inl Crash
      | Inl (Zadara _) \<Rightarrow> read_directory dir ds (p\<lparr>unreadable := unreadable p @ [name]\<rparr>)
      | Inr listed \<Rightarrow> read_directory dir ds (enter_projects d listed p))"

definition set_usage :: "(footprint \<Rightarrow> footprint) \<Rightarrow> project_cell \<Rightarrow> project_cell" where
  "set_usage f c = c\<lparr>pc_usage := f (pc_usage c)\<rparr>"

definition set_account :: "(footprint \<Rightarrow> footprint) \<Rightarrow> account_cell \<Rightarrow> account_cell" where
  "set_account f ac = ac\<lparr>ac_usage := f (ac_usage ac)\<rparr>"

text \<open>The object a project id is known by.\<close>

definition at_project :: "string \<Rightarrow> (project_cell \<Rightarrow> project_cell) \<Rightarrow> picture \<Rightarrow> project_cell list" where
  "at_project i f p = (case map_of (projects p) i of None \<Rightarrow> cells p | Some a \<Rightarrow> (cells p)[a := f (cells p ! a)])"

definition hold_volume :: "row \<Rightarrow> string \<Rightarrow> (string \<times> volume list) list \<Rightarrow> (string \<times> volume list) list" where
  "hold_volume r k held = (case r of VolumeRow v \<Rightarrow> dict_alter [] (\<lambda>vs. vs @ [v]) k held | _ \<Rightarrow> held)"

definition attribute_row :: "listing \<Rightarrow> row \<Rightarrow> picture \<Rightarrow> picture" where
  "attribute_row l r p =
     (let i = row_project r in
      case map_of (account_of_project p) i of
        Some (c # d) \<Rightarrow>
          p\<lparr>accounts := AList.map_entry (c # d) (set_account (add_row l r)) (accounts p),
            cells := at_project i (set_usage (add_row l r)) p,
            volumes_of_account := hold_volume r (c # d) (volumes_of_account p),
            volumes_of_project := hold_volume r i (volumes_of_project p)\<rparr>
      | _ \<Rightarrow> p\<lparr>unattributed := dict_alter 0 (\<lambda>n. n + 1) l (unattributed p)\<rparr>)"

definition attribute_rows :: "(listing \<times> row list) list \<Rightarrow> picture \<Rightarrow> picture" where
  "attribute_rows rows p =
     fold (\<lambda>(l, xs) p. fold (attribute_row l) xs p) rows (p\<lparr>unattributed := map (\<lambda>(l, xs). (l, 0)) rows\<rparr>)"

definition media_of :: "(string \<times> volume list) list \<Rightarrow> string \<Rightarrow> footprint \<Rightarrow> footprint" where
  "media_of held k u = u\<lparr>storageByMedia := Some (media_totals (case map_of held k of None \<Rightarrow> [] | Some vs \<Rightarrow> vs))\<rparr>"

text \<open>Every project the index knows, changed in its cell.\<close>

definition on_projects :: "(string \<Rightarrow> footprint \<Rightarrow> footprint) \<Rightarrow> picture \<Rightarrow> picture" where
  "on_projects f p = p\<lparr>cells := fold (\<lambda>(i, a) cs. cs[a := set_usage (f i) (cs ! a)]) (projects p) (cells p)\<rparr>"

definition on_accounts :: "(string \<times> account_cell \<Rightarrow> footprint \<Rightarrow> footprint) \<Rightarrow> picture \<Rightarrow> picture" where
  "on_accounts f p = p\<lparr>accounts := map (\<lambda>(k, ac). (k, set_account (f (k, ac)) ac)) (accounts p)\<rparr>"

definition split_media :: "(listing \<times> row list) list \<Rightarrow> picture \<Rightarrow> picture" where
  "split_media rows p =
     (if map_of rows Volumes = None then p
      else on_projects (media_of (volumes_of_project p))
        (on_accounts (\<lambda>(k, ac). media_of (volumes_of_account p) k) p))"

subsection \<open>Totals\<close>

record total_footprint = footprint +
  tf_accounts :: nat
  tf_projects :: nat

definition machines_in :: "row list \<Rightarrow> joined_vm list" where
  "machines_in rs = List.map_filter (\<lambda>r. case r of VmRow v \<Rightarrow> Some v | _ \<Rightarrow> None) rs"

definition volumes_in :: "row list \<Rightarrow> volume list" where
  "volumes_in rs = List.map_filter (\<lambda>r. case r of VolumeRow v \<Rightarrow> Some v | _ \<Rightarrow> None) rs"

definition snapshots_in :: "row list \<Rightarrow> volume_snapshot list" where
  "snapshots_in rs = List.map_filter (\<lambda>r. case r of SnapshotRow s \<Rightarrow> Some s | _ \<Rightarrow> None) rs"

definition totals_of :: "(string \<times> account_cell) list \<Rightarrow> (listing \<times> row list) list \<Rightarrow> total_footprint" where
  "totals_of acs rows =
     (let listed = (\<lambda>l. case map_of rows l of None \<Rightarrow> [] | Some rs \<Rightarrow> rs);
          vms = machines_in (listed Vms); vols = volumes_in (listed Volumes); snaps = snapshots_in (listed VolumeSnapshots);
          scheduled = filter snapshot_is_backup snaps; number = (\<lambda>l. Some (int (length (listed l))))
      in \<lparr>vmCount = Some (int (length vms)), runningVms = Some (int (length (filter is_running vms))),
          fp_vcpus = Some (\<Sum>v\<leftarrow>vms. vm_vcpus v), fp_ramMB = Some (\<Sum>v\<leftarrow>vms. vm_ramMB v),
          volumeCount = Some (int (length vols)), storageGiB = Some (\<Sum>v\<leftarrow>vols. vol_sizeGiB v),
          storageByMedia = Some (media_totals vols), volumeSnapshotCount = Some (int (length snaps)),
          volumeSnapshotGiB = Some (\<Sum>s\<leftarrow>snaps. vs_sizeGiB s), backupSnapshotCount = Some (int (length scheduled)),
          backupSnapshotGiB = Some (\<Sum>s\<leftarrow>scheduled. vs_sizeGiB s), vmSnapshotCount = number VmSnapshots,
          publicIps = number PublicIps, vpcCount = number Vpcs, subnetCount = number Subnets,
          securityGroupCount = number SecurityGroups, tf_accounts = length acs,
          tf_projects = (\<Sum>(k, ac)\<leftarrow>acs. length (ac_projects ac))\<rparr>)"

subsection \<open>The picture (\<open>_build\<close>)\<close>

record account_view =
  av_account :: account_cell
  av_projects :: "project_cell list"

record cluster_snapshot =
  sn_accounts :: "account_view list"
  sn_totals :: total_footprint
  sn_unattributed :: "(listing \<times> int) list"
  sn_unavailable :: "listing list"
  sn_unreadableAccounts :: "json list"
  sn_builtAt :: int
  sn_stale :: bool

text \<open>Unknown figures: per source everywhere, then everything of an account whose projects are unreadable.\<close>

definition mark_picture :: "listing list \<Rightarrow> picture \<Rightarrow> picture" where
  "mark_picture unavailable p =
     on_accounts (\<lambda>(k, ac). if ac_name ac \<in> set (unreadable p) then mark_unavailable SOURCES else id)
       (on_projects (\<lambda>_. mark_unavailable unavailable) (on_accounts (\<lambda>_. mark_unavailable unavailable) p))"

definition view_account :: "picture \<Rightarrow> account_cell \<Rightarrow> account_view" where
  "view_account p ac = \<lparr>av_account = ac, av_projects = map (\<lambda>a. cells p ! a) (ac_projects ac)\<rparr>"

definition finish_picture :: "int \<Rightarrow> (listing \<times> row list) list \<Rightarrow> listing list \<Rightarrow> picture \<Rightarrow> failure + cluster_snapshot" where
  "finish_picture now rows unavailable p0 =
     (let p = split_media rows (attribute_rows rows p0);
          tot = mark_unavailable unavailable (totals_of (accounts p) rows);
          marked = mark_picture unavailable p;
          views = map (\<lambda>(k, ac). view_account marked ac) (accounts marked)
      in if all_text (\<lambda>v. ac_name (av_account v)) views then
           Inr \<lparr>sn_accounts = sort_key (\<lambda>v. lowered (ac_name (av_account v))) views, sn_totals = tot,
             sn_unattributed = unattributed p, sn_unavailable = unavailable, sn_unreadableAccounts = unreadable p,
             sn_builtAt = now, sn_stale = False\<rparr>
         else Inl Crash)"

definition build :: "failure + reads \<Rightarrow> reads \<Rightarrow> int \<Rightarrow> failure + cluster_snapshot" where
  "build svc dir now =
     sum_bind svc (\<lambda>get. sum_bind (list_domains dir) (\<lambda>domains. sum_bind (fetch get) (\<lambda>(rows, unavailable).
       sum_bind (read_directory dir domains (blank_picture domains)) (finish_picture now rows unavailable))))"

subsection \<open>The two cached copies (\<open>get\<close>)\<close>

definition PICTURE_TTL :: int where "PICTURE_TTL = 120"
definition FALLBACK_TTL :: int where "FALLBACK_TTL = 24 * 60 * 60"

definition PICTURE_KEY :: string where "PICTURE_KEY = ''platform_snapshot:v3''"
definition FALLBACK_KEY :: string where "FALLBACK_KEY = ''platform_snapshot_fallback:v3''"

text \<open>\<open>built\<close> is what building now comes to.\<close>

definition get_picture :: "bool \<Rightarrow> failure + cluster_snapshot \<Rightarrow> int \<Rightarrow> cluster_snapshot shelf
    \<Rightarrow> cluster_snapshot shelf \<times> (failure + cluster_snapshot)" where
  "get_picture refresh built now s =
     (case (if refresh then None else shelf_get s now PICTURE_KEY) of
        Some sn \<Rightarrow> (s, Inr sn)
      | None \<Rightarrow>
          (case built of
             Inr sn \<Rightarrow> (shelf_set FALLBACK_KEY sn (now + FALLBACK_TTL) (shelf_set PICTURE_KEY sn (now + PICTURE_TTL) s), Inr sn)
           | Inl Crash \<Rightarrow> (s, Inl Crash)
           | Inl (Zadara e) \<Rightarrow>
               (case shelf_get s now FALLBACK_KEY of
                  Some sn \<Rightarrow> (s, Inr (sn\<lparr>sn_stale := True\<rparr>))
                | None \<Rightarrow> (s, Inl (Zadara e)))))"

definition picture_account :: "cluster_snapshot \<Rightarrow> string \<Rightarrow> account_view option" where
  "picture_account sn i = List.find (\<lambda>v. ac_id (av_account v) = i) (sn_accounts sn)"

end
