(* ===== verification/Picture_Safety.thy ===== *)
theory Picture_Safety
  imports Cluster_Picture "HOL-Library.Multiset"
begin

text \<open>
  What the picture of the cluster guarantees: whatever could not be attributed is counted apart, so the
  accounts and the rest add up to the totals, and a number nobody could read is unknown and never zero.
\<close>

subsection \<open>One row counts once\<close>

named_theorems counting \<open>what leaves the number of rows counted as it is\<close>

fun count_field :: "listing \<Rightarrow> 'a footprint_scheme \<Rightarrow> int option" where
  "count_field Vms u = vmCount u"
| "count_field Volumes u = volumeCount u"
| "count_field VolumeSnapshots u = volumeSnapshotCount u"
| "count_field VmSnapshots u = vmSnapshotCount u"
| "count_field PublicIps u = publicIps u"
| "count_field Vpcs u = vpcCount u"
| "count_field Subnets u = subnetCount u"
| "count_field SecurityGroups u = securityGroupCount u"

text \<open>The rows a listing is made of.\<close>

definition belongs :: "listing \<Rightarrow> row \<Rightarrow> bool" where
  "belongs l r = (case r of VmRow _ \<Rightarrow> l = Vms | VolumeRow _ \<Rightarrow> l = Volumes | SnapshotRow _ \<Rightarrow> l = VolumeSnapshots
     | AddressRow _ \<Rightarrow> l = PublicIps | PlainRow _ \<Rightarrow> l \<in> {VmSnapshots, Vpcs, Subnets, SecurityGroups})"

lemma bump_0 [simp]: "bump 0 v = v"
  by (cases v) (simp_all add: bump_def)

lemma count_add_row [counting]:
  "belongs l r \<Longrightarrow> count_field l' (add_row l r u) = bump (if l' = l then 1 else 0) (count_field l' u)"
  by (cases r; cases l')
    (auto simp: belongs_def add_row_def add_vm_def add_volume_def add_volume_snapshot_def Let_def split: listing.split)

lemma count_mark: "l' \<noteq> l \<Longrightarrow> count_field l' (mark l u) = count_field l' u"
  by (cases l; cases l') simp_all

lemma count_mark_unavailable [counting]: "l \<notin> set ls \<Longrightarrow> count_field l (mark_unavailable ls u) = count_field l u"
  unfolding mark_unavailable_def by (induction ls arbitrary: u) (auto simp: count_mark)

lemma count_media [counting]: "count_field l (media_of held k u) = count_field l u"
  by (cases l) (simp_all add: media_of_def)

lemma map_sum_Inr: "map_sum id f v = Inr y \<longleftrightarrow> (\<exists>x. v = Inr x \<and> y = f x)"
  by (cases v) auto

lemma read_listing_belongs: "read_listing get l = Inr rs \<Longrightarrow> r \<in> set rs \<Longrightarrow> belongs l r"
  by (cases l) (auto simp: read_listing_def belongs_def map_sum_Inr)

lemma fetch_rows:
  assumes "fetch get = Inr (rows, unavailable)"
  shows "distinct (map fst rows)" "(l, rs) \<in> set rows \<Longrightarrow> read_listing get l = Inr rs"
    "l \<notin> set unavailable \<Longrightarrow> \<exists>rs. (l, rs) \<in> set rows"
proof -
  let ?results = "map (\<lambda>l. (l, read_listing get l)) SOURCES"
  have rows: "rows = List.map_filter (\<lambda>(l, r). case r of Inl _ \<Rightarrow> None | Inr xs \<Rightarrow> Some (l, xs)) ?results"
      and un: "unavailable = map fst (filter (\<lambda>(l, r). isl r) ?results)"
    using assms by (auto simp: fetch_def Let_def split: sum.splits)
  have keys: "map fst (List.map_filter (\<lambda>(l, r). case r of Inl _ \<Rightarrow> None | Inr xs \<Rightarrow> Some (l, xs)) (map (\<lambda>l. (l, read_listing get l)) ls)) =
      filter (\<lambda>l. \<not> isl (read_listing get l)) ls" for ls
    by (induction ls) (auto simp: map_filter_simps split: sum.split)
  show "distinct (map fst rows)" unfolding rows keys by (rule distinct_filter) (simp add: SOURCES_def)
  show "(l, rs) \<in> set rows \<Longrightarrow> read_listing get l = Inr rs"
    unfolding rows by (auto simp: map_filter_def split: sum.splits)
  have all: "l \<in> set SOURCES" by (cases l) (simp_all add: SOURCES_def)
  assume "l \<notin> set unavailable"
  then have "\<not> isl (read_listing get l)" using all by (force simp: un)
  then have "l \<in> set (map fst rows)" unfolding rows keys using all by simp
  then show "\<exists>rs. (l, rs) \<in> set rows" by auto
qed


subsection \<open>Attributing rows\<close>

definition accounts_hold :: "listing \<Rightarrow> picture \<Rightarrow> int" where
  "accounts_hold l p = (\<Sum>(k, ac)\<leftarrow>accounts p. the (count_field l (ac_usage ac)))"

definition apart :: "listing \<Rightarrow> picture \<Rightarrow> int" where
  "apart l p = (case map_of (unattributed p) l of None \<Rightarrow> 0 | Some n \<Rightarrow> n)"

definition counted :: "listing \<Rightarrow> picture \<Rightarrow> int" where
  "counted l p = accounts_hold l p + apart l p"

text \<open>Accounts are a dictionary with known figures, and projects belong to accounts of it.\<close>

definition well_formed :: "picture \<Rightarrow> bool" where
  "well_formed p \<longleftrightarrow> distinct (map fst (accounts p)) \<and>
     (\<forall>i d. map_of (account_of_project p) i = Some d \<longrightarrow> d \<in> fst ` set (accounts p)) \<and>
     (\<forall>l k ac. (k, ac) \<in> set (accounts p) \<longrightarrow> count_field l (ac_usage ac) \<noteq> None)"

lemma keys_map_entry: "map fst (AList.map_entry k f xs) = map fst xs"
  by (induction xs) auto

lemma fst_map_entry: "fst ` set (AList.map_entry k f xs) = fst ` set xs"
  by (induction xs) auto

lemma set_update: "(a, v) \<in> set (AList.update k w xs) \<Longrightarrow> (a, v) \<in> set xs \<or> v = w"
  by (induction xs) (auto split: if_splits)

lemma sum_map_entry:
  fixes g :: "'v \<Rightarrow> int"
  assumes "distinct (map fst xs)" "k \<in> fst ` set xs" "\<And>v. (k, v) \<in> set xs \<Longrightarrow> g (f v) = g v + c"
  shows "(\<Sum>(a, v)\<leftarrow>AList.map_entry k f xs. g v) = (\<Sum>(a, v)\<leftarrow>xs. g v) + c"
  using assms
proof (induction xs)
  case (Cons x xs)
  obtain a v where x: "x = (a, v)" by (cases x)
  show ?case
  proof (cases "a = k")
    case True
    then have "AList.map_entry k f xs = xs" using Cons.prems(1) x by (induction xs) (auto simp: rev_image_eqI)
    then show ?thesis using True Cons.prems(3) by (simp add: x)
  next
    case False
    then show ?thesis using Cons by (auto simp: x)
  qed
qed simp

lemma set_map_entry: "(a, v) \<in> set (AList.map_entry k f xs) \<Longrightarrow> (a, v) \<in> set xs \<or> (\<exists>w. (a, w) \<in> set xs \<and> v = f w)"
  by (induction xs) (auto split: if_splits)

lemma the_bump: "v \<noteq> None \<Longrightarrow> the (bump k v) = the v + k" "bump k v = None \<longleftrightarrow> v = None"
  by (auto simp: bump_def)

lemma attribute_row_counts:
  assumes "well_formed p" "belongs l r"
  shows "well_formed (attribute_row l r p)"
    "counted l' (attribute_row l r p) = counted l' p + (if l' = l then 1 else 0)"
    "unreadable (attribute_row l r p) = unreadable p" "map fst (accounts (attribute_row l r p)) = map fst (accounts p)"
proof -
  let ?d = "map_of (account_of_project p) (row_project r)"
  let ?f = "set_account (add_row l r)"
  have un: "counted l' (p\<lparr>unattributed := dict_alter 0 (\<lambda>n. n + 1) l (unattributed p)\<rparr>) = counted l' p + (if l' = l then 1 else 0)"
    by (simp add: counted_def accounts_hold_def apart_def map_of_dict_alter)
  have "well_formed (attribute_row l r p) \<and> counted l' (attribute_row l r p) = counted l' p + (if l' = l then 1 else 0) \<and>
    unreadable (attribute_row l r p) = unreadable p \<and> map fst (accounts (attribute_row l r p)) = map fst (accounts p)"
  proof (cases "?d = None \<or> ?d = Some []")
    case True
    then have "attribute_row l r p = p\<lparr>unattributed := dict_alter 0 (\<lambda>n. n + 1) l (unattributed p)\<rparr>"
      by (auto simp: attribute_row_def Let_def)
    then show ?thesis using assms(1) un by (auto simp: well_formed_def)
  next
    case False
    then obtain c d where d: "?d = Some (c # d)" by (cases ?d; cases "the ?d") auto
    have key: "c # d \<in> fst ` set (accounts p)" using assms(1) d by (auto simp: well_formed_def)
    have known: "(k, ac) \<in> set (accounts p) \<Longrightarrow> count_field l'' (ac_usage ac) \<noteq> None" for k ac l''
      using assms(1) unfolding well_formed_def by blast
    have acs: "accounts (attribute_row l r p) = AList.map_entry (c # d) ?f (accounts p)"
        "account_of_project (attribute_row l r p) = account_of_project p"
        "unattributed (attribute_row l r p) = unattributed p" "unreadable (attribute_row l r p) = unreadable p"
      by (simp_all add: attribute_row_def d Let_def)
    have one: "count_field l'' (ac_usage (?f ac)) = bump (if l'' = l then 1 else 0) (count_field l'' (ac_usage ac))" for l'' ac
      using count_add_row [OF assms(2), of l'' "ac_usage ac"] by (simp add: set_account_def)
    have "accounts_hold l' (attribute_row l r p) = accounts_hold l' p + (if l' = l then 1 else 0)"
      unfolding accounts_hold_def acs
      using assms(1) key known by (intro sum_map_entry) (auto simp: well_formed_def one the_bump)
    moreover have "well_formed (attribute_row l r p)"
      unfolding well_formed_def acs keys_map_entry
    proof (intro conjI allI impI ballI)
      show "distinct (map fst (accounts p))" using assms(1) by (simp add: well_formed_def)
      show "d' \<in> fst ` set (AList.map_entry (c # d) ?f (accounts p))" if "map_of (account_of_project p) i = Some d'" for i d'
        using assms(1) that keys_map_entry [of "c # d" ?f "accounts p"] by (metis set_map well_formed_def)
      show "count_field l'' (ac_usage ac) \<noteq> None" if "(k, ac) \<in> set (AList.map_entry (c # d) ?f (accounts p))" for l'' k ac
        using set_map_entry [OF that] known by (metis one the_bump(2))
    qed
    ultimately show ?thesis by (simp add: counted_def apart_def acs keys_map_entry)
  qed
  then show "well_formed (attribute_row l r p)"
    "counted l' (attribute_row l r p) = counted l' p + (if l' = l then 1 else 0)"
    "unreadable (attribute_row l r p) = unreadable p" "map fst (accounts (attribute_row l r p)) = map fst (accounts p)" by simp_all
qed


lemma fold_attribute_row:
  assumes "well_formed p" "\<And>r. r \<in> set rs \<Longrightarrow> belongs l r"
  shows "well_formed (fold (attribute_row l) rs p) \<and>
    counted l' (fold (attribute_row l) rs p) = counted l' p + (if l' = l then int (length rs) else 0) \<and>
    unreadable (fold (attribute_row l) rs p) = unreadable p"
  using assms
proof (induction rs arbitrary: p)
  case (Cons r rs)
  have here: "belongs l r" using Cons.prems(2) by simp
  note one = attribute_row_counts [OF Cons.prems(1) here]
  show ?case using Cons.IH [OF one(1)] Cons.prems(2) one(2,3) by simp
qed simp

definition rows_of_listing :: "listing \<Rightarrow> (listing \<times> row list) list \<Rightarrow> int" where
  "rows_of_listing l' rows = (\<Sum>(l, rs)\<leftarrow>rows. if l' = l then int (length rs) else 0)"

lemma fold_attribute_rows:
  assumes "well_formed p" "\<And>l rs r. (l, rs) \<in> set rows \<Longrightarrow> r \<in> set rs \<Longrightarrow> belongs l r"
  defines "p' \<equiv> fold (\<lambda>(l, xs) p. fold (attribute_row l) xs p) rows p"
  shows "well_formed p' \<and> counted l' p' = counted l' p + rows_of_listing l' rows \<and> unreadable p' = unreadable p"
  using assms(1,2) unfolding p'_def
proof (induction rows arbitrary: p)
  case (Cons x rows)
  obtain l rs where x: "x = (l, rs)" by (cases x)
  have here: "\<And>r. r \<in> set rs \<Longrightarrow> belongs l r" using Cons.prems(2) by (auto simp: x)
  note one = fold_attribute_row [where rs = rs and l = l, OF Cons.prems(1) here]
  have rest: "\<And>l rs r. (l, rs) \<in> set rows \<Longrightarrow> r \<in> set rs \<Longrightarrow> belongs l r"
    using Cons.prems(2) by (meson list.set_intros(2))
  show ?case
    using Cons.IH [OF one [THEN conjunct1] rest] one by (simp add: x rows_of_listing_def)
qed (simp add: rows_of_listing_def)

lemma rows_of_listing_distinct:
  "distinct (map fst rows) \<Longrightarrow> (l, rs) \<in> set rows \<Longrightarrow> rows_of_listing l rows = int (length rs)"
proof (induction rows)
  case (Cons x rows)
  obtain l' rs' where x: "x = (l', rs')" by (cases x)
  have none: "rows_of_listing l rows = 0" if "l \<notin> fst ` set rows" for rows
    using that by (induction rows) (auto simp: rows_of_listing_def)
  show ?case
  proof (cases "l' = l")
    case True
    then have "rs' = rs" "l \<notin> fst ` set rows" using Cons.prems by (auto simp: x rev_image_eqI)
    then show ?thesis using none True by (simp add: x rows_of_listing_def)
  next
    case False
    then show ?thesis using Cons by (auto simp: x rows_of_listing_def)
  qed
qed simp

lemma still_unattributed:
  "map_of (unattributed p) l \<noteq> None \<Longrightarrow> map_of (unattributed (attribute_row l' r p)) l \<noteq> None"
  by (auto simp: attribute_row_def Let_def map_of_dict_alter split: option.splits list.splits)

subsection \<open>From the directory to the picture\<close>

text \<open>Before any row is attributed every account is at zero.\<close>

definition fresh :: "string set \<Rightarrow> picture \<Rightarrow> bool" where
  "fresh ks p \<longleftrightarrow> distinct (map fst (accounts p)) \<and> ks \<subseteq> fst ` set (accounts p) \<and>
     (\<forall>i d. map_of (account_of_project p) i = Some d \<longrightarrow> d \<in> fst ` set (accounts p)) \<and>
     (\<forall>k ac. (k, ac) \<in> set (accounts p) \<longrightarrow> ac_usage ac = blank_usage)"

lemma count_blank [simp]: "count_field l blank_usage = Some 0"
  by (cases l) (simp_all add: blank_usage_def)

lemma fresh_well_formed: "fresh ks p \<Longrightarrow> well_formed p"
  unfolding fresh_def well_formed_def by (metis count_blank option.simps(3))

lemma accounts_of_blank:
  fixes domains :: "(string \<times> json) list"
  assumes "distinct (map fst acs)" "\<And>k ac. (k, ac) \<in> set acs \<Longrightarrow> ac_usage ac = blank_usage"
  defines "acs' \<equiv> fold (\<lambda>d. AList.update (fst d) (blank_account d)) domains acs"
  shows "distinct (map fst acs') \<and> fst ` set acs' = fst ` set acs \<union> fst ` set domains \<and>
    (\<forall>k ac. (k, ac) \<in> set acs' \<longrightarrow> ac_usage ac = blank_usage)"
  using assms(1,2) unfolding acs'_def
proof (induction domains arbitrary: acs)
  case (Cons d domains)
  let ?acs = "AList.update (fst d) (blank_account d) acs"
  have "distinct (map fst ?acs)" using Cons.prems(1) by (rule distinct_update)
  moreover have blank: "ac_usage ac = blank_usage" if "(k, ac) \<in> set ?acs" for k ac
    using set_update [OF that] Cons.prems(2) by (auto simp: blank_account_def)
  moreover have "fst ` set ?acs = insert (fst d) (fst ` set acs)"
    by (simp add: dom_update)
  ultimately show ?case using Cons.IH [of ?acs, OF _ blank] by (simp only: fold.simps comp_apply) auto
qed simp

lemma fresh_blank: "fresh (fst ` set domains) (blank_picture domains)" "unreadable (blank_picture domains) = []"
  using accounts_of_blank [of "[]" domains] by (auto simp: fresh_def blank_picture_def)

lemma map_of_assigned:
  "map_of (fold (\<lambda>x. AList.update (pd_id x) d) listed m) i = Some d' \<Longrightarrow> d' = d \<or> map_of m i = Some d'"
  by (induction listed arbitrary: m) (fastforce simp: update_conv' split: if_splits)+

lemma fresh_enter_projects:
  assumes "fresh (insert d ks) p"
  shows "fresh ks (enter_projects d listed p)" "unreadable (enter_projects d listed p) = unreadable p"
  using assms
  by (auto simp: fresh_def enter_projects_def Let_def keys_map_entry fst_map_entry
      dest!: set_map_entry map_of_assigned)


lemma fresh_read_directory:
  "read_directory dir ds p = Inr p' \<Longrightarrow> fresh (fst ` set ds) p \<Longrightarrow> fresh {} p'"
proof (induction dir ds p rule: read_directory.induct)
  case (2 dir d name ds p)
  have weaker: "fresh (fst ` set ds) p" "fresh (insert d (fst ` set ds)) p"
    using "2.prems"(2) by (auto simp: fresh_def)
  show ?case
    using "2.prems"(1) "2.IH" weaker fresh_enter_projects(1) [OF weaker(2)]
    by (auto simp: fresh_def split: sum.splits failure.splits)
qed simp

lemma fresh_counted:
  assumes "fresh ks p"
  shows "accounts_hold l p = 0"
proof -
  have "(case x of (k, ac) \<Rightarrow> the (count_field l (ac_usage ac))) = 0" if "x \<in> set (accounts p)" for x
    using assms that unfolding fresh_def by (cases x) (metis case_prod_conv count_blank option.sel)
  then show ?thesis unfolding accounts_hold_def by (simp add: sum_list_eq_0_iff cong: map_cong)
qed

definition known_sum :: "listing \<Rightarrow> account_cell list \<Rightarrow> int list \<Rightarrow> bool" where
  "known_sum l acs ns = (map (\<lambda>ac. count_field l (ac_usage ac)) acs = map Some ns)"

lemma well_formed_sum:
  assumes "well_formed p"
  shows "map (\<lambda>(k, ac). count_field l (ac_usage ac)) (accounts p) =
    map Some (map (\<lambda>(k, ac). the (count_field l (ac_usage ac))) (accounts p))"
  using assms unfolding well_formed_def by (auto simp: map_eq_conv)

lemma totals_count:
  assumes "\<And>r. r \<in> set rs \<Longrightarrow> belongs l r" "map_of rows l = Some rs"
  shows "count_field l (totals_of acs rows) = Some (int (length rs))"
proof -
  have all: "list_all (belongs l) rs" using assms(1) by (simp add: list_all_iff)
  have m: "l = Vms \<Longrightarrow> length (machines_in rs) = length rs" and v: "l = Volumes \<Longrightarrow> length (volumes_in rs) = length rs"
      and s: "l = VolumeSnapshots \<Longrightarrow> length (snapshots_in rs) = length rs"
    using all unfolding machines_in_def volumes_in_def snapshots_in_def
    by (induction rs) (auto simp: belongs_def map_filter_simps split: row.splits)
  show ?thesis using m v s assms(2) by (cases l) (simp_all add: totals_of_def Let_def)
qed

subsection \<open>The whole picture\<close>

definition shown :: "listing \<Rightarrow> picture \<Rightarrow> int option list" where
  "shown l p = map (\<lambda>(k, ac). count_field l (ac_usage ac)) (accounts p)"

lemma shown_on_accounts [counting]:
  "(\<And>k ac u. count_field l (f (k, ac) u) = count_field l u) \<Longrightarrow> shown l (on_accounts f p) = shown l p"
  by (auto simp: shown_def on_accounts_def set_account_def)

lemma shown_on_projects [counting]: "shown l (on_projects f p) = shown l p"
  by (simp add: shown_def on_projects_def)

lemma shown_split_media [counting]: "shown l (split_media rows p) = shown l p"
  unfolding split_media_def by (auto intro!: shown_on_accounts simp: shown_on_projects count_media)

lemma unreadable_split_media: "unreadable (split_media rows p) = unreadable p" "unattributed (split_media rows p) = unattributed p"
  by (simp_all add: split_media_def on_projects_def on_accounts_def)

lemma shown_mark_picture:
  "unreadable p = [] \<Longrightarrow> l \<notin> set unavailable \<Longrightarrow> shown l (mark_picture unavailable p) = shown l p"
  unfolding mark_picture_def
  by (subst shown_on_accounts) (auto simp: shown_on_projects count_mark_unavailable shown_on_accounts)

lemma finish_picture_shown:
  assumes "finish_picture now rows unavailable p0 = Inr sn"
  defines "p \<equiv> split_media rows (attribute_rows rows p0)"
  shows "mset (map (\<lambda>v. av_account v) (sn_accounts sn)) = mset (map snd (accounts (mark_picture unavailable p)))"
    "sn_totals sn = mark_unavailable unavailable (totals_of (accounts p) rows)"
    "sn_unattributed sn = unattributed p" "sn_unavailable sn = unavailable" "sn_unreadableAccounts sn = unreadable p"
  using assms(1) unfolding p_def[symmetric]
  by (auto simp: finish_picture_def Let_def p_def[symmetric] view_account_def comp_def case_prod_unfold
      multiset.map_comp split: if_splits)


lemma same_sum: "mset xs = mset ys \<Longrightarrow> sum_list xs = sum_list (ys :: int list)"
  by (metis sum_mset_sum_list)

lemma mset_map_some:
  assumes "mset xs = mset (map Some ys)"
  shows "\<exists>zs. xs = map Some zs \<and> mset zs = mset ys"
proof -
  have "set xs = Some ` set ys" using assms by (metis set_map set_mset_mset)
  then have "xs = map Some (map the xs)" by (auto intro!: map_idI [symmetric] simp: comp_def)
  moreover have "mset (map the xs) = mset ys"
    using arg_cong [OF assms, of "image_mset the"] by (simp add: multiset.map_comp comp_def)
  ultimately show ?thesis by blast
qed

lemma attributed_counts:
  assumes "fresh {} p0" "fetch get = Inr (rows, unavailable)" "l \<notin> set unavailable"
  defines "p \<equiv> split_media rows (attribute_rows rows p0)"
  obtains rs m where "map_of rows l = Some rs" "map_of (unattributed p) l = Some m" "well_formed (attribute_rows rows p0)"
    "accounts_hold l (attribute_rows rows p0) + m = int (length rs)" "unreadable p = unreadable p0"
    "\<And>acs. count_field l (totals_of acs rows) = Some (int (length rs))"
proof -
  note parts = fetch_rows [OF assms(2)]
  obtain rs where rs: "(l, rs) \<in> set rows" using parts(3) assms(3) by blast
  have belonging: "\<And>l rs r. (l, rs) \<in> set rows \<Longrightarrow> r \<in> set rs \<Longrightarrow> belongs l r"
    using parts(2) read_listing_belongs by blast
  let ?p0 = "p0\<lparr>unattributed := map (\<lambda>(l, xs). (l, 0)) rows\<rparr>"
  have fresh: "fresh {} ?p0" using assms(1) by (simp add: fresh_def)
  have zero: "map_of (map (\<lambda>(l, xs). (l, 0 :: int)) rows) l' = map_option (\<lambda>_. 0) (map_of rows l')" for l'
    by (induction rows) auto
  have "counted l ?p0 = 0" using fresh_counted [OF fresh] by (simp add: counted_def apart_def zero split: option.split)
  then have sums: "well_formed (attribute_rows rows p0)" "counted l (attribute_rows rows p0) = rows_of_listing l rows"
      "unreadable (attribute_rows rows p0) = unreadable p0"
    using fold_attribute_rows [OF fresh_well_formed [OF fresh] belonging, where l' = l] by (simp_all add: attribute_rows_def)
  have found: "map_of rows l = Some rs" using parts(1) rs by simp
  have "map_of (unattributed (attribute_rows rows p0)) l \<noteq> None"
  proof -
    have inner: "map_of (unattributed p) l \<noteq> None \<Longrightarrow> map_of (unattributed (fold (attribute_row l') xs p)) l \<noteq> None" for l' xs p
      by (induction xs arbitrary: p) (simp_all add: still_unattributed del: not_None_eq)
    have "map_of (unattributed p) l \<noteq> None \<Longrightarrow>
        map_of (unattributed (fold (\<lambda>(l, xs) p. fold (attribute_row l) xs p) rows' p)) l \<noteq> None" for rows' p
      by (induction rows' arbitrary: p) (simp_all add: inner case_prod_unfold del: not_None_eq)
    then show ?thesis using zero found by (simp add: attribute_rows_def)
  qed
  then obtain m where m: "map_of (unattributed (attribute_rows rows p0)) l = Some m" by blast
  then have "accounts_hold l (attribute_rows rows p0) + m = int (length rs)"
    using sums(2) rows_of_listing_distinct [OF parts(1) rs] by (simp add: counted_def apart_def)
  moreover have "count_field l (totals_of acs rows) = Some (int (length rs))" for acs
    using totals_count [OF _ found] belonging [OF rs] by blast
  ultimately show thesis using that found m sums by (simp add: p_def unreadable_split_media)
qed

lemma build_parts:
  assumes "build svc dir now = Inr sn"
  obtains get domains rows p0 where "svc = Inr get" "list_domains dir = Inr domains"
    "fetch get = Inr (rows, sn_unavailable sn)" "read_directory dir domains (blank_picture domains) = Inr p0"
    "finish_picture now rows (sn_unavailable sn) p0 = Inr sn"
proof -
  from assms obtain get domains rows unavailable p0 where parts: "svc = Inr get" "list_domains dir = Inr domains"
    "fetch get = Inr (rows, unavailable)" "read_directory dir domains (blank_picture domains) = Inr p0"
    "finish_picture now rows unavailable p0 = Inr sn"
    by (auto simp: build_def sum_bind_def split: sum.splits)
  with finish_picture_shown(4) [OF parts(5)] that show thesis by simp
qed

lemma picture_adds_up_lemma:
  assumes "build svc dir now = Inr sn" "sn_unreadableAccounts sn = []" "l \<notin> set (sn_unavailable sn)"
  shows "\<exists>ns m. map (\<lambda>v. count_field l (ac_usage (av_account v))) (sn_accounts sn) = map Some ns \<and>
    map_of (sn_unattributed sn) l = Some m \<and> count_field l (sn_totals sn) = Some (sum_list ns + m)"
proof -
  let ?un = "sn_unavailable sn"
  obtain get domains rows p0 where fetched: "fetch get = Inr (rows, ?un)"
      and read: "read_directory dir domains (blank_picture domains) = Inr p0" and finished: "finish_picture now rows ?un p0 = Inr sn"
    using build_parts [OF assms(1)] .
  let ?p = "split_media rows (attribute_rows rows p0)"
  note final = finish_picture_shown [OF finished]
  have fresh: "fresh {} p0" using fresh_read_directory [OF read fresh_blank(1)] .
  obtain rs m where rs: "map_of rows l = Some rs" "map_of (unattributed ?p) l = Some m" "well_formed (attribute_rows rows p0)"
      "accounts_hold l (attribute_rows rows p0) + m = int (length rs)"
      "count_field l (totals_of (accounts ?p) rows) = Some (int (length rs))"
    using attributed_counts [OF fresh fetched assms(3)] by blast
  have un: "unreadable ?p = []" using assms(2) final(5) by simp
  let ?ns = "map (\<lambda>(k, ac). the (count_field l (ac_usage ac))) (accounts (attribute_rows rows p0))"
  have "shown l (mark_picture ?un ?p) = map Some ?ns"
    using shown_mark_picture [OF un assms(3)] shown_split_media [of l rows "attribute_rows rows p0"] well_formed_sum [OF rs(3)]
    by (simp only: shown_def)
  then have "mset (map (\<lambda>v. count_field l (ac_usage (av_account v))) (sn_accounts sn)) = mset (map Some ?ns)"
    using arg_cong [OF final(1), of "image_mset (\<lambda>ac. count_field l (ac_usage ac))"]
    by (simp add: shown_def multiset.map_comp comp_def case_prod_unfold flip: mset_map)
  then obtain ns where ns: "map (\<lambda>v. count_field l (ac_usage (av_account v))) (sn_accounts sn) = map Some ns"
      "mset ns = mset ?ns"
    using mset_map_some [of "map (\<lambda>v. count_field l (ac_usage (av_account v))) (sn_accounts sn)" ?ns] by blast
  have "sum_list ns = accounts_hold l (attribute_rows rows p0)"
    unfolding accounts_hold_def using ns(2) by (rule same_sum)
  moreover have "count_field l (sn_totals sn) = Some (int (length rs))"
    using final(2) rs(5) assms(3) by (simp add: count_mark_unavailable)
  ultimately show ?thesis using ns(1) rs(2,4) final(3) by auto
qed


subsection \<open>Unknown is not zero\<close>








subsection \<open>The properties\<close>

text \<open>C18. For every list the picture could read, with every account's projects readable, the numbers of the
  accounts and the number of rows nobody could place add up to the total: nothing is lost or counted twice.\<close>

theorem picture_adds_up:
  assumes "build svc dir now = Inr sn" "sn_unreadableAccounts sn = []" "l \<notin> set (sn_unavailable sn)"
  shows "\<exists>ns m. map (\<lambda>v. count_field l (ac_usage (av_account v))) (sn_accounts sn) = map Some ns \<and>
    map_of (sn_unattributed sn) l = Some m \<and> count_field l (sn_totals sn) = Some (sum_list ns + m)"
  using assms by (rule picture_adds_up_lemma)


subsection \<open>The hypotheses hold\<close>

definition town_dir :: reads where
  "town_dir path =
     (if path = DOMAINS_PATH then Inr (JList [JObj [(''id'', JStr ''d1''), (''name'', JStr ''acme'')], JObj [(''id'', JStr ''d2''), (''name'', JStr ''Bolt'')]])
      else if path = projects_path ''d1'' then Inr (JList [JObj [(''id'', JStr ''p1''), (''name'', JStr ''web'')]])
      else if path = projects_path ''d2'' then Inr (JList [])
      else Inl Crash)"

definition town_machine :: "string \<Rightarrow> string \<Rightarrow> json" where
  "town_machine i p = JObj [(''id'', JStr i), (''status'', JStr ''ACTIVE''), (''vcpus'', JInt 2), (''ramMB'', JInt 4096), (''project_id'', JStr p)]"

definition town_get :: reads where
  "town_get path = (if path = VMS_PATH then Inr (JList [town_machine ''v1'' ''p1'', town_machine ''v2'' ''p0''])
     else Inl (Zadara session_expired))"

definition town :: cluster_snapshot where
  "town = projr (build (Inr town_get) town_dir 100)"

definition closed_dir :: reads where
  "closed_dir path = (if path = DOMAINS_PATH then town_dir path else town_get path)"

definition gated :: cluster_snapshot where
  "gated = projr (build (Inr town_get) closed_dir 100)"


lemma town_built: "build (Inr town_get) town_dir 100 = Inr town" "build (Inr town_get) closed_dir 100 = Inr gated"
proof -
  have "\<not> isl (build (Inr town_get) town_dir 100)" "\<not> isl (build (Inr town_get) closed_dir 100)" by code_simp+
  then show "build (Inr town_get) town_dir 100 = Inr town" "build (Inr town_get) closed_dir 100 = Inr gated"
    unfolding town_def gated_def by (metis sum.collapse(2))+
qed

lemma town_facts: "sn_unreadableAccounts town = []" "sn_unavailable town = tl SOURCES" "count_field Vms (sn_totals town) = Some 2"
  by code_simp+

lemma picture_adds_up_witness:
  "\<exists>ns m. map (\<lambda>v. count_field Vms (ac_usage (av_account v))) (sn_accounts town) = map Some ns \<and>
    map_of (sn_unattributed town) Vms = Some m \<and> 2 = sum_list ns + m"
  using picture_adds_up [OF town_built(1) town_facts(1), of Vms] town_facts by (simp add: SOURCES_def)



end
