(* ===== verification/Cluster_Views.thy ===== *)
theory Cluster_Views
  imports Cluster_Picture Account_Admin
begin

text \<open>
  The operators' screens over the whole cluster (\<open>platform_admin/views.py\<close>): accounts and their settings,
  users of every account, turning a user off, what the cluster carries, the platform's health and the two
  journals. \<open>built\<close> is what building the picture now comes to, \<open>dir\<close> the directory, \<open>call\<close> the cloud
  with the service token. Times of sign-in and durations are left out; query parameters are the arguments.
\<close>

subsection \<open>State\<close>

record cluster_store =
  cl_users :: "user list"
  cl_settings :: "account_settings list"
  cl_actions :: "admin_action list"
  cl_pictures :: "cluster_snapshot shelf"
  cl_lists :: "domain_user list shelf"

text \<open>A failure nobody catches is a 500.\<close>

definition picture_of :: "bool \<Rightarrow> failure + cluster_snapshot \<Rightarrow> int \<Rightarrow> cluster_store \<Rightarrow> cluster_store \<times> (refusal + cluster_snapshot)" where
  "picture_of refresh built now st =
     (case get_picture refresh built now (cl_pictures st) of (s, r) \<Rightarrow> (st\<lparr>cl_pictures := s\<rparr>, uncaught r))"

definition wants_refresh :: "string option \<Rightarrow> bool" where
  "wants_refresh v = (v \<in> {Some ''1'', Some ''true'', Some ''yes''})"

record picture_meta =
  pm_builtAt :: int
  pm_stale :: bool
  pm_unavailable :: "listing list"
  pm_unreadableAccounts :: "json list"

definition snapshot_meta :: "cluster_snapshot \<Rightarrow> picture_meta" where
  "snapshot_meta sn = \<lparr>pm_builtAt = sn_builtAt sn, pm_stale = sn_stale sn, pm_unavailable = sn_unavailable sn,
     pm_unreadableAccounts = sn_unreadableAccounts sn\<rparr>"

subsection \<open>Accounts (\<open>AccountsView\<close>)\<close>

text \<open>Users are counted per spelling of the account; of spellings that differ in case only the last count stays.\<close>

definition cabinet_user_counts :: "user list \<Rightarrow> (string \<times> nat) list" where
  "cabinet_user_counts us =
     fold (\<lambda>a. AList.update (lower a) (length (filter (\<lambda>u. u_account u = a) us))) (remdups (map u_account us)) []"

record account_row =
  ar_id :: string
  ar_name :: json
  ar_usage :: footprint
  ar_projectCount :: nat

definition account_row_of :: "account_view \<Rightarrow> account_row" where
  "account_row_of v = (let ac = av_account v in
     \<lparr>ar_id = ac_id ac, ar_name = ac_name ac, ar_usage = ac_usage ac, ar_projectCount = length (av_projects v)\<rparr>)"

record accounts_screen =
  as_accounts :: "(account_row \<times> nat) list"
  as_meta :: picture_meta
  as_totals :: total_footprint

definition users_signed_in :: "user list \<Rightarrow> json \<Rightarrow> nat" where
  "users_signed_in us name = (case map_of (cabinet_user_counts us) (lowered name) of None \<Rightarrow> 0 | Some n \<Rightarrow> n)"

definition accounts_get :: "string option \<Rightarrow> failure + cluster_snapshot \<Rightarrow> int \<Rightarrow> cluster_store
    \<Rightarrow> cluster_store \<times> (refusal + accounts_screen)" where
  "accounts_get refresh built now st =
     (case picture_of (wants_refresh refresh) built now st of
        (st, Inl e) \<Rightarrow> (st, Inl e)
      | (st, Inr sn) \<Rightarrow>
          (st, Inr \<lparr>as_accounts = map (\<lambda>v. (account_row_of v, users_signed_in (cl_users st) (ac_name (av_account v)))) (sn_accounts sn),
            as_meta = snapshot_meta sn, as_totals = sn_totals sn\<rparr>))"

subsection \<open>Users of an account, cached for a minute\<close>

definition USERS_CACHE_TTL :: int where "USERS_CACHE_TTL = 60"

definition user_list_key :: "string \<Rightarrow> string" where
  "user_list_key d = ''platform_account_users:'' @ d"

definition account_users :: "reads \<Rightarrow> int \<Rightarrow> string \<Rightarrow> cluster_store \<Rightarrow> cluster_store \<times> (failure + domain_user list)" where
  "account_users dir now d st =
     (case shelf_get (cl_lists st) now (user_list_key d) of
        Some us \<Rightarrow> (st, Inr us)
      | None \<Rightarrow>
          (case list_domain_users dir d of
             Inl e \<Rightarrow> (st, Inl e)
           | Inr us \<Rightarrow> (st\<lparr>cl_lists := shelf_set (user_list_key d) us (now + USERS_CACHE_TTL) (cl_lists st)\<rparr>, Inr us)))"

definition forget_account_users :: "string \<Rightarrow> cluster_store \<Rightarrow> cluster_store" where
  "forget_account_users d st = st\<lparr>cl_lists := shelf_delete (user_list_key d) (cl_lists st)\<rparr>"

subsection \<open>One account and its settings (\<open>AccountDetailView\<close>)\<close>

record settings_payload =
  sp_countBackupSnapshots :: bool
  sp_updatedAt :: "int option"
  sp_updatedBy :: "string option"

definition settings_payload_of :: "account_settings list \<Rightarrow> string \<Rightarrow> settings_payload" where
  "settings_payload_of rows d =
     (case List.find (\<lambda>r. set_domain_id r = d) rows of
        None \<Rightarrow> \<lparr>sp_countBackupSnapshots = True, sp_updatedAt = None, sp_updatedBy = None\<rparr>
      | Some r \<Rightarrow> \<lparr>sp_countBackupSnapshots = count_backup_snapshots r, sp_updatedAt = Some (set_updated_at r),
          sp_updatedBy = Some (set_updated_by r)\<rparr>)"

definition no_such_account :: refusal where
  "no_such_account = Refused (AppError ''No such account.'' ''account_not_found'' 404)"

text \<open>What the cabinet knows of a cloud user: its own row of that user name, the last one in any case.\<close>

definition with_cabinet_row :: "user list \<Rightarrow> domain_user \<Rightarrow> admin_user" where
  "with_cabinet_row known du =
     (let row = List.find (\<lambda>u. lower (username u) = lowered (du_name du)) (rev known) in
      domain_user.extend du (admin_user.fields (map_option app_role row) (map_option u_status row)))"

record account_screen =
  ax_view :: account_view
  ax_users :: "admin_user list"
  ax_settings :: settings_payload

definition account_get :: "reads \<Rightarrow> failure + cluster_snapshot \<Rightarrow> int \<Rightarrow> string \<Rightarrow> cluster_store
    \<Rightarrow> cluster_store \<times> (refusal + account_screen)" where
  "account_get dir built now i st =
     (case picture_of False built now st of
        (st, Inl e) \<Rightarrow> (st, Inl e)
      | (st, Inr sn) \<Rightarrow>
          (case picture_account sn i of
             None \<Rightarrow> (st, Inl no_such_account)
           | Some v \<Rightarrow>
               (case account_users dir now i st of
                  (st, Inl Crash) \<Rightarrow> (st, Inl Crashed)
                | (st, Inl (Zadara _)) \<Rightarrow>
                    (st, Inl (Refused (AppError ''Could not read the account users.'' ''upstream_error'' 502)))
                | (st, Inr us) \<Rightarrow>
                    let known = filter (\<lambda>u. lower (u_account u) = lowered (ac_name (av_account v))) (cl_users st) in
                    (st, if all_text du_name us
                         then Inr \<lparr>ax_view = v, ax_users = map (with_cabinet_row known) us,
                           ax_settings = settings_payload_of (cl_settings st) i\<rparr>
                         else Inl Crashed))))"

definition operator_email :: "web_request \<Rightarrow> string" where
  "operator_email q = (case operator_of (req_user q) of None \<Rightarrow> [] | Some a \<Rightarrow> admin_email a)"

definition account_settings_row :: "string \<Rightarrow> json \<Rightarrow> bool \<Rightarrow> string \<Rightarrow> int \<Rightarrow> account_settings" where
  "account_settings_row d name b mail now =
     \<lparr>set_domain_id = d, set_account = py_str_of name, count_backup_snapshots = b, set_updated_at = now, set_updated_by = mail\<rparr>"

definition settings_entry :: "web_request \<Rightarrow> string \<Rightarrow> json \<Rightarrow> bool \<Rightarrow> admin_action" where
  "settings_entry q d name b =
     entry q None ''account.settings.update''\<lparr>target_account := py_str_of name, target_type := ''account'', target_id := d,
       target_name := py_str_of name, detail := [(''countBackupSnapshots'', JBool b)]\<rparr>"

text \<open>Only a real boolean will do.\<close>

definition account_patch :: "(admin_action \<Rightarrow> bool) \<Rightarrow> web_request \<Rightarrow> failure + cluster_snapshot \<Rightarrow> int \<Rightarrow> string \<Rightarrow> json
    \<Rightarrow> cluster_store \<Rightarrow> cluster_store \<times> (refusal + settings_payload)" where
  "account_patch saves q built now i data st =
     (case picture_of False built now st of
        (st, Inl e) \<Rightarrow> (st, Inl e)
      | (st, Inr sn) \<Rightarrow>
          (case picture_account sn i of
             None \<Rightarrow> (st, Inl no_such_account)
           | Some v \<Rightarrow>
               (case jget (as_object data) ''countBackupSnapshots'' of
                  JBool b \<Rightarrow>
                    let name = ac_name (av_account v); row = account_settings_row i name b (operator_email q) now;
                        rows = upsert (\<lambda>r. set_domain_id r = i) (\<lambda>_. row) row (cl_settings st)
                    in (st\<lparr>cl_settings := rows, cl_actions := record_action saves (settings_entry q i name b) (cl_actions st)\<rparr>,
                        Inr (settings_payload_of rows i))
                | _ \<Rightarrow> (st, Inl (bad_request ''`countBackupSnapshots` must be true or false.'')))))"


subsection \<open>Users of every account (\<open>UsersView\<close>)\<close>

record cluster_user =
  cu_user :: domain_user
  cu_account :: json
  cu_accountId :: string
  cu_status :: "string option"

text \<open>One account that cannot be read is named and does not blank the list.\<close>

fun gather_users :: "reads \<Rightarrow> int \<Rightarrow> account_cell list \<Rightarrow> cluster_store
    \<Rightarrow> cluster_store \<times> (refusal + (account_cell \<times> domain_user) list \<times> json list)" where
  "gather_users dir now [] st = (st, Inr ([], []))"
| "gather_users dir now (ac # acs) st =
     (case account_users dir now (ac_id ac) st of
        (st, Inl Crash) \<Rightarrow> (st, Inl Crashed)
      | (st, Inl (Zadara _)) \<Rightarrow>
          (case gather_users dir now acs st of
             (st, Inl e) \<Rightarrow> (st, Inl e) | (st, Inr (rows, un)) \<Rightarrow> (st, Inr (rows, ac_name ac # un)))
      | (st, Inr us) \<Rightarrow>
          (case gather_users dir now acs st of
             (st, Inl e) \<Rightarrow> (st, Inl e) | (st, Inr (rows, un)) \<Rightarrow> (st, Inr (map (Pair ac) us @ rows, un))))"

definition cabinet_status_of :: "user list \<Rightarrow> json \<Rightarrow> json \<Rightarrow> string option" where
  "cabinet_status_of us acc name = map_option u_status
     (List.find (\<lambda>u. lower (u_account u) @ ''/'' @ lower (username u) = lowered acc @ ''/'' @ lowered name) (rev us))"

definition cluster_user_of :: "user list \<Rightarrow> account_cell \<times> domain_user \<Rightarrow> cluster_user" where
  "cluster_user_of us = (\<lambda>(ac, du). \<lparr>cu_user = du, cu_account = ac_name ac, cu_accountId = ac_id ac,
     cu_status = cabinet_status_of us (ac_name ac) (du_name du)\<rparr>)"

text \<open>\<open>None\<close>: an address that is not text, looked at only where the name does not match.\<close>

definition user_matches :: "string \<Rightarrow> cluster_user \<Rightarrow> bool option" where
  "user_matches w r =
     (if contains (lowered (du_name (cu_user r))) w then Some True
      else (case jor (du_email (cu_user r)) (JStr []) of
          JStr mail \<Rightarrow> Some (contains (lower mail) w \<or> contains (lowered (cu_account r)) w)
        | _ \<Rightarrow> None))"

definition searched :: "string \<Rightarrow> cluster_user list \<Rightarrow> refusal + cluster_user list" where
  "searched w rows =
     (if w = [] then Inr rows
      else case mapM (user_matches w) rows of
          None \<Rightarrow> Inl Crashed
        | Some ms \<Rightarrow> Inr (map fst (filter snd (zip rows ms))))"

definition user_order :: "cluster_user \<Rightarrow> string \<times> string" where
  "user_order r = (lowered (cu_account r), lowered (du_name (cu_user r)))"

definition parameter :: "string option \<Rightarrow> string" where
  "parameter v = lower (strip (case v of None \<Rightarrow> [] | Some s \<Rightarrow> s))"

definition users_get :: "reads \<Rightarrow> failure + cluster_snapshot \<Rightarrow> int \<Rightarrow> string option \<Rightarrow> string option \<Rightarrow> cluster_store
    \<Rightarrow> cluster_store \<times> (refusal + cluster_user list \<times> json list)" where
  "users_get dir built now wanted q st =
     (case picture_of False built now st of
        (st, Inl e) \<Rightarrow> (st, Inl e)
      | (st, Inr sn) \<Rightarrow>
          let chosen = filter (\<lambda>ac. parameter wanted = [] \<or> lowered (ac_name ac) = parameter wanted) (map av_account (sn_accounts sn)) in
          (case gather_users dir now chosen st of
             (st, Inl e) \<Rightarrow> (st, Inl e)
           | (st, Inr (found, un)) \<Rightarrow>
               (st, if all_text (\<lambda>(ac, du). du_name du) found
                    then sum_bind (searched (parameter q) (map (cluster_user_of (cl_users st)) found))
                      (\<lambda>rows. Inr (sort_key user_order rows, un))
                    else Inl Crashed)))"

subsection \<open>Turning a user off (\<open>UserDetailView\<close>)\<close>

record user_switch =
  us_account :: string
  us_enabled :: json
  us_status :: json

definition user_switch_of :: "json \<Rightarrow> refusal + user_switch" where
  "user_switch_of data =
     sum_bind (text_field data ''account'') (\<lambda>acc.
     if acc = [] then Inl (bad_request ''`account` is required.'')
     else sum_bind (body_field data ''enabled'') (\<lambda>en. sum_bind (body_field data ''cabinetStatus'') (\<lambda>cs.
       if en = JNull \<and> cs = JNull then Inl (bad_request ''Nothing to change.'')
       else Inr \<lparr>us_account = acc, us_enabled = en, us_status = cs\<rparr>)))"

definition switch_entry :: "web_request \<Rightarrow> string \<Rightarrow> string \<Rightarrow> object \<Rightarrow> admin_action" where
  "switch_entry q acc i d =
     entry q None ''user.update''\<lparr>target_account := acc, target_type := ''user'', target_id := i, detail := d\<rparr>"

definition attempted :: "bool \<Rightarrow> object" where
  "attempted b = [(''attempted'', JObj [(''enabled'', JBool b)])]"

text \<open>The cloud's half: what has changed, or the recorded refusal. \<open>token\<close> is the service token's outcome.\<close>

definition switch_in_cloud :: "(admin_action \<Rightarrow> bool) \<Rightarrow> web_request \<Rightarrow> failure + string \<Rightarrow> cloud_call \<Rightarrow> string \<Rightarrow> user_switch \<Rightarrow> cluster_store
    \<Rightarrow> cluster_store \<times> (refusal + object)" where
  "switch_in_cloud saves q token call i w st =
     (if us_enabled w = JNull then (st, Inr [])
      else let b = truthy (us_enabled w) in
        (case sum_bind token (\<lambda>t. update_user call t i [(''enabled'', JBool b)]) of
           Inl Crash \<Rightarrow> (st, Inl Crashed)
         | Inl (Zadara e) \<Rightarrow>
             (st\<lparr>cl_actions := record_action saves (failed (zcode e) (switch_entry q (us_account w) i (attempted b))) (cl_actions st)\<rparr>,
              Inl (Refused (AppError ''The cloud refused the change.'' (zcode e) 502)))
         | Inr _ \<Rightarrow> (st, Inr [(''enabled'', JBool b)])))"

text \<open>The cabinet's half: only people who have signed in have a row. Lists and objects cannot be looked up in a set.\<close>

definition switch_in_cabinet :: "string \<Rightarrow> user_switch \<Rightarrow> user list \<Rightarrow> user list \<times> (refusal + object)" where
  "switch_in_cabinet i w us =
     (case us_status w of
        JNull \<Rightarrow> (us, Inr [])
      | JStr s \<Rightarrow>
          if s \<in> {''active'', ''blocked''} then
            (map (\<lambda>u. if iexact (u_account u) (us_account w) \<and> zadara_user_id u = i then u\<lparr>u_status := s\<rparr> else u) us,
             Inr [(''cabinetStatus'', JStr s)])
          else (us, Inl (bad_request ''Unknown cabinet status.''))
      | JList _ \<Rightarrow> (us, Inl Crashed)
      | JObj _ \<Rightarrow> (us, Inl Crashed)
      | _ \<Rightarrow> (us, Inl (bad_request ''Unknown cabinet status.'')))"

definition forget_list_of :: "string option \<Rightarrow> cluster_store \<Rightarrow> cluster_store" where
  "forget_list_of d st = (if given d then forget_account_users (the d) st else st)"

definition user_patch :: "(admin_action \<Rightarrow> bool) \<Rightarrow> web_request \<Rightarrow> failure + string \<Rightarrow> cloud_call \<Rightarrow> reads \<Rightarrow> string \<Rightarrow> json \<Rightarrow> cluster_store
    \<Rightarrow> cluster_store \<times> (refusal + object)" where
  "user_patch saves q token call dir i data st =
     (case user_switch_of data of
        Inl e \<Rightarrow> (st, Inl e)
      | Inr w \<Rightarrow>
          (case switch_in_cloud saves q token call i w st of
             (st, Inl e) \<Rightarrow> (st, Inl e)
           | (st, Inr there) \<Rightarrow>
               (case switch_in_cabinet i w (cl_users st) of
                  (us, Inl e) \<Rightarrow> (st, Inl e)
                | (us, Inr here) \<Rightarrow>
                    let st = st\<lparr>cl_users := us\<rparr> in
                    (case resolve_domain_id dir (us_account w) of
                       Inl _ \<Rightarrow> (st, Inl Crashed)
                     | Inr d \<Rightarrow>
                         let st = forget_list_of d st in
                         (st\<lparr>cl_actions := record_action saves (switch_entry q (us_account w) i (there @ here)) (cl_actions st)\<rparr>,
                          Inr ((''id'', JStr i) # there @ here))))))"


subsection \<open>What the cluster carries (\<open>ResourcesView\<close>)\<close>

text \<open>Installed hardware: the settings that are not zero, by the figure each is a denominator of.\<close>

definition PLATFORM_CAPACITY :: "int \<Rightarrow> int \<Rightarrow> int \<Rightarrow> (string \<times> int) list" where
  "PLATFORM_CAPACITY cores ram disk = filter (\<lambda>(k, v). v \<noteq> 0) [(''vcpus'', cores), (''ramMB'', ram), (''storageGiB'', disk)]"

definition figure :: "string \<Rightarrow> 'a footprint_scheme \<Rightarrow> int option" where
  "figure k u =
     (if k = ''vcpus'' then fp_vcpus u else if k = ''ramMB'' then fp_ramMB u
      else if k = ''storageGiB'' then storageGiB u else None)"

definition utilisation_of :: "'a footprint_scheme \<Rightarrow> (string \<times> int) list \<Rightarrow> (string \<times> int \<times> int \<times> rat) list" where
  "utilisation_of u installed = List.map_filter (\<lambda>(k, n). case figure k u of
     None \<Rightarrow> None
   | Some used \<Rightarrow> if n = 0 then None else Some (k, used, n, used_percent (of_int used) (of_int n))) installed"

record resources_screen =
  rs_totals :: total_footprint
  rs_capacity :: "(string \<times> int) list"
  rs_utilisation :: "(string \<times> int \<times> int \<times> rat) list"
  rs_byAccount :: "account_row list"
  rs_unattributed :: "(listing \<times> int) list"
  rs_meta :: picture_meta

definition resources_get :: "(string \<times> int) list \<Rightarrow> string option \<Rightarrow> failure + cluster_snapshot \<Rightarrow> int \<Rightarrow> cluster_store
    \<Rightarrow> cluster_store \<times> (refusal + resources_screen)" where
  "resources_get installed refresh built now st =
     (case picture_of (wants_refresh refresh) built now st of
        (st, Inl e) \<Rightarrow> (st, Inl e)
      | (st, Inr sn) \<Rightarrow>
          (st, Inr \<lparr>rs_totals = sn_totals sn, rs_capacity = installed, rs_utilisation = utilisation_of (sn_totals sn) installed,
             rs_byAccount = map account_row_of (sn_accounts sn), rs_unattributed = sn_unattributed sn, rs_meta = snapshot_meta sn\<rparr>))"

subsection \<open>Health (\<open>HealthView\<close>)\<close>

text \<open>A check passes or carries the first 200 characters of what went wrong.\<close>

definition check_of :: "string \<Rightarrow> string option \<Rightarrow> string \<times> bool \<times> string" where
  "check_of name err = (case err of None \<Rightarrow> (name, True, []) | Some e \<Rightarrow> (name, False, take_chars 200 e))"

record health =
  hl_ok :: bool
  hl_checks :: "(string \<times> bool \<times> string) list"
  hl_picture :: "picture_meta option"

text \<open>\<open>database\<close>, \<open>cache\<close> and \<open>zadara\<close> are the errors of the three probes.\<close>

definition health_get :: "string option \<Rightarrow> string option \<Rightarrow> string option \<Rightarrow> failure + cluster_snapshot \<Rightarrow> int \<Rightarrow> cluster_store
    \<Rightarrow> cluster_store \<times> (refusal + health)" where
  "health_get database cache zadara built now st =
     (let checks = [check_of ''database'' database, check_of ''cache'' cache, check_of ''zadara'' zadara] in
      case get_picture False built now (cl_pictures st) of (s, r) \<Rightarrow>
        (st\<lparr>cl_pictures := s\<rparr>,
         (case r of
            Inl Crash \<Rightarrow> Inl Crashed
          | Inl (Zadara _) \<Rightarrow> Inr \<lparr>hl_ok = list_all (\<lambda>(n, ok, e). ok) checks, hl_checks = checks, hl_picture = None\<rparr>
          | Inr sn \<Rightarrow> Inr \<lparr>hl_ok = list_all (\<lambda>(n, ok, e). ok) checks, hl_checks = checks, hl_picture = Some (snapshot_meta sn)\<rparr>)))"

subsection \<open>The two journals (\<open>AuditView\<close>, \<open>ActivityView\<close>)\<close>

definition icontains :: "string \<Rightarrow> string \<Rightarrow> bool" where
  "icontains text w = contains (lower text) (lower w)"

text \<open>A filter that is given restricts the rows; newest first.\<close>

definition filtered :: "string option \<Rightarrow> (string \<Rightarrow> 'a \<Rightarrow> bool) \<Rightarrow> 'a list \<Rightarrow> 'a list" where
  "filtered v P rows = (if given v then filter (P (the v)) rows else rows)"

definition audit_get :: "(string \<Rightarrow> string option) \<Rightarrow> audit_log list \<Rightarrow> audit_log list" where
  "audit_get param trail =
     filtered (param ''q'') (\<lambda>w l. icontains (log_username l) w \<or> icontains (log_resource_name l) w \<or> icontains (log_account l) w)
       (filtered (param ''outcome'') (\<lambda>w l. log_outcome l = w)
         (filtered (param ''username'') (\<lambda>w l. icontains (log_username l) w)
           (filtered (param ''action'') (\<lambda>w l. audit_log.log_action l = w)
             (filtered (param ''account'') (\<lambda>w l. iexact (log_account l) w) (rev trail)))))"

definition activity_get :: "(string \<Rightarrow> string option) \<Rightarrow> admin_action list \<Rightarrow> admin_action list" where
  "activity_get param acts =
     filtered (param ''outcome'') (\<lambda>w l. outcome l = w)
       (filtered (param ''action'') (\<lambda>w l. action l = w)
         (filtered (param ''actor'') (\<lambda>w l. icontains (actor_email l) w) (rev acts)))"

end
