(* ===== verification/Cabinet_Safety.thy ===== *)
theory Cabinet_Safety
  imports Cabinet_Sign_In
begin

text \<open>
  What the cabinet's sign-in guarantees: a session stands for an identity and a token the cloud itself
  answered with, the pending receipt stays on the server, and a password reset tells its caller nothing.
\<close>

subsection \<open>Identities come from the cloud\<close>

text \<open>The identity, the roles and the token of a result are those of one successful answer of the cloud.\<close>

definition vouched :: "identity_provider \<Rightarrow> auth_result \<Rightarrow> bool" where
  "vouched idp res = (\<exists>payload hdrs r scope acc. idp payload hdrs = Inr r \<and> resp_ok r \<and>
     header r ''x-subject-token'' = Some (ar_token res) \<and>
     parse_auth_body (ar_token res) scope (body_of r) acc = Some res)"

lemma some_or_crash_Inr: "some_or_crash v = Inr x \<longleftrightarrow> v = Some x"
  by (simp add: some_or_crash_def split: option.split)

lemma parse_token: "parse_auth_body token scope body acc = Some res \<Longrightarrow> ar_token res = token"
  by (auto simp: parse_auth_body_def bind_eq_Some_conv)

lemma to_result_vouched:
  assumes "idp payload hdrs = Inr r" "resp_ok r" "to_result r scope acc = Inr res"
  shows "vouched idp res"
proof -
  obtain t where t: "header r ''x-subject-token'' = Some t" "parse_auth_body t scope (body_of r) acc = Some res"
    using assms(3) by (auto simp: to_result_def some_or_crash_Inr split: option.splits list.splits)
  then show ?thesis unfolding vouched_def using assms(1,2) parse_token [OF t(2)] by blast
qed

lemma exchange_vouched: "exchange_project idp token name acc = Inr res \<Longrightarrow> vouched idp res"
  by (auto simp: exchange_project_def Let_def to_result_vouched split: sum.splits if_splits)

lemma authenticate_vouched: "authenticate idp acc nm pw project totp = Inr res \<Longrightarrow> vouched idp res"
  by (auto simp: authenticate_def Let_def sum_bind_def to_result_vouched split: sum.splits if_splits)

lemma totp_vouched: "authenticate_totp idp acc nm passcode receipt project = Inr res \<Longrightarrow> vouched idp res"
  by (auto simp: authenticate_totp_def sum_bind_def to_result_vouched exchange_vouched
      split: sum.splits if_splits auth_failure.splits)

lemma complete_mfa_vouched:
  "complete_mfa k idp t mc acc nm now c = (c', Inr res) \<Longrightarrow> vouched idp res"
  by (auto simp: complete_mfa_def totp_vouched split: option.splits if_splits sum.splits)

lemma identified_vouched:
  "identified k idp fresh now f c = (c', Inr res) \<Longrightarrow> vouched idp res"
  by (auto simp: identified_def no_details_def complete_mfa_vouched authenticate_vouched split: option.splits sum.splits prod.splits)

lemma rescoped_vouched: "rescoped idp dir f res = Inr res' \<Longrightarrow> vouched idp res \<Longrightarrow> vouched idp res'"
  by (auto simp: rescoped_def exchange_vouched split: sum.splits if_splits failure.splits list.splits auth_failure.splits)

text \<open>Before the user is known only the tickets of a second factor change.\<close>

lemma challenge_state: "challenge k fresh now acc nm project e c = (c', x) \<Longrightarrow> \<exists>rs. c' = c\<lparr>receipts := rs\<rparr>"
proof -
  have "\<exists>rs. c = c\<lparr>receipts := rs\<rparr>" by (rule exI [of _ "receipts c"]) simp
  then show "challenge k fresh now acc nm project e c = (c', x) \<Longrightarrow> \<exists>rs. c' = c\<lparr>receipts := rs\<rparr>"
    by (auto simp: challenge_def mfa_issue_def Let_def split: auth_failure.splits if_splits)
qed

lemma identified_state: "identified k idp fresh now f c = (c', x) \<Longrightarrow> \<exists>rs. c' = c\<lparr>receipts := rs\<rparr>"
proof -
  have self: "\<exists>rs. c = c\<lparr>receipts := rs\<rparr>" by (rule exI [of _ "receipts c"]) simp
  have mfa: "complete_mfa k idp t mc acc nm now c = (c', y) \<Longrightarrow> \<exists>rs. c' = c\<lparr>receipts := rs\<rparr>" for t mc acc nm y c'
    using self by (auto simp: complete_mfa_def mfa_revoke_def split: option.splits if_splits sum.splits)
  show "identified k idp fresh now f c = (c', x) \<Longrightarrow> \<exists>rs. c' = c\<lparr>receipts := rs\<rparr>"
    using self by (auto simp: identified_def split: option.splits sum.splits prod.splits dest: mfa challenge_state)
qed

lemma login_cases:
  assumes "cabinet_login_post k idp dir ttl d cookie now data c = (c', Inr (who, key))"
  obtains res rs u where "vouched idp res"
    "user_row res (upsert_user (fresh_pk d) res (cabinet_users c)) = Some u" "\<not> is_blocked u"
    "open_session k ttl d cookie now res u
       (c\<lparr>receipts := rs, cabinet_users := upsert_user (fresh_pk d) res (cabinet_users c)\<rparr>) = (c', Inr (who, key))"
proof -
  obtain f where f: "login_form_of data = Inr f" using assms by (cases "login_form_of data") (auto simp: cabinet_login_post_def)
  obtain c1 r1 where i: "identified k idp (fresh_ticket d) now f c = (c1, r1)" by fastforce
  then obtain res0 where r1: "r1 = Inr res0" using assms by (cases r1) (auto simp: cabinet_login_post_def f)
  obtain res where r: "rescoped idp dir f res0 = Inr res"
    using assms by (cases "rescoped idp dir f res0") (auto simp: cabinet_login_post_def f i r1)
  obtain rs where c1: "c1 = c\<lparr>receipts := rs\<rparr>" using identified_state [OF i] by blast
  have "vouched idp res" using rescoped_vouched [OF r] identified_vouched i r1 by simp
  then show thesis using that assms by (auto simp: cabinet_login_post_def f i r1 r c1 Let_def split: option.splits if_splits)
qed


subsection \<open>The session that is opened\<close>

lemma find_upsert:
  assumes "\<And>r. P (f r) = P r" "P new"
  shows "List.find P (upsert P f new rows) = Some (case List.find P rows of None \<Rightarrow> new | Some r \<Rightarrow> f r)"
  using assms by (induction rows) auto

lemma mirrored_fields [simp]:
  "zadara_user_id (mirrored res u) = zadara_user_id u" "u_pk (mirrored res u) = u_pk u"
  "u_status (mirrored res u) = u_status u" "u_account (mirrored res u) = ar_account_name res"
  "app_role (mirrored res u) = resolve_app_role (ar_roles res)"
  by (simp_all add: mirrored_def)

lemma user_row_upsert:
  assumes "user_row res (upsert_user new_pk res us) = Some u"
  shows "zadara_user_id u = ar_user_id res" "u_account u = ar_account_name res"
    "app_role u = resolve_app_role (ar_roles res)" "u \<in> set (upsert_user new_pk res us)"
proof -
  show "zadara_user_id u = ar_user_id res"
    using assms by (auto simp: user_row_def find_Some_iff)
  show "u \<in> set (upsert_user new_pk res us)"
    using assms unfolding user_row_def by (rule find_Some_mem [THEN conjunct1])
  have "u_account u = ar_account_name res \<and> app_role u = resolve_app_role (ar_roles res)"
    using assms unfolding user_row_def upsert_user_def by (subst (asm) find_upsert) (auto split: option.splits)
  then show "u_account u = ar_account_name res" "app_role u = resolve_app_role (ar_roles res)" by simp_all
qed

lemma unique_upsert_user:
  assumes "unique_on u_pk us" "new_pk \<notin> u_pk ` set us"
  shows "unique_on u_pk (upsert_user new_pk res us)"
proof -
  have "unique_on u_pk (upsert P f new rows)"
    if "unique_on u_pk rows" "u_pk new \<notin> u_pk ` set rows" "\<And>r. u_pk (f r) = u_pk r" for P and f :: "user \<Rightarrow> user" and new rows
    using that(1,2)
  proof (induction rows)
    case (Cons r rs)
    have "u_pk ` set (upsert P f new rs) \<subseteq> insert (u_pk new) (u_pk ` set rs)"
      using set_upsert [of P f new rs] that(3) by (auto simp: image_iff)
    then show ?case using Cons that(3) by (auto simp: unique_on_def)
  qed (simp add: unique_on_def)
  then show ?thesis using assms by (simp add: upsert_user_def)
qed

lemma find_unique_pk: "unique_on u_pk us \<Longrightarrow> u \<in> set us \<Longrightarrow> List.find (\<lambda>v. u_pk v = u_pk u) us = Some u"
proof (induction us)
  case (Cons v us)
  show ?case
  proof (cases "v = u")
    case False
    then have "u \<in> set us" "u_pk v \<noteq> u_pk u" using Cons.prems by (auto simp: unique_on_def)
    then show ?thesis using Cons by (simp add: unique_on_def)
  qed simp
qed simp

text \<open>The fields of the cabinet a sign-in leaves to the session store and the vault.\<close>

lemma cabinet_parts [simp]:
  "cabinet_users (drop_session s c) = cabinet_users c" "cabinet_users (vault_store k ttl now s t c) = cabinet_users c"
  "vault (drop_session s c) = vault c" "browsers (vault_store k ttl now s t c) = browsers c"
  "vault (c\<lparr>browsers := b\<rparr>) = vault c"
  by (simp_all add: drop_session_def vault_store_def split: option.split)

lemma browser_session_key: "browser_session c now cookie = (s, dt) \<Longrightarrow> s = None \<or> s = cookie"
  by (auto simp: browser_session_def split: option.splits)

lemma vault_get_stored:
  assumes "\<forall>t. unseal k (seal k t) = Some t \<and> seal k t \<noteq> []" "0 < ttl"
  shows "vault_get k now s' (vault_store k ttl now s t c) = (if vault_key s' = vault_key s then Some t else vault_get k now s' c)"
  using assms by (simp add: vault_get_def vault_store_def shelf.look_put)

lemma open_session_effect:
  assumes "open_session k ttl d cookie now res u c = (c', Inr (who, key))" "0 < ttl"
  obtains s dt c1 where "django_login (fresh_key d) u (browser_session c now cookie) c = (c1, s, dt)"
    "key = (case s of None \<Rightarrow> fresh_save d | Some x \<Rightarrow> x)" "who = cabinet_me_payload u (scoped res dt)"
    "vault c' = vault (vault_store k ttl now s (ar_token res) c)"
    "cabinet_users c' = cabinet_users c" "shelf_get (browsers c') now key = Some (scoped res dt)"
    "auth_user_id dt = Some (u_pk u)"
proof -
  obtain c1 s dt where l: "django_login (fresh_key d) u (browser_session c now cookie) c = (c1, s, dt)"
    by (metis prod_cases3)
  have c1: "vault c1 = vault c" "cabinet_users c1 = cabinet_users c" "auth_user_id dt = Some (u_pk u)"
    using l by (auto simp: django_login_def split: option.splits if_splits)
  show thesis
    using that [OF l] assms c1
    by (auto simp: open_session_def l save_session_def Let_def vault_store_def shelf.look_put)
qed


text \<open>What a sign-in that succeeds has done.\<close>

lemma login_effect:
  assumes "cabinet_login_post k idp dir ttl d cookie now data c = (c', Inr (who, key))" "0 < ttl"
  obtains res u s dt c0 c1 where "vouched idp res"
    "user_row res (upsert_user (fresh_pk d) res (cabinet_users c)) = Some u" "\<not> is_blocked u"
    "django_login (fresh_key d) u (browser_session c now cookie) c0 = (c1, s, dt)" "vault c0 = vault c"
    "key = (case s of None \<Rightarrow> fresh_save d | Some x \<Rightarrow> x)" "who = cabinet_me_payload u (scoped res dt)"
    "vault c' = vault (vault_store k ttl now s (ar_token res) c0)"
    "cabinet_users c' = upsert_user (fresh_pk d) res (cabinet_users c)"
    "shelf_get (browsers c') now key = Some (scoped res dt)" "auth_user_id dt = Some (u_pk u)"
proof -
  obtain res rs u where r: "vouched idp res"
      "user_row res (upsert_user (fresh_pk d) res (cabinet_users c)) = Some u" "\<not> is_blocked u"
    and o: "open_session k ttl d cookie now res u
       (c\<lparr>receipts := rs, cabinet_users := upsert_user (fresh_pk d) res (cabinet_users c)\<rparr>) = (c', Inr (who, key))"
    using login_cases [OF assms(1)] by metis
  let ?c = "c\<lparr>receipts := rs, cabinet_users := upsert_user (fresh_pk d) res (cabinet_users c)\<rparr>"
  have same: "browser_session ?c now cookie = browser_session c now cookie" by (simp add: browser_session_def)
  show thesis
  proof (rule open_session_effect [OF o assms(2), unfolded same])
    fix s dt c1
    assume l: "django_login (fresh_key d) u (browser_session c now cookie) ?c = (c1, s, dt)"
      and f: "key = (case s of None \<Rightarrow> fresh_save d | Some x \<Rightarrow> x)" "who = cabinet_me_payload u (scoped res dt)"
        "vault c' = vault (vault_store k ttl now s (ar_token res) ?c)" "cabinet_users c' = cabinet_users ?c"
        "shelf_get (browsers c') now key = Some (scoped res dt)" "auth_user_id dt = Some (u_pk u)"
    show thesis by (rule that [OF r l _ f(1-3) _ f(5,6)]) (use f(4) in simp_all)
  qed
qed

text \<open>C15. A cabinet session always stands for an identity the cloud itself answered with: the identity, account,
  roles and token are those of one successful Keystone answer, the local row mirrors them, a user blocked
  here gets no session, the session key the browser is given is recognised as that user, and the cloud
  token is in the vault under it whenever the browser did not hold somebody else's session.\<close>

theorem cabinet_session_is_the_clouds:
  assumes "cabinet_login_post k idp dir ttl d cookie now data c = (c', Inr (who, key))"
    and "\<forall>t. unseal k (seal k t) = Some t \<and> seal k t \<noteq> []" "0 < ttl"
    and "fresh_key d \<noteq> []" "cookie \<noteq> Some []"
    and "unique_on u_pk (cabinet_users c)" "fresh_pk d \<notin> u_pk ` set (cabinet_users c)"
  shows "\<exists>res u. vouched idp res \<and> zadara_user_id u = ar_user_id res \<and> u_account u = ar_account_name res \<and>
    app_role u = resolve_app_role (ar_roles res) \<and> \<not> is_blocked u \<and>
    signed_user c' now (Some key) = Some u \<and> cabinet_me_get (Some key) now c' = Inr who \<and>
    (auth_user_id (snd (browser_session c now cookie)) \<in> {None, Some (u_pk u)} \<longrightarrow>
       session_token k now (Some key) c' = Some (ar_token res))"
proof -
  obtain res u s dt c0 c1 where v: "vouched idp res"
    and row: "user_row res (upsert_user (fresh_pk d) res (cabinet_users c)) = Some u" "\<not> is_blocked u"
    and l: "django_login (fresh_key d) u (browser_session c now cookie) c0 = (c1, s, dt)"
    and key: "key = (case s of None \<Rightarrow> fresh_save d | Some x \<Rightarrow> x)" and who: "who = cabinet_me_payload u (scoped res dt)"
    and vc: "vault c' = vault (vault_store k ttl now s (ar_token res) c0)"
    and us: "cabinet_users c' = upsert_user (fresh_pk d) res (cabinet_users c)"
    and bs: "shelf_get (browsers c') now key = Some (scoped res dt)" and auth: "auth_user_id dt = Some (u_pk u)"
    by (rule login_effect [OF assms(1,3)])
  note u = user_row_upsert [OF row(1)]
  have b': "browser_session c' now (Some key) = (Some key, scoped res dt)" by (simp add: browser_session_def bs)
  have su: "signed_user c' now (Some key) = Some u"
    using find_unique_pk [OF unique_upsert_user [OF assms(6,7)] u(4)] auth
    by (simp add: signed_user_def b' scoped_def us)
  have vg: "vault_get k now s' c' = (if vault_key s' = vault_key s then Some (ar_token res) else vault_get k now s' c0)" for s'
    using vault_get_stored [OF assms(2,3), of now s' s "ar_token res" c0] by (simp add: vault_get_def vc)
  have cases: "(auth_user_id (snd (browser_session c now cookie)) \<in> {None, Some (u_pk u)} \<longrightarrow> s = Some key \<and> key \<noteq> []) \<and>
      (auth_user_id (snd (browser_session c now cookie)) \<notin> {None, Some (u_pk u)} \<longrightarrow> s = None)"
    using l key assms(4,5) browser_session_key [of c now cookie "fst (browser_session c now cookie)"]
    by (cases "auth_user_id (snd (browser_session c now cookie))")
      (auto simp: django_login_def browser_session_def empty_session_def split: if_splits option.splits)
  have "session_token k now (Some key) c' = Some (ar_token res)"
    if "auth_user_id (snd (browser_session c now cookie)) \<in> {None, Some (u_pk u)}"
    using that cases vg [of "Some key"] by (auto simp: session_token_def given_def)
  then show ?thesis using v u row(2) su by (auto simp: cabinet_me_get_def b' who)
qed

text \<open>Signing in from a browser that still holds another user's session opens a session without a token:
  Django throws the old session away, so the token is filed before the new one has a key, and the next
  refresh of the session just opened is refused as expired.\<close>

theorem other_users_browser_gets_no_token:
  assumes "cabinet_login_post k idp dir ttl d cookie now data c = (c', Inr (who, key))" "0 < ttl"
    and "auth_user_id (snd (browser_session c now cookie)) = Some i"
    and "\<forall>u \<in> set (cabinet_users c'). u_pk u = i \<longrightarrow> zadara_user_id u \<noteq> cm_zadaraUserId who"
    and "vault_get k now (Some (fresh_save d)) c = None" "fresh_save d \<noteq> ''None''"
  shows "key = fresh_save d \<and> session_token k now (Some key) c' = None \<and>
    (refresh_post k (Some key) now c' = Inl SESSION_EXPIRED \<or> refresh_post k (Some key) now c' = Inl not_signed_in)"
proof -
  obtain res u s dt c0 c1
    where row: "user_row res (upsert_user (fresh_pk d) res (cabinet_users c)) = Some u"
    and l: "django_login (fresh_key d) u (browser_session c now cookie) c0 = (c1, s, dt)" and vault: "vault c0 = vault c"
    and key: "key = (case s of None \<Rightarrow> fresh_save d | Some x \<Rightarrow> x)" and who: "who = cabinet_me_payload u (scoped res dt)"
    and vc: "vault c' = vault (vault_store k ttl now s (ar_token res) c0)"
    and us: "cabinet_users c' = upsert_user (fresh_pk d) res (cabinet_users c)"
    and bs: "shelf_get (browsers c') now key = Some (scoped res dt)"
    by (rule login_effect [OF assms(1,2)])
  have "zadara_user_id u = cm_zadaraUserId who" by (simp add: who cabinet_me_payload_def)
  then have "u_pk u \<noteq> i" using assms(4) user_row_upsert(4) [OF row] us by auto
  then have s: "s = None" using l assms(3) by (auto simp: django_login_def)
  then have key': "key = fresh_save d" by (simp add: key)
  have "vault_get k now (Some (fresh_save d)) c' = None"
    using assms(5,6) by (simp add: vault_get_def vc s vault vault_store_def shelf.look_put vault_key_def)
  then have st: "session_token k now (Some key) c' = None" by (simp add: session_token_def key')
  have "fst (browser_session c' now (Some key)) = Some key" by (simp add: browser_session_def bs)
  then show ?thesis using key' st by (simp add: refresh_post_def given_def split: option.split)
qed


subsection \<open>The receipt stays on the server\<close>

text \<open>The cloud's answers with the given receipt in the place of theirs.\<close>

definition relabelled :: "string \<Rightarrow> response \<Rightarrow> response" where
  "relabelled x r = r\<lparr>resp_headers :=
     map (\<lambda>(n, v). if lower n = ''openstack-auth-receipt'' then (n, x) else (n, v)) (resp_headers r)\<rparr>"

definition with_receipt :: "string \<Rightarrow> identity_provider \<Rightarrow> identity_provider" where
  "with_receipt x idp payload hdrs = map_sum id (relabelled x) (idp payload hdrs)"

lemma header_relabelled:
  "header (relabelled x r) n = (if lower n = ''openstack-auth-receipt'' then map_option (\<lambda>_. x) (header r n) else header r n)"
proof -
  have "map_of (map (\<lambda>(n, v). (lower n, v)) (map (\<lambda>(n, v). if lower n = ''openstack-auth-receipt'' then (n, x) else (n, v)) hs)) k =
      (if k = ''openstack-auth-receipt'' then map_option (\<lambda>_. x) (map_of (map (\<lambda>(n, v). (lower n, v)) hs) k)
       else map_of (map (\<lambda>(n, v). (lower n, v)) hs) k)" for hs k
    by (induction hs) auto
  then show ?thesis by (simp add: header_def relabelled_def)
qed

lemma lower_receipt: "lower ''openstack-auth-receipt'' = ''openstack-auth-receipt''" "lower ''x-subject-token'' = ''x-subject-token''"
  by code_simp+

lemma relabelled_body [simp]:
  "resp_status (relabelled x r) = resp_status r" "resp_json (relabelled x r) = resp_json r"
  "body_of (relabelled x r) = body_of r" "resp_ok (relabelled x r) = resp_ok r"
  by (simp_all add: relabelled_def body_of_def resp_ok_def)

lemma relabelled_parts [simp]:
  "to_result (relabelled x r) scope acc = to_result r scope acc"
  "error_message (relabelled x r) = error_message r" "auth_status_error (relabelled x r) = auth_status_error r"
  "enrollment_due e (relabelled x r) acc nm = enrollment_due e r acc nm"
  unfolding to_result_def error_message_def auth_status_error_def enrollment_due_def enrollment_secret_def
    relabelled_body header_relabelled lower_receipt
  by simp_all

lemma exchange_relabelled [simp]: "exchange_project (with_receipt x idp) token name acc = exchange_project idp token name acc"
  by (simp add: exchange_project_def with_receipt_def Let_def split: sum.split)

lemma totp_relabelled [simp]:
  "authenticate_totp (with_receipt x idp) acc nm passcode receipt project = authenticate_totp idp acc nm passcode receipt project"
  by (simp add: authenticate_totp_def with_receipt_def [of x idp "totp_payload acc nm passcode"] split: sum.split)

text \<open>Failures that differ in the receipt they carry only.\<close>

definition alike :: "auth_failure \<Rightarrow> auth_failure \<Rightarrow> bool" where
  "alike e e' = (e = e' \<or> (\<exists>c m st rs x y. x \<noteq> [] \<and> y \<noteq> [] \<and>
     e = rejected c m st ((''receipt'', JStr x) # rs) \<and> e' = rejected c m st ((''receipt'', JStr y) # rs)))"

lemma alike_refl [simp]: "alike e e"
  by (simp add: alike_def)

lemma mfa_due_alike:
  assumes "x \<noteq> []" "y \<noteq> []"
  shows "mfa_due b (relabelled x r) = Inr () \<and> mfa_due b (relabelled y r) = Inr () \<or>
    (\<exists>e e'. mfa_due b (relabelled x r) = Inl e \<and> mfa_due b (relabelled y r) = Inl e' \<and> alike e e')"
proof (cases "header r ''openstack-auth-receipt''")
  case None
  then have "is_mfa_required (relabelled x r) = is_mfa_required (relabelled y r)"
      "mfa_error (relabelled x r) = mfa_error (relabelled y r)"
    by (simp_all add: is_mfa_required_def mfa_error_def header_relabelled lower_receipt)
  then have "mfa_due b (relabelled x r) = mfa_due b (relabelled y r)" unfolding mfa_due_def by (simp only:)
  then show ?thesis by (cases "mfa_due b (relabelled y r)") auto
next
  case w: (Some w)
  have "alike (mfa_error (relabelled x r)) (mfa_error (relabelled y r))"
  proof (cases "Option.bind (soft (body_of r)) (\<lambda>b. soft (jget b ''receipt''))")
    case (Some rc)
    let ?rest = "if truthy (jget rc ''expires_at'') then [(''expiresAt'', jget rc ''expires_at'')] else []"
    have "mfa_error (relabelled z r) = rejected ''mfa_required'' ''A one-time MFA code is required'' (Some 401)
        ((''receipt'', JStr z) # ?rest)" if "z \<noteq> []" for z
      using that by (simp add: mfa_error_def Let_def header_relabelled lower_receipt w given_def Some)
    then show ?thesis using assms unfolding alike_def by blast
  qed (simp add: mfa_error_def alike_def)
  then show ?thesis
    using assms by (cases b) (simp_all add: mfa_due_def is_mfa_required_def header_relabelled lower_receipt w given_def)
qed

lemma authenticate_alike:
  assumes "x \<noteq> []" "y \<noteq> []"
  shows "(\<exists>res. authenticate (with_receipt x idp) acc nm pw project totp = Inr res \<and>
      authenticate (with_receipt y idp) acc nm pw project totp = Inr res) \<or>
    (\<exists>e e'. authenticate (with_receipt x idp) acc nm pw project totp = Inl e \<and>
      authenticate (with_receipt y idp) acc nm pw project totp = Inl e' \<and> alike e e')"
proof -
  define same :: "auth_failure + auth_result \<Rightarrow> auth_failure + auth_result \<Rightarrow> bool" where
    "same v w \<longleftrightarrow> (\<exists>res. v = Inr res \<and> w = Inr res) \<or> (\<exists>e e'. v = Inl e \<and> w = Inl e' \<and> alike e e')" for v w
  have refl: "same v v" for v by (cases v) (auto simp: same_def)
  have bind: "same (sum_bind (mfa_due b (relabelled x r)) (\<lambda>_. v)) (sum_bind (mfa_due b (relabelled y r)) (\<lambda>_. w))"
    if "same v w" for b r v w
    using mfa_due_alike [OF assms, of b r] that by (auto simp: sum_bind_def same_def)
  have "same (authenticate (with_receipt x idp) acc nm pw project totp) (authenticate (with_receipt y idp) acc nm pw project totp)"
  proof (cases "acc = [] \<or> nm = [] \<or> \<not> truthy pw")
    case False
    let ?q = "\<lambda>scope. idp (auth_payload (password_identity acc nm pw totp) scope (\<not> given totp)) []"
    show ?thesis using False
      by (cases "?q (project_scope (JStr (project_or_account project acc)) acc)"; cases "?q (domain_scope acc)")
        (auto simp: authenticate_def with_receipt_def Let_def refl intro!: bind)
  qed (auto simp: authenticate_def refl)
  then show ?thesis by (simp add: same_def)
qed

lemma challenge_alike: "alike e e' \<Longrightarrow> snd (challenge k fresh now acc nm project e c) = snd (challenge k fresh now acc nm project e' c)"
  by (auto simp: alike_def challenge_def rejected_def jget_def plain_failure_def zadara_error.defs Let_def)

lemma complete_mfa_relabelled [simp]:
  "complete_mfa k (with_receipt x idp) t mc acc nm now c = complete_mfa k idp t mc acc nm now c"
  unfolding complete_mfa_def totp_relabelled by (rule refl)

lemma rescoped_relabelled [simp]: "rescoped (with_receipt x idp) dir f res = rescoped idp dir f res"
  unfolding rescoped_def exchange_relabelled by (rule refl)

text \<open>C25. The receipt of a pending second factor never reaches the browser: whichever receipt the cloud hands
  out, the cabinet's answer to the sign-in is the same.\<close>

theorem receipt_stays_on_server:
  assumes "x \<noteq> []" "y \<noteq> []"
  shows "snd (cabinet_login_post k (with_receipt x idp) dir ttl d cookie now data c) =
    snd (cabinet_login_post k (with_receipt y idp) dir ttl d cookie now data c)"
proof (cases "login_form_of data")
  case (Inr f)
  show ?thesis
  proof (cases "lf_mfa_token f")
    case None
    let ?a = "\<lambda>z. authenticate (with_receipt z idp) (lf_account f) (lf_username f) (lf_password f) (lf_project f) (lf_mfa_code f)"
    consider (ok) res where "?a x = Inr res" "?a y = Inr res" | (refused) e e' where "?a x = Inl e" "?a y = Inl e'" "alike e e'"
      using authenticate_alike [OF assms, of idp] by metis
    then show ?thesis
    proof cases
      case refused
      let ?ch = "\<lambda>e. challenge k (fresh_ticket d) now (lf_account f) (lf_username f) (lf_project f) e c"
      have "snd (?ch e) = snd (?ch e')" using refused(3) by (rule challenge_alike)
      then show ?thesis
        by (cases "?ch e"; cases "?ch e'") (simp add: cabinet_login_post_def Inr identified_def None refused)
    qed (simp add: cabinet_login_post_def Inr identified_def None)
  qed (simp add: cabinet_login_post_def Inr identified_def)
qed (simp add: cabinet_login_post_def)


subsection \<open>Password resets\<close>

lemma request_reset_quiet:
  assumes "\<forall>verb path token body r. call verb path token body = Inr r \<longrightarrow> description_of r \<noteq> None"
  shows "request_reset call acc nm mail template \<noteq> Inl Crash"
  using assms by (auto simp: request_reset_def password_answer_def split: sum.split option.split) (metis option.distinct(1))

text \<open>Asking for a password reset tells the caller nothing: whether the account, the user and the address
  exist, and whatever else the cloud answers, the cabinet's answer is the same.\<close>

theorem reset_tells_nothing:
  assumes "\<forall>verb path token body r. call verb path token body = Inr r \<longrightarrow> description_of r \<noteq> None"
    and "\<forall>verb path token body r. call' verb path token body = Inr r \<longrightarrow> description_of r \<noteq> None"
  shows "reset_request_post call template data = reset_request_post call' template data"
proof -
  have quiet: "(case request_reset c acc nm mail template of Inl Crash \<Rightarrow> Inl Crashed | _ \<Rightarrow> Inr v) = Inr v"
    if "\<forall>verb path token body r. c verb path token body = Inr r \<longrightarrow> description_of r \<noteq> None"
    for c acc nm mail and v :: string
    using request_reset_quiet [OF that, of acc nm mail template]
    by (cases "request_reset c acc nm mail template") (auto split: failure.split)
  show ?thesis
    unfolding reset_request_post_def Let_def quiet [OF assms(1)] quiet [OF assms(2)] by (rule refl)
qed

subsection \<open>The hypotheses hold\<close>

definition demo_kit :: toolkit where
  "demo_kit = \<lparr>hash_check = (\<lambda>raw h. raw = JStr h), hash_usable = (\<lambda>h. True), hash_make = (\<lambda>salt raw. raw),
     otp_verify = (\<lambda>secret c window now. secret = c), seal = (\<lambda>s. ''#'' @ s), unseal = (\<lambda>s. Some (drop 1 s)),
     provisioning = (\<lambda>secret mail. secret)\<rparr>"

definition demo_body :: json where
  "demo_body = JObj [(''token'', JObj [
     (''user'', JObj [(''id'', JStr ''u7''), (''name'', JStr ''dana''), (''domain'', JObj [(''id'', JStr ''d1''), (''name'', JStr ''acme'')])]),
     (''project'', JObj [(''id'', JStr ''p1''), (''name'', JStr ''acme'')]),
     (''roles'', JList [JObj [(''name'', JStr ''tenant_admin'')]])])]"

definition demo_cloud :: identity_provider where
  "demo_cloud payload hdrs = Inr \<lparr>resp_status = 201, resp_headers = [(''X-Subject-Token'', ''gAAA'')], resp_json = Some demo_body\<rparr>"

definition demo_drawn :: drawn where
  "demo_drawn = \<lparr>fresh_ticket = ''t1'', fresh_key = ''k1'', fresh_save = ''k2'', fresh_pk = 2\<rparr>"

definition demo_data :: json where
  "demo_data = JObj [(''account'', JStr ''acme''), (''username'', JStr ''dana''), (''password'', JStr ''secret'')]"

text \<open>A browser in which another user is signed in.\<close>

definition demo_cabinet :: cabinet where
  "demo_cabinet = \<lparr>cabinet_users = [\<lparr>u_pk = 1, zadara_user_id = ''u3'', username = ''bo'', u_email = None, u_account = ''acme'',
       u_account_id = ''d1'', app_role = ''USER'', u_status = ''active''\<rparr>],
     vault = [], receipts = [], browsers = [(''old'', (empty_session\<lparr>auth_user_id := Some 1\<rparr>, 9000))]\<rparr>"

definition demo_login :: "string option \<Rightarrow> cabinet \<times> (detailed + cabinet_me \<times> string)" where
  "demo_login cookie = cabinet_login_post demo_kit demo_cloud (\<lambda>_. Inl Crash) 10800 demo_drawn cookie 0 demo_data demo_cabinet"

definition demo_me :: cabinet_me where
  "demo_me = \<lparr>cm_name = ''dana'', cm_email = None, cm_appRole = ''ADMIN'', cm_zadaraUserId = ''u7'', cm_zadaraAccount = ''acme'',
     cm_zadaraAccountId = Some ''d1'', cm_zadaraProjectId = Some ''p1'', cm_zadaraProjectName = Some ''acme'',
     cm_zadaraRoles = [JStr ''tenant_admin'']\<rparr>"

lemma demo_logins: "snd (demo_login None) = Inr (demo_me, ''k1'')" "snd (demo_login (Some ''old'')) = Inr (demo_me, ''k2'')"
  by code_simp+

lemma demo_pair:
  "cabinet_login_post demo_kit demo_cloud (\<lambda>_. Inl Crash) 10800 demo_drawn None 0 demo_data demo_cabinet =
     (fst (demo_login None), Inr (demo_me, ''k1''))"
  "cabinet_login_post demo_kit demo_cloud (\<lambda>_. Inl Crash) 10800 demo_drawn (Some ''old'') 0 demo_data demo_cabinet =
     (fst (demo_login (Some ''old'')), Inr (demo_me, ''k2''))"
  by (simp_all add: demo_logins [symmetric] demo_login_def)

lemma cabinet_session_is_the_clouds_witness:
  "\<exists>res u. vouched demo_cloud res \<and> zadara_user_id u = ar_user_id res \<and>
     signed_user (fst (demo_login None)) 0 (Some ''k1'') = Some u \<and>
     session_token demo_kit 0 (Some ''k1'') (fst (demo_login None)) = Some (ar_token res)"
  using cabinet_session_is_the_clouds [OF demo_pair(1)]
  by (auto simp: demo_kit_def demo_drawn_def demo_cabinet_def unique_on_def browser_session_def empty_session_def)

lemma demo_old_vault: "vault_get demo_kit 0 (Some ''k2'') demo_cabinet = None"
  by (simp add: vault_get_def demo_cabinet_def shelf_get_def)

lemma demo_users: "map (\<lambda>u. (u_pk u, zadara_user_id u)) (cabinet_users (fst (demo_login (Some ''old'')))) = [(1, ''u3''), (2, ''u7'')]"
  by code_simp

lemma other_users_browser_gets_no_token_witness:
  "session_token demo_kit 0 (Some ''k2'') (fst (demo_login (Some ''old''))) = None"
proof -
  have "\<forall>u \<in> set (cabinet_users (fst (demo_login (Some ''old'')))). u_pk u = 1 \<longrightarrow> zadara_user_id u \<noteq> cm_zadaraUserId demo_me"
    using demo_users by (auto simp: demo_me_def map_eq_Cons_conv)
  then show ?thesis
    using other_users_browser_gets_no_token [OF demo_pair(2), of 1] demo_old_vault
    by (simp add: browser_session_def demo_cabinet_def shelf_get_def empty_session_def demo_drawn_def)
qed

lemma receipt_stays_on_server_witness:
  "snd (cabinet_login_post demo_kit (with_receipt ''a'' demo_cloud) (\<lambda>_. Inl Crash) 10800 demo_drawn None 0 demo_data demo_cabinet) =
   snd (cabinet_login_post demo_kit (with_receipt ''b'' demo_cloud) (\<lambda>_. Inl Crash) 10800 demo_drawn None 0 demo_data demo_cabinet)"
  by (rule receipt_stays_on_server) simp_all

lemma reset_tells_nothing_witness:
  "reset_request_post (\<lambda>_ _ _ _. Inr \<lparr>resp_status = 404, resp_headers = [], resp_json = None\<rparr>) ''?s=$secret'' demo_data =
   reset_request_post (\<lambda>_ _ _ _. Inr \<lparr>resp_status = 204, resp_headers = [], resp_json = None\<rparr>) ''?s=$secret'' demo_data"
  by (rule reset_tells_nothing) (auto simp: description_of_def)

end
