(* ===== verification/Cluster_Views_Safety.thy ===== *)
theory Cluster_Views_Safety
  imports Cluster_Views Cabinet_Safety Picture_Safety
begin

text \<open>
  What the operators' cluster screens guarantee: the backups switch is what bills are computed by, a blocked
  user cannot sign in, and the list of users is complete; and one thing they do not: a change the cloud
  has accepted can go unrecorded.
\<close>

subsection \<open>The backups switch\<close>

lemma uncounted_one: "d \<in> uncounted rows [d] \<longleftrightarrow> d \<noteq> [] \<and> (\<exists>r \<in> set rows. set_domain_id r = d \<and> \<not> count_backup_snapshots r)"
  by (auto simp: uncounted_def Let_def)

lemma counts_backups_iff:
  "counts_backups rows d \<longleftrightarrow> d = [] \<or> (\<forall>r \<in> set rows. set_domain_id r = d \<longrightarrow> count_backup_snapshots r)"
  by (auto simp: counts_backups_def uncounted_one)

lemma set_upsert_row:
  assumes "unique_on set_domain_id rows" "set_domain_id row = i"
  shows "set (upsert (\<lambda>r. set_domain_id r = i) (\<lambda>_. row) row rows) = insert row {r \<in> set rows. set_domain_id r \<noteq> i}"
  using assms unfolding unique_on_def by (induction rows) (auto simp: rev_image_eqI)

lemma find_upsert_row:
  fixes rows :: "account_settings list"
  assumes "set_domain_id row = i"
  defines "rows' \<equiv> upsert (\<lambda>r. set_domain_id r = i) (\<lambda>_. row) row rows"
  shows "List.find (\<lambda>r. set_domain_id r = i) rows' = Some row"
    "d \<noteq> i \<Longrightarrow> List.find (\<lambda>r. set_domain_id r = d) rows' = List.find (\<lambda>r. set_domain_id r = d) rows"
  using assms unfolding rows'_def by (induction rows) auto

lemma account_patch_writes:
  assumes "account_patch saves q built now i data st = (st', Inr p)"
  obtains name b where "jget (as_object data) ''countBackupSnapshots'' = JBool b"
    "cl_settings st' = upsert (\<lambda>r. set_domain_id r = i) (\<lambda>_. account_settings_row i name b (operator_email q) now)
      (account_settings_row i name b (operator_email q) now) (cl_settings st)"
proof -
  obtain st1 r where seen: "picture_of False built now st = (st1, r)" by fastforce
  then have same: "cl_settings st1 = cl_settings st" by (auto simp: picture_of_def split: prod.splits)
  show thesis
  proof (cases r)
    case (Inr sn)
    show thesis
    proof (cases "picture_account sn i")
      case (Some v)
      show thesis
      proof (cases "jget (as_object data) ''countBackupSnapshots''")
        case (JBool b)
        then show thesis using that assms by (auto simp: account_patch_def seen Inr Some Let_def same)
      qed (use assms in \<open>simp_all add: account_patch_def seen Inr Some\<close>)
    qed (use assms in \<open>simp add: account_patch_def seen Inr\<close>)
  qed (use assms in \<open>simp add: account_patch_def seen\<close>)
qed

text \<open>C26. The operators' switch for an account's backups is what that account is billed by from then on, and what
  the account's card shows with the operator's name; no other account is affected.\<close>

theorem switch_decides_the_bill:
  assumes "account_patch saves q built now i data st = (st', Inr p)" "i \<noteq> []" "unique_on set_domain_id (cl_settings st)"
  shows "\<exists>b. jget (as_object data) ''countBackupSnapshots'' = JBool b \<and> counts_backups (cl_settings st') i = b \<and>
    settings_payload_of (cl_settings st') i = \<lparr>sp_countBackupSnapshots = b, sp_updatedAt = Some now, sp_updatedBy = Some (operator_email q)\<rparr> \<and>
    (\<forall>d. d \<noteq> i \<longrightarrow> counts_backups (cl_settings st') d = counts_backups (cl_settings st) d \<and>
       settings_payload_of (cl_settings st') d = settings_payload_of (cl_settings st) d)"
proof -
  obtain name b where b: "jget (as_object data) ''countBackupSnapshots'' = JBool b"
    and st': "cl_settings st' = upsert (\<lambda>r. set_domain_id r = i) (\<lambda>_. account_settings_row i name b (operator_email q) now)
      (account_settings_row i name b (operator_email q) now) (cl_settings st)"
    using account_patch_writes [OF assms(1)] by blast
  let ?row = "account_settings_row i name b (operator_email q) now"
  have row: "set_domain_id ?row = i" by (simp add: account_settings_row_def)
  note rows = set_upsert_row [OF assms(3) row]
  have "counts_backups (cl_settings st') i = b"
    using assms(2) row unfolding counts_backups_iff st' rows by (auto simp: account_settings_row_def)
  moreover have "settings_payload_of (cl_settings st') i =
      \<lparr>sp_countBackupSnapshots = b, sp_updatedAt = Some now, sp_updatedBy = Some (operator_email q)\<rparr>"
    by (simp add: settings_payload_of_def st' find_upsert_row(1) [OF row]) (simp add: account_settings_row_def)
  moreover have "counts_backups (cl_settings st') d = counts_backups (cl_settings st) d" if "d \<noteq> i" for d
    using that row by (auto simp: counts_backups_iff st' rows)
  moreover have "settings_payload_of (cl_settings st') d = settings_payload_of (cl_settings st) d" if "d \<noteq> i" for d
    using that by (simp add: settings_payload_of_def st' find_upsert_row(2) [OF row])
  ultimately show ?thesis using b by blast
qed

subsection \<open>A blocked user\<close>

lemma switch_in_cloud_done:
  assumes "switch_in_cloud saves q token call i w st = (st1, Inr there)"
  shows "st1 = st" "jget there ''cabinetStatus'' = JNull"
  using assms by (auto simp: switch_in_cloud_def Let_def jget_def split: if_splits sum.splits failure.splits)

lemma switch_in_cabinet_done:
  assumes "switch_in_cabinet i w us = (us', Inr here)" "jget here ''cabinetStatus'' = JStr s"
  shows "us' = map (\<lambda>u. if iexact (u_account u) (us_account w) \<and> zadara_user_id u = i then u\<lparr>u_status := s\<rparr> else u) us"
  using assms by (auto simp: switch_in_cabinet_def jget_def split: json.splits if_splits)

lemma blocked_row:
  assumes "user_patch saves q token call dir i data st = (st', Inr out)" "jget out ''cabinetStatus'' = JStr s"
  obtains w where "user_switch_of data = Inr w"
    "cl_users st' = map (\<lambda>u. if iexact (u_account u) (us_account w) \<and> zadara_user_id u = i then u\<lparr>u_status := s\<rparr> else u) (cl_users st)"
proof (cases "user_switch_of data")
  case (Inr w)
  obtain st1 r1 where cloud: "switch_in_cloud saves q token call i w st = (st1, r1)" by fastforce
  obtain us r2 where here: "switch_in_cabinet i w (cl_users st) = (us, r2)" by fastforce
  from assms(1) obtain there where r1: "r1 = Inr there" by (cases r1) (auto simp: user_patch_def Inr cloud)
  note kept = switch_in_cloud_done [OF cloud [unfolded r1]]
  from assms(1) obtain h where r2: "r2 = Inr h" by (cases r2) (auto simp: user_patch_def Inr cloud r1 kept here)
  from assms(1) obtain d where d: "resolve_domain_id dir (us_account w) = Inr d"
    by (cases "resolve_domain_id dir (us_account w)") (auto simp: user_patch_def Inr cloud r1 kept here r2 Let_def)
  have users: "cl_users st' = us" and out: "out = (''id'', JStr i) # there @ h"
    using assms(1) by (auto simp: user_patch_def Inr cloud r1 kept here r2 d Let_def forget_list_of_def forget_account_users_def)
  have "jget h ''cabinetStatus'' = JStr s"
    using assms(2) kept(2) by (auto simp: out jget_def map_add_def split: option.splits)
  from that [OF Inr] switch_in_cabinet_done [OF here [unfolded r2] this] users show thesis by simp
qed (use assms in \<open>simp add: user_patch_def\<close>)


lemma user_row_status:
  assumes "user_row res (upsert_user pk' res us) = Some u" "v \<in> set us" "unique_on zadara_user_id us" "zadara_user_id v = ar_user_id res"
  shows "u_status u = u_status v"
proof -
  have "List.find (\<lambda>u. zadara_user_id u = ar_user_id res) us = Some v"
    using assms(2-4) by (induction us) (auto simp: unique_on_def rev_image_eqI)
  then show ?thesis
    using assms(1) unfolding user_row_def upsert_user_def
    by (subst (asm) find_upsert) auto
qed

text \<open>C28. Once an operator has blocked a user of the cabinet, nobody the cloud takes for that user can sign in to the
  cabinet, whatever they type and however their name, account or role have changed in the cloud since.\<close>

theorem blocked_user_stays_out:
  assumes "user_patch saves q token call dir i data st = (st', Inr out)" "jget out ''cabinetStatus'' = JStr ''blocked''"
    and "user_switch_of data = Inr w" "u \<in> set (cl_users st)" "zadara_user_id u = i" "iexact (u_account u) (us_account w)"
    and "unique_on zadara_user_id (cl_users st)" "0 < ttl"
    and "cabinet_login_post k idp dir' ttl d cookie now body (c\<lparr>cabinet_users := cl_users st'\<rparr>) = (c', Inr (who, key))"
  shows "cm_zadaraUserId who \<noteq> i"
proof
  assume same: "cm_zadaraUserId who = i"
  obtain w' where w': "user_switch_of data = Inr w'" and us: "cl_users st' =
      map (\<lambda>u. if iexact (u_account u) (us_account w') \<and> zadara_user_id u = i then u\<lparr>u_status := ''blocked''\<rparr> else u) (cl_users st)"
    by (rule blocked_row [OF assms(1,2)])
  let ?v = "u\<lparr>u_status := ''blocked''\<rparr>"
  have v: "?v \<in> set (cl_users st')" using assms(3-6) w' by (force simp: us)
  have ids: "unique_on zadara_user_id (cl_users st')"
  proof -
    have "map zadara_user_id (cl_users st') = map zadara_user_id (cl_users st)" by (auto simp: us)
    then show ?thesis using assms(7) by (simp only: unique_on_def)
  qed
  obtain res x s dt c0 c1
    where row: "user_row res (upsert_user (fresh_pk d) res (cl_users st')) = Some x" "\<not> is_blocked x"
    and who: "who = cabinet_me_payload x (scoped res dt)"
    using login_effect [OF assms(9,8)] by (metis cabinet.select_convs(1) cabinet.surjective cabinet.update_convs(1))
  have "zadara_user_id x = i" using same by (simp add: who cabinet_me_payload_def)
  then have "zadara_user_id ?v = ar_user_id res" using user_row_upsert(1) [OF row(1)] assms(5) by simp
  from user_row_status [OF row(1) v ids this] row(2) show False by (simp add: is_blocked_def)
qed

subsection \<open>What goes unrecorded\<close>

text \<open>Turning a user off in the cloud and sending a cabinet status the screen does not know is answered as an
  invalid request, although the cloud has taken the change by then, and nothing of it is recorded.\<close>

theorem cloud_change_unrecorded:
  assumes "strip acc = c # name" "s \<notin> {''active'', ''blocked''}"
    and "update_user call t i [(''enabled'', JBool b)] = Inr taken"
  shows "user_patch saves q (Inr t) call dir i (JObj [(''account'', JStr acc), (''enabled'', JBool b), (''cabinetStatus'', JStr s)]) st =
    (st, Inl (bad_request ''Unknown cabinet status.''))"
proof -
  let ?data = "JObj [(''account'', JStr acc), (''enabled'', JBool b), (''cabinetStatus'', JStr s)]"
  have "acc \<noteq> []" using assms(1) by (auto simp: strip_def)
  then have w: "user_switch_of ?data = Inr \<lparr>us_account = c # name, us_enabled = JBool b, us_status = JStr s\<rparr>"
    using assms(1) by (simp add: user_switch_of_def json_simps sum_bind_def)
  show ?thesis
    using assms(2,3) by (simp add: user_patch_def w switch_in_cloud_def switch_in_cabinet_def Let_def sum_bind_def)
qed


subsection \<open>Every user of every account\<close>

lemma account_users_stable:
  assumes "account_users dir now d st = (st1, r)"
  shows "snd (account_users dir now d' st1) = snd (account_users dir now d' st)" "r = snd (account_users dir now d st)"
    "cl_users st1 = cl_users st"
proof -
  have key: "user_list_key a = user_list_key b \<longleftrightarrow> a = b" for a b by (simp add: user_list_key_def)
  have ttl: "0 < USERS_CACHE_TTL" by (simp add: USERS_CACHE_TTL_def)
  show "snd (account_users dir now d' st1) = snd (account_users dir now d' st)"
    using assms ttl by (cases "d' = d") (auto simp: account_users_def shelf.look_put key split: option.splits sum.splits)
  show "r = snd (account_users dir now d st)" by (simp add: assms)
  show "cl_users st1 = cl_users st" using assms by (auto simp: account_users_def split: option.splits sum.splits)
qed

definition listed_of :: "reads \<Rightarrow> int \<Rightarrow> cluster_store \<Rightarrow> account_cell \<Rightarrow> failure + domain_user list" where
  "listed_of dir now st ac = snd (account_users dir now (ac_id ac) st)"

definition users_of :: "reads \<Rightarrow> int \<Rightarrow> cluster_store \<Rightarrow> account_cell \<Rightarrow> (account_cell \<times> domain_user) list" where
  "users_of dir now st ac = (case listed_of dir now st ac of Inl _ \<Rightarrow> [] | Inr us \<Rightarrow> map (Pair ac) us)"

lemma gather_users_complete:
  assumes "gather_users dir now acs st = (st', Inr (rows, un))" "\<And>ac. listed_of dir now st ac = listed_of dir now st0 ac"
  shows "rows = concat (map (users_of dir now st0) acs) \<and>
    un = map ac_name (filter (\<lambda>ac. isl (listed_of dir now st0 ac)) acs) \<and> cl_users st' = cl_users st"
  using assms
proof (induction acs arbitrary: st st' rows un)
  case (Cons ac acs)
  obtain st1 r where one: "account_users dir now (ac_id ac) st = (st1, r)" by fastforce
  note stable = account_users_stable [OF one]
  have r: "r = listed_of dir now st0 ac" using stable(2) Cons.prems(2) by (simp add: listed_of_def)
  have same: "listed_of dir now st1 x = listed_of dir now st0 x" for x
    using stable(1) Cons.prems(2) by (simp add: listed_of_def)
  obtain st2 r2 where rest: "gather_users dir now acs st1 = (st2, r2)" by fastforce
  obtain rows2 un2 where r2: "r2 = Inr (rows2, un2)" and st': "st' = st2"
    and parts: "rows = users_of dir now st0 ac @ rows2" "un = (if isl r then ac_name ac # un2 else un2)"
    using Cons.prems(1) by (auto simp: one rest r [symmetric] users_of_def split: sum.splits failure.splits)
  from Cons.IH [OF rest [unfolded r2] same] stable(3) show ?case by (simp add: parts r st')
qed simp

definition chosen_accounts :: "string option \<Rightarrow> cluster_snapshot \<Rightarrow> account_cell list" where
  "chosen_accounts wanted sn =
     filter (\<lambda>ac. parameter wanted = [] \<or> lowered (ac_name ac) = parameter wanted) (map av_account (sn_accounts sn))"

text \<open>Without a search the operators' list of users holds exactly the users of every account of the picture, or
  of the one asked for, each once per account it was read in; the accounts that could not be read are the
  ones named.\<close>

theorem users_screen_complete:
  assumes "users_get dir built now wanted q st = (st', Inr (rows, un))" "parameter q = []"
  shows "\<exists>sn. snd (picture_of False built now st) = Inr sn \<and>
    un = map ac_name (filter (\<lambda>ac. isl (listed_of dir now st ac)) (chosen_accounts wanted sn)) \<and>
    mset (map (\<lambda>r. (cu_accountId r, cu_user r)) rows) =
      mset (concat (map (\<lambda>ac. map (\<lambda>(ac, du). (ac_id ac, du)) (users_of dir now st ac)) (chosen_accounts wanted sn)))"
proof -
  obtain st1 r where seen: "picture_of False built now st = (st1, r)" by fastforce
  then have "cl_lists st1 = cl_lists st" by (auto simp: picture_of_def split: prod.splits)
  then have same: "listed_of dir now st1 ac = listed_of dir now st ac" for ac
    by (simp add: listed_of_def account_users_def split: option.split sum.split)
  obtain sn where r: "r = Inr sn" using assms(1) by (cases r) (auto simp: users_get_def seen)
  obtain st2 r2 where found: "gather_users dir now (chosen_accounts wanted sn) st1 = (st2, r2)" by fastforce
  obtain fd un' where r2: "r2 = Inr (fd, un')"
    using assms(1) by (cases r2) (auto simp: users_get_def seen r Let_def found [unfolded chosen_accounts_def])
  have "un = un'" and rows: "rows = sort_key user_order (map (cluster_user_of (cl_users st2)) fd)"
    using assms by (auto simp: users_get_def seen r Let_def found [unfolded chosen_accounts_def] r2 searched_def sum_bind_def split: if_splits)
  moreover note gather_users_complete [OF found [unfolded r2] same]
  moreover have "mset (map (\<lambda>r. (cu_accountId r, cu_user r)) rows) = mset (map (\<lambda>(ac, du). (ac_id ac, du)) fd)"
    by (simp add: rows multiset.map_comp comp_def cluster_user_of_def case_prod_unfold)
  ultimately show ?thesis by (auto simp: seen r map_concat comp_def)
qed


subsection \<open>The hypotheses hold\<close>

definition estate_operator :: platform_admin where
  "estate_operator = \<lparr>pk = 1, admin_email = ''ops@cloud'', admin_name = ''Ops'', password_hash = ''h'', admin_role = OPS,
     admin_active = True, totp_secret = [], totp_confirmed_at = None, access_code_hash = [], failed_attempts = 0,
     locked_until = None, last_login_at = None, last_login_ip = None\<rparr>"

definition estate_request :: web_request where
  "estate_request = \<lparr>forwarded_for = [], remote_addr = None, http_user_agent = [], req_user = Operator estate_operator,
     session_key = None, req_session = empty_session\<rparr>"

definition estate_user :: user where
  "estate_user = \<lparr>u_pk = 1, zadara_user_id = ''u3'', username = ''bo'', u_email = None, u_account = ''Acme'',
     u_account_id = ''d1'', app_role = ''USER'', u_status = ''active''\<rparr>"

definition estate :: cluster_store where
  "estate = \<lparr>cl_users = [estate_user], cl_settings = [\<lparr>set_domain_id = ''d2'', set_account = ''Bolt'', count_backup_snapshots = False,
     set_updated_at = 1, set_updated_by = ''x''\<rparr>], cl_actions = [], cl_pictures = [], cl_lists = []\<rparr>"

definition estate_dir :: reads where
  "estate_dir path =
     (if path = users_path ''d1'' then Inr (JList [JObj [(''id'', JStr ''u3''), (''name'', JStr ''bo'')]])
      else if path = users_path ''d2'' then Inl (Zadara session_expired) else town_dir path)"

definition estate_switched :: "cluster_store \<times> (refusal + settings_payload)" where
  "estate_switched = account_patch (\<lambda>_. True) estate_request (Inr town) 100 ''d1'' (JObj [(''countBackupSnapshots'', JBool False)]) estate"

definition off :: settings_payload where
  "off = \<lparr>sp_countBackupSnapshots = False, sp_updatedAt = Some 100, sp_updatedBy = Some ''ops@cloud''\<rparr>"

lemma estate_switched: "snd estate_switched = Inr off"
  by code_simp

lemma switch_decides_the_bill_witness:
  "counts_backups (cl_settings (fst estate_switched)) ''d1'' = False \<and> counts_backups (cl_settings (fst estate_switched)) ''d2'' = False"
proof -
  have "account_patch (\<lambda>_. True) estate_request (Inr town) 100 ''d1'' (JObj [(''countBackupSnapshots'', JBool False)]) estate =
      (fst estate_switched, Inr off)"
    by (simp add: estate_switched_def [symmetric] estate_switched [symmetric])
  moreover have "counts_backups (cl_settings estate) ''d2'' = False" "unique_on set_domain_id (cl_settings estate)" by code_simp+
  ultimately show ?thesis
    using switch_decides_the_bill [of "\<lambda>_. True" estate_request "Inr town" 100 "''d1''"] by (fastforce simp: as_object_def jget_def)
qed

definition estate_blocking :: json where
  "estate_blocking = JObj [(''account'', JStr '' ACME''), (''cabinetStatus'', JStr ''blocked'')]"

definition estate_blocked :: "cluster_store \<times> (refusal + object)" where
  "estate_blocked = user_patch (\<lambda>_. True) estate_request (Inr ''gAAA'') (\<lambda>_ _ _ _. Inl session_expired) estate_dir ''u3'' estate_blocking estate"

definition estate_cabinet :: cabinet where
  "estate_cabinet = demo_cabinet\<lparr>cabinet_users := cl_users (fst estate_blocked)\<rparr>"

definition estate_login :: "cabinet \<times> (detailed + cabinet_me \<times> string)" where
  "estate_login = cabinet_login_post demo_kit demo_cloud (\<lambda>_. Inl Crash) 10800 demo_drawn None 0 demo_data estate_cabinet"

lemma estate_blocked: "snd estate_blocked = Inr [(''id'', JStr ''u3''), (''cabinetStatus'', JStr ''blocked'')]"
  "user_switch_of estate_blocking = Inr \<lparr>us_account = ''ACME'', us_enabled = JNull, us_status = JStr ''blocked''\<rparr>"
  "iexact (u_account estate_user) ''ACME''" "snd estate_login = Inr (demo_me, ''k1'')"
  by code_simp+

lemma blocked_user_stays_out_witness: "cm_zadaraUserId demo_me \<noteq> ''u3''"
proof -
  have patched: "user_patch (\<lambda>_. True) estate_request (Inr ''gAAA'') (\<lambda>_ _ _ _. Inl session_expired) estate_dir ''u3'' estate_blocking estate =
      (fst estate_blocked, Inr [(''id'', JStr ''u3''), (''cabinetStatus'', JStr ''blocked'')])"
    by (simp add: estate_blocked_def [symmetric] estate_blocked(1) [symmetric])
  have signed: "cabinet_login_post demo_kit demo_cloud (\<lambda>_. Inl Crash) 10800 demo_drawn None 0 demo_data
      (demo_cabinet\<lparr>cabinet_users := cl_users (fst estate_blocked)\<rparr>) = (fst estate_login, Inr (demo_me, ''k1''))"
    by (simp add: estate_login_def [symmetric] estate_cabinet_def [symmetric] estate_blocked(4) [symmetric])
  have rest: "jget [(''id'', JStr ''u3''), (''cabinetStatus'', JStr ''blocked'')] ''cabinetStatus'' = JStr ''blocked''"
    "estate_user \<in> set (cl_users estate)" "zadara_user_id estate_user = ''u3''" "unique_on zadara_user_id (cl_users estate)"
    by (simp_all add: jget_def estate_def estate_user_def unique_on_def)
  have "iexact (u_account estate_user) (us_account \<lparr>us_account = ''ACME'', us_enabled = JNull, us_status = JStr ''blocked''\<rparr>)"
    by (simp add: estate_blocked(3))
  from blocked_user_stays_out [OF patched rest(1) estate_blocked(2) rest(2,3) this rest(4) _ signed] show ?thesis by simp
qed

lemma cloud_change_unrecorded_witness:
  "user_patch (\<lambda>_. True) estate_request (Inr ''gAAA'') (\<lambda>_ _ _ _. Inr \<lparr>resp_status = 200, resp_headers = [], resp_json = None\<rparr>)
     estate_dir ''u3'' (JObj [(''account'', JStr ''acme''), (''enabled'', JBool False), (''cabinetStatus'', JStr ''off'')]) estate =
   (estate, Inl (bad_request ''Unknown cabinet status.''))"
proof -
  have "strip ''acme'' = CHR ''a'' # ''cme''" by code_simp
  then show ?thesis
    by (rule cloud_change_unrecorded [where taken = None]) (simp_all add: update_user_def identity_call_def identity_result_def resp_ok_def)
qed

definition estate_listed :: "cluster_store \<times> (refusal + cluster_user list \<times> json list)" where
  "estate_listed = users_get estate_dir (Inr town) 100 None None estate"

lemma estate_listed: "\<not> isl (snd estate_listed)" "snd (picture_of False (Inr town) 100 estate) = Inr town"
  "snd (projr (snd estate_listed)) = [JStr ''Bolt'']"
  by code_simp+

lemma users_screen_complete_witness:
  "map ac_name (filter (\<lambda>ac. isl (listed_of estate_dir 100 estate ac)) (chosen_accounts None town)) = [JStr ''Bolt'']"
proof -
  have "users_get estate_dir (Inr town) 100 None None estate =
      (fst estate_listed, Inr (fst (projr (snd estate_listed)), snd (projr (snd estate_listed))))"
    using estate_listed(1) by (simp add: estate_listed_def)
  moreover have "parameter None = []" by code_simp
  ultimately obtain sn where "snd (picture_of False (Inr town) 100 estate) = Inr sn" and
    un: "snd (projr (snd estate_listed)) = map ac_name (filter (\<lambda>ac. isl (listed_of estate_dir 100 estate ac)) (chosen_accounts None sn))"
    using users_screen_complete by blast
  then have "town = sn" by (simp only: estate_listed(2) sum.inject)
  then show ?thesis using un by (simp only: estate_listed(3))
qed

end
