(* ===== verification/Project_Screens.thy ===== *)
theory Project_Screens
  imports Account_Admin
begin

text \<open>
  The project's own screens: volumes and snapshots (\<open>storage/views.py\<close>), the dashboard
  (\<open>dashboard/views.py\<close>), quotas (\<open>quotas/views.py\<close>), events and alarms (\<open>monitoring/views.py\<close>).
  \<open>api token\<close> are the cloud's reads with the session's own token. Independent reads run on threads
  (\<open>common/concurrency.py\<close>); each is a value here, and what fails in any way is only that source's outcome.
\<close>

subsection \<open>The visitor\<close>

record visitor =
  vi_user :: user
  vi_token :: "string option"
  vi_project_id :: "string option"
  vi_project_name :: "string option"

type_synonym cloud_api = "string \<Rightarrow> reads"

definition own_token :: "visitor \<Rightarrow> refusal + string" where
  "own_token v = (if given (vi_token v) then Inr (the (vi_token v)) else Inl SESSION_EXPIRED)"

lemma or_crash_Inr: "or_crash v = Inr x \<longleftrightarrow> v = Some x"
  by (simp add: or_crash_def split: option.split)

lemma sum_bind_Inr: "sum_bind v f = Inr x \<longleftrightarrow> (\<exists>y. v = Inr y \<and> f y = Inr x)"
  by (cases v) (simp_all add: sum_bind_def)

subsection \<open>Outcomes of gathered reads (\<open>Fetched\<close>)\<close>

definition fetched_ok :: "failure + 'a \<Rightarrow> bool" where
  "fetched_ok r = (\<not> isl r)"

definition fetched_value :: "failure + 'a \<Rightarrow> 'a option" where
  "fetched_value r = (case r of Inl _ \<Rightarrow> None | Inr v \<Rightarrow> Some v)"

text \<open>\<open>value or []\<close>.\<close>

definition fetched_rows :: "failure + 'a list \<Rightarrow> 'a list" where
  "fetched_rows r = (case r of Inl _ \<Rightarrow> [] | Inr v \<Rightarrow> v)"

text \<open>\<open>getattr(error, 'code', 'upstream_error')\<close>.\<close>

definition failure_code :: "failure \<Rightarrow> string" where
  "failure_code e = (case e of Zadara z \<Rightarrow> zcode z | Crash \<Rightarrow> ''upstream_error'')"

definition fetched_code :: "failure + 'a \<Rightarrow> string option" where
  "fetched_code r = (case r of Inl e \<Rightarrow> Some (failure_code e) | Inr _ \<Rightarrow> None)"

definition unreadable_names :: "(string \<times> bool) list \<Rightarrow> string list" where
  "unreadable_names rs = map fst (filter (\<lambda>(n, ok). \<not> ok) rs)"

text \<open>A dictionary comprehension: of equal keys the last value stays.\<close>

definition dict_of :: "('a \<Rightarrow> 'k) \<Rightarrow> ('a \<Rightarrow> 'b) \<Rightarrow> 'a list \<Rightarrow> ('k \<times> 'b) list" where
  "dict_of key val xs = fold (\<lambda>x. AList.update (key x) (val x)) xs []"

definition name_in :: "(string \<times> 'b) list \<Rightarrow> string option \<Rightarrow> 'b \<Rightarrow> 'b" where
  "name_in names k d = (case map_of names (case k of None \<Rightarrow> [] | Some s \<Rightarrow> s) of None \<Rightarrow> d | Some n \<Rightarrow> n)"

subsection \<open>Volumes (\<open>VolumeListView\<close>)\<close>

record volumes_screen =
  vx_volumes :: "(volume \<times> string) list"
  vx_total :: nat
  vx_totalGiB :: int
  vx_attached :: nat
  vx_unattached :: int
  vx_media :: "media_row list"

definition in_use :: "volume \<Rightarrow> bool" where
  "in_use v = (vol_attachmentStatus v = JStr ''in-use'')"

definition volumes_refused :: "failure \<Rightarrow> refusal" where
  "volumes_refused e =
     (if failure_code e = ''forbidden'' then
        Refused (AppError ''Your account cannot list volumes in this project.'' ''forbidden'' 403)
      else Refused (AppError ''Failed to load volumes'' (failure_code e) 502))"

definition volumes_get :: "cloud_api \<Rightarrow> visitor \<Rightarrow> refusal + volumes_screen" where
  "volumes_get api v =
     sum_bind (own_token v) (\<lambda>t.
       case list_volumes (api t) True of
         Inl e \<Rightarrow> Inl (volumes_refused e)
       | Inr vols \<Rightarrow>
           let names = dict_of vm_id vm_name (fetched_rows (list_vms (api t) False)); held = length (filter in_use vols)
           in Inr \<lparr>vx_volumes = map (\<lambda>x. (x, name_in names (vol_attachedToId x) [])) vols, vx_total = length vols,
             vx_totalGiB = (\<Sum>x\<leftarrow>vols. vol_sizeGiB x), vx_attached = held,
             vx_unattached = int (length vols) - int held, vx_media = media_totals vols\<rparr>)"

subsection \<open>Snapshots (\<open>SnapshotListView\<close>)\<close>

text \<open>A machine snapshot's mark; a volume snapshot's is \<open>snapshot_is_backup\<close>.\<close>

definition vm_snapshot_is_backup :: "object \<Rightarrow> bool" where
  "vm_snapshot_is_backup s = (truthy (jget s ''protectionGroupId'') \<or> truthy (jget s ''protectionGroup''))"

record labelled_snapshot = volume_snapshot +
  ls_sourceVolumeName :: json
  ls_media :: string
  ls_volumeType :: json

definition label_snapshot :: "(string \<times> volume) list \<Rightarrow> volume_snapshot \<Rightarrow> labelled_snapshot" where
  "label_snapshot sources s = volume_snapshot.extend s
     (case map_of sources (case vs_sourceVolumeId s of None \<Rightarrow> [] | Some i \<Rightarrow> i) of
        None \<Rightarrow> labelled_snapshot.fields (JStr []) [] (JStr [])
      | Some x \<Rightarrow> labelled_snapshot.fields (vol_name x) (vol_media x) (vol_volumeType x))"

record snapshots_screen =
  nx_volumeSnapshots :: "labelled_snapshot list"
  nx_vmSnapshots :: "object list"
  nx_volumeSnapshotGiB :: int
  nx_unavailable :: "string list"

definition snapshots_get :: "cloud_api \<Rightarrow> reads \<Rightarrow> account_settings list \<Rightarrow> visitor \<Rightarrow> refusal + snapshots_screen" where
  "snapshots_get api dir settings v =
     sum_bind (own_token v) (\<lambda>t. sum_bind (own_account (vi_user v) dir) (\<lambda>(acc, d).
       let with_backups = counts_backups settings d; vols = list_volume_snapshots (api t); vms = list_vm_snapshots (api t);
           sources = dict_of vol_id id (fetched_rows (list_volumes (api t) True));
           shown = filter (\<lambda>s. with_backups \<or> \<not> snapshot_is_backup s) (fetched_rows vols);
           shown_vms = filter (\<lambda>s. with_backups \<or> \<not> vm_snapshot_is_backup s) (fetched_rows vms)
       in if given (fetched_code vols) \<and> given (fetched_code vms) then
            Inl (Refused (AppError ''Failed to load snapshots'' (the (fetched_code vols)) 502))
          else Inr \<lparr>nx_volumeSnapshots = map (label_snapshot sources) shown, nx_vmSnapshots = shown_vms,
            nx_volumeSnapshotGiB = (\<Sum>s\<leftarrow>shown. vs_sizeGiB s),
            nx_unavailable = unreadable_names
              [(''volumes'', \<not> given (fetched_code vols)), (''machines'', \<not> given (fetched_code vms))]\<rparr>))"

subsection \<open>The dashboard (\<open>DashboardView\<close>, \<open>DashboardMetricsView\<close>)\<close>

record machine_summary =
  ms_total :: nat
  ms_running :: nat
  ms_vcpus :: int
  ms_ramMB :: int
  ms_withPublicIp :: nat

definition machine_summary_of :: "joined_vm list \<Rightarrow> machine_summary" where
  "machine_summary_of vms =
     \<lparr>ms_total = length vms, ms_running = length (filter (\<lambda>v. lower (vm_status v) \<in> {''active'', ''running''}) vms),
      ms_vcpus = (\<Sum>v\<leftarrow>vms. vm_vcpus v), ms_ramMB = (\<Sum>v\<leftarrow>vms. vm_ramMB v),
      ms_withPublicIp = length (filter (\<lambda>v. vm_publicIps v \<noteq> []) vms)\<rparr>"

record storage_summary =
  ss_volumes :: nat
  ss_totalGiB :: int
  ss_attached :: nat
  ss_media :: "media_row list"

definition storage_summary_of :: "volume list \<Rightarrow> storage_summary" where
  "storage_summary_of vols =
     \<lparr>ss_volumes = length vols, ss_totalGiB = (\<Sum>x\<leftarrow>vols. vol_sizeGiB x), ss_attached = length (filter in_use vols),
      ss_media = media_totals vols\<rparr>"

record dashboard =
  db_vms :: "machine_summary option"
  db_storage :: "storage_summary option"
  db_networks :: "nat option"
  db_alarms :: "(nat \<times> nat) option"
  db_project :: "string option"
  db_unavailable :: "string list"

definition open_alarm :: "object \<Rightarrow> bool" where
  "open_alarm a = (jget a ''state'' \<noteq> JStr ''closed'')"

definition dashboard_get :: "cloud_api \<Rightarrow> visitor \<Rightarrow> refusal + dashboard" where
  "dashboard_get api v =
     sum_bind (own_token v) (\<lambda>t.
       let vms = list_vms (api t) False; vols = list_volumes (api t) True; nets = list_vpcs (api t); alarms = list_alarms (api t)
       in Inr \<lparr>db_vms = map_option machine_summary_of (fetched_value vms),
            db_storage = map_option storage_summary_of (fetched_value vols),
            db_networks = map_option length (fetched_value nets),
            db_alarms = map_option (\<lambda>as. (length (filter open_alarm as), length as)) (fetched_value alarms),
            db_project = vi_project_name v,
            db_unavailable = unreadable_names [(''vms'', fetched_ok vms), (''storage'', fetched_ok vols),
              (''networks'', fetched_ok nets), (''alarms'', fetched_ok alarms)]\<rparr>)"

text \<open>A query parameter with its default, stripped.\<close>

definition period_param :: "string option \<Rightarrow> string" where
  "period_param p = strip (if given p then the p else ''24h'')"

definition unscoped :: "string \<Rightarrow> refusal" where
  "unscoped m = conflict m ''no_project_scope''"

text \<open>\<open>ask token queries\<close>: the metrics endpoint with the session's token.\<close>

definition dashboard_metrics_get :: "(string \<Rightarrow> object \<Rightarrow> failure + json) \<Rightarrow> visitor \<Rightarrow> string option \<Rightarrow> int \<Rightarrow> refusal + utilisation" where
  "dashboard_metrics_get ask v per now =
     sum_bind (own_token v) (\<lambda>t.
       if \<not> given (vi_project_id v) then
         Inl (unscoped ''This session has no project scope, so there is nothing to chart.'')
       else (case get_project_metrics (ask t) (the (vi_project_id v)) (period_param per) now of
           Inl Crash \<Rightarrow> Inl Crashed
         | Inl (Zadara e) \<Rightarrow> Inl (Refused (AppError ''Failed to load project utilisation'' (zcode e)
             (if zcode e = ''invalid_request'' then 400 else 502)))
         | Inr m \<Rightarrow> Inr m))"

subsection \<open>Sorting and counting decoded values\<close>

text \<open>
  Texts compare with texts and numbers with numbers; a single value is compared with nothing. Lists, which
  Python compares too, are taken as not comparable.
\<close>

definition number_of :: "json \<Rightarrow> rat" where
  "number_of v = (case numeric v of None \<Rightarrow> 0 | Some r \<Rightarrow> r)"

definition ordered_on :: "('a \<Rightarrow> json) \<Rightarrow> 'a list \<Rightarrow> 'a list option" where
  "ordered_on f xs =
     (if length xs \<le> 1 then Some xs
      else if all_text f xs then Some (sort_key (\<lambda>x. quota_text (f x)) xs)
      else if list_all (\<lambda>x. numeric (f x) \<noteq> None) xs then Some (sort_key (\<lambda>x. number_of (f x)) xs)
      else None)"

text \<open>\<open>sort(reverse=True)\<close> keeps the order of equal elements.\<close>

definition ordered_desc :: "('a \<Rightarrow> json) \<Rightarrow> 'a list \<Rightarrow> 'a list option" where
  "ordered_desc f xs = map_option rev (ordered_on f (rev xs))"

definition hashable :: "json \<Rightarrow> bool" where
  "hashable v = (case v of JList _ \<Rightarrow> False | JObj _ \<Rightarrow> False | _ \<Rightarrow> True)"

text \<open>\<open>collections.Counter\<close>: the first of equal keys stays.\<close>

fun count_key :: "('k \<Rightarrow> 'k \<Rightarrow> bool) \<Rightarrow> 'k \<Rightarrow> ('k \<times> nat) list \<Rightarrow> ('k \<times> nat) list" where
  "count_key eq k [] = [(k, 1)]"
| "count_key eq k ((k', n) # d) = (if eq k' k then (k', Suc n) # d else (k', n) # count_key eq k d)"

definition counter :: "('k \<Rightarrow> 'k \<Rightarrow> bool) \<Rightarrow> 'k list \<Rightarrow> ('k \<times> nat) list" where
  "counter eq ks = fold (count_key eq) ks []"

definition most_common :: "nat \<Rightarrow> ('k \<times> nat) list \<Rightarrow> ('k \<times> nat) list" where
  "most_common n d = take n (sort_key (\<lambda>(k, c). - int c) d)"

text \<open>\<open>sorted({...})\<close> of the values that are not empty.\<close>

definition sorted_values :: "json list \<Rightarrow> json list option" where
  "sorted_values vs = (if list_all hashable (filter truthy vs)
     then ordered_on id (map fst (counter py_eq (filter truthy vs))) else None)"

subsection \<open>Quotas (\<open>UserQuotaView\<close>)\<close>

record quota_screen =
  qx_project :: "quota list option"
  qx_account :: "quota list option"
  qx_accountName :: string
  qx_projectName :: "string option"
  qx_limitsSet :: nat
  qx_nearLimit :: nat
  qx_unavailable :: "string list"

text \<open>The account's document needs its domain id first; without one there is no document.\<close>

definition account_half :: "reads \<Rightarrow> reads \<Rightarrow> string \<Rightarrow> failure + quota list option" where
  "account_half get dir acc =
     (if acc = [] then Inr None
      else sum_bind (resolve_domain_id dir acc) (\<lambda>d.
        if given d then sum_bind (list_domain_quotas get (the d)) (\<lambda>qs. Inr (Some qs)) else Inr None))"

definition project_half :: "reads \<Rightarrow> string option \<Rightarrow> quota list option" where
  "project_half get p = (if given p then fetched_value (list_project_quotas get (the p)) else None)"

definition quotas_get :: "cloud_api \<Rightarrow> reads \<Rightarrow> visitor \<Rightarrow> refusal + quota_screen" where
  "quotas_get api dir v =
     sum_bind (own_token v) (\<lambda>t.
       let acc = strip (u_account (vi_user v));
           project = project_half (api t) (vi_project_id v);
           account_quotas = (case account_half (api t) dir acc of Inl _ \<Rightarrow> None | Inr qs \<Rightarrow> qs);
           ceilings = limited (case account_quotas of None \<Rightarrow> [] | Some qs \<Rightarrow> qs)
       in if project = None \<and> account_quotas = None then
            Inl (Refused (AppError ''Failed to load quotas'' ''upstream_error'' 502))
          else Inr \<lparr>qx_project = project, qx_account = account_quotas, qx_accountName = acc,
            qx_projectName = vi_project_name v, qx_limitsSet = length ceilings,
            qx_nearLimit = length (filter near_limit ceilings),
            qx_unavailable = unreadable_names [(''account'', account_quotas \<noteq> None), (''project'', project \<noteq> None)]\<rparr>)"

subsection \<open>Events (\<open>EventListView\<close>)\<close>

definition PAGE_SIZE_MAX :: int where "PAGE_SIZE_MAX = 200"

record event_form =
  ef_period :: "string option"
  ef_severity :: "string option"
  ef_entityType :: "string option"
  ef_entityId :: "string option"
  ef_eventType :: "string option"
  ef_search :: "string option"
  ef_limit :: "string option"
  ef_offset :: "string option"

text \<open>\<open>int(value or default)\<close>.\<close>

definition number_param :: "string option \<Rightarrow> int \<Rightarrow> int option" where
  "number_param p d = (if given p then py_int (the p) else Some d)"

definition page_window :: "event_form \<Rightarrow> refusal + int \<times> int" where
  "page_window f =
     (case (number_param (ef_limit f) 50, number_param (ef_offset f) 0) of
        (Some l, Some i) \<Rightarrow> Inr (min l PAGE_SIZE_MAX, max i 0)
      | _ \<Rightarrow> Inl (bad_request ''limit and offset must be numbers''))"

text \<open>\<open>xs[i:j]\<close>: a negative bound counts from the end.\<close>

definition slice_bound :: "nat \<Rightarrow> int \<Rightarrow> nat" where
  "slice_bound n i = nat (if i < 0 then i + int n else min i (int n))"

definition py_slice :: "'a list \<Rightarrow> int \<Rightarrow> int \<Rightarrow> 'a list" where
  "py_slice xs i j = drop (slice_bound (length xs) i) (take (slice_bound (length xs) j) xs)"

definition event_query_of :: "event_form \<Rightarrow> string \<Rightarrow> event_query" where
  "event_query_of f p = \<lparr>ev_project = p, ev_period = period_param (ef_period f), ev_severity = ef_severity f,
     ev_entity_type = ef_entityType f, ev_entity_id = ef_entityId f, ev_event_type = ef_eventType f\<rparr>"

definition events_refused :: "failure \<Rightarrow> refusal" where
  "events_refused e =
     (case e of
        Crash \<Rightarrow> Crashed
      | Zadara z \<Rightarrow>
          if zcode z = ''invalid_request'' then Refused (AppError (zmessage z) (zcode z) 400)
          else if zcode z = ''forbidden'' then forbidden ''Your account cannot read the cloud event log.'' ''forbidden''
          else Refused (AppError ''Failed to load events'' (zcode z) 502))"

text \<open>The texts are looked through from the left; one that is no text fails when it is reached.\<close>

fun mentions :: "string \<Rightarrow> json list \<Rightarrow> bool option" where
  "mentions needle [] = Some False"
| "mentions needle (JStr s # vs) = (if contains (lower s) needle then Some True else mentions needle vs)"
| "mentions needle (_ # vs) = None"

definition event_mentions :: "string \<Rightarrow> object \<Rightarrow> bool option" where
  "event_mentions needle e = mentions needle [jget e ''description'', jget e ''typeName'', jget e ''entityName'']"

definition search_events :: "string \<Rightarrow> object list \<Rightarrow> object list option" where
  "search_events needle es =
     (if needle = [] then Some es
      else map_option (\<lambda>bs. map fst (filter snd (zip es bs))) (mapM (event_mentions needle) es))"

record events_screen =
  ex_events :: "object list"
  ex_total :: nat
  ex_limit :: int
  ex_offset :: int
  ex_window :: event_window
  ex_project :: "string option"
  ex_severities :: "(string \<times> nat) list"
  ex_entityTypes :: "json list"
  ex_topTypes :: "((json \<times> json) \<times> nat) list"

definition same_pair :: "json \<times> json \<Rightarrow> json \<times> json \<Rightarrow> bool" where
  "same_pair a b = (py_eq (fst a) (fst b) \<and> py_eq (snd a) (snd b))"

definition event_type_of :: "object \<Rightarrow> json \<times> json" where
  "event_type_of e = (jget e ''typeId'', jget e ''typeName'')"

definition severity_counts :: "object list \<Rightarrow> (string \<times> nat) list" where
  "severity_counts es =
     map (\<lambda>level. (level, length (filter (\<lambda>e. jget e ''severity'' = JStr level) es))) EVENT_SEVERITIES"

definition events_answer :: "event_window \<Rightarrow> object list \<Rightarrow> int \<Rightarrow> int \<Rightarrow> string option \<Rightarrow> refusal + events_screen" where
  "events_answer w es limit offset project =
     (if list_all (\<lambda>e. hashable (jget e ''typeId'') \<and> hashable (jget e ''typeName'')) es then
        sum_bind (or_crash (sorted_values (map (\<lambda>e. jget e ''entityType'') es))) (\<lambda>types.
          Inr \<lparr>ex_events = py_slice es offset (offset + limit), ex_total = length es, ex_limit = limit, ex_offset = offset,
            ex_window = w, ex_project = project, ex_severities = severity_counts es, ex_entityTypes = types,
            ex_topTypes = most_common 8 (counter same_pair (map event_type_of es))\<rparr>)
      else Inl Crashed)"

text \<open>\<open>query token params\<close>: the event log with the session's token; \<open>now\<close> in milliseconds.\<close>

definition events_get :: "(string \<Rightarrow> (string \<times> string) list \<Rightarrow> failure + json) \<Rightarrow> visitor \<Rightarrow> event_form \<Rightarrow> int
    \<Rightarrow> refusal + events_screen" where
  "events_get query v f now =
     sum_bind (own_token v) (\<lambda>t.
       if \<not> given (vi_project_id v) then
         Inl (unscoped ''This session has no project scope, so there is no event log to show.'')
       else sum_bind (page_window f) (\<lambda>(limit, offset).
         case list_events (query t) (event_query_of f (the (vi_project_id v))) EVENT_FETCH_CAP now of
           Inl e \<Rightarrow> Inl (events_refused e)
         | Inr w \<Rightarrow>
             sum_bind (or_crash (search_events (lower (strip (opt_text (ef_search f)))) (win_events w))) (\<lambda>es.
               events_answer w es limit offset (vi_project_name v))))"

subsection \<open>Alarms (\<open>AlarmListView\<close>)\<close>

record alarms_screen =
  ax_alarms :: "object list"
  ax_open :: nat
  ax_entityTypes :: "json list"

text \<open>Open ones first, the newest first among each.\<close>

definition alarm_order :: "object list \<Rightarrow> object list option" where
  "alarm_order as =
     map_option (sort_key (\<lambda>a. \<not> open_alarm a)) (ordered_desc (\<lambda>a. jor (jget a ''createdAt'') (JStr [])) as)"

definition alarms_get :: "cloud_api \<Rightarrow> visitor \<Rightarrow> refusal + alarms_screen" where
  "alarms_get api v =
     sum_bind (own_token v) (\<lambda>t.
       case list_alarms (api t) of
         Inl Crash \<Rightarrow> Inl Crashed
       | Inl (Zadara e) \<Rightarrow>
           Inl (if zcode e = ''forbidden'' then forbidden ''Your account cannot read cloud alarms.'' ''forbidden''
                else Refused (AppError ''Failed to load alarms'' (zcode e) 502))
       | Inr as \<Rightarrow>
           sum_bind (or_crash (alarm_order as)) (\<lambda>sorted_alarms.
           sum_bind (or_crash (sorted_values (map (\<lambda>a. jget a ''entityType'') as))) (\<lambda>types.
             Inr \<lparr>ax_alarms = sorted_alarms, ax_open = length (filter open_alarm sorted_alarms), ax_entityTypes = types\<rparr>)))"

end
