(* ===== verification/Machine_Screens.thy ===== *)
theory Machine_Screens
  imports Project_Screens
begin

text \<open>
  Machines of the current project and what can be done with them (\<open>compute/views.py\<close>): list, card, start,
  stop and reboot, the console, utilisation. The state a request may change is the response cache and the
  audit trail; the machines themselves are the cloud's.
\<close>

subsection \<open>The cloud and the request\<close>

text \<open>
  What a request with a token gets: the cached reads, one machine, the answer to an action, to a request
  for a console and to a metrics query.
\<close>

record machine_cloud =
  mc_reads :: cloud_api
  mc_machine :: "string \<Rightarrow> string \<Rightarrow> zadara_error + response"
  mc_act :: "string \<Rightarrow> string \<Rightarrow> object option \<Rightarrow> zadara_error + response"
  mc_console :: "string \<Rightarrow> string \<Rightarrow> zadara_error + response"
  mc_metrics :: "string \<Rightarrow> object \<Rightarrow> failure + json"

record write_context =
  wr_visitor :: visitor
  wr_request :: web_request
  wr_saves :: "audit_log \<Rightarrow> bool"
  wr_digest :: "string \<Rightarrow> string"
  wr_now :: int

type_synonym traces = "cache \<times> audit_log list"

subsection \<open>Failures (\<open>_fail\<close>)\<close>

definition MACHINE_STATUS :: "(string \<times> nat) list" where
  "MACHINE_STATUS = [(''forbidden'', 403), (''console_forbidden'', 403), (''console_unavailable'', 502),
     (''not_found'', 404), (''conflict'', 409), (''invalid_request'', 400), (''invalid_credentials'', 401)]"

definition machine_status :: "string \<Rightarrow> nat" where
  "machine_status c = (case map_of MACHINE_STATUS c of None \<Rightarrow> 502 | Some s \<Rightarrow> s)"

definition machine_failed :: "string \<Rightarrow> failure \<Rightarrow> refusal" where
  "machine_failed fallback e =
     (case e of Crash \<Rightarrow> Crashed
      | Zadara z \<Rightarrow> Refused (AppError (or_text (zmessage z) fallback) (zcode z) (machine_status (zcode z))))"

subsection \<open>Reading\<close>

definition vms_get :: "machine_cloud \<Rightarrow> visitor \<Rightarrow> refusal + joined_vm list \<times> bool" where
  "vms_get m v =
     sum_bind (own_token v) (\<lambda>t.
       case list_vms (mc_reads m t) True of
         Inl Crash \<Rightarrow> Inl Crashed
       | Inl (Zadara e) \<Rightarrow>
           Inl (if zcode e = ''forbidden'' then forbidden ''No project-scoped access to virtual machines.'' ''forbidden''
                else Refused (AppError ''Failed to load virtual machines'' (zcode e) 502))
       | Inr vms \<Rightarrow> Inr (vms, list_ex (\<lambda>x. vm_diskGiB x \<noteq> None) vms))"

definition read_vm :: "machine_cloud \<Rightarrow> string \<Rightarrow> string \<Rightarrow> failure + vm_detail" where
  "read_vm m t i = get_vm (mc_machine m t i) (mc_reads m t)"

definition vm_get :: "machine_cloud \<Rightarrow> visitor \<Rightarrow> string \<Rightarrow> refusal + vm_detail" where
  "vm_get m v i =
     sum_bind (own_token v) (\<lambda>t. case read_vm m t i of
       Inl e \<Rightarrow> Inl (machine_failed ''Failed to load the virtual machine'' e) | Inr x \<Rightarrow> Inr x)"

definition vm_metrics_get :: "machine_cloud \<Rightarrow> visitor \<Rightarrow> string \<Rightarrow> string option \<Rightarrow> int \<Rightarrow> refusal + utilisation" where
  "vm_metrics_get m v i per now =
     sum_bind (own_token v) (\<lambda>t. case get_vm_metrics (mc_metrics m t) i (period_param per) now of
       Inl e \<Rightarrow> Inl (machine_failed ''Failed to load utilisation history'' e) | Inr u \<Rightarrow> Inr u)"

subsection \<open>Start, stop and reboot (\<open>VmActionView\<close>)\<close>

definition VM_ACTIONS :: "string list" where
  "VM_ACTIONS = [''start'', ''stop'', ''reboot'']"

record action_form =
  af_action :: string
  af_force :: bool
  af_name :: string

definition action_form_of :: "json \<Rightarrow> refusal + action_form" where
  "action_form_of data =
     sum_bind (text_field data ''action'') (\<lambda>a. sum_bind (body_field data ''force'') (\<lambda>force.
       if lower a \<notin> set VM_ACTIONS then
         Inl (bad_request (''Unknown action. Expected one of: '' @ join '', '' VM_ACTIONS @ ''.''))
       else sum_bind (text_field data ''name'') (\<lambda>nm.
         Inr \<lparr>af_action = lower a, af_force = truthy force, af_name = nm\<rparr>)))"

definition machine_entry :: "write_context \<Rightarrow> string \<Rightarrow> string \<Rightarrow> string \<Rightarrow> object \<Rightarrow> audit_log" where
  "machine_entry x act i nm extra = audit_entry (wr_request x) act
     \<lparr>log_resource_type := ''vm'', log_resource_id := i, log_resource_name := nm, log_detail := extra\<rparr>"

definition action_entry :: "write_context \<Rightarrow> string \<Rightarrow> action_form \<Rightarrow> audit_log" where
  "action_entry x i f = machine_entry x (''vm.'' @ af_action f) i (af_name f)
     (if af_action f = ''stop'' then [(''force'', JBool (af_force f))] else [])"

text \<open>The card shown while the machine settles; one that cannot be read is shown without its details.\<close>

datatype shown_vm = Card vm_detail | Settling string

definition fresh_card :: "machine_cloud \<Rightarrow> string \<Rightarrow> string \<Rightarrow> refusal + shown_vm" where
  "fresh_card m t i = (case read_vm m t i of
     Inr x \<Rightarrow> Inr (Card x) | Inl (Zadara _) \<Rightarrow> Inr (Settling i) | Inl Crash \<Rightarrow> Inl Crashed)"

definition vm_action_post :: "machine_cloud \<Rightarrow> write_context \<Rightarrow> string \<Rightarrow> json \<Rightarrow> traces \<Rightarrow> traces \<times> (refusal + shown_vm)" where
  "vm_action_post m x i data st =
     (case sum_bind (own_token (wr_visitor x)) (\<lambda>t. sum_bind (action_form_of data) (\<lambda>f. Inr (t, f))) of
        Inl e \<Rightarrow> (st, Inl e)
      | Inr (t, f) \<Rightarrow>
          (case vm_action (wr_digest x) (mc_act m t) t i (af_action f) (af_force f) (wr_now x) (fst st) of
             (c, Inl Crash) \<Rightarrow> ((c, snd st), Inl Crashed)
           | (c, Inl (Zadara z)) \<Rightarrow>
               ((c, audit_record (wr_saves x) (audit_failed (zcode z) (action_entry x i f)) (snd st)),
                Inl (machine_failed ''The cloud refused this action'' (Zadara z)))
           | (c, Inr _) \<Rightarrow>
               ((c, audit_record (wr_saves x) (action_entry x i f) (snd st)), fresh_card m t i)))"

subsection \<open>The console (\<open>VmConsoleView\<close>)\<close>

definition console_failed :: "zadara_error \<Rightarrow> refusal" where
  "console_failed z =
     (if zcode z = ''console_forbidden'' then
        forbidden (''Console access is not enabled for this machine. '' @
          ''The project owner has to allow it in the cloud console.'') ''console_forbidden''
      else machine_failed ''Could not open the console'' (Zadara z))"

definition vm_console_post :: "machine_cloud \<Rightarrow> string \<Rightarrow> write_context \<Rightarrow> string \<Rightarrow> json \<Rightarrow> audit_log list
    \<Rightarrow> audit_log list \<times> (refusal + console_session)" where
  "vm_console_post m base_url x i data trail =
     (case sum_bind (own_token (wr_visitor x)) (\<lambda>t. sum_bind (text_field data ''name'') (\<lambda>nm. Inr (t, nm))) of
        Inl e \<Rightarrow> (trail, Inl e)
      | Inr (t, nm) \<Rightarrow>
          (case get_vm_console base_url (mc_console m t i) of
             Inl Crash \<Rightarrow> (trail, Inl Crashed)
           | Inl (Zadara z) \<Rightarrow>
               (audit_record (wr_saves x) (audit_failed (zcode z) (machine_entry x ''vm.console'' i nm [])) trail,
                Inl (console_failed z))
           | Inr session \<Rightarrow> (audit_record (wr_saves x) (machine_entry x ''vm.console'' i nm []) trail, Inr session)))"

end
