(* ===== verification/Network_Screens.thy ===== *)
theory Network_Screens
  imports Machine_Screens
begin

text \<open>
  The network of the current project and its firewall (\<open>networking/views.py\<close>): the overview that joins
  eight reads, adding a rule and removing one. Rows are the dictionaries the client layer returns, and the
  view adds fields to them.
\<close>

subsection \<open>The overview (\<open>NetworkOverviewView\<close>)\<close>

text \<open>\<open>row[k] = v\<close>.\<close>

definition put_field :: "string \<Rightarrow> json \<Rightarrow> object \<Rightarrow> object" where
  "put_field k v row = AList.update k v row"

text \<open>The group's own summary stays where no rule of that direction is known by its id.\<close>

definition rule_labels :: "object list \<Rightarrow> string \<Rightarrow> json \<Rightarrow> json" where
  "rule_labels rules dir own =
     (let labels = map (\<lambda>r. jget r ''label'') (filter (\<lambda>r. jget r ''direction'' = JStr dir) rules) in
      if labels = [] then own else JList labels)"

definition rules_of_group :: "object list \<Rightarrow> object \<Rightarrow> object list" where
  "rules_of_group rules g =
     (case map_of (group_by (\<lambda>r. jget r ''groupId'') rules) (jget g ''id'') of None \<Rightarrow> [] | Some rs \<Rightarrow> rs)"

definition attach_rules :: "object list \<Rightarrow> object \<Rightarrow> object" where
  "attach_rules rules g =
     (let rs = rules_of_group rules g in
      put_field ''egress'' (rule_labels rs ''egress'' (jget g ''egress''))
        (put_field ''ingress'' (rule_labels rs ''ingress'' (jget g ''ingress''))
          (put_field ''rules'' (JList (map JObj rs)) g)))"

definition vpc_name :: "object list \<Rightarrow> object \<Rightarrow> json" where
  "vpc_name vpcs row =
     (case map_of (dict_of (\<lambda>v. jget v ''id'') (\<lambda>v. jget v ''name'') vpcs) (jor (jget row ''vpcId'') (JStr [])) of
        None \<Rightarrow> JStr [] | Some n \<Rightarrow> n)"

definition with_vpc :: "object list \<Rightarrow> object \<Rightarrow> object" where
  "with_vpc vpcs row = put_field ''vpcName'' (vpc_name vpcs row) row"

definition gateway_vpcs :: "object list \<Rightarrow> json list" where
  "gateway_vpcs gs = concat (map (\<lambda>g. as_list (jget g ''vpcIds'')) gs)"

definition in_vpc :: "object \<Rightarrow> object \<Rightarrow> bool" where
  "in_vpc vpc row = (jget row ''vpcId'' = jget vpc ''id'')"

definition summed_vpc :: "object list \<Rightarrow> object list \<Rightarrow> object list \<Rightarrow> object \<Rightarrow> object" where
  "summed_vpc subnets groups gateways vpc =
     put_field ''hasInternetGateway'' (JBool (jget vpc ''id'' \<in> set (gateway_vpcs gateways)))
       (put_field ''securityGroups'' (JInt (int (length (filter (in_vpc vpc) groups))))
         (put_field ''subnets'' (JInt (int (length (filter (in_vpc vpc) subnets)))) vpc))"

record network_screen =
  ns_vpcs :: "object list"
  ns_subnets :: "object list"
  ns_securityGroups :: "object list"
  ns_elasticIps :: "(elastic_ip \<times> string) list"
  ns_natGateways :: "object list"
  ns_elasticIpsFree :: nat
  ns_unavailable :: "string list"

text \<open>What the page is made of: the outcome of each section, in the order they are asked for.\<close>

record network_reads =
  nr_vpcs :: "failure + object list"
  nr_subnets :: "failure + object list"
  nr_groups :: "failure + object list"
  nr_rules :: "failure + object list"
  nr_addresses :: "failure + elastic_ip list"
  nr_gateways :: "failure + object list"
  nr_nat :: "failure + object list"
  nr_machines :: "failure + joined_vm list"

definition network_read :: "reads \<Rightarrow> network_reads" where
  "network_read get = \<lparr>nr_vpcs = list_vpcs get, nr_subnets = list_subnets get, nr_groups = list_security_groups get,
     nr_rules = list_security_group_rules get, nr_addresses = list_elastic_ips get,
     nr_gateways = list_internet_gateways get, nr_nat = list_nat_gateways get, nr_machines = list_vms get False\<rparr>"

text \<open>The machines only label the addresses; their absence is not reported.\<close>

definition network_sections :: "network_reads \<Rightarrow> (string \<times> bool) list" where
  "network_sections n =
     [(''vpcs'', fetched_ok (nr_vpcs n)), (''subnets'', fetched_ok (nr_subnets n)),
      (''security groups'', fetched_ok (nr_groups n)), (''firewall rules'', fetched_ok (nr_rules n)),
      (''elastic ips'', fetched_ok (nr_addresses n)), (''internet gateways'', fetched_ok (nr_gateways n)),
      (''nat gateways'', fetched_ok (nr_nat n))]"

definition network_page :: "network_reads \<Rightarrow> network_screen" where
  "network_page n =
     (let vpcs = fetched_rows (nr_vpcs n); addresses = fetched_rows (nr_addresses n);
          subnets = map (with_vpc vpcs) (fetched_rows (nr_subnets n));
          groups = map (\<lambda>g. with_vpc vpcs (attach_rules (fetched_rows (nr_rules n)) g)) (fetched_rows (nr_groups n));
          names = dict_of vm_id vm_name (fetched_rows (nr_machines n))
      in \<lparr>ns_vpcs = map (summed_vpc subnets groups (fetched_rows (nr_gateways n))) vpcs, ns_subnets = subnets,
        ns_securityGroups = groups, ns_elasticIps = map (\<lambda>a. (a, name_in names (eip_instanceId a) [])) addresses,
        ns_natGateways = map (with_vpc vpcs) (fetched_rows (nr_nat n)),
        ns_elasticIpsFree = length (filter (\<lambda>a. \<not> given (eip_instanceId a)) addresses),
        ns_unavailable = unreadable_names (network_sections n)\<rparr>)"

definition networks_get :: "cloud_api \<Rightarrow> visitor \<Rightarrow> refusal + network_screen" where
  "networks_get api v =
     sum_bind (own_token v) (\<lambda>t.
       let n = network_read (api t) in
       if length (unreadable_names (network_sections n)) = length (network_sections n) then
         Inl (Refused (AppError ''Failed to load networking'' ''upstream_error'' 502))
       else Inr (network_page n))"

subsection \<open>Changing the firewall\<close>

record network_cloud =
  nc_reads :: cloud_api
  nc_create :: "string \<Rightarrow> object \<Rightarrow> zadara_error + response"
  nc_delete :: "string \<Rightarrow> string \<Rightarrow> zadara_error + response"

definition RULE_WRITE_STATUS :: "(string \<times> nat) list" where
  "RULE_WRITE_STATUS = [(''forbidden'', 403), (''not_found'', 404), (''conflict'', 409), (''invalid_request'', 400),
     (''write_not_allowed'', 403)]"

definition rule_write_status :: "string \<Rightarrow> nat" where
  "rule_write_status c = (case map_of RULE_WRITE_STATUS c of None \<Rightarrow> 502 | Some s \<Rightarrow> s)"

definition rule_refused :: "zadara_error \<Rightarrow> refusal" where
  "rule_refused z = Refused (AppError (zmessage z) (zcode z) (rule_write_status (zcode z)))"

definition opens_the_internet :: "string option \<Rightarrow> bool" where
  "opens_the_internet cidr = (strip (opt_text cidr) \<in> {''0.0.0.0/0'', ''::/0''})"

definition group_entry :: "write_context \<Rightarrow> string \<Rightarrow> string \<Rightarrow> string \<Rightarrow> object \<Rightarrow> audit_log" where
  "group_entry x act g nm extra = audit_entry (wr_request x) act
     \<lparr>log_resource_type := ''security_group'', log_resource_id := g, log_resource_name := nm, log_detail := extra\<rparr>"

text \<open>A port that is not given, or empty, is none.\<close>

definition port_param :: "json \<Rightarrow> refusal + int option" where
  "port_param v =
     (if v = JNull \<or> v = JStr [] then Inr None
      else (case py_int_of v of None \<Rightarrow> Inl (bad_request ''Ports must be numbers.'') | Some p \<Rightarrow> Inr (Some p)))"

definition direction_param :: "json \<Rightarrow> refusal + string" where
  "direction_param data =
     sum_bind (body_field data ''direction'') (\<lambda>d. sum_bind (stripped (jor d (JStr ''ingress''))) (\<lambda>s.
       if lower s \<in> {''ingress'', ''egress''} then Inr (lower s)
       else Inl (bad_request ''Direction must be ingress or egress.'')))"

definition rule_request_of :: "json \<Rightarrow> string \<Rightarrow> refusal + rule_request" where
  "rule_request_of data g =
     sum_bind (direction_param data) (\<lambda>dir. sum_bind (text_field data ''cidr'') (\<lambda>cidr.
     sum_bind (text_field data ''remoteGroupId'') (\<lambda>remote. sum_bind (text_field data ''protocol'') (\<lambda>p.
     sum_bind (sum_bind (body_field data ''portFrom'') port_param) (\<lambda>a.
     sum_bind (sum_bind (body_field data ''portTo'') port_param) (\<lambda>b.
       Inr \<lparr>rr_group = g, rr_direction = dir, rr_protocol = or_none (lower p), rr_port_from = a, rr_port_to = b,
         rr_cidr = or_none cidr, rr_remote_group = or_none remote, rr_description = [], rr_ethertype = ''IPv4''\<rparr>))))))"

text \<open>The group has to be one the session sees; only then is the description read.\<close>

definition visible_group :: "reads \<Rightarrow> string \<Rightarrow> refusal + unit" where
  "visible_group get g =
     sum_bind (gateway ''Failed to reach the cloud'' (list_security_groups get)) (\<lambda>gs.
       if JStr g \<in> (\<lambda>o'. jget o' ''id'') ` set gs then Inr ()
       else Inl (Refused (AppError ''No such security group in this project.'' ''not_found'' 404)))"

definition rule_checked :: "network_cloud \<Rightarrow> write_context \<Rightarrow> string \<Rightarrow> json \<Rightarrow> refusal + string \<times> rule_request" where
  "rule_checked n x g data =
     sum_bind (own_token (wr_visitor x)) (\<lambda>t. sum_bind (rule_request_of data g) (\<lambda>q.
     sum_bind (visible_group (nc_reads n t) g) (\<lambda>_. sum_bind (text_field data ''description'') (\<lambda>d.
       Inr (t, q\<lparr>rr_description := d\<rparr>)))))"

definition opt_or_null :: "string option \<Rightarrow> json" where
  "opt_or_null v = (case v of None \<Rightarrow> JNull | Some s \<Rightarrow> JStr s)"

definition rule_create_failed :: "write_context \<Rightarrow> rule_request \<Rightarrow> zadara_error \<Rightarrow> audit_log" where
  "rule_create_failed x q z = audit_failed (zcode z) (group_entry x ''security_group.rule.create'' (rr_group q) []
     [(''direction'', JStr (rr_direction q)), (''protocol'', opt_or_null (rr_protocol q)), (''cidr'', opt_or_null (rr_cidr q))])"

definition rule_created :: "write_context \<Rightarrow> rule_request \<Rightarrow> object \<Rightarrow> audit_log" where
  "rule_created x q r = group_entry x ''security_group.rule.create'' (rr_group q) (py_str_of (jget r ''label''))
     [(''rule'', jget r ''label''), (''direction'', JStr (rr_direction q)),
      (''openToInternet'', JBool (opens_the_internet (rr_cidr q)))]"

definition rule_post :: "network_cloud \<Rightarrow> write_context \<Rightarrow> string \<Rightarrow> json \<Rightarrow> traces \<Rightarrow> traces \<times> (refusal + object)" where
  "rule_post n x g data st =
     (case rule_checked n x g data of
        Inl e \<Rightarrow> (st, Inl e)
      | Inr (t, q) \<Rightarrow>
          (case create_security_group_rule (wr_digest x) (nc_create n t) t q (wr_now x) (fst st) of
             (c, Inl Crash) \<Rightarrow> ((c, snd st), Inl Crashed)
           | (c, Inl (Zadara z)) \<Rightarrow>
               ((c, audit_record (wr_saves x) (rule_create_failed x q z) (snd st)), Inl (rule_refused z))
           | (c, Inr r) \<Rightarrow> ((c, audit_record (wr_saves x) (rule_created x q r) (snd st)), Inr r)))"

definition visible_rule :: "reads \<Rightarrow> string \<Rightarrow> refusal + object" where
  "visible_rule get i =
     sum_bind (gateway ''Failed to reach the cloud'' (list_security_group_rules get)) (\<lambda>rs.
       case map_of (dict_of (\<lambda>r. jget r ''id'') id rs) (JStr i) of
         None \<Rightarrow> Inl (Refused (AppError ''No such rule in this project.'' ''not_found'' 404))
       | Some r \<Rightarrow> Inr r)"

definition rule_removed :: "write_context \<Rightarrow> object \<Rightarrow> object \<Rightarrow> audit_log" where
  "rule_removed x r extra = group_entry x ''security_group.rule.delete'' (py_str_of (jget r ''groupId''))
     (py_str_of (jget r ''label'')) extra"

definition rule_delete :: "network_cloud \<Rightarrow> write_context \<Rightarrow> string \<Rightarrow> traces \<Rightarrow> traces \<times> (refusal + unit)" where
  "rule_delete n x i st =
     (case sum_bind (own_token (wr_visitor x)) (\<lambda>t. sum_bind (visible_rule (nc_reads n t) i) (\<lambda>r. Inr (t, r))) of
        Inl e \<Rightarrow> (st, Inl e)
      | Inr (t, r) \<Rightarrow>
          (case delete_security_group_rule (wr_digest x) (nc_delete n t i) t (wr_now x) (fst st) of
             (c, Inl Crash) \<Rightarrow> ((c, snd st), Inl Crashed)
           | (c, Inl (Zadara z)) \<Rightarrow>
               ((c, audit_record (wr_saves x) (audit_failed (zcode z) (rule_removed x r [])) (snd st)), Inl (rule_refused z))
           | (c, Inr _) \<Rightarrow>
               ((c, audit_record (wr_saves x)
                  (rule_removed x r [(''rule'', jget r ''label''), (''direction'', jget r ''direction'')]) (snd st)), Inr ())))"

end
