(* ===== verification/Project_Scope.thy ===== *)
theory Project_Scope
  imports Network_Screens
begin

text \<open>
  The projects a user can work in, and switching between them (\<open>tenants/views.py\<close>). A switch exchanges the
  session's token for one of the other project, keeps it in the vault under the same session, and takes the
  scope and the role from the cloud's answer (\<open>apply_scope_to_session\<close>).
\<close>

datatype project_choices = Discovered "(string \<times> json) list" | Listed "project_summary list"

text \<open>What the service account finds first, the user's own token where it fails.\<close>

definition projects_get :: "reads \<Rightarrow> (string \<Rightarrow> zadara_error + response) \<Rightarrow> visitor \<Rightarrow> refusal + project_choices" where
  "projects_get dir ask v =
     (case get_user_projects dir (u_account (vi_user v)) (username (vi_user v)) of
        Inr ps \<Rightarrow> Inr (Discovered ps)
      | Inl Crash \<Rightarrow> Inl Crashed
      | Inl (Zadara _) \<Rightarrow>
          sum_bind (own_token v) (\<lambda>t. case list_projects (ask t) of
            Inr ps \<Rightarrow> Inr (Listed ps)
          | Inl Crash \<Rightarrow> Inl Crashed
          | Inl (Zadara e) \<Rightarrow>
              if zcode e = ''forbidden'' then Inr (Listed [])
              else Inl (Refused (AppError ''Failed to load projects'' (zcode e) 502))))"

subsection \<open>Switching (\<open>ProjectSwitchView\<close>)\<close>

definition project_param :: "json \<Rightarrow> refusal + string" where
  "project_param data = sum_bind (text_field data ''project'') (\<lambda>p.
     if p = [] then Inl (Refused (AppError ''project is required'' ''validation_error'' 400)) else Inr p)"

definition switch_refused :: "auth_failure \<Rightarrow> refusal" where
  "switch_refused e = (case e of
     AuthCrash \<Rightarrow> Crashed
   | Rejected z \<Rightarrow> Refused (AppError (zmessage z) (zcode z) (if zcode z = ''forbidden'' then 403 else 502)))"

definition with_role :: "auth_result \<Rightarrow> user \<Rightarrow> user" where
  "with_role res u = u\<lparr>app_role := resolve_app_role (ar_roles res)\<rparr>"

text \<open>Only the caller's own row is written, and only when the role differs.\<close>

definition sync_role :: "auth_result \<Rightarrow> user \<Rightarrow> user list \<Rightarrow> user list" where
  "sync_role res u us =
     (if app_role u = resolve_app_role (ar_roles res) then us
      else map (\<lambda>w. if u_pk w = u_pk u then with_role res w else w) us)"

text \<open>The changed session is saved under the key it has, for another full lifetime.\<close>

definition rescope_session :: "toolkit \<Rightarrow> int \<Rightarrow> int \<Rightarrow> string \<Rightarrow> session_data \<Rightarrow> user \<Rightarrow> auth_result \<Rightarrow> cabinet \<Rightarrow> cabinet" where
  "rescope_session k ttl now key d u res c =
     (let c = vault_store k ttl now (Some key) (ar_token res) c in
      c\<lparr>cabinet_users := sync_role res u (cabinet_users c),
        browsers := shelf_set key (scoped res d) (now + ttl) (browsers c)\<rparr>)"

definition switch_checked :: "toolkit \<Rightarrow> string option \<Rightarrow> int \<Rightarrow> json \<Rightarrow> cabinet \<Rightarrow> refusal + string \<times> string" where
  "switch_checked k cookie now data c =
     sum_bind (project_param data) (\<lambda>p.
       let t = session_token k now (fst (browser_session c now cookie)) c in
       if given t then Inr (p, the t) else Inl SESSION_EXPIRED)"

definition project_switch_post :: "toolkit \<Rightarrow> identity_provider \<Rightarrow> int \<Rightarrow> string option \<Rightarrow> int \<Rightarrow> json \<Rightarrow> cabinet
    \<Rightarrow> cabinet \<times> (refusal + cabinet_me)" where
  "project_switch_post k idp ttl cookie now data c =
     (case signed_user c now cookie of
        None \<Rightarrow> (c, Inl not_signed_in)
      | Some u \<Rightarrow>
          (case switch_checked k cookie now data c of
             Inl e \<Rightarrow> (c, Inl e)
           | Inr (p, t) \<Rightarrow>
               (case exchange_project idp t (JStr p) (u_account u) of
                  Inl e \<Rightarrow> (c, Inl (switch_refused e))
                | Inr res \<Rightarrow>
                    (case browser_session c now cookie of
                       (Some key, d) \<Rightarrow> (rescope_session k ttl now key d u res c, Inr (cabinet_me_payload (with_role res u) (scoped res d)))
                     | (None, d) \<Rightarrow> (c, Inl Crashed)))))"

end
