(* ===== verification/Screens_Safety.thy ===== *)
theory Screens_Safety
  imports Project_Scope Cabinet_Safety
begin

text \<open>
  What the project's screens guarantee: pages of events tile the window, the network page attaches every rule
  and counts every row once, changes of machines and firewall rules are confined to what the session sees and
  recorded.
\<close>

subsection \<open>Pages of events\<close>

text \<open>The events a form finds, whatever page of them is asked for.\<close>

definition found_events :: "(string \<Rightarrow> (string \<times> string) list \<Rightarrow> failure + json) \<Rightarrow> visitor \<Rightarrow> event_form \<Rightarrow> int
    \<Rightarrow> object list option" where
  "found_events query v f now =
     (case (own_token v, vi_project_id v) of
        (Inr t, Some p) \<Rightarrow>
          (case list_events (query t) (event_query_of f p) EVENT_FETCH_CAP now of
             Inl _ \<Rightarrow> None
           | Inr w \<Rightarrow> search_events (lower (strip (opt_text (ef_search f)))) (win_events w))
      | _ \<Rightarrow> None)"

definition nth_page :: "event_form \<Rightarrow> nat \<Rightarrow> nat \<Rightarrow> event_form" where
  "nth_page f l k = f\<lparr>ef_limit := Some (show_nat l), ef_offset := Some (show_nat (k * l))\<rparr>"

lemma found_events_window [simp]:
  "found_events query v (f\<lparr>ef_limit := a, ef_offset := b\<rparr>) now = found_events query v f now"
  by (simp add: found_events_def event_query_of_def split: sum.split option.split)

lemma found_events_page [simp]: "found_events query v (nth_page f l k) now = found_events query v f now"
  by (simp add: nth_page_def)

lemma events_answer_parts:
  assumes "events_answer w es limit offset project = Inr s"
  shows "ex_events s = py_slice es offset (offset + limit) \<and> ex_total s = length es \<and> ex_severities s = severity_counts es"
  using assms by (auto simp: events_answer_def sum_bind_Inr split: if_splits)

lemma events_get_parts:
  assumes "events_get query v f now = Inr s"
  shows "\<exists>es limit offset. page_window f = Inr (limit, offset) \<and> found_events query v f now = Some es \<and>
    ex_events s = py_slice es offset (offset + limit) \<and> ex_total s = length es \<and> ex_severities s = severity_counts es"
proof -
  obtain t where t: "own_token v = Inr t" and p: "given (vi_project_id v)"
      and rest: "sum_bind (page_window f) (\<lambda>(limit, offset).
         case list_events (query t) (event_query_of f (the (vi_project_id v))) EVENT_FETCH_CAP now of
           Inl e \<Rightarrow> Inl (events_refused e)
         | Inr w \<Rightarrow> sum_bind (or_crash (search_events (lower (strip (opt_text (ef_search f)))) (win_events w)))
             (\<lambda>es. events_answer w es limit offset (vi_project_name v))) = Inr s"
    using assms by (auto simp: events_get_def sum_bind_Inr split: if_splits)
  obtain limit offset where w: "page_window f = Inr (limit, offset)"
      and reply: "(case list_events (query t) (event_query_of f (the (vi_project_id v))) EVENT_FETCH_CAP now of
           Inl e \<Rightarrow> Inl (events_refused e)
         | Inr w \<Rightarrow> sum_bind (or_crash (search_events (lower (strip (opt_text (ef_search f)))) (win_events w)))
             (\<lambda>es. events_answer w es limit offset (vi_project_name v))) = Inr s"
    using rest by (cases "page_window f") (auto simp: sum_bind_def)
  obtain w es where *: "list_events (query t) (event_query_of f (the (vi_project_id v))) EVENT_FETCH_CAP now = Inr w"
      "search_events (lower (strip (opt_text (ef_search f)))) (win_events w) = Some es"
      "events_answer w es limit offset (vi_project_name v) = Inr s"
    using reply by (cases "list_events (query t) (event_query_of f (the (vi_project_id v))) EVENT_FETCH_CAP now")
      (auto simp: sum_bind_Inr or_crash_Inr)
  have "found_events query v f now = Some es"
    using t p *(1,2) by (auto simp: found_events_def given_def)
  then show ?thesis using w events_answer_parts [OF *(3)] by blast
qed

lemma number_param_show: "number_param (Some (show_nat n)) d = Some (int n)"
proof -
  have "show_nat n \<noteq> []" by (subst show_nat.simps) simp
  then show ?thesis
    by (simp add: number_param_def given_def py_int_digits show_nat_digits read_show_nat)
qed

lemma nth_page_window:
  assumes "int l \<le> PAGE_SIZE_MAX"
  shows "page_window (nth_page f l k) = Inr (int l, int (k * l))"
  using assms by (simp add: page_window_def nth_page_def number_param_show min_absorb1 del: of_nat_mult)

lemma py_slice_nat: "py_slice xs (int a) (int b) = drop a (take b xs)"
  by (simp add: py_slice_def slice_bound_def min_def)

lemma slices_tile: "concat (map (\<lambda>k. drop (k * l) (take (k * l + l) xs)) [0..<n]) = take (n * l) xs"
proof (induction n)
  case (Suc n)
  have "take (n * l) xs @ drop (n * l) (take (n * l + l) xs) = take (n * l + l) xs"
    by (metis append_take_drop_id le_add1 min.absorb1 take_take)
  then show ?case using Suc by (simp add: add.commute)
qed simp

text \<open>C34. Reading the event log page by page, at one time and from a log that stays as it is, with any page size the
  screen accepts, shows every event the form finds once and in order: the first n pages together are the first
  n page sizes of them, no page is longer than asked for, and each names the same total.\<close>

theorem events_pages_tile:
  assumes "int l \<le> PAGE_SIZE_MAX"
    and pages: "\<And>k. k < n \<Longrightarrow> events_get query v (nth_page f l k) now = Inr (s k)"
    and "found_events query v f now = Some es"
  shows "concat (map (\<lambda>k. ex_events (s k)) [0..<n]) = take (n * l) es \<and>
    (\<forall>k<n. length (ex_events (s k)) \<le> l \<and> ex_total (s k) = length es)"
proof -
  have page: "ex_events (s k) = drop (k * l) (take (k * l + l) es) \<and> ex_total (s k) = length es" if "k < n" for k
  proof -
    have "ex_events (s k) = py_slice es (int (k * l)) (int (k * l + l)) \<and> ex_total (s k) = length es"
      using events_get_parts [OF pages [OF that]] nth_page_window [OF assms(1)] assms(3)
      by (auto simp: found_events_page)
    then show ?thesis by (simp only: py_slice_nat)
  qed
  have "concat (map (\<lambda>k. ex_events (s k)) [0..<n]) = concat (map (\<lambda>k. drop (k * l) (take (k * l + l) es)) [0..<n])"
    using page by (intro arg_cong [of _ _ concat] map_cong) auto
  moreover have "length (drop (k * l) (take (k * l + l) es)) \<le> l" for k by simp
  ultimately show ?thesis using page by (simp add: slices_tile)
qed

text \<open>A negative limit is not refused: all events but the last are answered, however many they are.\<close>

theorem negative_limit_unbounded:
  assumes "events_get query v (f\<lparr>ef_limit := Some ''-1'', ef_offset := None\<rparr>) now = Inr s"
    and "found_events query v f now = Some es"
  shows "ex_events s = butlast es"
proof -
  let ?f = "f\<lparr>ef_limit := Some ''-1'', ef_offset := None\<rparr>"
  have "py_int ''-1'' = Some (- 1)" by code_simp
  then have "page_window ?f = Inr (- 1, 0)"
    by (simp add: page_window_def number_param_def given_def PAGE_SIZE_MAX_def)
  moreover have "found_events query v ?f now = Some es"
    using assms(2) by simp
  ultimately have "ex_events s = py_slice es 0 (- 1)"
    using events_get_parts [OF assms(1)] by auto
  then show ?thesis by (auto simp: py_slice_def slice_bound_def butlast_conv_take nat_diff_distrib')
qed

subsection \<open>Changes in the cloud\<close>

text \<open>
  One more row, about that action on that resource. A row of success goes with the caches of the token's
  scope dropped and with no refusal; a row of failure with untouched caches and a refusal of its error code.
\<close>

definition recorded :: "write_context \<Rightarrow> string \<Rightarrow> string \<Rightarrow> string \<Rightarrow> string \<Rightarrow> traces \<Rightarrow> traces \<Rightarrow> refusal + 'a \<Rightarrow> bool" where
  "recorded x t act typ i st st' r =
     (\<exists>row. snd st' = snd st @ [row] \<and> audit_log.log_action row = act \<and> log_resource_type row = typ \<and> log_resource_id row = i \<and>
       log_user row = log_user (audit_entry (wr_request x) act) \<and>
       (if log_outcome row = ''SUCCESS''
        then fst st' = invalidate (wr_digest x) t (wr_now x) (fst st) \<and> (\<forall>e. r \<noteq> Inl (Refused e))
        else fst st' = fst st \<and> log_outcome row = ''FAILURE'' \<and>
          (\<exists>m s. r = Inl (Refused (AppError m (log_error_code row) s)))))"

lemma entry_fields [simp]:
  "audit_log.log_action (audit_entry q act) = act" "log_outcome (audit_entry q act) = ''SUCCESS''"
  by (simp_all add: audit_entry_def Let_def)

lemma recorded_ok:
  assumes "snd st' = snd st @ [row]" "audit_log.log_action row = act" "log_resource_type row = typ" "log_resource_id row = i"
    "log_user row = log_user (audit_entry (wr_request x) act)" "log_outcome row = ''SUCCESS''"
    "fst st' = invalidate (wr_digest x) t (wr_now x) (fst st)" "\<And>e. r \<noteq> Inl (Refused e)"
  shows "recorded x t act typ i st st' r"
  unfolding recorded_def using assms by (intro exI [of _ row]) simp

lemma recorded_failed:
  assumes "snd st' = snd st @ [audit_failed c row]" "audit_log.log_action row = act" "log_resource_type row = typ"
    "log_resource_id row = i" "log_user row = log_user (audit_entry (wr_request x) act)"
    "fst st' = fst st" "r = Inl (Refused (AppError m c s))"
  shows "recorded x t act typ i st st' r"
  unfolding recorded_def using assms by (intro exI [of _ "audit_failed c row"]) (simp add: audit_failed_def)

lemma failed_code: "machine_failed m (Zadara z) = Refused (AppError (or_text (zmessage z) m) (zcode z) (machine_status (zcode z)))"
  by (simp add: machine_failed_def)

text \<open>The three writes of the client either reach the cloud's own yes, and drop the caches, or change nothing.\<close>

lemma vm_action_cases:
  "vm_action digest post t i a force now c = (c', r) \<Longrightarrow>
     (\<exists>z. r = Inl (Zadara z) \<and> c' = c) \<or> (r = Inr () \<and> c' = invalidate digest t now c)"
  by (auto simp: vm_action_def authed_post_def split: option.splits sum.splits if_splits)

lemma rule_delete_cases:
  "delete_security_group_rule digest reply t now c = (c', r) \<Longrightarrow>
     (\<exists>z. r = Inl (Zadara z) \<and> c' = c) \<or> (r = Inr () \<and> c' = invalidate digest t now c)"
  by (auto simp: delete_security_group_rule_def split: sum.splits if_splits)

lemma rule_create_cases:
  "create_security_group_rule digest post t q now c = (c', r) \<Longrightarrow>
     r = Inl Crash \<or> (\<exists>z. r = Inl (Zadara z) \<and> c' = c) \<or> (\<exists>o'. r = Inr o' \<and> c' = invalidate digest t now c)"
  by (auto simp: create_security_group_rule_def from_option_def split: sum.splits option.splits if_splits json.splits)

lemma fresh_card_not_refused: "fresh_card m t i \<noteq> Inl (Refused e)"
  by (simp add: fresh_card_def split: sum.split failure.split)

lemma vm_action_recorded:
  assumes "wr_saves x = (\<lambda>_. True)" "vm_action_post m x i data st = (st', r)"
  shows "(\<forall>act. vm_action_post (m\<lparr>mc_act := act\<rparr>) x i data st = (st, r)) \<or>
    (\<exists>t f. own_token (wr_visitor x) = Inr t \<and> action_form_of data = Inr f \<and> af_action f \<in> set VM_ACTIONS \<and>
      recorded x t (''vm.'' @ af_action f) ''vm'' i st st' r)"
proof (cases "sum_bind (own_token (wr_visitor x)) (\<lambda>t. sum_bind (action_form_of data) (\<lambda>f. Inr (t, f)))")
  case (Inl e)
  then show ?thesis using assms(2) by (simp add: vm_action_post_def)
next
  case (Inr v)
  obtain t f where v: "v = (t, f)" by (cases v)
  have asked: "own_token (wr_visitor x) = Inr t" "action_form_of data = Inr f"
    using Inr v by (auto simp: sum_bind_Inr)
  have known: "af_action f \<in> set VM_ACTIONS"
    using asked(2) by (auto simp: action_form_of_def sum_bind_Inr split: if_splits)
  obtain c w where w: "vm_action (wr_digest x) (mc_act m t) t i (af_action f) (af_force f) (wr_now x) (fst st) = (c, w)"
    by fastforce
  have row: "audit_log.log_action (action_entry x i f) = ''vm.'' @ af_action f" "log_resource_type (action_entry x i f) = ''vm''"
      "log_resource_id (action_entry x i f) = i"
      "log_user (action_entry x i f) = log_user (audit_entry (wr_request x) (''vm.'' @ af_action f))"
      "log_outcome (action_entry x i f) = ''SUCCESS''"
    by (simp_all add: action_entry_def machine_entry_def)
  from vm_action_cases [OF w] have "recorded x t (''vm.'' @ af_action f) ''vm'' i st st' r"
  proof (elim disjE exE conjE)
    fix z assume "w = Inl (Zadara z)" "c = fst st"
    then show ?thesis using assms w
      by (intro recorded_failed [OF _ row(1-4)]) (auto simp: vm_action_post_def Inr v audit_record_def failed_code)
  next
    assume "w = Inr ()" "c = invalidate (wr_digest x) t (wr_now x) (fst st)"
    then show ?thesis using assms w fresh_card_not_refused [of m t i]
      by (intro recorded_ok [OF _ row]) (auto simp: vm_action_post_def Inr v audit_record_def)
  qed
  then show ?thesis using asked known by blast
qed

text \<open>A start, stop or reboot either never asked the cloud and left no trace, or was one of the three actions,
  asked for with the session's own token, and left exactly one audit row naming the caller, the machine and the
  action. The row says success exactly when the cloud took the action, and then the cached answers are dropped;
  otherwise it carries the code the caller is told and the caches stay.\<close>

theorem machine_actions_recorded:
  assumes "wr_saves x = (\<lambda>_. True)"
  shows "case vm_action_post m x i data st of (st', r) \<Rightarrow>
    (\<forall>act. vm_action_post (m\<lparr>mc_act := act\<rparr>) x i data st = (st, r)) \<or>
    (\<exists>t f. own_token (wr_visitor x) = Inr t \<and> action_form_of data = Inr f \<and> af_action f \<in> set VM_ACTIONS \<and>
      recorded x t (''vm.'' @ af_action f) ''vm'' i st st' r)"
proof -
  obtain st' r where e: "vm_action_post m x i data st = (st', r)" by (metis prod.exhaust)
  show ?thesis using vm_action_recorded [OF assms e] by (simp only: e prod.case)
qed

subsection \<open>Firewall rules\<close>

lemma rule_checked_cloud [simp]:
  "rule_checked (n\<lparr>nc_create := create\<rparr>) x g data = rule_checked n x g data"
  by (simp add: rule_checked_def)

lemma rule_delete_reads [simp]: "nc_reads (n\<lparr>nc_delete := d\<rparr>) = nc_reads n"
  by simp

lemma rule_request_group: "rule_request_of data g = Inr q \<Longrightarrow> rr_group q = g"
  by (auto simp: rule_request_of_def sum_bind_Inr)

lemma visible_group_Inr:
  assumes "visible_group get g = Inr u"
  shows "\<exists>gs. list_security_groups get = Inr gs \<and> JStr g \<in> (\<lambda>o'. jget o' ''id'') ` set gs"
  using assms by (auto simp: visible_group_def sum_bind_Inr gateway_def split: sum.splits failure.splits if_splits)

lemma rule_checked_Inr:
  assumes "rule_checked n x g data = Inr (t, q)"
  shows "own_token (wr_visitor x) = Inr t \<and> rr_group q = g \<and>
    (\<exists>gs. list_security_groups (nc_reads n t) = Inr gs \<and> JStr g \<in> (\<lambda>o'. jget o' ''id'') ` set gs)"
  using assms by (auto simp: rule_checked_def sum_bind_Inr dest!: rule_request_group visible_group_Inr)

lemma map_of_dict_of_mem:
  assumes "map_of (dict_of key val xs) k = Some v"
  shows "\<exists>x \<in> set xs. key x = k \<and> val x = v"
proof -
  have "map_of (fold (\<lambda>x. AList.update (key x) (val x)) xs d) k = Some v \<Longrightarrow>
      map_of d k = Some v \<or> (\<exists>x \<in> set xs. key x = k \<and> val x = v)" for d
    by (induction xs arbitrary: d) (fastforce simp: map_of_update split: if_splits)+
  then show ?thesis using assms unfolding dict_of_def by fastforce
qed

lemma visible_rule_Inr:
  assumes "visible_rule get i = Inr r"
  shows "\<exists>rs. list_security_group_rules get = Inr rs \<and> r \<in> set rs \<and> jget r ''id'' = JStr i"
proof -
  obtain rs where rs: "list_security_group_rules get = Inr rs"
      and m: "map_of (dict_of (\<lambda>r. jget r ''id'') id rs) (JStr i) = Some r"
    using assms by (auto simp: visible_rule_def sum_bind_Inr gateway_def split: sum.splits failure.splits option.splits)
  show ?thesis using map_of_dict_of_mem [OF m] rs by auto
qed

text \<open>The answers the code cannot read: a value that is neither empty nor an object where an object is expected,
  be it the answer itself or, in an acceptance, the rule in it.\<close>

definition unreadable_answer :: "response \<Rightarrow> bool" where
  "unreadable_answer r = (case resp_json r of
     None \<Rightarrow> False
   | Some (JObj b) \<Rightarrow> resp_ok r \<and> (case jget b ''security_group_rule'' of JObj _ \<Rightarrow> False | v \<Rightarrow> truthy v)
   | Some v \<Rightarrow> truthy v)"

lemma created_rule_unreadable: "resp_ok r \<Longrightarrow> (created_rule r = None) = unreadable_answer r"
  by (auto simp: created_rule_def unreadable_answer_def jget_def split: option.split json.splits if_splits)

lemma neutron_message_unreadable: "\<not> resp_ok r \<Longrightarrow> (neutron_message r = None) = unreadable_answer r"
  by (auto simp: neutron_message_def unreadable_answer_def jget_def split: option.split json.splits if_splits)

lemma rule_create_crashes:
  assumes "create_security_group_rule digest post t q now c = (c', w)"
  shows "(w = Inl Crash) = (\<exists>reply. post [(''security_group_rule'', JObj (rule_body q))] = Inr reply \<and> unreadable_answer reply)"
proof (cases "post [(''security_group_rule'', JObj (rule_body q))]")
  case (Inr r)
  show ?thesis
  proof (cases "resp_ok r")
    case True
    have "(w = Inl Crash) = (created_rule r = None)"
      using assms True by (auto simp: create_security_group_rule_def Inr created_rule_def jget_def from_option_def
          split: option.splits json.splits if_splits)
    then show ?thesis using created_rule_unreadable [OF True] Inr by simp
  next
    case False
    have "(w = Inl Crash) = (neutron_message r = None)"
      using assms False by (auto simp: create_security_group_rule_def Inr split: option.splits)
    then show ?thesis using neutron_message_unreadable [OF False] Inr by simp
  qed
qed (use assms in \<open>auto simp: create_security_group_rule_def\<close>)

lemma rule_post_recorded:
  assumes "wr_saves x = (\<lambda>_. True)" "rule_post n x g data st = (st', r)"
  shows "(\<forall>create. rule_post (n\<lparr>nc_create := create\<rparr>) x g data st = (st, r)) \<or>
    (\<exists>t gs q. own_token (wr_visitor x) = Inr t \<and> list_security_groups (nc_reads n t) = Inr gs \<and>
      JStr g \<in> (\<lambda>o'. jget o' ''id'') ` set gs \<and> rr_group q = g \<and>
      (if \<exists>reply. nc_create n t [(''security_group_rule'', JObj (rule_body q))] = Inr reply \<and> unreadable_answer reply
       then r = Inl Crashed \<and> snd st' = snd st
       else recorded x t ''security_group.rule.create'' ''security_group'' g st st' r))"
proof (cases "rule_checked n x g data")
  case (Inl e)
  then show ?thesis using assms(2) by (simp add: rule_post_def)
next
  case (Inr v)
  obtain t q where v: "v = (t, q)" by (cases v)
  note checked = rule_checked_Inr [OF Inr [unfolded v]]
  obtain c w where w: "create_security_group_rule (wr_digest x) (nc_create n t) t q (wr_now x) (fst st) = (c, w)"
    by fastforce
  let ?bad = "\<exists>reply. nc_create n t [(''security_group_rule'', JObj (rule_body q))] = Inr reply \<and> unreadable_answer reply"
  let ?done = "recorded x t ''security_group.rule.create'' ''security_group'' g st st' r"
  from rule_create_cases [OF w] have "if ?bad then r = Inl Crashed \<and> snd st' = snd st else ?done"
  proof (elim disjE exE conjE)
    assume "w = Inl Crash"
    then have ?bad "r = Inl Crashed \<and> snd st' = snd st"
      using assms w rule_create_crashes [OF w] by (auto simp: rule_post_def Inr v)
    then show ?thesis by simp
  next
    fix z assume z: "w = Inl (Zadara z)" "c = fst st"
    then have "\<not> ?bad" using rule_create_crashes [OF w] by simp
    moreover have ?done using z assms w checked
      by (intro recorded_failed [of st' st "zcode z" "group_entry x ''security_group.rule.create'' (rr_group q) []
            [(''direction'', JStr (rr_direction q)), (''protocol'', opt_or_null (rr_protocol q)), (''cidr'', opt_or_null (rr_cidr q))]"])
        (auto simp: rule_post_def Inr v audit_record_def rule_create_failed_def group_entry_def rule_refused_def)
    ultimately show ?thesis by (simp only: if_False)
  next
    fix o' assume o': "w = Inr o'" "c = invalidate (wr_digest x) t (wr_now x) (fst st)"
    then have "\<not> ?bad" using rule_create_crashes [OF w] by simp
    moreover have ?done using o' assms w checked
      by (intro recorded_ok [of st' st "rule_created x q o'"])
        (auto simp: rule_post_def Inr v audit_record_def rule_created_def group_entry_def)
    ultimately show ?thesis by (simp only: if_False)
  qed
  then show ?thesis using checked by blast
qed

lemma rule_delete_recorded:
  assumes "wr_saves x = (\<lambda>_. True)" "rule_delete n x i st = (st', r)"
  shows "(\<forall>d. rule_delete (n\<lparr>nc_delete := d\<rparr>) x i st = (st, r)) \<or>
    (\<exists>t rs rule. own_token (wr_visitor x) = Inr t \<and> list_security_group_rules (nc_reads n t) = Inr rs \<and>
      rule \<in> set rs \<and> jget rule ''id'' = JStr i \<and>
      recorded x t ''security_group.rule.delete'' ''security_group'' (py_str_of (jget rule ''groupId'')) st st' r)"
proof (cases "sum_bind (own_token (wr_visitor x)) (\<lambda>t. sum_bind (visible_rule (nc_reads n t) i) (\<lambda>r. Inr (t, r)))")
  case (Inl e)
  then show ?thesis using assms(2) by (simp add: rule_delete_def)
next
  case (Inr v)
  obtain t rule where v: "v = (t, rule)" by (cases v)
  have asked: "own_token (wr_visitor x) = Inr t" and seen: "visible_rule (nc_reads n t) i = Inr rule"
    using Inr v by (auto simp: sum_bind_Inr)
  obtain c w where w: "delete_security_group_rule (wr_digest x) (nc_delete n t i) t (wr_now x) (fst st) = (c, w)"
    by fastforce
  from rule_delete_cases [OF w]
  have "recorded x t ''security_group.rule.delete'' ''security_group'' (py_str_of (jget rule ''groupId'')) st st' r"
  proof (elim disjE exE conjE)
    fix z assume "w = Inl (Zadara z)" "c = fst st"
    then show ?thesis using assms w
      by (intro recorded_failed [of st' st "zcode z" "rule_removed x rule []"])
        (auto simp: rule_delete_def Inr v audit_record_def rule_removed_def group_entry_def rule_refused_def)
  next
    assume "w = Inr ()" "c = invalidate (wr_digest x) t (wr_now x) (fst st)"
    then show ?thesis using assms w
      by (intro recorded_ok [of st' st "rule_removed x rule [(''rule'', jget rule ''label''), (''direction'', jget rule ''direction'')]"])
        (auto simp: rule_delete_def Inr v audit_record_def rule_removed_def group_entry_def)
  qed
  then show ?thesis using asked visible_rule_Inr [OF seen] by blast
qed

text \<open>C31. A firewall rule is added only to a group the session's own token lists and removed only if that token
  lists the rule: every other request never asks the cloud and leaves no trace. What was asked leaves exactly one
  audit row naming the caller and the group, with the outcome the caller is told, and drops the cached answers
  when the cloud took it. The one exception is an addition the cloud answers with something the code cannot
  read, a value that is no object where it expects one, which ends without a row as an unhandled exception.\<close>

theorem rule_changes_confined:
  assumes "wr_saves x = (\<lambda>_. True)"
  shows "(case rule_post n x g data st of (st', r) \<Rightarrow>
      (\<forall>create. rule_post (n\<lparr>nc_create := create\<rparr>) x g data st = (st, r)) \<or>
      (\<exists>t gs q. own_token (wr_visitor x) = Inr t \<and> list_security_groups (nc_reads n t) = Inr gs \<and>
        JStr g \<in> (\<lambda>o'. jget o' ''id'') ` set gs \<and> rr_group q = g \<and>
        (if \<exists>reply. nc_create n t [(''security_group_rule'', JObj (rule_body q))] = Inr reply \<and> unreadable_answer reply
         then r = Inl Crashed \<and> snd st' = snd st
         else recorded x t ''security_group.rule.create'' ''security_group'' g st st' r))) \<and>
    (case rule_delete n x i st of (st', r) \<Rightarrow>
      (\<forall>d. rule_delete (n\<lparr>nc_delete := d\<rparr>) x i st = (st, r)) \<or>
      (\<exists>t rs rule. own_token (wr_visitor x) = Inr t \<and> list_security_group_rules (nc_reads n t) = Inr rs \<and>
        rule \<in> set rs \<and> jget rule ''id'' = JStr i \<and>
        recorded x t ''security_group.rule.delete'' ''security_group'' (py_str_of (jget rule ''groupId'')) st st' r))"
proof -
  obtain st1 r1 where p: "rule_post n x g data st = (st1, r1)" by (metis prod.exhaust)
  obtain st2 r2 where d: "rule_delete n x i st = (st2, r2)" by (metis prod.exhaust)
  show ?thesis unfolding p d prod.case
    by (intro conjI rule_post_recorded [OF assms p] rule_delete_recorded [OF assms d])
qed

lemma rule_request_open:
  assumes "rule_request_of (JObj o') g = Inr q" "jget o' ''cidr'' = JNull" "jget o' ''remoteGroupId'' = JNull"
  shows "rr_cidr q = None" "rr_remote_group q = None"
  using assms by (auto simp: rule_request_of_def sum_bind_Inr text_field_str stripped_def jor_def strip_def or_none_def)

lemma rule_body_open:
  assumes "rr_cidr q = None" "rr_remote_group q = None"
  shows "map_of (rule_body q) ''remote_ip_prefix'' = None" "map_of (rule_body q) ''remote_group_id'' = None"
    "\<exists>p. rule_label (rule_body q) = p @ ''anywhere''"
proof -
  show m: "map_of (rule_body q) ''remote_ip_prefix'' = None" "map_of (rule_body q) ''remote_group_id'' = None"
    using assms by (auto simp: rule_body_def given_def split: option.split)
  have "jget (rule_body q) ''remote_ip_prefix'' = JNull" "jget (rule_body q) ''remote_group_id'' = JNull"
    using m by (simp_all add: jget_def)
  then show "\<exists>p. rule_label (rule_body q) = p @ ''anywhere''"
    unfolding rule_label_def Let_def by (simp only: truthy.simps if_False append_assoc [symmetric]) blast
qed

lemma rule_create_accepted:
  assumes "create_security_group_rule digest post t q now c = (c', Inr r)"
  shows "\<exists>reply. post [(''security_group_rule'', JObj (rule_body q))] = Inr reply \<and> resp_ok reply"
  using assms by (auto simp: create_security_group_rule_def split: sum.splits if_splits option.splits)

text \<open>A rule without an address range and without a source group is accepted and sent without either: it opens
  the group to any address, and the code's own label of it ends in \<open>anywhere\<close>. The audit row nevertheless
  carries the mark for rules open to the internet as false.\<close>

theorem open_rule_not_flagged:
  assumes "rule_post n x g (JObj o') st = (st', Inr r)" "wr_saves x = (\<lambda>_. True)"
    and "jget o' ''cidr'' = JNull" "jget o' ''remoteGroupId'' = JNull"
  shows "\<exists>t q reply row. nc_create n t [(''security_group_rule'', JObj (rule_body q))] = Inr reply \<and> resp_ok reply \<and>
    map_of (rule_body q) ''remote_ip_prefix'' = None \<and> map_of (rule_body q) ''remote_group_id'' = None \<and>
    (\<exists>p. rule_label (rule_body q) = p @ ''anywhere'') \<and>
    snd st' = snd st @ [row] \<and> map_of (log_detail row) ''openToInternet'' = Some (JBool False)"
proof -
  obtain t q where checked: "rule_checked n x g (JObj o') = Inr (t, q)"
    using assms(1) by (auto simp: rule_post_def split: sum.splits)
  obtain c w where w: "create_security_group_rule (wr_digest x) (nc_create n t) t q (wr_now x) (fst st) = (c, w)"
    by fastforce
  have done': "w = Inr r" "snd st' = snd st @ [rule_created x q r]"
    using assms(1,2) by (auto simp: rule_post_def checked w audit_record_def split: sum.splits failure.splits)
  have source: "rr_cidr q = None" "rr_remote_group q = None"
    using checked assms(3,4) by (auto simp: rule_checked_def sum_bind_Inr dest: rule_request_open)
  have flag: "map_of (log_detail (rule_created x q r)) ''openToInternet'' = Some (JBool False)"
    by (simp add: rule_created_def group_entry_def source opens_the_internet_def opt_text_def strip_def)
  obtain reply where "nc_create n t [(''security_group_rule'', JObj (rule_body q))] = Inr reply" "resp_ok reply"
    using rule_create_accepted [OF w [unfolded done'(1)]] by blast
  then show ?thesis using rule_body_open [OF source] done'(2) flag by blast
qed

subsection \<open>The network page\<close>

lemma jget_put_field [simp]: "jget (put_field k v row) k' = (if k' = k then v else jget row k')"
  by (simp add: put_field_def jget_def map_of_update)

lemma rules_of_group_filter: "rules_of_group rs g = filter (\<lambda>r. jget r ''groupId'' = jget g ''id'') rs"
  by (simp add: rules_of_group_def map_of_group_by)

lemma shown_rules: "as_list (jget (with_vpc vpcs (attach_rules rs g)) ''rules'') = map JObj (rules_of_group rs g)"
  by (simp add: with_vpc_def attach_rules_def Let_def as_list_def)

text \<open>Grouping by distinct keys keeps every element whose key is among them, once.\<close>

lemma filter_by_keys:
  assumes "distinct ks"
  shows "mset (concat (map (\<lambda>k. filter (\<lambda>x. key x = k) xs) ks)) = mset (filter (\<lambda>x. key x \<in> set ks) xs)"
  using assms
proof (induction ks)
  case (Cons k ks)
  have "mset (filter (\<lambda>x. key x \<in> set (k # ks)) xs) =
      mset (filter (\<lambda>x. key x = k) xs) + mset (filter (\<lambda>x. key x \<in> set ks) xs)"
    using Cons.prems by (induction xs) auto
  then show ?case using Cons by simp
qed simp

lemma jget_with_vpc [simp]: "jget (with_vpc vpcs row) ''vpcId'' = jget row ''vpcId''"
  by (simp add: with_vpc_def)

lemma in_vpc_labelled [simp]: "in_vpc v (with_vpc vpcs row) = in_vpc v row"
  by (simp add: in_vpc_def)

lemma filter_in_vpc_labelled: "length (filter (in_vpc v) (map (with_vpc vpcs) rows)) = length (filter (in_vpc v) rows)"
  by (simp add: filter_map o_def)

lemma length_by_keys:
  assumes "distinct ks"
  shows "(\<Sum>k\<leftarrow>ks. length (filter (\<lambda>x. key x = k) xs)) = length (filter (\<lambda>x. key x \<in> set ks) xs)"
  using mset_eq_length [OF filter_by_keys [OF assms, of key xs]] by (simp only: length_concat map_map o_def)

lemma of_nat_sum: "(\<Sum>v\<leftarrow>vs. of_nat (f v) :: rat) = of_nat (\<Sum>v\<leftarrow>vs. f v)"
  by (induction vs) simp_all

lemma labelled_fields: "k \<noteq> ''vpcName'' \<Longrightarrow> jget (with_vpc vpcs row) k = jget row k"
  by (simp add: with_vpc_def)

text \<open>C33. The network page joins its reads without losing or repeating anything, as long as no two networks and no two
  groups read have the same id. The rules shown under the groups are exactly the rules read of listed groups,
  each once. The subnets shown are the subnets read, in their order and with every field but the network's
  name as read; each network shows how many of the subnets read are its own, and these figures add up to the
  subnets read of listed networks.\<close>

theorem network_page_adds_up:
  assumes "nr_vpcs n = Inr vpcs" "nr_subnets n = Inr subnets" "nr_groups n = Inr groups" "nr_rules n = Inr rules"
    and "distinct (map (\<lambda>g. jget g ''id'') groups)" "distinct (map (\<lambda>v. jget v ''id'') vpcs)"
  shows "mset (concat (map (\<lambda>g. as_list (jget g ''rules'')) (ns_securityGroups (network_page n)))) =
      mset (map JObj (filter (\<lambda>r. jget r ''groupId'' \<in> (\<lambda>g. jget g ''id'') ` set groups) rules)) \<and>
    (\<forall>k. k \<noteq> ''vpcName'' \<longrightarrow> map (\<lambda>s. jget s k) (ns_subnets (network_page n)) = map (\<lambda>s. jget s k) subnets) \<and>
    map (\<lambda>v. (jget v ''id'', number_of (jget v ''subnets''))) (ns_vpcs (network_page n)) =
      map (\<lambda>v. (jget v ''id'', of_nat (length (filter (\<lambda>s. jget s ''vpcId'' = jget v ''id'') subnets)))) vpcs \<and>
    (\<Sum>v\<leftarrow>ns_vpcs (network_page n). number_of (jget v ''subnets'')) =
      of_nat (length (filter (\<lambda>s. jget s ''vpcId'' \<in> (\<lambda>v. jget v ''id'') ` set vpcs) subnets))"
proof (intro conjI)
  let ?gid = "\<lambda>g. jget g ''id''"
  have "concat (map (\<lambda>g. as_list (jget g ''rules'')) (ns_securityGroups (network_page n))) =
      map JObj (concat (map (\<lambda>k. filter (\<lambda>r. jget r ''groupId'' = k) rules) (map ?gid groups)))"
    by (simp add: network_page_def Let_def assms fetched_rows_def shown_rules rules_of_group_filter map_concat o_def)
  then show "mset (concat (map (\<lambda>g. as_list (jget g ''rules'')) (ns_securityGroups (network_page n)))) =
      mset (map JObj (filter (\<lambda>r. jget r ''groupId'' \<in> ?gid ` set groups) rules))"
    by (simp only: filter_by_keys [OF assms(5)] list.set_map mset_map)
  show "\<forall>k. k \<noteq> ''vpcName'' \<longrightarrow> map (\<lambda>s. jget s k) (ns_subnets (network_page n)) = map (\<lambda>s. jget s k) subnets"
    by (simp add: network_page_def Let_def assms fetched_rows_def o_def labelled_fields)
  show each: "map (\<lambda>v. (jget v ''id'', number_of (jget v ''subnets''))) (ns_vpcs (network_page n)) =
      map (\<lambda>v. (jget v ''id'', of_nat (length (filter (\<lambda>s. jget s ''vpcId'' = jget v ''id'') subnets)))) vpcs"
    by (simp add: network_page_def Let_def assms fetched_rows_def summed_vpc_def number_of_def numeric_def o_def
        filter_in_vpc_labelled in_vpc_def)
  have "(\<Sum>v\<leftarrow>ns_vpcs (network_page n). number_of (jget v ''subnets'')) =
      (\<Sum>v\<leftarrow>vpcs. of_nat (length (filter (\<lambda>s. jget s ''vpcId'' = jget v ''id'') subnets)))"
    using arg_cong [OF each, of "map snd"] by (simp add: o_def)
  also have "\<dots> = of_nat (\<Sum>k\<leftarrow>map ?gid vpcs. length (filter (\<lambda>s. jget s ''vpcId'' = k) subnets))"
    by (simp add: o_def of_nat_sum)
  also have "\<dots> = of_nat (length (filter (\<lambda>s. jget s ''vpcId'' \<in> ?gid ` set vpcs) subnets))"
    by (simp only: length_by_keys [OF assms(6)] list.set_map)
  finally show "(\<Sum>v\<leftarrow>ns_vpcs (network_page n). number_of (jget v ''subnets'')) =
      of_nat (length (filter (\<lambda>s. jget s ''vpcId'' \<in> ?gid ` set vpcs) subnets))" .
qed

subsection \<open>The hypotheses hold\<close>

definition screen_user :: user where
  "screen_user = \<lparr>u_pk = 4, zadara_user_id = ''u4'', username = ''noor'', u_email = None, u_account = ''Acme'', u_account_id = ''d1'',
     app_role = ''USER'', u_status = ''active''\<rparr>"

definition screen_visitor :: visitor where
  "screen_visitor = \<lparr>vi_user = screen_user, vi_token = Some ''t'', vi_project_id = Some ''p1'', vi_project_name = Some ''web''\<rparr>"

definition screen_event :: "int \<Rightarrow> string \<Rightarrow> json" where
  "screen_event ts what = JObj [(''id'', JInt ts), (''timestamp'', JInt ts), (''severity'', JStr ''info''),
     (''description'', JStr what), (''entity_type'', JStr ''vm'')]"

definition screen_data :: json where
  "screen_data = JList [screen_event 1 ''up'', screen_event 3 ''U'', screen_event 2 ''x'']"

definition screen_log :: "string \<Rightarrow> (string \<times> string) list \<Rightarrow> failure + json" where
  "screen_log t params = Inr screen_data"

definition screen_form :: event_form where
  "screen_form = \<lparr>ef_period = None, ef_severity = None, ef_entityType = None, ef_entityId = None, ef_eventType = None,
     ef_search = None, ef_limit = None, ef_offset = None\<rparr>"

definition screen_page :: "nat \<Rightarrow> refusal + events_screen" where
  "screen_page k = events_get screen_log screen_visitor (nth_page screen_form 2 k) 100"

definition screen_found :: "object list option" where
  "screen_found = found_events screen_log screen_visitor screen_form 100"

text \<open>The log answers the same whatever it is asked, so the query's parameters need not be written out.\<close>

definition screen_rows :: "object list" where
  "screen_rows = List.map_filter (\<lambda>e. normalize_event (as_object e))
     [screen_event 3 ''U'', screen_event 2 ''x'', screen_event 1 ''up'']"

definition screen_window :: event_window where
  "screen_window = \<lparr>win_events = screen_rows, win_from = 100 - 24 * 3600 * 1000, win_to = 100, win_period = ''24h'',
     win_truncated = False\<rparr>"

lemma screen_read:
  "from_option (Option.bind (iterate (jor screen_data (JList []))) (\<lambda>xs.
     Option.bind (mapM normalize_event (objects xs)) newest_first)) = Inr screen_rows"
  by code_simp

lemma screen_listed: "list_events (screen_log t) (event_query_of screen_form p) EVENT_FETCH_CAP 100 = Inr screen_window"
proof -
  have "length screen_rows = 3" "period_param None = ''24h''" by code_simp+
  then show ?thesis
    using screen_read by (simp add: list_events_def event_query_of_def screen_form_def EVENT_PERIODS_def given_def sum_bind_def
        screen_window_def EVENT_FETCH_CAP_def screen_log_def)
qed

lemma screen_needle: "lower (strip (opt_text (ef_search screen_form))) = []"
  by code_simp

lemma screen_found_rows: "screen_found = Some screen_rows"
  by (simp add: screen_found_def found_events_def screen_listed own_token_def screen_visitor_def given_def screen_needle)
    (simp add: screen_window_def search_events_def)

lemma screen_page_answer:
  "screen_page k = events_answer screen_window screen_rows 2 (int (k * 2)) (Some ''web'')"
proof -
  have w: "page_window (nth_page screen_form 2 k) = Inr (2, int (k * 2))"
    using nth_page_window [of 2 screen_form k] by (simp add: PAGE_SIZE_MAX_def)
  have q: "event_query_of (nth_page screen_form 2 k) p = event_query_of screen_form p"
      "ef_search (nth_page screen_form 2 k) = ef_search screen_form" for p
    by (simp_all add: nth_page_def event_query_of_def)
  have v: "own_token screen_visitor = Inr ''t''" "vi_project_id screen_visitor = Some ''p1''" "vi_project_name screen_visitor = Some ''web''"
    by (simp_all add: own_token_def screen_visitor_def given_def)
  have r: "win_events screen_window = screen_rows" by (simp add: screen_window_def)
  show ?thesis
    by (simp add: screen_page_def events_get_def v w q given_def screen_listed screen_needle r search_events_def or_crash_def sum_bind_def)
qed

lemma screen_types: "sorted_values (map (\<lambda>e. jget e ''entityType'') screen_rows) \<noteq> None"
  "list_all (\<lambda>e. hashable (jget e ''typeId'') \<and> hashable (jget e ''typeName'')) screen_rows"
  by code_simp+

lemma screen_pages: "\<not> isl (screen_page k)"
  using screen_types by (auto simp: screen_page_answer events_answer_def sum_bind_def or_crash_def)

theorem events_pages_tile_witness:
  "concat (map (\<lambda>k. ex_events (projr (screen_page k))) [0..<2]) = take (2 * 2) screen_rows"
proof (rule events_pages_tile [of 2 2 screen_log screen_visitor screen_form 100, THEN conjunct1])
  show "int 2 \<le> PAGE_SIZE_MAX" by (simp add: PAGE_SIZE_MAX_def)
  show "events_get screen_log screen_visitor (nth_page screen_form 2 k) 100 = Inr (projr (screen_page k))" if "k < 2" for k
    using screen_pages [of k] by (simp add: screen_page_def [symmetric])
  show "found_events screen_log screen_visitor screen_form 100 = Some screen_rows"
    using screen_found_rows by (simp add: screen_found_def)
qed

definition screen_request :: web_request where
  "screen_request = \<lparr>forwarded_for = [], remote_addr = Some ''10.0.0.7'', http_user_agent = ''browser'', req_user = Cabinet screen_user,
     session_key = Some ''s1'', req_session = empty_session\<lparr>zadara_project_id := Some ''p1''\<rparr>\<rparr>"

definition screen_context :: write_context where
  "screen_context = \<lparr>wr_visitor = screen_visitor, wr_request = screen_request, wr_saves = (\<lambda>_. True), wr_digest = (\<lambda>s. s), wr_now = 5\<rparr>"

definition screen_machines :: machine_cloud where
  "screen_machines = \<lparr>mc_reads = (\<lambda>t path. Inl Crash),
     mc_machine = (\<lambda>t i. Inr \<lparr>resp_status = 404, resp_headers = [], resp_json = None\<rparr>),
     mc_act = (\<lambda>t path body. Inr \<lparr>resp_status = 202, resp_headers = [], resp_json = None\<rparr>),
     mc_console = (\<lambda>t i. Inr \<lparr>resp_status = 404, resp_headers = [], resp_json = None\<rparr>), mc_metrics = (\<lambda>t q. Inl Crash)\<rparr>"

definition screen_stop :: json where
  "screen_stop = JObj [(''action'', JStr '' Stop''), (''force'', JBool True), (''name'', JStr ''db-1'')]"

text \<open>The stop is taken, the machine is gone a moment later, and the row says who forced it.\<close>

lemma screen_stopped:
  "case vm_action_post screen_machines screen_context ''v1'' screen_stop ([], []) of (st, r) \<Rightarrow>
     r = Inr (Settling ''v1'') \<and> map (\<lambda>row. (audit_log.log_action row, log_detail row, log_outcome row)) (snd st) =
       [(''vm.stop'', [(''force'', JBool True)], ''SUCCESS'')]"
  by code_simp

lemma machine_actions_recorded_witness:
  "case vm_action_post screen_machines screen_context ''v1'' screen_stop ([], []) of (st', r) \<Rightarrow>
    (\<forall>act. vm_action_post (screen_machines\<lparr>mc_act := act\<rparr>) screen_context ''v1'' screen_stop ([], []) = (([], []), r)) \<or>
    (\<exists>t f. own_token (wr_visitor screen_context) = Inr t \<and> action_form_of screen_stop = Inr f \<and> af_action f \<in> set VM_ACTIONS \<and>
      recorded screen_context t (''vm.'' @ af_action f) ''vm'' ''v1'' ([], []) st' r)"
  by (rule machine_actions_recorded) (simp add: screen_context_def)

definition screen_networks :: network_cloud where
  "screen_networks = \<lparr>nc_reads = (\<lambda>t path.
       if path = SECURITY_GROUPS_PATH then Inr (JList [JObj [(''id'', JStr ''g1''), (''name'', JStr ''web'')]])
       else if path = SG_RULES_PATH then Inr (JList [JObj [(''id'', JStr ''r1''), (''security_group_id'', JStr ''g1'')]])
       else Inr (JList [])),
     nc_create = (\<lambda>t body. Inr \<lparr>resp_status = 201, resp_headers = [], resp_json = Some (JObj body)\<rparr>),
     nc_delete = (\<lambda>t i. Inr \<lparr>resp_status = 204, resp_headers = [], resp_json = None\<rparr>)\<rparr>"

definition screen_rule :: object where
  "screen_rule = [(''protocol'', JStr ''tcp''), (''portFrom'', JInt 22)]"

definition screen_opened :: "traces \<times> (refusal + object)" where
  "screen_opened = rule_post screen_networks screen_context ''g1'' (JObj screen_rule) ([], [])"

lemma screen_opened_label:
  "\<not> isl (snd screen_opened)" "jget (projr (snd screen_opened)) ''label'' = JStr (''tcp 22'' @ dot @ ''anywhere'')"
  by code_simp+

lemma rule_changes_confined_witness:
  "case rule_delete screen_networks screen_context ''r1'' ([], []) of (st', r) \<Rightarrow>
      (\<forall>d. rule_delete (screen_networks\<lparr>nc_delete := d\<rparr>) screen_context ''r1'' ([], []) = (([], []), r)) \<or>
      (\<exists>t rs rule. own_token (wr_visitor screen_context) = Inr t \<and> list_security_group_rules (nc_reads screen_networks t) = Inr rs \<and>
        rule \<in> set rs \<and> jget rule ''id'' = JStr ''r1'' \<and>
        recorded screen_context t ''security_group.rule.delete'' ''security_group'' (py_str_of (jget rule ''groupId'')) ([], []) st' r)"
  by (rule rule_changes_confined [THEN conjunct2]) (simp add: screen_context_def)

lemma open_rule_not_flagged_witness:
  "\<exists>t q reply row. nc_create screen_networks t [(''security_group_rule'', JObj (rule_body q))] = Inr reply \<and> resp_ok reply \<and>
    map_of (rule_body q) ''remote_ip_prefix'' = None \<and> map_of (rule_body q) ''remote_group_id'' = None \<and>
    (\<exists>p. rule_label (rule_body q) = p @ ''anywhere'') \<and>
    snd (fst screen_opened) = [] @ [row] \<and> map_of (log_detail row) ''openToInternet'' = Some (JBool False)"
proof -
  have "rule_post screen_networks screen_context ''g1'' (JObj screen_rule) ([], []) =
      (fst screen_opened, Inr (projr (snd screen_opened)))"
    using screen_opened_label(1) by (simp add: screen_opened_def [symmetric] prod_eq_iff)
  from open_rule_not_flagged [OF this] show ?thesis
    by (simp add: screen_context_def screen_rule_def jget_def)
qed

definition screen_vpcs :: "object list" where "screen_vpcs = [[(''id'', JStr ''n1''), (''name'', JStr ''main'')]]"
definition screen_groups :: "object list" where "screen_groups = [[(''id'', JStr ''g1''), (''vpcId'', JStr ''n1'')]]"

definition screen_subnets :: "object list" where
  "screen_subnets = [[(''id'', JStr ''s1''), (''vpcId'', JStr ''n1'')], [(''id'', JStr ''s2''), (''vpcId'', JNull)]]"

definition screen_rules :: "object list" where
  "screen_rules = [[(''id'', JStr ''r1''), (''groupId'', JStr ''g1'')], [(''id'', JStr ''r2''), (''groupId'', JStr ''g2'')]]"

definition screen_reads :: network_reads where
  "screen_reads = \<lparr>nr_vpcs = Inr screen_vpcs, nr_subnets = Inr screen_subnets, nr_groups = Inr screen_groups,
     nr_rules = Inr screen_rules, nr_addresses = Inl Crash, nr_gateways = Inr [], nr_nat = Inr [], nr_machines = Inl Crash\<rparr>"

lemma network_page_adds_up_witness:
  "(\<Sum>v\<leftarrow>ns_vpcs (network_page screen_reads). number_of (jget v ''subnets'')) =
     of_nat (length (filter (\<lambda>s. jget s ''vpcId'' \<in> (\<lambda>v. jget v ''id'') ` set screen_vpcs) screen_subnets))"
  by (rule network_page_adds_up [of screen_reads screen_vpcs screen_subnets screen_groups screen_rules, THEN conjunct2, THEN conjunct2, THEN conjunct2])
    (simp_all add: screen_reads_def screen_vpcs_def screen_groups_def)

end
