(* ===== verification/Scope_Safety.thy ===== *)
theory Scope_Safety
  imports Project_Scope Cabinet_Safety
begin

text \<open>
  Switching projects and what every operation on the cabinet keeps: the switch takes token, scope and role from
  the cloud and touches nobody else; rows stay well typed and secrets at rest sealed through any sequence of
  requests; blocking a user does not reach the sessions they have.
\<close>

subsection \<open>The switch\<close>

lemma switch_cases:
  assumes "project_switch_post k idp ttl cookie now data c = (c', r)"
  shows "(\<exists>e. r = Inl e \<and> c' = c) \<or> (\<exists>u res key d p t. signed_user c now cookie = Some u \<and>
    browser_session c now cookie = (Some key, d) \<and> cookie = Some key \<and> key \<noteq> [] \<and> text_field data ''project'' = Inr p \<and>
    exchange_project idp t (JStr p) (u_account u) = Inr res \<and> session_token k now (Some key) c = Some t \<and>
    c' = rescope_session k ttl now key d u res c \<and> r = Inr (cabinet_me_payload (with_role res u) (scoped res d)))"
proof (cases "signed_user c now cookie")
  case None
  then show ?thesis using assms by (auto simp: project_switch_post_def)
next
  case u: (Some u)
  show ?thesis
  proof (cases "switch_checked k cookie now data c")
    case (Inl e)
    then show ?thesis using assms by (auto simp: project_switch_post_def u)
  next
    case (Inr v)
    obtain p t where v: "v = (p, t)" by (cases v)
    have t: "session_token k now (fst (browser_session c now cookie)) c = Some t" "given (fst (browser_session c now cookie))"
      using Inr v by (auto simp: switch_checked_def sum_bind_Inr Let_def given_def session_token_def split: if_splits)
    have p: "text_field data ''project'' = Inr p"
      using Inr v by (auto simp: switch_checked_def project_param_def sum_bind_Inr Let_def split: if_splits)
    obtain key d where b: "browser_session c now cookie = (Some key, d)" "key \<noteq> []"
      using t(2) by (cases "browser_session c now cookie") (auto simp: given_def)
    have "cookie = Some key" using browser_session_key [OF b(1)] by simp
    show ?thesis
    proof (cases "exchange_project idp t (JStr p) (u_account u)")
      case (Inl x)
      then show ?thesis using assms by (auto simp: project_switch_post_def u Inr v)
    next
      case res: (Inr res)
      have "c' = rescope_session k ttl now key d u res c" "r = Inr (cabinet_me_payload (with_role res u) (scoped res d))"
        using assms by (simp_all add: project_switch_post_def u Inr v res b(1))
      moreover have "session_token k now (Some key) c = Some t" using t(1) by (simp add: b(1))
      ultimately show ?thesis using u b p res \<open>cookie = Some key\<close> by blast
    qed
  qed
qed

lemma find_signed: "signed_user c now cookie = Some u \<Longrightarrow> u \<in> set (cabinet_users c)"
  by (auto simp: signed_user_def bind_eq_Some_conv dest: find_Some_mem)

lemma with_role_same: "app_role u = resolve_app_role (ar_roles res) \<Longrightarrow> with_role res u = u"
  by (simp add: with_role_def)

lemma with_role_pk [simp]: "u_pk (with_role res u) = u_pk u" "u_status (with_role res u) = u_status u"
  "zadara_user_id (with_role res u) = zadara_user_id u" "u_account (with_role res u) = u_account u"
  by (simp_all add: with_role_def)

lemma find_sync_role:
  assumes "unique_on u_pk us" "u \<in> set us"
  shows "List.find (\<lambda>v. u_pk v = u_pk u) (sync_role res u us) = Some (with_role res u)"
proof (cases "app_role u = resolve_app_role (ar_roles res)")
  case True
  then show ?thesis using find_unique_pk [OF assms] by (simp add: sync_role_def with_role_same)
next
  case False
  have "List.find (\<lambda>v. u_pk v = u_pk u) (map (\<lambda>w. if u_pk w = u_pk u then with_role res w else w) us) =
      map_option (with_role res) (List.find (\<lambda>v. u_pk v = u_pk u) us)"
    by (induction us) auto
  then show ?thesis using False find_unique_pk [OF assms] by (simp add: sync_role_def)
qed

lemma sync_role_others: "w \<in> set us \<Longrightarrow> u_pk w \<noteq> u_pk u \<Longrightarrow> w \<in> set (sync_role res u us)"
  by (force simp: sync_role_def)

text \<open>One question to the cloud, with the session's own token and for the project asked for, and its answer.\<close>

definition rescoped_by_cloud :: "identity_provider \<Rightarrow> string \<Rightarrow> string \<Rightarrow> string \<Rightarrow> auth_result \<Rightarrow> bool" where
  "rescoped_by_cloud idp token project acc res = (\<exists>r.
     idp [(''auth'', JObj
        [(''identity'', JObj [(''methods'', JList [JStr ''token'']), (''token'', JObj [(''id'', JStr token)])]),
         (''scope'', JObj [(''project'', JObj [(''name'', JStr project), (''domain'', JObj [(''name'', JStr acc)])])])])] [] = Inr r \<and>
     resp_ok r \<and> header r ''x-subject-token'' = Some (ar_token res) \<and> ar_token res \<noteq> [] \<and>
     parse_auth_body (ar_token res) ''project'' (body_of r) acc = Some res)"

lemma exchange_rescoped:
  assumes "exchange_project idp t (JStr p) acc = Inr res"
  shows "rescoped_by_cloud idp t p acc res"
proof -
  from assms obtain r where r: "idp [(''auth'', JObj
        [(''identity'', JObj [(''methods'', JList [JStr ''token'']), (''token'', JObj [(''id'', JStr t)])]),
         (''scope'', JObj [(''project'', JObj [(''name'', JStr p), (''domain'', JObj [(''name'', JStr acc)])])])])] [] = Inr r"
      "resp_ok r" "to_result r ''project'' acc = Inr res"
    by (auto simp: exchange_project_def project_scope_def Let_def split: sum.splits if_splits)
  then obtain x t' where t': "header r ''x-subject-token'' = Some (x # t')" "parse_auth_body (x # t') ''project'' (body_of r) acc = Some res"
    by (auto simp: to_result_def some_or_crash_Inr split: option.splits list.splits)
  with parse_token [OF t'(2)] r show ?thesis unfolding rescoped_by_cloud_def by (intro exI [of _ r]) simp
qed

text \<open>What the cabinet holds after a switch, at any time of the lifetime it starts.\<close>

lemma rescope_reads:
  assumes "\<forall>t. unseal k (seal k t) = Some t \<and> seal k t \<noteq> []" "unique_on u_pk (cabinet_users c)"
    "signed_user c now cookie = Some u" "browser_session c now cookie = (Some key, d)" "cookie = Some key" "key \<noteq> []"
    "later < now + ttl" "c' = rescope_session k ttl now key d u res c"
  shows "browser_session c' later cookie = (cookie, scoped res d)"
    "signed_user c' later cookie = Some (with_role res u)"
    "session_token k later cookie c' = Some (ar_token res)"
    "cabinet_me_get cookie later c' = Inr (cabinet_me_payload (with_role res u) (scoped res d))"
    "other \<noteq> key \<Longrightarrow> browser_session c' later (Some other) = browser_session c later (Some other)"
    "other \<noteq> key \<Longrightarrow> session_token k later (Some other) c' = session_token k later (Some other) c"
proof -
  have users: "cabinet_users c' = sync_role res u (cabinet_users c)"
    and sessions: "shelf_get (browsers c') later s = (if s = key then Some (scoped res d) else shelf_get (browsers c) later s)"
    and vaults: "vault_get k later s' c' = (if vault_key s' = vault_key (Some key) then Some (ar_token res) else vault_get k later s' c)"
    for s s'
    using assms(1,7) by (simp_all add: assms(8) rescope_session_def Let_def shelf.look_put vault_get_def vault_store_def)
  show b': "browser_session c' later cookie = (cookie, scoped res d)"
    by (simp add: browser_session_def sessions assms(5))
  have auth: "auth_user_id d = Some (u_pk u)"
    using assms(3,4) by (auto simp: signed_user_def bind_eq_Some_conv find_Some_iff)
  show su: "signed_user c' later cookie = Some (with_role res u)"
    using auth find_sync_role [OF assms(2) find_signed [OF assms(3)], of res] by (simp add: signed_user_def b' scoped_def users)
  show "session_token k later cookie c' = Some (ar_token res)"
    using assms(5,6) by (simp add: session_token_def given_def vaults)
  show "cabinet_me_get cookie later c' = Inr (cabinet_me_payload (with_role res u) (scoped res d))"
    by (simp add: cabinet_me_get_def su b')
  show "browser_session c' later (Some other) = browser_session c later (Some other)" if "other \<noteq> key"
    using that by (simp add: browser_session_def sessions)
  show "session_token k later (Some other) c' = session_token k later (Some other) c" if "other \<noteq> key"
    using that by (simp add: session_token_def vaults vault_key_def)
qed

text \<open>C30. Switching projects either changes nothing, or takes everything from one answer of the cloud, asked with the
  session's own token for the very project the request names: for a full lifetime from then on the new token is
  kept under the same session, the session carries the new project, scope and roles, and the caller's row the
  role they give; other sessions, their tokens and other users' rows stay as they are.\<close>

theorem project_switch_rescopes:
  assumes "\<forall>t. unseal k (seal k t) = Some t \<and> seal k t \<noteq> []" "unique_on u_pk (cabinet_users c)" "later < now + ttl"
  shows "case project_switch_post k idp ttl cookie now data c of
      (c', Inl e) \<Rightarrow> c' = c
    | (c', Inr me) \<Rightarrow> \<exists>u res key p t. text_field data ''project'' = Inr p \<and> cookie = Some key \<and>
        signed_user c now cookie = Some u \<and> session_token k now cookie c = Some t \<and>
        rescoped_by_cloud idp t p (u_account u) res \<and>
        session_token k later cookie c' = Some (ar_token res) \<and>
        browser_session c' later cookie = (cookie, scoped res (snd (browser_session c now cookie))) \<and>
        signed_user c' later cookie = Some (with_role res u) \<and> cabinet_me_get cookie later c' = Inr me \<and>
        (\<forall>other. other \<noteq> key \<longrightarrow> browser_session c' later (Some other) = browser_session c later (Some other) \<and>
          session_token k later (Some other) c' = session_token k later (Some other) c) \<and>
        (\<forall>w \<in> set (cabinet_users c). u_pk w \<noteq> u_pk u \<longrightarrow> w \<in> set (cabinet_users c'))"
proof -
  obtain c' r where e: "project_switch_post k idp ttl cookie now data c = (c', r)" by fastforce
  show ?thesis
  proof (cases r)
    case (Inl x)
    then show ?thesis using switch_cases [OF e] by (auto simp: e)
  next
    case (Inr me)
    obtain u res key d p t where u: "signed_user c now cookie = Some u" and b: "browser_session c now cookie = (Some key, d)"
      and key: "cookie = Some key" "key \<noteq> []" and p: "text_field data ''project'' = Inr p"
      and res: "exchange_project idp t (JStr p) (u_account u) = Inr res" and t: "session_token k now cookie c = Some t"
      and c': "c' = rescope_session k ttl now key d u res c" and me: "me = cabinet_me_payload (with_role res u) (scoped res d)"
      using switch_cases [OF e] Inr by auto
    note reads = rescope_reads [OF assms(1,2) u b key assms(3) c']
    have "cabinet_users c' = sync_role res u (cabinet_users c)" by (simp add: c' rescope_session_def Let_def)
    then show ?thesis unfolding e Inr prod.case sum.case
      using exchange_rescoped [OF res] key(1) p t u reads me b sync_role_others [of _ "cabinet_users c" u res]
      by (intro exI [of _ u] exI [of _ res] exI [of _ key] exI [of _ p] exI [of _ t]) simp
  qed
qed

subsection \<open>Blocking\<close>

text \<open>What the operators' block does to the cabinet's rows.\<close>

definition block_row :: "string \<Rightarrow> user \<Rightarrow> user" where
  "block_row i u = (if zadara_user_id u = i then u\<lparr>u_status := ''blocked''\<rparr> else u)"

definition blocked_in :: "string \<Rightarrow> cabinet \<Rightarrow> cabinet" where
  "blocked_in i c = c\<lparr>cabinet_users := map (block_row i) (cabinet_users c)\<rparr>"

lemma block_row_fields [simp]:
  "u_pk (block_row i u) = u_pk u" "u_account (block_row i u) = u_account u" "app_role (block_row i u) = app_role u"
  by (simp_all add: block_row_def)

lemma block_row_role: "with_role res (block_row i u) = block_row i (with_role res u)"
  by (simp add: with_role_def block_row_def)

lemma block_row_me [simp]: "cabinet_me_payload (block_row i u) d = cabinet_me_payload u d"
  by (simp add: cabinet_me_payload_def block_row_def)

lemma blocked_session [simp]: "browser_session (blocked_in i c) now cookie = browser_session c now cookie"
  "session_token k now s (blocked_in i c) = session_token k now s c"
  by (simp_all add: browser_session_def blocked_in_def session_token_def vault_get_def)

lemma blocked_signed: "signed_user (blocked_in i c) now cookie = map_option (block_row i) (signed_user c now cookie)"
proof -
  have "List.find (\<lambda>u. u_pk u = p) (map (block_row i) us) = map_option (block_row i) (List.find (\<lambda>u. u_pk u = p) us)" for p us
    by (induction us) auto
  then show ?thesis by (simp add: signed_user_def) (simp add: blocked_in_def split: Option.bind_split)
qed

lemma sync_role_block: "sync_role res (block_row i u) (map (block_row i) us) = map (block_row i) (sync_role res u us)"
  by (simp add: sync_role_def block_row_role cong: map_cong)

lemma rescope_block: "rescope_session k ttl now key d (block_row i u) res (blocked_in i c) = blocked_in i (rescope_session k ttl now key d u res c)"
  by (simp add: rescope_session_def blocked_in_def vault_store_def sync_role_block Let_def)

text \<open>C35. Blocking a user in the cabinet ends none of their sessions: whatever the browser, the profile, the
  renewal check and the switch of projects answer exactly as they would for the same user unblocked, and a
  switch the blocked user makes keeps the session and its new token alive for another full lifetime, at
  any time of which profile and renewal check answer with it.\<close>

theorem block_spares_open_sessions:
  assumes "\<forall>t. unseal k (seal k t) = Some t \<and> seal k t \<noteq> []" "unique_on u_pk (cabinet_users c)" "later < now + ttl"
  shows "cabinet_me_get cookie now (blocked_in i c) = cabinet_me_get cookie now c \<and>
    refresh_post k cookie now (blocked_in i c) = refresh_post k cookie now c \<and>
    project_switch_post k idp ttl cookie now data (blocked_in i c) =
      (case project_switch_post k idp ttl cookie now data c of (c', r) \<Rightarrow> (blocked_in i c', r)) \<and>
    (case project_switch_post k idp ttl cookie now data (blocked_in i c) of
        (c', Inl e) \<Rightarrow> True
      | (c', Inr me) \<Rightarrow> cabinet_me_get cookie later c' = Inr me \<and> refresh_post k cookie later c' = Inr me)"
proof (intro conjI)
  show "cabinet_me_get cookie now (blocked_in i c) = cabinet_me_get cookie now c"
    by (simp add: cabinet_me_get_def blocked_signed split: option.split)
  show "refresh_post k cookie now (blocked_in i c) = refresh_post k cookie now c"
    by (simp add: refresh_post_def blocked_signed split: option.split)
  have checked: "switch_checked k cookie now data (blocked_in i c) = switch_checked k cookie now data c"
    by (simp add: switch_checked_def)
  show "project_switch_post k idp ttl cookie now data (blocked_in i c) =
      (case project_switch_post k idp ttl cookie now data c of (c', r) \<Rightarrow> (blocked_in i c', r))"
    by (simp add: project_switch_post_def blocked_signed checked rescope_block block_row_role
        split: option.split sum.split prod.split)
  have unique: "unique_on u_pk (cabinet_users (blocked_in i c))"
    using assms(2) by (simp add: blocked_in_def unique_on_def comp_def)
  obtain c' r where e: "project_switch_post k idp ttl cookie now data (blocked_in i c) = (c', r)" by fastforce
  show "case project_switch_post k idp ttl cookie now data (blocked_in i c) of
        (c', Inl e) \<Rightarrow> True
      | (c', Inr me) \<Rightarrow> cabinet_me_get cookie later c' = Inr me \<and> refresh_post k cookie later c' = Inr me"
  proof (cases r)
    case (Inl x)
    then show ?thesis by (simp add: e)
  next
    case (Inr me)
    obtain u res key d p t where u: "signed_user (blocked_in i c) now cookie = Some u"
      and b: "browser_session (blocked_in i c) now cookie = (Some key, d)"
      and key: "cookie = Some key" "key \<noteq> []" and res: "exchange_project idp t (JStr p) (u_account u) = Inr res"
      and c': "c' = rescope_session k ttl now key d u res (blocked_in i c)"
      and me: "me = cabinet_me_payload (with_role res u) (scoped res d)"
      using switch_cases [OF e] Inr by auto
    note reads = rescope_reads [OF assms(1) unique u b key assms(3) c']
    have "ar_token res \<noteq> []" using exchange_rescoped [OF res] by (auto simp: rescoped_by_cloud_def)
    then have "cabinet_me_get cookie later c' = Inr me \<and> refresh_post k cookie later c' = Inr me"
      using reads(1-4) key(1) me by (simp add: refresh_post_def given_def)
    then show ?thesis by (simp only: e Inr prod.case sum.case)
  qed
qed

subsection \<open>What every request keeps\<close>

text \<open>A predicate on the cabinet that each elementary change keeps.\<close>

locale cabinet_invariant =
  fixes k :: toolkit and keeps :: "cabinet \<Rightarrow> bool"
  assumes store: "keeps c \<Longrightarrow> keeps (vault_store k ttl now s t c)"
    and forget: "keeps c \<Longrightarrow> keeps (vault_delete s c)"
    and issue: "keeps c \<Longrightarrow> keeps (mfa_issue k fresh now acc nm pr receipt c)"
    and revoke: "keeps c \<Longrightarrow> keeps (mfa_revoke t c)"
    and sessions: "keeps c \<Longrightarrow> keeps (c\<lparr>browsers := b\<rparr>)"
    and mirror: "keeps c \<Longrightarrow> keeps (c\<lparr>cabinet_users := upsert_user new_pk res (cabinet_users c)\<rparr>)"
    and role: "keeps c \<Longrightarrow> keeps (c\<lparr>cabinet_users := sync_role res u (cabinet_users c)\<rparr>)"
begin

lemma drop_keeps: "keeps c \<Longrightarrow> keeps (drop_session s c)"
  by (cases s) (simp_all add: drop_session_def sessions)

lemma challenge_keeps: "keeps c \<Longrightarrow> keeps (fst (challenge k fresh now acc nm pr e c))"
  by (simp add: challenge_def Let_def issue split: auth_failure.split)

lemma identified_keeps: "keeps c \<Longrightarrow> keeps (fst (identified k idp fresh now f c))"
  by (simp add: identified_def complete_mfa_def revoke challenge_keeps case_prod_beta split: option.split sum.split)

lemma open_keeps: "keeps c \<Longrightarrow> keeps (fst (open_session k ttl d cookie now res u c))"
  by (auto simp: open_session_def django_login_def save_session_def Let_def drop_keeps store sessions split: prod.split option.split)

lemma login_keeps:
  assumes "keeps c"
  shows "keeps (fst (cabinet_login_post k idp dir ttl d cookie now data c))"
proof (cases "login_form_of data")
  case (Inl e)
  then show ?thesis using assms by (simp add: cabinet_login_post_def)
next
  case f: (Inr f)
  obtain c1 r1 where i: "identified k idp (fresh_ticket d) now f c = (c1, r1)" by fastforce
  have c1: "keeps c1" using identified_keeps [OF assms, of idp "fresh_ticket d" now f] by (simp add: i)
  show ?thesis
  proof (cases "sum_bind r1 (\<lambda>res. case rescoped idp dir f res of Inl e \<Rightarrow> Inl (e, []) | Inr res \<Rightarrow> Inr res)")
    case (Inl e)
    then show ?thesis using c1 by (cases r1) (auto simp: cabinet_login_post_def f i sum_bind_def split: sum.splits)
  next
    case (Inr res)
    let ?c = "c1\<lparr>cabinet_users := upsert_user (fresh_pk d) res (cabinet_users c1)\<rparr>"
    have "keeps ?c" using c1 by (rule mirror)
    moreover have "fst (cabinet_login_post k idp dir ttl d cookie now data c) =
        (case user_row res (cabinet_users ?c) of None \<Rightarrow> ?c
         | Some u \<Rightarrow> if is_blocked u then ?c else fst (open_session k ttl d cookie now res u ?c))"
      using Inr by (cases r1) (auto simp: cabinet_login_post_def f i sum_bind_def Let_def split: sum.splits option.split)
    ultimately show ?thesis by (simp add: open_keeps split: option.split)
  qed
qed

lemma forget_keeps: "keeps c \<Longrightarrow> keeps (forget_browser cookie now c)"
  by (simp add: forget_browser_def Let_def drop_keeps forget)

lemma logout_keeps: "keeps c \<Longrightarrow> keeps (fst (cabinet_logout_post cookie now c))"
  by (simp add: cabinet_logout_post_def forget_keeps split: option.split)

lemma password_keeps: "keeps c \<Longrightarrow> keeps (fst (cabinet_password_change k call cookie now data c))"
  by (simp add: cabinet_password_change_def forget_keeps split: sum.split)

lemma switch_keeps: "keeps c \<Longrightarrow> keeps (fst (project_switch_post k idp ttl cookie now data c))"
proof -
  assume "keeps c"
  have "keeps (rescope_session k ttl now key d u res c)" for key d u res
  proof -
    have "rescope_session k ttl now key d u res c =
        (vault_store k ttl now (Some key) (ar_token res) c)
          \<lparr>cabinet_users := sync_role res u (cabinet_users (vault_store k ttl now (Some key) (ar_token res) c))\<rparr>
          \<lparr>browsers := shelf_set key (scoped res d) (now + ttl) (browsers c)\<rparr>"
      by (simp add: rescope_session_def Let_def)
    then show ?thesis using \<open>keeps c\<close> by (simp only: sessions role store)
  qed
  then show ?thesis using \<open>keeps c\<close>
    by (auto simp: project_switch_post_def split: option.split sum.split prod.split)
qed

end

subsection \<open>Types of rows and secrets at rest\<close>

definition typed_user :: "user \<Rightarrow> bool" where
  "typed_user u = (app_role u \<in> {''ADMIN'', ''USER''} \<and> u_status u \<in> {''active'', ''blocked''})"

text \<open>A store of which every value ever written, expired ones included, is of a kind.\<close>

definition holds_only :: "('v \<Rightarrow> bool) \<Rightarrow> 'v shelf \<Rightarrow> bool" where
  "holds_only P s = (\<forall>key v e. map_of s key = Some (v, e) \<longrightarrow> P v)"

lemma holds_only_set: "holds_only P s \<Longrightarrow> P v \<Longrightarrow> holds_only P (shelf_set key v e s)"
  by (auto simp: holds_only_def shelf_set_def map_of_update split: if_splits)

lemma holds_only_delete: "holds_only P s \<Longrightarrow> holds_only P (shelf_delete key s)"
  by (auto simp: holds_only_def map_of_shelf_delete split: if_splits)

text \<open>The vault and the pending second factors keep tokens and receipts sealed only.\<close>

definition sealed :: "toolkit \<Rightarrow> cabinet \<Rightarrow> bool" where
  "sealed k c = (holds_only (\<lambda>v. v \<in> range (seal k)) (vault c) \<and> holds_only (\<lambda>t. mt_receipt t \<in> range (seal k)) (receipts c))"

definition well_typed :: "toolkit \<Rightarrow> cabinet \<Rightarrow> bool" where
  "well_typed k c = (list_all typed_user (cabinet_users c) \<and> unique_on zadara_user_id (cabinet_users c) \<and> sealed k c)"

lemma resolved_role: "resolve_app_role roles \<in> {''ADMIN'', ''USER''}"
  by (simp add: resolve_app_role_def)

lemma typed_upsert:
  assumes "list_all typed_user us"
  shows "list_all typed_user (upsert_user new_pk res us)"
proof -
  have "typed_user (mirrored res u)" if "u_status u \<in> {''active'', ''blocked''}" for u
    using that resolved_role [of "ar_roles res"] by (simp add: typed_user_def)
  then show ?thesis
    using assms set_upsert [of "\<lambda>u. zadara_user_id u = ar_user_id res" "mirrored res"
        "mirrored res \<lparr>u_pk = new_pk, zadara_user_id = ar_user_id res, username = [], u_email = None, u_account = [],
          u_account_id = [], app_role = [], u_status = ''active''\<rparr>" us]
    unfolding upsert_user_def list_all_iff by (fastforce simp: typed_user_def)
qed

lemma unique_upsert: "unique_on zadara_user_id us \<Longrightarrow> unique_on zadara_user_id (upsert_user new_pk res us)"
  unfolding upsert_user_def by (rule unique_on_upsert [where k = "ar_user_id res"]) simp_all

lemma sync_role_rows:
  assumes "list_all typed_user us" "unique_on zadara_user_id us"
  shows "list_all typed_user (sync_role res u us)" "unique_on zadara_user_id (sync_role res u us)"
proof -
  have "typed_user (with_role res w)" if "typed_user w" for w
    using that resolved_role [of "ar_roles res"] by (simp add: typed_user_def) (simp add: with_role_def)
  then show "list_all typed_user (sync_role res u us)"
    using assms(1) by (auto simp: sync_role_def list_all_iff)
  have "zadara_user_id \<circ> (\<lambda>w. if u_pk w = u_pk u then with_role res w else w) = zadara_user_id" by auto
  then show "unique_on zadara_user_id (sync_role res u us)"
    using assms(2) by (simp add: sync_role_def unique_on_def)
qed

interpretation typed: cabinet_invariant k "well_typed k" for k
proof
  fix c assume w: "well_typed k c"
  then have s: "sealed k c" by (simp add: well_typed_def)
  show "well_typed k (vault_store k ttl now x t c)" for ttl now x t
    using w s by (simp add: well_typed_def sealed_def vault_store_def holds_only_set)
  show "well_typed k (vault_delete x c)" for x
    using w s by (simp add: well_typed_def sealed_def vault_delete_def holds_only_delete)
  show "well_typed k (mfa_issue k fresh now acc nm pr receipt c)" for fresh now acc nm pr receipt
    using w s by (simp add: well_typed_def sealed_def mfa_issue_def holds_only_set)
  show "well_typed k (mfa_revoke t c)" for t
    using w s by (simp add: well_typed_def sealed_def mfa_revoke_def holds_only_delete)
  show "well_typed k (c\<lparr>browsers := b\<rparr>)" for b
    using w s by (simp add: well_typed_def sealed_def)
  show "well_typed k (c\<lparr>cabinet_users := upsert_user new_pk res (cabinet_users c)\<rparr>)" for new_pk res
    using w s by (simp add: well_typed_def sealed_def typed_upsert unique_upsert)
  show "well_typed k (c\<lparr>cabinet_users := sync_role res u (cabinet_users c)\<rparr>)" for res u
    using w s by (simp add: well_typed_def sealed_def sync_role_rows)
qed

text \<open>Any request that changes the cabinet, with any answers of the cloud and any random values.\<close>

inductive cabinet_step :: "toolkit \<Rightarrow> cabinet \<Rightarrow> cabinet \<Rightarrow> bool" for k where
  signs_in: "cabinet_step k c (fst (cabinet_login_post k idp dir ttl d cookie now data c))"
| signs_out: "cabinet_step k c (fst (cabinet_logout_post cookie now c))"
| changes_password: "cabinet_step k c (fst (cabinet_password_change k call cookie now data c))"
| switches_project: "cabinet_step k c (fst (project_switch_post k idp ttl cookie now data c))"

inductive_cases cabinet_stepE: "cabinet_step k c c'"

lemmas typed_requests = typed.login_keeps typed.logout_keeps typed.password_keeps typed.switch_keeps

lemma cabinet_step_typed: "cabinet_step k c c' \<Longrightarrow> well_typed k c \<Longrightarrow> well_typed k c'"
  by (erule cabinet_stepE) (simp_all add: typed_requests)

text \<open>C32. Through any sequence of sign-ins, sign-outs, password changes and project switches, every user row keeps a
  role and a status the program knows and an identity of its own, and the stores hold tokens and receipts sealed
  only, expired entries included.\<close>

theorem cabinet_stays_well_typed:
  assumes "(cabinet_step k)\<^sup>*\<^sup>* c c'" "well_typed k c"
  shows "(\<forall>u \<in> set (cabinet_users c'). app_role u \<in> {''ADMIN'', ''USER''} \<and> u_status u \<in> {''active'', ''blocked''}) \<and>
    distinct (map zadara_user_id (cabinet_users c')) \<and>
    (\<forall>key v e. map_of (vault c') key = Some (v, e) \<longrightarrow> (\<exists>t. v = seal k t)) \<and>
    (\<forall>key t e. map_of (receipts c') key = Some (t, e) \<longrightarrow> (\<exists>r. mt_receipt t = seal k r))"
proof -
  have "well_typed k c'" using assms by (induction rule: rtranclp_induct) (auto intro: cabinet_step_typed)
  then show ?thesis
    unfolding well_typed_def sealed_def holds_only_def list_all_iff typed_user_def unique_on_def by blast
qed

subsection \<open>The hypotheses hold\<close>

definition hub_user :: user where
  "hub_user = \<lparr>u_pk = 1, zadara_user_id = ''u7'', username = ''dana'', u_email = None, u_account = ''acme'',
     u_account_id = ''d1'', app_role = ''USER'', u_status = ''active''\<rparr>"

definition hub :: cabinet where
  "hub = \<lparr>cabinet_users = [hub_user], vault = [(''zadara_token:s1'', (''#old'', 9000))], receipts = [],
     browsers = [(''s1'', (empty_session\<lparr>auth_user_id := Some 1\<rparr>, 9000))]\<rparr>"

definition hub_data :: json where
  "hub_data = JObj [(''project'', JStr ''acme'')]"

definition hub_switched :: "cabinet \<times> (refusal + cabinet_me)" where
  "hub_switched = project_switch_post demo_kit demo_cloud 10800 (Some ''s1'') 100 hub_data hub"

lemma hub_answers: "snd hub_switched = Inr demo_me" "map app_role (cabinet_users (fst hub_switched)) = [''ADMIN'']"
  by code_simp+

lemma hub_laws: "\<forall>t. unseal demo_kit (seal demo_kit t) = Some t \<and> seal demo_kit t \<noteq> []" "unique_on u_pk (cabinet_users hub)"
  by (simp_all add: demo_kit_def hub_def unique_on_def)

lemma hub_pair: "project_switch_post demo_kit demo_cloud 10800 (Some ''s1'') 100 hub_data hub = (fst hub_switched, Inr demo_me)"
  using hub_answers(1) by (metis hub_switched_def prod.collapse)

lemma project_switch_rescopes_witness:
  "\<exists>res t. rescoped_by_cloud demo_cloud t ''acme'' ''acme'' res \<and> session_token demo_kit 100 (Some ''s1'') hub = Some t \<and>
     session_token demo_kit 10899 (Some ''s1'') (fst hub_switched) = Some (ar_token res) \<and>
     cabinet_me_get (Some ''s1'') 10899 (fst hub_switched) = Inr demo_me"
proof -
  have p: "text_field hub_data ''project'' = Inr ''acme''" by code_simp
  have u: "signed_user hub 100 (Some ''s1'') = Some hub_user" by code_simp
  have acc: "u_account hub_user = ''acme''" by (simp add: hub_user_def)
  from project_switch_rescopes [OF hub_laws, where later = 10899 and now = 100 and ttl = 10800 and idp = demo_cloud
      and cookie = "Some ''s1''" and data = hub_data] show ?thesis
    unfolding hub_pair by (auto simp: p u acc)
qed

lemma block_spares_open_sessions_witness:
  "refresh_post demo_kit (Some ''s1'') 10899 (blocked_in ''u7'' (fst hub_switched)) = Inr demo_me"
proof -
  note spared = block_spares_open_sessions [OF hub_laws, where later = 10899 and now = 100 and ttl = 10800 and idp = demo_cloud
      and cookie = "Some ''s1''" and data = hub_data and i = "''u7''"]
  from spared have blocked: "project_switch_post demo_kit demo_cloud 10800 (Some ''s1'') 100 hub_data (blocked_in ''u7'' hub) =
      (blocked_in ''u7'' (fst hub_switched), Inr demo_me)" by (simp add: hub_pair)
  from spared show ?thesis unfolding blocked by simp
qed

lemma cabinet_stays_well_typed_witness:
  "distinct (map zadara_user_id (cabinet_users (fst hub_switched)))"
proof -
  have "(cabinet_step demo_kit)\<^sup>*\<^sup>* hub (fst hub_switched)"
    unfolding hub_switched_def by (rule r_into_rtranclp) (rule cabinet_step.switches_project)
  moreover have "well_typed demo_kit hub"
    by (auto simp: well_typed_def hub_def hub_user_def typed_user_def unique_on_def sealed_def holds_only_def demo_kit_def split: if_splits)
  ultimately show ?thesis by (rule cabinet_stays_well_typed [THEN conjunct2, THEN conjunct1])
qed

end
