(* ===== verification/Wire_Format.thy ===== *)
theory Wire_Format
  imports Cluster_Views Project_Scope
begin

text \<open>
  What leaves the process around the answers of the views: the envelope of a successful body
  (\<open>common/renderers.py\<close>), of a page of a list (\<open>common/pagination.py\<close>) and of an error, the public fields of an
  audit row (\<open>audit/serializers.py\<close>) and of a row of the operators' journal, the health answer (\<open>common/views.py\<close>), and what a log line shows of a token
  (\<open>http._mask\<close>).
\<close>

subsection \<open>Bodies\<close>

definition has_key :: "string \<Rightarrow> object \<Rightarrow> bool" where
  "has_key k o' = (k \<in> fst ` set o')"

text \<open>\<open>EnvelopeJSONRenderer.render\<close>, up to the encoding.\<close>

definition rendered :: "json \<Rightarrow> json" where
  "rendered body = (case body of
     JObj o' \<Rightarrow> if has_key ''data'' o' \<or> has_key ''error'' o' then body else JObj [(''data'', body)]
   | _ \<Rightarrow> JObj [(''data'', body)])"

definition error_body :: "envelope \<Rightarrow> json" where
  "error_body e = JObj [(''error'', JObj [(''code'', JStr (env_code e)), (''message'', JStr (env_message e)),
     (''details'', env_details e)])]"

definition handler404 :: "nat \<times> json" where
  "handler404 = (404, JObj [(''error'', JObj [(''code'', JStr ''not_found''), (''message'', JStr ''Resource not found.''),
     (''details'', JObj [])])])"

definition handler500 :: "nat \<times> json" where
  "handler500 = (500, JObj [(''error'', JObj [(''code'', JStr ''server_error''), (''message'', JStr ''Internal server error.''),
     (''details'', JObj [])])])"

text \<open>What is raised becomes an envelope, or Django's own answer to an exception nobody handles.\<close>

definition error_answer :: "raised \<Rightarrow> nat \<times> json" where
  "error_answer e = (case envelope_exception_handler e of None \<Rightarrow> handler500 | Some v \<Rightarrow> (env_status v, rendered (error_body v)))"

definition raised_by :: "refusal \<Rightarrow> object \<Rightarrow> raised" where
  "raised_by r details = (case r of Refused a \<Rightarrow> AppExc a details | Crashed \<Rightarrow> Unhandled)"

text \<open>The figures of the page are the paginator's.\<close>

definition paginated :: "json list \<Rightarrow> nat \<Rightarrow> nat \<Rightarrow> nat \<Rightarrow> nat \<Rightarrow> json" where
  "paginated rows tot page per_page pages =
     JObj [(''data'', JList rows), (''meta'', JObj [(''total'', JInt (int tot)), (''page'', JInt (int page)),
       (''per_page'', JInt (int per_page)), (''pages'', JInt (int pages))])]"

definition health_answer :: "bool \<Rightarrow> json" where
  "health_answer db_ok = JObj [(''data'', JObj [(''status'', JStr ''ok''), (''service'', JStr ''opencloud-backend''),
     (''database'', JBool db_ok)])]"

text \<open>The key and the time of a row are the database's; the user agent and the user's key are not shown.\<close>

definition audit_public :: "json \<Rightarrow> json \<Rightarrow> audit_log \<Rightarrow> object" where
  "audit_public i created_at row =
     [(''id'', i), (''createdAt'', created_at), (''username'', JStr (log_username row)), (''account'', JStr (log_account row)),
      (''projectName'', JStr (log_project_name row)), (''action'', JStr (audit_log.log_action row)),
      (''resourceType'', JStr (log_resource_type row)), (''resourceId'', JStr (log_resource_id row)),
      (''resourceName'', JStr (log_resource_name row)), (''outcome'', JStr (log_outcome row)),
      (''errorCode'', JStr (log_error_code row)), (''detail'', JObj (log_detail row)),
      (''ipAddress'', opt_or_null (log_ip row))]"

text \<open>The operators' journal (\<open>platform_admin/serializers.py\<close>).\<close>

definition action_public :: "json \<Rightarrow> json \<Rightarrow> admin_action \<Rightarrow> object" where
  "action_public i created_at row =
     [(''id'', i), (''createdAt'', created_at), (''actorEmail'', JStr (actor_email row)),
      (''action'', JStr (admin_action.action row)), (''targetAccount'', JStr (target_account row)),
      (''targetType'', JStr (target_type row)), (''targetId'', JStr (target_id row)), (''targetName'', JStr (target_name row)),
      (''outcome'', JStr (admin_action.outcome row)), (''errorCode'', JStr (admin_action.error_code row)),
      (''detail'', JObj (admin_action.detail row)), (''ipAddress'', opt_or_null (admin_action.ip_address row))]"

subsection \<open>One shape\<close>

text \<open>An object with a \<open>data\<close> or an \<open>error\<close> at its top.\<close>

definition enveloped :: "json \<Rightarrow> bool" where
  "enveloped body = (case body of JObj o' \<Rightarrow> has_key ''data'' o' \<or> has_key ''error'' o' | _ \<Rightarrow> False)"

lemma rendered_enveloped: "enveloped (rendered body)"
  by (simp add: enveloped_def rendered_def has_key_def split: json.split)

lemma rendered_once: "enveloped body \<Longrightarrow> rendered body = body"
  by (auto simp: enveloped_def rendered_def split: json.splits)

text \<open>However a view ends, the browser gets one envelope: errors are not wrapped as data, and the status is the
  view's own, 401 for an expired session, or 500.\<close>

lemma error_answer_shape: "enveloped (snd (error_answer e))"
  by (simp add: error_answer_def handler500_def enveloped_def has_key_def rendered_def error_body_def split: option.split)

lemma refused_answer:
  "error_answer (raised_by (Refused a) details) =
     (if code a = ''session_expired'' then 401 else status_code a,
      JObj [(''error'', JObj [(''code'', JStr (code a)), (''message'', JStr (message a)), (''details'', JObj details)])])"
  by (cases details)
    (simp_all add: error_answer_def raised_by_def envelope_exception_handler_def drf_response_def message_and_details_def code_for_def
      py_str_of_def jget_def rendered_def error_body_def has_key_def)

subsection \<open>Tokens in logs\<close>

definition ellipsis :: string where
  "ellipsis = [CHR 0xE2, CHR 0x80, CHR 0xA6]"

definition masked :: "string option \<Rightarrow> string" where
  "masked token = (case token of
     None \<Rightarrow> ''-''
   | Some t \<Rightarrow> if t = [] then ''-'' else if 12 < length t then take 6 t @ ellipsis @ drop (length t - 4) t else ''***'')"

text \<open>Two tokens that agree on their first six and last four characters, and are both long, look the same.\<close>

lemma masked_hides:
  assumes "12 < length t" "12 < length t'" "take 6 t = take 6 t'" "drop (length t - 4) t = drop (length t' - 4) t'"
  shows "masked (Some t) = masked (Some t')"
proof -
  have "t \<noteq> []" "t' \<noteq> []" using assms(1,2) by auto
  then show ?thesis using assms by (simp add: masked_def)
qed

end
