(* ===== verification/Concurrency.thy ===== *)
theory Concurrency
  imports Cloud
begin

text \<open>
  Threads: \<open>common/concurrency.py\<close> (a page's independent reads fetched at the same time) and the
  semaphore of \<open>integrations/zadara/http.py\<close>, as interleavings of atomic steps. The scheduler is unknown,
  so the steps are a relation, and what is shown holds for every order in which the threads move.

  A task is the code of one source: what it does one atomic step after the other, over a state \<open>'s\<close>
  all threads share. \<open>Query\<close> uses the database and so opens the connection of its thread; \<open>Request\<close> is one
  HTTP request inside \<open>with _gate\<close>; \<open>Gather\<close> calls \<open>gather\<close> and goes on with its results, so a task may
  gather again. A task ends with the exception it raised or the value it returned. Python's thread
  pool is modelled as documented: items start in the order submitted, at most \<open>max_workers\<close> at a
  time, and leaving its block waits for all of them.
\<close>

subsection \<open>One source's outcome (\<open>Fetched\<close>, \<open>_run\<close>)\<close>

record ('e, 'a) fetched =
  outcome_value :: "'a option"
  outcome_error :: "'e option"

definition outcome_ok :: "('e, 'a) fetched \<Rightarrow> bool" where
  "outcome_ok f = (outcome_error f = None)"

definition fetched_of :: "'e + 'a \<Rightarrow> ('e, 'a) fetched" where
  "fetched_of r = (case r of
     Inl e \<Rightarrow> \<lparr>outcome_value = None, outcome_error = Some e\<rparr>
   | Inr v \<Rightarrow> \<lparr>outcome_value = Some v, outcome_error = None\<rparr>)"

text \<open>
  How \<open>_run\<close> leaves the database: \<open>conns\<close> connections are open in the process, \<open>own\<close> is whether this thread
  has one. Only a worker closes its own.
\<close>

definition run_source :: "bool \<Rightarrow> 'e + 'a \<Rightarrow> nat \<Rightarrow> bool \<Rightarrow> ('e, 'a) fetched \<times> nat \<times> bool" where
  "run_source in_worker r conns own =
     (fetched_of r, if in_worker then (if own then conns - 1 else conns, False) else (conns, own))"

subsection \<open>Tasks and threads\<close>

datatype ('s, 'e, 'a) task =
    Return "'e + 'a"
  | Local "'s \<Rightarrow> 's" "'s \<Rightarrow> ('s, 'e, 'a) task"
  | Query "'s \<Rightarrow> 's" "'s \<Rightarrow> ('s, 'e, 'a) task"
  | Request "'s \<Rightarrow> 's" "'s \<Rightarrow> ('s, 'e, 'a) task"
  | Gather "(string \<times> ('s, 'e, 'a) task) list" "(string \<times> ('e, 'a) fetched) list \<Rightarrow> ('s, 'e, 'a) task"

text \<open>
  Where a thread is: about to take its task's next step, inside \<open>with _gate\<close>, running a single source
  inline, or waiting for a pool. A job of a pool is waiting for a worker, running on one (with the
  connection of that thread), or finished.
\<close>

datatype ('s, 'e, 'a) thread =
    Run "('s, 'e, 'a) task"
  | InGate "'s \<Rightarrow> 's" "'s \<Rightarrow> ('s, 'e, 'a) task"
  | Inline string "('s, 'e, 'a) thread" "(string \<times> ('e, 'a) fetched) list \<Rightarrow> ('s, 'e, 'a) task"
  | Pool "(string \<times> ('s, 'e, 'a) job) list" "(string \<times> ('e, 'a) fetched) list \<Rightarrow> ('s, 'e, 'a) task"
and ('s, 'e, 'a) job =
    Queued "('s, 'e, 'a) task"
  | Active bool "('s, 'e, 'a) thread"
  | Ended "('e, 'a) fetched" bool

definition MAX_WORKERS :: nat where "MAX_WORKERS = 8"

definition pool_size :: "nat \<Rightarrow> nat" where
  "pool_size n = min n MAX_WORKERS"

text \<open>The three branches of \<open>gather\<close>.\<close>

definition gather :: "(string \<times> ('s, 'e, 'a) task) list \<Rightarrow> ((string \<times> ('e, 'a) fetched) list \<Rightarrow> ('s, 'e, 'a) task)
    \<Rightarrow> ('s, 'e, 'a) thread" where
  "gather sources k = (case sources of
     [] \<Rightarrow> Run (k [])
   | [(n, t)] \<Rightarrow> Inline n (Run t) k
   | _ \<Rightarrow> Pool (map (\<lambda>(n, t). (n, Queued t)) sources) k)"

fun is_active :: "('s, 'e, 'a) job \<Rightarrow> bool" where
  "is_active (Active c x) = True"
| "is_active _ = False"

fun is_queued :: "('s, 'e, 'a) job \<Rightarrow> bool" where
  "is_queued (Queued t) = True"
| "is_queued _ = False"

definition busy_workers :: "(string \<times> ('s, 'e, 'a) job) list \<Rightarrow> nat" where
  "busy_workers jobs = length (filter (\<lambda>(n, j). is_active j) jobs)"

fun ended_with :: "string \<times> ('s, 'e, 'a) job \<Rightarrow> (string \<times> ('e, 'a) fetched) option" where
  "ended_with (n, Ended f c) = Some (n, f)"
| "ended_with _ = None"

subsection \<open>Steps\<close>

text \<open>
  A configuration is the shared state, the permits of the gate in use, the connections open in the
  process, whether this thread has one, and where the thread is.
\<close>

type_synonym ('s, 'e, 'a) config = "'s \<times> nat \<times> nat \<times> bool \<times> ('s, 'e, 'a) thread"

inductive thread_step :: "nat \<Rightarrow> ('s, 'e, 'a) config \<Rightarrow> ('s, 'e, 'a) config \<Rightarrow> bool" for permits where
  local: "thread_step permits (s, g, d, c, Run (Local e k)) (e s, g, d, c, Run (k s))"
| query: "thread_step permits (s, g, d, c, Run (Query e k)) (e s, g, if c then d else d + 1, True, Run (k s))"
| acquire: "g < permits \<Longrightarrow> thread_step permits (s, g, d, c, Run (Request e k)) (s, g + 1, d, c, InGate e k)"
| release: "thread_step permits (s, g, d, c, InGate e k) (e s, g - 1, d, c, Run (k s))"
| enter: "thread_step permits (s, g, d, c, Run (Gather sources k)) (s, g, d, c, gather sources k)"
| inline: "thread_step permits (s, g, d, c, x) (s', g', d', c', x') \<Longrightarrow>
     thread_step permits (s, g, d, c, Inline n x k) (s', g', d', c', Inline n x' k)"
| inlined: "run_source False r d c = (f, d', c') \<Longrightarrow>
     thread_step permits (s, g, d, c, Inline n (Run (Return r)) k) (s, g, d', c', Run (k [(n, f)]))"
| start: "busy_workers (us @ (n, Queued t) # vs) < pool_size (length (us @ (n, Queued t) # vs)) \<Longrightarrow>
     list_all (\<lambda>(n, j). \<not> is_queued j) us \<Longrightarrow>
     thread_step permits (s, g, d, c, Pool (us @ (n, Queued t) # vs) k)
       (s, g, d, c, Pool (us @ (n, Active False (Run t)) # vs) k)"
| work: "thread_step permits (s, g, d, b, x) (s', g', d', b', x') \<Longrightarrow>
     thread_step permits (s, g, d, c, Pool (us @ (n, Active b x) # vs) k)
       (s', g', d', c, Pool (us @ (n, Active b' x') # vs) k)"
| finish: "run_source True r d b = (f, d', b') \<Longrightarrow>
     thread_step permits (s, g, d, c, Pool (us @ (n, Active b (Run (Return r))) # vs) k)
       (s, g, d', c, Pool (us @ (n, Ended f b') # vs) k)"
| join: "those (map ended_with jobs) = Some rs \<Longrightarrow>
     thread_step permits (s, g, d, c, Pool jobs k) (s, g, d, c, Run (k rs))"

inductive_cases return_stepE: "thread_step permits (s, g, d, c, Run (Return r)) y"

lemma returned_stuck [simp]: "\<not> thread_step permits (s, g, d, c, Run (Return r)) y"
  by (auto elim: return_stepE)

text \<open>The process: its request threads, each with the connection it has.\<close>

type_synonym ('s, 'e, 'a) process = "'s \<times> nat \<times> nat \<times> (bool \<times> ('s, 'e, 'a) thread) list"

inductive process_step :: "nat \<Rightarrow> ('s, 'e, 'a) process \<Rightarrow> ('s, 'e, 'a) process \<Rightarrow> bool" for permits where
  move: "thread_step permits (s, g, d, c, x) (s', g', d', c', x') \<Longrightarrow>
     process_step permits (s, g, d, us @ (c, x) # vs) (s', g', d', us @ (c', x') # vs)"

inductive process_run :: "nat \<Rightarrow> ('s, 'e, 'a) process \<Rightarrow> ('s, 'e, 'a) process \<Rightarrow> bool" for permits where
  here: "process_run permits p p"
| then_step: "process_run permits p q \<Longrightarrow> process_step permits q r \<Longrightarrow> process_run permits p r"

text \<open>\<open>ZADARA_MAX_CONCURRENT_REQUESTS\<close> by default.\<close>

definition MAX_CONCURRENT_REQUESTS :: nat where "MAX_CONCURRENT_REQUESTS = 12"

text \<open>What the requests of a process are at the start: each thread with the connection it already has.\<close>

definition serving :: "'s \<Rightarrow> (bool \<times> ('s, 'e, 'a) task) list \<Rightarrow> ('s, 'e, 'a) process" where
  "serving s reqs = (s, 0, length (filter fst reqs), map (\<lambda>(c, t). (c, Run t)) reqs)"

subsection \<open>The reference: one source after the other on one thread\<close>

primrec run_all :: "(string \<times> ('s \<Rightarrow> 's \<times> ('e + 'a))) list \<Rightarrow> 's \<Rightarrow> 's \<times> (string \<times> ('e, 'a) fetched) list" where
  "run_all [] s = (s, [])"
| "run_all (nf # fs) s = (let (s', r) = snd nf s; (s'', rs) = run_all fs s' in (s'', (fst nf, fetched_of r) # rs))"

primrec sequential :: "('s, 'e, 'a) task \<Rightarrow> 's \<Rightarrow> 's \<times> ('e + 'a)" where
  "sequential (Return r) = (\<lambda>s. (s, r))"
| "sequential (Local e k) = (\<lambda>s. sequential (k s) (e s))"
| "sequential (Query e k) = (\<lambda>s. sequential (k s) (e s))"
| "sequential (Request e k) = (\<lambda>s. sequential (k s) (e s))"
| "sequential (Gather sources k) = (\<lambda>s. let (s', rs) = run_all (map (map_prod id sequential) sources) s in
     sequential (k rs) s')"

subsection \<open>What the threads hold\<close>

text \<open>Permits of the gate, connections of workers, and that a pool keeps to its size and its finished
  jobs to a closed connection.\<close>

primrec permits_held :: "('s, 'e, 'a) thread \<Rightarrow> nat" and job_permits :: "('s, 'e, 'a) job \<Rightarrow> nat" where
  "permits_held (Run t) = 0"
| "permits_held (InGate e k) = 1"
| "permits_held (Inline n x k) = permits_held x"
| "permits_held (Pool jobs k) = sum_list (map snd (map (map_prod id job_permits) jobs))"
| "job_permits (Queued t) = 0"
| "job_permits (Active c x) = permits_held x"
| "job_permits (Ended f c) = 0"

primrec worker_conns :: "('s, 'e, 'a) thread \<Rightarrow> nat" and job_conns :: "('s, 'e, 'a) job \<Rightarrow> nat" where
  "worker_conns (Run t) = 0"
| "worker_conns (InGate e k) = 0"
| "worker_conns (Inline n x k) = worker_conns x"
| "worker_conns (Pool jobs k) = sum_list (map snd (map (map_prod id job_conns) jobs))"
| "job_conns (Queued t) = 0"
| "job_conns (Active c x) = of_bool c + worker_conns x"
| "job_conns (Ended f c) = of_bool c"

primrec well_kept :: "('s, 'e, 'a) thread \<Rightarrow> bool" and job_kept :: "('s, 'e, 'a) job \<Rightarrow> bool" where
  "well_kept (Run t) = True"
| "well_kept (InGate e k) = True"
| "well_kept (Inline n x k) = well_kept x"
| "well_kept (Pool jobs k) = (busy_workers jobs \<le> pool_size (length jobs) \<and>
     list_all snd (map (map_prod id job_kept) jobs))"
| "job_kept (Queued t) = True"
| "job_kept (Active c x) = well_kept x"
| "job_kept (Ended f c) = (\<not> c)"

lemma busy_workers_simps [simp]:
  "busy_workers [] = 0"
  "busy_workers ((n, j) # jobs) = of_bool (is_active j) + busy_workers jobs"
  "busy_workers (us @ vs) = busy_workers us + busy_workers vs"
  by (auto simp: busy_workers_def)

lemma gather_cases:
  obtains "sources = []" "gather sources k = Run (k [])"
  | n t where "sources = [(n, t)]" "gather sources k = Inline n (Run t) k"
  | "2 \<le> length sources" "gather sources k = Pool (map (\<lambda>(n, t). (n, Queued t)) sources) k"
  by (cases sources rule: remdups_adj.cases) (auto simp: gather_def)

lemma all_queued:
  "busy_workers (map (\<lambda>(n, t). (n, Queued t)) sources) = 0"
  "sum_list (map snd (map (map_prod id job_permits) (map (\<lambda>(n, t). (n, Queued t)) sources))) = 0"
  "sum_list (map snd (map (map_prod id job_conns) (map (\<lambda>(n, t). (n, Queued t)) sources))) = 0"
  "list_all snd (map (map_prod id job_kept) (map (\<lambda>(n, t). (n, Queued t)) sources))"
  by (induction sources) auto

lemma gather_holds_nothing [simp]:
  "permits_held (gather sources k) = 0" "worker_conns (gather sources k) = 0" "well_kept (gather sources k)"
  by (cases sources k rule: gather_cases; simp add: all_queued pool_size_def del: map_map)+

lemma run_source_simps [simp]:
  "run_source False r d c = (fetched_of r, d, c)"
  "run_source True r d c = (fetched_of r, if c then d - 1 else d, False)"
  by (auto simp: run_source_def)

lemma all_ended:
  assumes "those (map ended_with jobs) = Some rs"
  shows "sum_list (map snd (map (map_prod id job_permits) jobs)) = 0"
    "list_all snd (map (map_prod id job_kept) jobs) \<Longrightarrow> sum_list (map snd (map (map_prod id job_conns) jobs)) = 0"
proof -
  have "\<forall>nj \<in> set jobs. \<exists>n f c. nj = (n, Ended f c)" if "those (map ended_with jobs) = Some rs" for rs
    using that
  proof (induction jobs arbitrary: rs)
    case (Cons nj jobs)
    then show ?case by (cases nj rule: ended_with.cases) (auto split: option.splits dest!: bspec)
  qed simp
  then have ended: "\<forall>nj \<in> set jobs. \<exists>n f c. nj = (n, Ended f c)" using assms by blast
  show "sum_list (map snd (map (map_prod id job_permits) jobs)) = 0" using ended by (induction jobs) auto
  show "sum_list (map snd (map (map_prod id job_conns) jobs)) = 0"
    if "list_all snd (map (map_prod id job_kept) jobs)" using ended that by (induction jobs) auto
qed

lemma step_permits:
  "thread_step permits (s, g, d, c, x) (s', g', d', c', x') \<Longrightarrow> permits_held x \<le> g \<Longrightarrow>
     g' + permits_held x = g + permits_held x' \<and> (g \<le> permits \<longrightarrow> g' \<le> permits)"
proof (induction "(s, g, d, c, x)" "(s', g', d', c', x')" arbitrary: s g d c x s' g' d' c' x' rule: thread_step.induct)
  case (join jobs rs s g d c k)
  then show ?case using all_ended(1) [OF join(1)] by (simp del: map_map)
qed auto

lemma step_kept:
  "thread_step permits (s, g, d, c, x) (s', g', d', c', x') \<Longrightarrow> well_kept x \<Longrightarrow> well_kept x'"
  by (induction "(s, g, d, c, x)" "(s', g', d', c', x')" arbitrary: s g d c x s' g' d' c' x' rule: thread_step.induct)
    auto

lemma step_conns:
  "thread_step permits (s, g, d, c, x) (s', g', d', c', x') \<Longrightarrow> well_kept x \<Longrightarrow> of_bool c + worker_conns x \<le> d \<Longrightarrow>
     d' + of_bool c + worker_conns x = d + of_bool c' + worker_conns x' \<and> (c \<longrightarrow> c')"
proof (induction "(s, g, d, c, x)" "(s', g', d', c', x')" arbitrary: s g d c x s' g' d' c' x' rule: thread_step.induct)
  case (join jobs rs s g d c k)
  then show ?case using all_ended(2) [OF join(1)] by (simp del: map_map)
qed auto

subsection \<open>Every schedule ends\<close>

text \<open>
  Forgetting what is shared, a thread only ever moves towards its end: the trees of tasks are
  well-founded, and a pool moves one job at a time.
\<close>

definition thread_moves :: "nat \<Rightarrow> (('s, 'e, 'a) thread \<times> ('s, 'e, 'a) thread) set" where
  "thread_moves permits = {(y, x). \<exists>s g d c s' g' d' c'. thread_step permits (s, g, d, c, x) (s', g', d', c', y)}"

inductive job_move :: "nat \<Rightarrow> string \<times> ('s, 'e, 'a) job \<Rightarrow> string \<times> ('s, 'e, 'a) job \<Rightarrow> bool" for permits where
  started: "job_move permits (n, Queued t) (n, Active b (Run t))"
| moved: "(y, x) \<in> thread_moves permits \<Longrightarrow> job_move permits (n, Active b x) (n, Active b' y)"
| ended: "job_move permits (n, Active b x) (n, Ended f b')"

abbreviation job_moves :: "nat \<Rightarrow> ((string \<times> ('s, 'e, 'a) job) \<times> (string \<times> ('s, 'e, 'a) job)) set" where
  "job_moves permits \<equiv> {(y, x). job_move permits x y}"

inductive_cases run_moveE: "thread_step permits (s, g, d, c, Run t) y"
inductive_cases gate_moveE: "thread_step permits (s, g, d, c, InGate e k) y"
inductive_cases inline_moveE: "thread_step permits (s, g, d, c, Inline n x k) y"
inductive_cases pool_moveE: "thread_step permits (s, g, d, c, Pool jobs k) y"
inductive_cases queued_moveE: "job_move permits (n, Queued t) y"
inductive_cases active_moveE: "job_move permits (n, Active b x) y"
inductive_cases ended_moveE: "job_move permits (n, Ended f b) y"

lemma pool_moveI: "job_move permits x y \<Longrightarrow> (us @ y # vs, us @ x # vs) \<in> listrel1 (job_moves permits)"
  by (auto intro: listrel1I)

lemma thread_movesI: "thread_step permits (s, g, d, c, x) (s', g', d', c', y) \<Longrightarrow> (y, x) \<in> thread_moves permits"
  unfolding thread_moves_def by blast

lemma acc_thread_moves:
  "(\<And>s g d c s' g' d' c' y. thread_step permits (s, g, d, c, x) (s', g', d', c', y) \<Longrightarrow>
      y \<in> Wellfounded.acc (thread_moves permits)) \<Longrightarrow> x \<in> Wellfounded.acc (thread_moves permits)"
  by (rule accI) (auto simp: thread_moves_def)

lemma inline_ends:
  assumes "x \<in> Wellfounded.acc (thread_moves permits)"
    "\<And>rs. Run (k rs) \<in> Wellfounded.acc (thread_moves permits)"
  shows "Inline n x k \<in> Wellfounded.acc (thread_moves permits)"
  using assms(1)
proof (induction rule: acc.induct)
  case (accI x)
  show ?case
    by (rule acc_thread_moves) (auto elim!: inline_moveE intro: accI assms(2) thread_movesI)
qed

lemma pool_ends:
  assumes "jobs \<in> Wellfounded.acc (listrel1 (job_moves permits))"
    "\<And>rs. Run (k rs) \<in> Wellfounded.acc (thread_moves permits)"
  shows "Pool jobs k \<in> Wellfounded.acc (thread_moves permits)"
  using assms(1)
proof (induction rule: acc.induct)
  case (accI jobs)
  have next_pool: "Pool (us @ v # vs) k \<in> Wellfounded.acc (thread_moves permits)"
    if "job_move permits u v" "jobs = us @ u # vs" for us u v vs
    using accI.IH pool_moveI [OF that(1)] that(2) by simp
  show ?case
    by (rule acc_thread_moves)
      (auto elim!: pool_moveE intro: assms(2) next_pool [OF started] next_pool [OF ended]
        next_pool [OF moved [OF thread_movesI]])
qed

lemma active_ends:
  assumes "x \<in> Wellfounded.acc (thread_moves permits)"
  shows "(n, Active b x) \<in> Wellfounded.acc (job_moves permits)"
  using assms
proof (induction arbitrary: b rule: acc.induct)
  case (accI x)
  show ?case
    by (rule acc.accI) (auto elim!: active_moveE intro: accI acc.accI elim: ended_moveE)
qed

lemma queued_ends:
  assumes "Run t \<in> Wellfounded.acc (thread_moves permits)"
  shows "(n, Queued t) \<in> Wellfounded.acc (job_moves permits)"
  by (rule acc.accI) (auto elim!: queued_moveE intro: active_ends [OF assms])

lemma gather_ends:
  assumes "\<And>n t. (n, t) \<in> set sources \<Longrightarrow> Run t \<in> Wellfounded.acc (thread_moves permits)"
    "\<And>rs. Run (k rs) \<in> Wellfounded.acc (thread_moves permits)"
  shows "gather sources k \<in> Wellfounded.acc (thread_moves permits)"
proof (cases sources k rule: gather_cases)
  case (2 n t)
  then show ?thesis using assms by (auto intro: inline_ends)
next
  case 3
  have "map (\<lambda>(n, t). (n, Queued t)) sources \<in> lists (Wellfounded.acc (job_moves permits))"
    using queued_ends [OF assms(1)] by auto
  then show ?thesis using 3 by (auto intro: pool_ends lists_accD assms(2))
qed (simp add: assms)

lemma run_ends: "Run t \<in> Wellfounded.acc (thread_moves permits)"
proof (induction t)
  case (Request e k)
  have "InGate e k \<in> Wellfounded.acc (thread_moves permits)"
    by (rule acc_thread_moves) (use Request in \<open>auto elim!: gate_moveE\<close>)
  then show ?case by - (rule acc_thread_moves, auto elim!: run_moveE)
next
  case (Gather sources k)
  have "gather sources k \<in> Wellfounded.acc (thread_moves permits)"
    by (rule gather_ends) (use Gather in \<open>force+\<close>)
  then show ?case by - (rule acc_thread_moves, auto elim!: run_moveE)
next
  case (Return r)
  show ?case by (rule acc_thread_moves) simp
next
  case (Local e k)
  show ?case by (rule acc_thread_moves) (use Local in \<open>auto elim!: run_moveE\<close>)
next
  case (Query e k)
  show ?case by (rule acc_thread_moves) (use Query in \<open>auto elim!: run_moveE\<close>)
qed

lemma thread_ends:
  fixes x :: "('s, 'e, 'a) thread" and j :: "('s, 'e, 'a) job"
  shows "x \<in> Wellfounded.acc (thread_moves permits)" and "\<And>n. (n, j) \<in> Wellfounded.acc (job_moves permits)"
proof (induction x and j)
  case (Run t)
  show ?case by (rule run_ends)
next
  case (InGate e k)
  show ?case by (rule acc_thread_moves) (auto elim!: gate_moveE simp: run_ends)
next
  case (Inline n x k)
  then show ?case by (rule inline_ends) (rule run_ends)
next
  case (Pool jobs k)
  have "jobs \<in> lists (Wellfounded.acc (job_moves permits))" using Pool by force
  then show ?case by (intro pool_ends lists_accD run_ends)
next
  case (Queued t)
  show ?case by (rule queued_ends) (rule run_ends)
next
  case (Active b x)
  then show ?case by (intro active_ends)
next
  case (Ended f b)
  show ?case by (rule acc.accI) (auto elim: ended_moveE)
qed

lemma thread_moves_wf: "wf (thread_moves permits)"
  by (rule acc_wfI) (simp add: thread_ends)

lemma process_steps_wf: "wf {(q, p). process_step permits p q}"
proof (rule wf_subset)
  show "wf (inv_image (listrel1 (inv_image (thread_moves permits) snd)) (\<lambda>p. snd (snd (snd p))))"
    by (intro wf_inv_image) (simp add: thread_moves_wf)
  show "{(q, p). process_step permits p q}
      \<subseteq> inv_image (listrel1 (inv_image (thread_moves permits) snd)) (\<lambda>p. snd (snd (snd p)))"
  proof (clarsimp elim!: process_step.cases simp del: Cons_listrel1_Cons)
    fix s g d c x s' g' d' c' x' us vs assume "thread_step permits (s, g, d, c, x) (s', g', d', c', x')"
    then have "((c', x'), (c, x)) \<in> inv_image (thread_moves permits) snd" by (simp add: thread_movesI)
    then show "(us @ (c', x') # vs, us @ (c, x) # vs) \<in> listrel1 (inv_image (thread_moves permits) snd)"
      by (rule listrel1I) simp_all
  qed
qed

text \<open>A thread inside the gate can always leave it, and with a permit free every thread can move.\<close>

lemma can_release:
  fixes x :: "('s, 'e, 'a) thread" and j :: "('s, 'e, 'a) job"
  shows "\<And>c. 0 < permits_held x \<Longrightarrow> \<exists>y. thread_step permits (s, g, d, c, x) y"
    and "0 < job_permits j \<Longrightarrow> \<exists>b x y. j = Active b x \<and> thread_step permits (s, g, d, b, x) y"
proof (induction x and j)
  case (InGate e k)
  show ?case by (blast intro: release)
next
  case (Inline n x k)
  then show ?case by (auto, blast intro: thread_step.inline)
next
  case (Pool jobs k)
  then obtain n j where j: "(n, j) \<in> set jobs" "0 < job_permits j"
    by (auto simp: sum_list_eq_0_iff simp flip: neq0_conv)
  then obtain us vs where jobs: "jobs = us @ (n, j) # vs" by (meson split_list)
  from Pool.IH [OF j(1)] j(2) obtain b x y where "j = Active b x" "thread_step permits (s, g, d, b, x) y" by auto
  then show ?case unfolding jobs by (cases y) (blast intro: work)
qed auto

lemma can_move:
  fixes x :: "('s, 'e, 'a) thread" and j :: "('s, 'e, 'a) job"
  assumes free: "g < permits"
  shows "\<And>c. (\<exists>r. x = Run (Return r)) \<or> (\<exists>y. thread_step permits (s, g, d, c, x) y)"
    and "\<And>b x. j = Active b x \<Longrightarrow> (\<exists>r. x = Run (Return r)) \<or> (\<exists>y. thread_step permits (s, g, d, b, x) y)"
proof (induction x and j)
  case (Run t)
  then show ?case using free by (cases t) (blast intro: thread_step.intros)+
next
  case (InGate e k)
  show ?case by (blast intro: release)
next
  case (Inline n x k)
  then consider r where "x = Run (Return r)" | y where "thread_step permits (s, g, d, c, x) y" by blast
  then show ?case
  proof cases
    case (1 r)
    then show ?thesis by (blast intro: inlined [OF run_source_simps(1)])
  next
    case (2 y)
    then show ?thesis by (cases y) (blast intro: thread_step.inline)
  qed
next
  case (Pool jobs k)
  show ?case
  proof (cases "\<exists>n b x. (n, Active b x) \<in> set jobs")
    case True
    then obtain n b x where active: "(n, Active b x) \<in> set jobs" by blast
    then obtain us vs where jobs: "jobs = us @ (n, Active b x) # vs" by (meson split_list)
    from Pool.IH [OF active] Pool.prems
    consider r where "x = Run (Return r)" | y where "thread_step permits (s, g, d, b, x) y" by auto
    then show ?thesis
    proof cases
      case (1 r)
      then show ?thesis unfolding jobs by (blast intro: finish [OF run_source_simps(2)])
    next
      case (2 y)
      then show ?thesis unfolding jobs by (cases y) (blast intro: work)
    qed
  next
    case idle: False
    have nobody: "busy_workers us = 0" if "set us \<subseteq> set jobs" for us
      using that idle by (induction us) (auto elim!: is_active.elims)
    show ?thesis
    proof (cases "\<exists>nj \<in> set jobs. is_queued (snd nj)")
      case True
      then obtain us nj vs where jobs: "jobs = us @ nj # vs" "is_queued (snd nj)" "\<forall>u \<in> set us. \<not> is_queued (snd u)"
        using split_list_first_prop [of jobs "\<lambda>nj. is_queued (snd nj)"] by blast
      then obtain n t where nj: "nj = (n, Queued t)" by (cases nj) (auto elim: is_queued.elims)
      have "busy_workers jobs = 0" by (rule nobody) simp
      then have "busy_workers (us @ (n, Queued t) # vs) < pool_size (length (us @ (n, Queued t) # vs))"
        unfolding jobs(1) nj by (simp add: pool_size_def MAX_WORKERS_def)
      then show ?thesis unfolding jobs(1) nj using jobs(3)
        by (blast intro: start [unfolded list_all_iff case_prod_beta])
    next
      case False
      have "\<exists>rs. those (map ended_with js) = Some rs" if "set js \<subseteq> set jobs" for js
        using that
      proof (induction js)
        case (Cons nj js)
        then obtain n j where "nj = (n, j)" "(n, j) \<in> set jobs" by (cases nj) auto
        then show ?case using Cons idle False by (cases j) force+
      qed simp
      then show ?thesis by (blast intro: join)
    qed
  qed
qed auto

subsection \<open>The process as a whole\<close>

definition answered_thread :: "bool \<times> ('s, 'e, 'a) thread \<Rightarrow> bool" where
  "answered_thread cx = (case snd cx of Run (Return r) \<Rightarrow> True | _ \<Rightarrow> False)"

definition all_answered :: "('s, 'e, 'a) process \<Rightarrow> bool" where
  "all_answered p = (case p of (s, g, d, ts) \<Rightarrow> list_all answered_thread ts)"

definition accounted :: "nat \<Rightarrow> ('s, 'e, 'a) process \<Rightarrow> bool" where
  "accounted permits p = (case p of (s, g, d, ts) \<Rightarrow>
     g = sum_list (map (\<lambda>(c, x). permits_held x) ts) \<and> g \<le> permits \<and>
     d = length (filter fst ts) + sum_list (map (\<lambda>(c, x). worker_conns x) ts) \<and>
     list_all (\<lambda>(c, x). well_kept x) ts)"

lemma serving_accounted: "accounted permits (serving s reqs)"
  unfolding accounted_def serving_def prod.case by (induction reqs) auto

lemma process_step_accounted:
  assumes "process_step permits p q" "accounted permits p"
  shows "accounted permits q"
  using assms
proof cases
  case (move s g d c x s' g' d' c' x' us vs)
  have kept: "well_kept x" "permits_held x \<le> g" "of_bool c + worker_conns x \<le> d" "g \<le> permits"
    using assms(2) unfolding move(1) by (auto simp: accounted_def)
  then show ?thesis
    using step_permits [OF move(3) kept(2)] step_conns [OF move(3) kept(1,3)] step_kept [OF move(3) kept(1)] assms(2)
    unfolding move(1,2) by (auto simp: accounted_def split: if_splits)
qed

lemma process_run_accounted: "process_run permits p q \<Longrightarrow> accounted permits p \<Longrightarrow> accounted permits q"
  by (induction rule: process_run.induct) (auto intro: process_step_accounted)

lemma connection_kept:
  assumes "process_run permits p q" "accounted permits p"
  shows "list_all2 (\<lambda>(c, x) (c', x'). c \<le> c') (snd (snd (snd p))) (snd (snd (snd q)))"
  using assms
proof (induction rule: process_run.induct)
  case (here p)
  show ?case by (simp add: list.rel_refl case_prod_beta)
next
  case (then_step p q r)
  from then_step.hyps(2) show ?case
  proof cases
    case (move s g d c x s' g' d' c' x' us vs)
    have "accounted permits q" using then_step by (auto intro: process_run_accounted)
    then have "well_kept x" "of_bool c + worker_conns x \<le> d" unfolding move(1) by (auto simp: accounted_def)
    then have "c \<le> c'" using step_conns [OF move(3)] by auto
    then have "list_all2 (\<lambda>(c, x) (c', x'). c \<le> c') (snd (snd (snd q))) (snd (snd (snd r)))"
      unfolding move(1,2) by (auto simp: list_all2_append list.rel_refl case_prod_beta)
    with then_step.IH [OF then_step.prems] show ?thesis
      by (rule list_all2_trans [rotated]) auto
  qed
qed

lemma stuck_only_when_answered:
  assumes "accounted permits p" "0 < permits" "\<not> (\<exists>q. process_step permits p q)"
  shows "all_answered p"
proof -
  obtain s g d ts where p: "p = (s, g, d, ts)" by (cases p)
  have stuck: "\<not> (\<exists>y. thread_step permits (s, g, d, c, x) y)" if member: "(c, x) \<in> set ts" for c x
  proof
    assume "\<exists>y. thread_step permits (s, g, d, c, x) y"
    then obtain s' g' d' c' x' where "thread_step permits (s, g, d, c, x) (s', g', d', c', x')" by (metis prod_cases5)
    moreover obtain us vs where "ts = us @ (c, x) # vs" using member by (meson split_list)
    ultimately show False using assms(3) unfolding p by (blast intro: move)
  qed
  have "permits_held x = 0" if "(c, x) \<in> set ts" for c x
    using can_release(1) [of x permits s g d c] stuck [OF that] by (meson neq0_conv)
  then have zero: "sum_list (map (\<lambda>(c, x). permits_held x) ts) = 0" by (induction ts) auto
  have "g = 0" using assms(1) by (simp only: p accounted_def prod.case zero)
  then have "g < permits" using assms(2) by simp
  then have "answered_thread (c, x)" if "(c, x) \<in> set ts" for c x
    using can_move(1) [of g permits x s d c] stuck [OF that] by (auto simp: answered_thread_def)
  then show ?thesis by (auto simp: p all_answered_def list_all_iff)
qed

text \<open>C17. The gate bounds the requests in flight of the whole process, nested or not; every connection open
  beside those of the request threads belongs to a worker whose job is still running, a pool runs at most eight
  jobs, and no request thread ever loses the connection it had.\<close>

theorem threads_keep_to_their_bounds:
  assumes "process_run permits (serving s reqs) (s', g, d, ts)"
  shows "g \<le> permits \<and> g = sum_list (map (\<lambda>(c, x). permits_held x) ts) \<and>
    d = length (filter fst ts) + sum_list (map (\<lambda>(c, x). worker_conns x) ts) \<and>
    list_all (\<lambda>(c, x). well_kept x) ts \<and> list_all2 (\<lambda>(c, t) (c', x). c \<le> c') reqs ts"
proof -
  have "list_all2 (\<lambda>(c, x) (c', x'). c \<le> c') (map (\<lambda>(c, t). (c, Run t)) reqs) ts"
    using connection_kept [OF assms serving_accounted] by (simp add: serving_def)
  then have "list_all2 (\<lambda>(c, t) (c', x). c \<le> c') reqs ts" unfolding list.rel_map by (rule list.rel_mono_strong) auto
  then show ?thesis using process_run_accounted [OF assms serving_accounted] by (auto simp: accounted_def)
qed

text \<open>C5. Whatever the scheduler does, it cannot go on for ever, and it can only stop when every page has
  been answered: with at least one permit no nesting of \<open>gather\<close> and of requests deadlocks.\<close>

theorem every_page_is_answered:
  assumes "0 < permits"
  shows "\<not> (\<exists>\<sigma>. \<sigma> 0 = serving s reqs \<and> (\<forall>i. process_step permits (\<sigma> i) (\<sigma> (Suc i)))) \<and>
    {p. process_run permits (serving s reqs) p} \<subseteq> {p. (\<exists>q. process_step permits p q) \<or> all_answered p}"
proof
  show "\<not> (\<exists>\<sigma>. \<sigma> 0 = serving s reqs \<and> (\<forall>i. process_step permits (\<sigma> i) (\<sigma> (Suc i))))"
  proof
    assume "\<exists>\<sigma>. \<sigma> 0 = serving s reqs \<and> (\<forall>i. process_step permits (\<sigma> i) (\<sigma> (Suc i)))"
    then obtain \<sigma> where "\<sigma> 0 = serving s reqs" "\<forall>i. process_step permits (\<sigma> i) (\<sigma> (Suc i))" by blast
    then have "\<forall>i. (\<sigma> (Suc i), \<sigma> i) \<in> {(q, p). process_step permits p q}" by simp
    then show False using process_steps_wf wf_iff_no_infinite_down_chain by blast
  qed
  show "{p. process_run permits (serving s reqs) p} \<subseteq> {p. (\<exists>q. process_step permits p q) \<or> all_answered p}"
  proof
    fix p :: "('a, 'b, 'c) process" assume "p \<in> {p. process_run permits (serving s reqs) p}"
    then have run: "process_run permits (serving s reqs) p" by simp
    have "accounted permits p" by (rule process_run_accounted [OF run serving_accounted])
    from stuck_only_when_answered [OF this assms] show "p \<in> {p. (\<exists>q. process_step permits p q) \<or> all_answered p}"
      unfolding mem_Collect_eq by argo
  qed
qed

text \<open>Two pages, one of them gathering inside a gather, over a single permit.\<close>

definition ask :: "'a \<Rightarrow> ('s, 'e, 'a) task" where
  "ask v = Request id (\<lambda>_. Return (Inr v))"

definition nested_page :: "(unit, failure, json) task" where
  "nested_page = Gather [(''vms'', Gather [(''machines'', ask JNull), (''addresses'', ask (JBool True))] (\<lambda>_. ask (JInt 1))),
     (''quotas'', ask (JInt 2))] (\<lambda>_. Return (Inr JNull))"

lemma every_page_is_answered_witness:
  "\<not> (\<exists>\<sigma>. \<sigma> 0 = serving () [(True, nested_page), (False, ask JNull)] \<and> (\<forall>i. process_step 1 (\<sigma> i) (\<sigma> (Suc i)))) \<and>
    {p. process_run 1 (serving () [(True, nested_page), (False, ask JNull)]) p}
      \<subseteq> {p. (\<exists>q. process_step 1 p q) \<or> all_answered p}"
  by (rule every_page_is_answered) simp

text \<open>A schedule can always be completed.\<close>

lemma process_run_trans: "process_run permits q r \<Longrightarrow> process_run permits p q \<Longrightarrow> process_run permits p r"
  by (induction rule: process_run.induct) (auto intro: then_step)

lemma run_completes:
  assumes "0 < permits"
  shows "accounted permits p \<Longrightarrow> \<exists>q. process_run permits p q \<and> all_answered q"
proof (induction p rule: wf_induct_rule [OF process_steps_wf [of permits]])
  case (1 p)
  show ?case
  proof (cases "\<exists>q. process_step permits p q")
    case True
    then obtain q where q: "process_step permits p q" ..
    then have "accounted permits q" using 1(2) by (rule process_step_accounted)
    then obtain r where "process_run permits q r" "all_answered r" using 1(1) q by blast
    moreover have "process_run permits p q" using q by (blast intro: here then_step)
    ultimately show ?thesis by (blast intro: process_run_trans)
  next
    case False
    then show ?thesis using stuck_only_when_answered [OF 1(2) assms] by (blast intro: here)
  qed
qed

lemma move_nth:
  assumes "process_run permits p (s, g, d, ts)" "i < length ts" "ts ! i = (own, x)"
    "thread_step permits (s, g, d, own, x) (s', g', d', own', x')"
  shows "process_run permits p (s', g', d', ts[i := (own', x')])"
proof -
  have "ts = take i ts @ (own, x) # drop (Suc i) ts" using assms(2,3) id_take_nth_drop by metis
  then have "process_step permits (s, g, d, ts) (s', g', d', take i ts @ (own', x') # drop (Suc i) ts)"
    using move [OF assms(4), of "take i ts" "drop (Suc i) ts"] by simp
  then show ?thesis using assms(1,2) by (simp add: upd_conv_take_nth_drop then_step)
qed

text \<open>A worker that has used the database beside one that has not started.\<close>

definition demo_sources :: "(string \<times> (unit, failure, json) task) list" where
  "demo_sources = [(''tariffs'', Query id (\<lambda>_. Return (Inr JNull))), (''vms'', ask JNull)]"

definition demo_jobs :: "(string \<times> (unit, failure, json) job) list" where
  "demo_jobs = [(''tariffs'', Active True (Run (Return (Inr JNull)))), (''vms'', Queued (ask JNull))]"

lemma demo_running:
  "process_run 12 (serving () [(True, Gather demo_sources (\<lambda>_. Return (Inr JNull)))])
     ((), 0, 2, [(True, Pool demo_jobs (\<lambda>_. Return (Inr JNull)))])" (is "process_run _ ?p _")
proof -
  let ?k = "\<lambda>_. Return (Inr JNull) :: (unit, failure, json) task"
  let ?jobs = "\<lambda>j. [(''tariffs'', j), (''vms'', Queued (ask JNull))]"
  have "process_run 12 ?p ((), 0, 1, [(True, Run (Gather demo_sources ?k))])" by (simp add: serving_def here)
  from move_nth [OF this _ _ enter, of 0 True]
  have "process_run 12 ?p ((), 0, 1, [(True, Pool (?jobs (Queued (Query id ?k))) ?k)])"
    by (simp add: gather_def demo_sources_def)
  from move_nth [OF this _ _ start [where us = "[]", unfolded append_Nil], of 0 True]
  have "process_run 12 ?p ((), 0, 1, [(True, Pool (?jobs (Active False (Run (Query id ?k)))) ?k)])"
    by (simp add: pool_size_def MAX_WORKERS_def)
  from move_nth [OF this _ _ work [OF query [where c = False], where us = "[]", unfolded append_Nil], of 0 True]
  show ?thesis by (simp add: demo_jobs_def numeral_2_eq_2)
qed

lemma threads_keep_to_their_bounds_witness:
  "(0::nat) \<le> 12 \<and> 0 = sum_list (map (\<lambda>(c, x). permits_held x) [(True, Pool demo_jobs (\<lambda>_. Return (Inr JNull)))]) \<and>
    2 = length (filter fst [(True, Pool demo_jobs (\<lambda>_. Return (Inr JNull)))]) +
      sum_list (map (\<lambda>(c, x). worker_conns x) [(True, Pool demo_jobs (\<lambda>_. Return (Inr JNull)))]) \<and>
    list_all (\<lambda>(c, x). well_kept x) [(True, Pool demo_jobs (\<lambda>_. Return (Inr JNull)))] \<and>
    list_all2 (\<lambda>(c, t) (c', x). c \<le> c') [(True, Gather demo_sources (\<lambda>_. Return (Inr JNull)))]
      [(True, Pool demo_jobs (\<lambda>_. Return (Inr JNull)))]"
  by (rule threads_keep_to_their_bounds [OF demo_running])

end
