(* ===== verification/Parallel_Reads.thy ===== *)
theory Parallel_Reads
  imports Concurrency
begin

text \<open>
  What the interleavings of \<open>Concurrency\<close> mean for a page: tasks whose outcome does not depend on each
  other's effects, the cloud's cached reads (\<open>_cached_get\<close> over \<open>http.request\<close>, one access to the shared
  cache at a time) as such tasks, and what overlapping invalidations do to the shared counter.
\<close>

subsection \<open>What the interleaving cannot change\<close>

text \<open>
  \<open>yields I t r\<close>: whatever else happens to the shared state, as long as \<open>I\<close> holds of it, the task keeps \<open>I\<close> and
  ends with \<open>r\<close>.
\<close>

inductive yields :: "('s \<Rightarrow> bool) \<Rightarrow> ('s, 'e, 'a) task \<Rightarrow> 'e + 'a \<Rightarrow> bool"
  and all_yield :: "('s \<Rightarrow> bool) \<Rightarrow> (string \<times> ('s, 'e, 'a) task) list \<Rightarrow> (string \<times> ('e, 'a) fetched) list \<Rightarrow> bool"
  for I where
  returns: "yields I (Return r) r"
| locals: "(\<And>s. I s \<Longrightarrow> I (e s)) \<Longrightarrow> (\<And>s. I s \<Longrightarrow> yields I (k s) r) \<Longrightarrow> yields I (Local e k) r"
| queries: "(\<And>s. I s \<Longrightarrow> I (e s)) \<Longrightarrow> (\<And>s. I s \<Longrightarrow> yields I (k s) r) \<Longrightarrow> yields I (Query e k) r"
| requests: "(\<And>s. I s \<Longrightarrow> I (e s)) \<Longrightarrow> (\<And>s. I s \<Longrightarrow> yields I (k s) r) \<Longrightarrow> yields I (Request e k) r"
| gathers: "all_yield I sources rs \<Longrightarrow> yields I (k rs) r \<Longrightarrow> yields I (Gather sources k) r"
| no_source: "all_yield I [] []"
| one_more: "yields I t r \<Longrightarrow> all_yield I sources rs \<Longrightarrow> all_yield I ((n, t) # sources) ((n, fetched_of r) # rs)"

inductive thread_yields :: "('s \<Rightarrow> bool) \<Rightarrow> ('s, 'e, 'a) thread \<Rightarrow> 'e + 'a \<Rightarrow> bool"
  and jobs_yield :: "('s \<Rightarrow> bool) \<Rightarrow> (string \<times> ('s, 'e, 'a) job) list \<Rightarrow> (string \<times> ('e, 'a) fetched) list \<Rightarrow> bool"
  for I where
  running: "yields I t r \<Longrightarrow> thread_yields I (Run t) r"
| in_gate: "(\<And>s. I s \<Longrightarrow> I (e s)) \<Longrightarrow> (\<And>s. I s \<Longrightarrow> yields I (k s) r) \<Longrightarrow> thread_yields I (InGate e k) r"
| within: "thread_yields I x q \<Longrightarrow> yields I (k [(n, fetched_of q)]) r \<Longrightarrow> thread_yields I (Inline n x k) r"
| pooled: "jobs_yield I jobs rs \<Longrightarrow> yields I (k rs) r \<Longrightarrow> thread_yields I (Pool jobs k) r"
| no_job: "jobs_yield I [] []"
| queued: "yields I t q \<Longrightarrow> jobs_yield I jobs rs \<Longrightarrow> jobs_yield I ((n, Queued t) # jobs) ((n, fetched_of q) # rs)"
| active: "thread_yields I x q \<Longrightarrow> jobs_yield I jobs rs \<Longrightarrow> jobs_yield I ((n, Active b x) # jobs) ((n, fetched_of q) # rs)"
| over: "jobs_yield I jobs rs \<Longrightarrow> jobs_yield I ((n, Ended f b) # jobs) ((n, f) # rs)"

inductive_simps yields_simps [simp]:
  "yields I (Return q) r" "yields I (Local e k) r" "yields I (Query e k) r" "yields I (Request e k) r"
  "yields I (Gather sources k) r" "all_yield I [] rs" "all_yield I ((n, t) # sources) rs"

inductive_simps thread_yields_simps [simp]:
  "thread_yields I (Run t) r" "thread_yields I (InGate e k) r" "thread_yields I (Inline n x k) r"
  "thread_yields I (Pool jobs k) r" "jobs_yield I [] rs" "jobs_yield I ((n, Queued t) # jobs) rs"
  "jobs_yield I ((n, Active b x) # jobs) rs" "jobs_yield I ((n, Ended f b) # jobs) rs"

lemma jobs_yield_append:
  "jobs_yield I (us @ vs) rs \<longleftrightarrow> (\<exists>as bs. rs = as @ bs \<and> jobs_yield I us as \<and> jobs_yield I vs bs)"
proof (induction us arbitrary: rs)
  case (Cons nj us)
  obtain n j where "nj = (n, j)" by (cases nj)
  then show ?case using Cons by (cases j) (auto simp: Cons_eq_append_conv, blast+)
qed simp

lemma gather_yields: "all_yield I sources rs \<Longrightarrow> yields I (k rs) r \<Longrightarrow> thread_yields I (gather sources k) r"
proof (cases sources k rule: gather_cases)
  case 3
  have "jobs_yield I (map (\<lambda>(n, t). (n, Queued t)) ts) qs" if "all_yield I ts qs" for ts qs
    using that by (induction ts arbitrary: qs) (auto, blast)
  then show "all_yield I sources rs \<Longrightarrow> yields I (k rs) r \<Longrightarrow> ?thesis" using 3 by auto
qed auto

lemma ended_yield: "those (map ended_with jobs) = Some qs \<Longrightarrow> jobs_yield I jobs rs \<Longrightarrow> rs = qs"
proof (induction jobs arbitrary: qs rs)
  case (Cons nj jobs)
  then show ?case by (cases nj rule: ended_with.cases) (auto split: option.splits)
qed auto

lemma step_yields:
  "thread_step permits (s, g, d, c, x) (s', g', d', c', x') \<Longrightarrow> I s \<Longrightarrow> thread_yields I x r \<Longrightarrow>
     I s' \<and> thread_yields I x' r"
proof (induction "(s, g, d, c, x)" "(s', g', d', c', x')" arbitrary: s g d c x s' g' d' c' x' r rule: thread_step.induct)
  case (enter s g d c sources k)
  then show ?case by (auto intro: gather_yields)
next
  case (join jobs rs s g d c k)
  then show ?case using ended_yield [OF join(1)] by auto
next
  case (work s g d b x s' g' d' b' x' c us n vs k)
  then show ?case by (fastforce simp: jobs_yield_append)
qed (auto simp: jobs_yield_append)

lemma process_step_yields:
  assumes "process_step permits p q" "I (fst p)" "list_all2 (\<lambda>(c, x) r. thread_yields I x r) (snd (snd (snd p))) rs"
  shows "I (fst q) \<and> list_all2 (\<lambda>(c, x) r. thread_yields I x r) (snd (snd (snd q))) rs"
  using assms
proof cases
  case (move s g d c x s' g' d' c' x' us vs)
  obtain as r bs where rs: "rs = as @ r # bs" "length as = length us" "thread_yields I x r"
    "list_all2 (\<lambda>(c, x) r. thread_yields I x r) us as" "list_all2 (\<lambda>(c, x) r. thread_yields I x r) vs bs"
    using assms(3) unfolding move by (auto simp: list_all2_append1 list_all2_Cons1)
  have "I s" using assms(2) by (simp add: move)
  from step_yields [OF move(3) this rs(3)] show ?thesis
    using rs by (auto simp: move intro: list_all2_appendI)
qed

lemma process_run_yields:
  "process_run permits p q \<Longrightarrow> I (fst p) \<Longrightarrow> list_all2 (\<lambda>(c, x) r. thread_yields I x r) (snd (snd (snd p))) rs \<Longrightarrow>
     I (fst q) \<and> list_all2 (\<lambda>(c, x) r. thread_yields I x r) (snd (snd (snd q))) rs"
proof (induction rule: process_run.induct)
  case (then_step p q r)
  then show ?case using process_step_yields [OF then_step.hyps(2)] by blast
qed auto

lemma sequential_yields:
  fixes t :: "('s, 'e, 'a) task" and sources :: "(string \<times> ('s, 'e, 'a) task) list"
  shows "yields I t r \<Longrightarrow> \<forall>s. I s \<longrightarrow> I (fst (sequential t s)) \<and> snd (sequential t s) = r"
    and "all_yield I sources rs \<Longrightarrow> \<forall>s. I s \<longrightarrow> I (fst (run_all (map (map_prod id sequential) sources) s)) \<and>
     snd (run_all (map (map_prod id sequential) sources) s) = rs"
proof (induction rule: yields_all_yield.inducts)
  case (gathers sources rs k r)
  show ?case
  proof (intro allI impI)
    fix s assume "I s"
    with gathers.IH(2) have "I (fst (run_all (map (map_prod id sequential) sources) s))"
      "snd (run_all (map (map_prod id sequential) sources) s) = rs" by blast+
    then show "I (fst (sequential (Gather sources k) s)) \<and> snd (sequential (Gather sources k) s) = r"
      using gathers.IH(4) by (simp add: case_prod_beta)
  qed
next
  case (one_more t r sources rs n)
  show ?case
  proof (intro allI impI)
    fix s assume "I s"
    with one_more.IH(2) have "I (fst (sequential t s))" "snd (sequential t s) = r" by blast+
    then show "I (fst (run_all (map (map_prod id sequential) ((n, t) # sources)) s)) \<and>
        snd (run_all (map (map_prod id sequential) ((n, t) # sources)) s) = (n, fetched_of r) # rs"
      using one_more.IH(4) [rule_format, of "fst (sequential t s)"] by (simp add: case_prod_beta Let_def)
  qed
qed auto

lemma answered_yields:
  "list_all answered_thread ts \<Longrightarrow> list_all2 (\<lambda>(c, x) r. thread_yields I x r) ts rs \<Longrightarrow>
     map snd ts = map (\<lambda>r. Run (Return r)) rs"
proof (induction ts arbitrary: rs)
  case (Cons cx ts)
  then show ?case
    by (auto simp: list_all2_Cons1 answered_thread_def split: thread.splits task.splits)
qed auto

text \<open>Pages whose sources do not depend on each other's effects are answered as if each had run alone,
  one source after the other.\<close>

lemma any_schedule_is_sequential:
  assumes "process_run permits (serving s reqs) (s', g, d, ts)" "list_all answered_thread ts" "I s"
    "list_all2 (\<lambda>(c, t) r. yields I t r) reqs rs"
  shows "map snd ts = map (\<lambda>(c, t). Run (Return (snd (sequential t s)))) reqs"
proof -
  have "list_all2 (\<lambda>(c, x) r. thread_yields I x r) (snd (snd (snd (serving s reqs)))) rs"
    unfolding serving_def snd_conv list.rel_map using assms(4) by (rule list.rel_mono_strong) auto
  from process_run_yields [OF assms(1) _ this] assms(3)
  have "list_all2 (\<lambda>(c, x) r. thread_yields I x r) ts rs" by (simp add: serving_def)
  from answered_yields [OF assms(2) this] have "map snd ts = map (\<lambda>r. Run (Return r)) rs" .
  moreover have "rs = map (\<lambda>(c, t). snd (sequential t s)) reqs"
    using assms(4)
  proof (induction reqs rs rule: list_all2_induct)
    case (Cons ct reqs r rs)
    then show ?case using sequential_yields(1) assms(3) by (cases ct) fastforce
  qed simp
  ultimately show ?thesis by (auto simp: comp_def)
qed

subsection \<open>The cloud's reads as tasks\<close>

text \<open>
  \<open>http.request\<close> with its semaphore: every attempt is sent inside the gate, the waits between attempts
  happen outside it. \<open>answer k\<close> is what attempt \<open>k\<close> meets, \<open>fin\<close> goes on with the reply.
\<close>

function gated_loop :: "string \<Rightarrow> (nat \<Rightarrow> attempt) \<Rightarrow> nat \<Rightarrow> (zadara_error + response \<Rightarrow> ('s, 'e, 'a) task) \<Rightarrow> ('s, 'e, 'a) task" where
  "gated_loop verb answer k fin = Request id (\<lambda>_.
     case answer k of
       TimedOut \<Rightarrow> fin (Inl (ZadaraError ''timeout'' ''Zadara did not respond in time'' None))
     | Unreachable \<Rightarrow> fin (Inl (ZadaraError ''network_error'' ''Failed to reach Zadara API'' None))
     | Answered r \<Rightarrow>
         if upper verb = ''GET'' \<and> resp_status r \<in> set RETRYABLE_STATUS \<and> k < MAX_RETRIES then
           Local id (\<lambda>_. gated_loop verb answer (k + 1) fin)
         else if resp_status r = 429 \<and> k < MAX_RETRIES then
           Local id (\<lambda>_. gated_loop verb answer (k + 1) fin)
         else fin (Inr r))"
  by pat_completeness auto
termination
  by (relation "measure (\<lambda>(_, _, k, _). MAX_RETRIES - k)") auto

declare gated_loop.simps [simp del]

definition gated_request :: "string \<Rightarrow> string \<Rightarrow> (nat \<Rightarrow> attempt) \<Rightarrow> (zadara_error + response \<Rightarrow> ('s, 'e, 'a) task)
    \<Rightarrow> ('s, 'e, 'a) task" where
  "gated_request base_url verb answer fin =
     (if base_url = [] then fin (Inl (ZadaraError ''unexpected'' ''ZADARA_API_URL is not configured'' None))
      else gated_loop verb answer 0 fin)"

text \<open>\<open>_cached_get\<close> step by step: the version, the entry, the request and the store are separate accesses
  to the shared cache; \<open>now\<close> is the time of the lookup and \<open>later\<close> that of the store.\<close>

definition cached_read :: "(string \<Rightarrow> string) \<Rightarrow> string \<Rightarrow> (nat \<Rightarrow> attempt) \<Rightarrow> string \<Rightarrow> int \<times> int \<Rightarrow> string
    \<Rightarrow> (cache, failure, json) task" where
  "cached_read digest base_url answer token clocks path = (case clocks of (now, later) \<Rightarrow>
     Local id (\<lambda>c. let key = response_key (digest token) (scope_version c now (digest token)) (digest path) in
     Local id (\<lambda>c. let hit = cache_get c now key in
       if hit \<noteq> JNull then Return (Inr hit)
       else gated_request base_url ''GET'' answer (\<lambda>reply. case authed_get reply of
           Inl e \<Rightarrow> Return (Inl e)
         | Inr v \<Rightarrow> if v \<noteq> JNull then Local (cache_set key v (Some (later + RESPONSE_CACHE_TTL))) (\<lambda>_. Return (Inr v))
             else Return (Inr v)))))"

lemma gated_loop_yields:
  "yields I (fin (snd (request_loop http_date clock verb answer k sleeps))) r \<Longrightarrow> yields I (gated_loop verb answer k fin) r"
proof (induction verb answer k fin arbitrary: sleeps rule: gated_loop.induct)
  case (1 verb answer k fin)
  show ?case
    by (subst gated_loop.simps)
      (use 1 in \<open>auto simp: request_loop.simps [of _ _ _ _ k] split: attempt.splits if_splits\<close>)
qed

lemma gated_request_yields:
  "yields I (fin (snd (request base_url http_date clock verb answer))) r \<Longrightarrow>
     yields I (gated_request base_url verb answer fin) r"
  by (auto simp: gated_request_def request_def split: if_splits intro: gated_loop_yields)

subsection \<open>A page's reads in parallel\<close>

text \<open>What a cache holds for these paths under the token's current version is what the cloud answers.\<close>

definition agrees :: "(string \<Rightarrow> string) \<Rightarrow> string \<Rightarrow> (string \<Rightarrow> zadara_error + response) \<Rightarrow> string set \<Rightarrow> nat \<Rightarrow> cache \<Rightarrow> bool" where
  "agrees digest token reply paths ver c =
     ((\<forall>now. scope_version c now (digest token) = ver) \<and>
      (\<forall>p \<in> paths. \<forall>now. cache_get c now (response_key (digest token) ver (digest p)) \<noteq> JNull \<longrightarrow>
         authed_get (reply p) = Inr (cache_get c now (response_key (digest token) ver (digest p)))))"

definition page_task :: "(string \<Rightarrow> string) \<Rightarrow> string \<Rightarrow> (string \<Rightarrow> nat \<Rightarrow> attempt) \<Rightarrow> string
    \<Rightarrow> (string \<times> (int \<times> int) \<times> string) list \<Rightarrow> ((string \<times> (failure, json) fetched) list \<Rightarrow> failure + json)
    \<Rightarrow> (cache, failure, json) task" where
  "page_task digest base_url answer token sources assemble =
     Gather (map (\<lambda>(n, clocks, path). (n, cached_read digest base_url (answer path) token clocks path)) sources)
       (\<lambda>rs. Return (assemble rs))"

lemma cache_get_set:
  "cache_get (cache_set k v (Some e) c) now k' = (if k' = k then (if now < e then v else JNull) else cache_get c now k')"
  by (simp add: cache_get_def map_of_cache_set)

lemma agrees_set:
  assumes "agrees digest token reply paths ver c" "authed_get (reply path) = Inr v" "inj_on digest paths" "path \<in> paths"
  shows "agrees digest token reply paths ver
    (cache_set (response_key (digest token) ver (digest path)) v (Some e) c)"
proof -
  have same: "response_key (digest token) ver (digest p) = response_key (digest token) ver (digest path) \<longleftrightarrow> p = path"
    if "p \<in> paths" for p using that assms(3,4) by (auto simp: response_key_def inj_on_def)
  show ?thesis using assms(1,2) by (auto simp: agrees_def cache_get_set same scope_version_def)
qed

lemma cached_read_yields:
  assumes "inj_on digest paths" "path \<in> paths"
    "\<And>p. reply p = snd (request base_url http_date clock ''GET'' (answer p))"
  shows "yields (agrees digest token reply paths ver) (cached_read digest base_url (answer path) token clocks path)
    (authed_get (reply path))"
proof -
  obtain now later where clocks: "clocks = (now, later)" by (cases clocks)
  let ?key = "response_key (digest token) ver (digest path)"
  let ?read = "\<lambda>reply. case authed_get reply of Inl e \<Rightarrow> Return (Inl e)
    | Inr v \<Rightarrow> if v \<noteq> JNull then Local (cache_set ?key v (Some (later + RESPONSE_CACHE_TTL))) (\<lambda>_. Return (Inr v))
        else Return (Inr v)"
  have "yields (agrees digest token reply paths ver) (?read (reply path)) (authed_get (reply path))"
    using agrees_set [OF _ _ assms(1,2)] by (auto split: sum.splits)
  then have "yields (agrees digest token reply paths ver) (gated_request base_url ''GET'' (answer path) ?read)
      (authed_get (reply path))"
    unfolding assms(3) by (rule gated_request_yields)
  then show ?thesis
    using assms(2) by (auto simp: cached_read_def clocks Let_def agrees_def)
qed

lemma cached_get_agrees:
  assumes "agrees digest token reply paths ver c" "path \<in> paths"
  shows "snd (cached_get digest path token (reply path) now c) = authed_get (reply path)"
  using assms by (auto simp: cached_get_def agrees_def Let_def split: sum.splits)

lemma page_yields:
  assumes "inj_on digest paths" "snd ` snd ` set sources \<subseteq> paths"
    "\<And>p. reply p = snd (request base_url http_date clock ''GET'' (answer p))"
  shows "yields (agrees digest token reply paths ver) (page_task digest base_url answer token sources assemble)
    (assemble (map (\<lambda>(n, clocks, path). (n, fetched_of (authed_get (reply path)))) sources))"
proof -
  have "all_yield (agrees digest token reply paths ver)
      (map (\<lambda>(n, clocks, path). (n, cached_read digest base_url (answer path) token clocks path)) sources)
      (map (\<lambda>(n, clocks, path). (n, fetched_of (authed_get (reply path)))) sources)"
    using assms(2)
  proof (induction sources)
    case (Cons source sources)
    obtain n clocks path where source: "source = (n, clocks, path)" by (cases source)
    have "yields (agrees digest token reply paths ver) (cached_read digest base_url (answer path) token clocks path)
        (authed_get (reply path))"
      by (rule cached_read_yields [OF assms(1) _ assms(3)]) (use Cons.prems source in auto)
    then show ?case using Cons source by auto
  qed simp
  then show ?thesis by (auto simp: page_task_def)
qed

text \<open>C6. Fetching a page's sources at the same time changes nothing in what the page shows. Let any number of
  pages of one session gather any cached reads, through one gate and one shared cache that holds nothing but
  what the cloud answers to this session for these paths, and let the threads move in any order: each
  page that is answered got for every source exactly what one cached read of that path from the
  cache at the start returns, a failed source as its own failure beside the others' values.\<close>

theorem parallel_reads_are_sequential:
  assumes "process_run permits (serving c (map (\<lambda>(own, sources, assemble).
      (own, page_task digest base_url answer token sources assemble)) pages)) (c', g, d, ts)"
    "list_all answered_thread ts"
    "reply = (\<lambda>p. snd (request base_url http_date clock ''GET'' (answer p)))"
    "inj_on digest paths" "agrees digest token reply paths ver c"
    "list_all (\<lambda>(own, sources, assemble). snd ` snd ` set sources \<subseteq> paths) pages"
  shows "map snd ts = map (\<lambda>(own, sources, assemble). Run (Return (assemble
    (map (\<lambda>(n, (now, later), path). (n, fetched_of (snd (cached_get digest path token (reply path) now c)))) sources)))) pages"
proof -
  let ?I = "agrees digest token reply paths ver"
  let ?page = "\<lambda>sources assemble. assemble (map (\<lambda>(n, clocks, path). (n, fetched_of (authed_get (reply path)))) sources)"
  have within: "snd ` snd ` set sources \<subseteq> paths" if "(own, sources, assemble) \<in> set pages" for own sources assemble
    using bspec [OF assms(6) [unfolded list_all_iff] that] by simp
  have yield: "yields ?I (page_task digest base_url answer token sources assemble) (?page sources assemble)"
    if "(own, sources, assemble) \<in> set pages" for own sources assemble
    by (rule page_yields [OF assms(4) within [OF that]]) (simp add: assms(3))
  have all: "list_all2 (\<lambda>(own, t) r. yields ?I t r)
      (map (\<lambda>(own, sources, assemble). (own, page_task digest base_url answer token sources assemble)) pages)
      (map (\<lambda>(own, sources, assemble). ?page sources assemble) pages)"
    by (auto simp: list.rel_map intro!: list.rel_refl_strong yield)
  have same: "map (\<lambda>(n, (now, later), path). (n, fetched_of (snd (cached_get digest path token (reply path) now c)))) sources
      = map (\<lambda>(n, clocks, path). (n, fetched_of (authed_get (reply path)))) sources"
    if "(own, sources, assemble) \<in> set pages" for own sources assemble
  proof (rule map_cong [OF refl])
    fix source assume source: "source \<in> set sources"
    obtain n now later path where parts: "source = (n, (now, later), path)" by (metis prod_cases4 surj_pair)
    have "path \<in> snd ` snd ` set sources" using source parts by force
    then have "path \<in> paths" using within [OF that] by blast
    then show "(\<lambda>(n, (now, later), path). (n, fetched_of (snd (cached_get digest path token (reply path) now c)))) source =
        (\<lambda>(n, clocks, path). (n, fetched_of (authed_get (reply path)))) source"
      by (simp add: parts cached_get_agrees [OF assms(5)])
  qed
  have "snd (sequential (page_task digest base_url answer token sources assemble) c) = ?page sources assemble"
    if "(own, sources, assemble) \<in> set pages" for own sources assemble
    using sequential_yields(1) [OF yield [OF that]] assms(5) by blast
  with any_schedule_is_sequential [OF assms(1,2,5) all] show ?thesis
    by (auto simp: same)
qed

definition demo_answer :: "string \<Rightarrow> nat \<Rightarrow> attempt" where
  "demo_answer p k = (if p = ''a'' then Answered \<lparr>resp_status = 200, resp_headers = [], resp_json = Some (JInt 7)\<rparr>
     else TimedOut)"

definition demo_shown :: "(string \<times> (failure, json) fetched) list \<Rightarrow> failure + json" where
  "demo_shown rs = Inr (JInt (int (length (filter (\<lambda>(n, f). outcome_ok f) rs))))"

definition demo_page :: "bool \<times> (string \<times> (int \<times> int) \<times> string) list \<times> ((string \<times> (failure, json) fetched) list \<Rightarrow> failure + json)" where
  "demo_page = (True, [(''vms'', (0, 1), ''a''), (''eips'', (0, 2), ''b''), (''again'', (3, 4), ''a'')], demo_shown)"

lemma demo_reads:
  "snd (cached_get id ''a'' ''t'' (snd (request ''u'' (\<lambda>_. None) (\<lambda>_. 0) ''GET'' (demo_answer ''a''))) now []) = Inr (JInt 7)"
  "snd (cached_get id ''b'' ''t'' (snd (request ''u'' (\<lambda>_. None) (\<lambda>_. 0) ''GET'' (demo_answer ''b''))) now []) =
     Inl (Zadara (ZadaraError ''timeout'' ''Zadara did not respond in time'' None))"
  by (simp_all add: cached_get_def request_def request_loop.simps demo_answer_def cache_get_def authed_get_def
      RETRYABLE_STATUS_def resp_ok_def body_of_def Let_def)

lemma parallel_reads_are_sequential_witness:
  "\<exists>c g d ts. process_run 1 (serving [] (map (\<lambda>(own, sources, assemble).
      (own, page_task id ''u'' demo_answer ''t'' sources assemble)) [demo_page])) (c, g, d, ts) \<and>
    map snd ts = [Run (Return (Inr (JInt 2)))]"
proof -
  let ?p = "serving [] (map (\<lambda>(own, sources, assemble). (own, page_task id ''u'' demo_answer ''t'' sources assemble)) [demo_page])"
  obtain q where "process_run 1 ?p q" "all_answered q"
    using run_completes [OF zero_less_one serving_accounted, of "[]"] by blast
  moreover obtain c g d ts where "q = (c, g, d, ts)" by (cases q)
  ultimately have run: "process_run 1 ?p (c, g, d, ts)" "list_all answered_thread ts" by (simp_all add: all_answered_def)
  have "agrees id ''t'' (\<lambda>p. snd (request ''u'' (\<lambda>_. None) (\<lambda>_. 0) ''GET'' (demo_answer p))) {''a'', ''b''} 0 []"
    by (simp add: agrees_def scope_version_def cache_get_def)
  from parallel_reads_are_sequential [OF run refl _ this] have "map snd ts = [Run (Return (Inr (JInt 2)))]"
    by (simp add: demo_page_def demo_reads demo_shown_def outcome_ok_def fetched_of_def)
  note shown = this
  show ?thesis
  proof (intro exI conjI)
    show "process_run 1 ?p (c, g, d, ts)" by (rule run(1))
    show "map snd ts = [Run (Return (Inr (JInt 2)))]" by (rule shown)
  qed
qed

subsection \<open>Invalidations that overlap\<close>

text \<open>\<open>invalidate\<close> reads the counter and writes it back, as two accesses to the shared cache.\<close>

definition invalidation :: "(string \<Rightarrow> string) \<Rightarrow> string \<Rightarrow> int \<Rightarrow> (cache, failure, json) task" where
  "invalidation digest token now =
     Local id (\<lambda>c. let v = scope_version c now (digest token) in
     Local (cache_set (version_key (digest token)) (JInt (int v + 1)) None) (\<lambda>_. Return (Inr JNull)))"

lemma invalidation_alone:
  "fst (sequential (invalidation digest token now) c) = invalidate digest token now c"
  by (simp add: invalidation_def invalidate_def Let_def)

lemma move_again:
  assumes "process_run permits p (s, g, d, ts[i := (own, x)])" "i < length ts"
    "thread_step permits (s, g, d, own, x) (s', g', d', own', x')"
  shows "process_run permits p (s', g', d', ts[i := (own', x')])"
  using move_nth [OF assms(1) _ _ assms(3), of i] assms(2) by simp

lemma scope_version_set:
  "scope_version (cache_set (version_key s) (JInt (int n)) None c) now s = n"
  "scope_version (cache_set (response_key s' m p) v e c) now s = scope_version c now s"
  "scope_version [] now s = 0"
  by (simp_all add: scope_version_def cache_get_def map_of_cache_set)

lemma one_version: "scope_version (cache_set (version_key s) (JInt 1) None c) now s = 1"
  using scope_version_set(1) [of s 1] by simp

lemma cached_read_runs:
  assumes "process_run permits p (c, 0, d, ts)" "i < length ts"
    "ts ! i = (own, Run (cached_read digest base_url (\<lambda>_. Answered r) token (now, now) path))"
    "key = response_key (digest token) (scope_version c now (digest token)) (digest path)" "cache_get c now key = JNull"
    "authed_get (Inr r) = Inr v" "v \<noteq> JNull" "base_url \<noteq> []" "0 < permits"
  shows "process_run permits p (cache_set key v (Some (now + RESPONSE_CACHE_TTL)) c, 0, d, ts[i := (own, Run (Return (Inr v)))])"
proof -
  let ?fin = "\<lambda>reply. case authed_get reply of Inl e \<Rightarrow> Return (Inl e)
    | Inr v \<Rightarrow> if v \<noteq> JNull then Local (cache_set key v (Some (now + RESPONSE_CACHE_TTL))) (\<lambda>_. Return (Inr v))
        else Return (Inr v)"
  let ?store = "Local (cache_set key v (Some (now + RESPONSE_CACHE_TTL))) (\<lambda>_. Return (Inr v))"
  let ?look = "\<lambda>c. let hit = cache_get c now key in
       if hit \<noteq> JNull then Return (Inr hit) else gated_request base_url ''GET'' (\<lambda>_. Answered r) ?fin"
  have ok: "resp_status r < 400" using assms(6) by (auto simp: authed_get_def resp_ok_def split: if_splits)
  have asks: "?look c = Request id (\<lambda>_. ?store)"
    using ok assms(5-8) by (simp add: gated_request_def gated_loop.simps RETRYABLE_STATUS_def)
  have "thread_step permits (c, 0, d, own, Run (cached_read digest base_url (\<lambda>_. Answered r) token (now, now) path))
      (id c, 0, d, own, Run (Local id ?look))"
    unfolding cached_read_def prod.case assms(4) Let_def by (rule thread_step.local)
  from move_nth [OF assms(1-3) this]
  have "process_run permits p (c, 0, d, ts[i := (own, Run (Local id ?look))])" by simp
  from move_again [OF this assms(2) thread_step.local]
  have "process_run permits p (c, 0, d, ts[i := (own, Run (Request id (\<lambda>_. ?store)))])" by (simp only: asks id_apply)
  from move_again [OF this assms(2) acquire [OF assms(9)]]
  have "process_run permits p (c, 1, d, ts[i := (own, InGate id (\<lambda>_. ?store))])" by simp
  from move_again [OF this assms(2) release]
  have "process_run permits p (c, 0, d, ts[i := (own, Run ?store)])" by simp
  from move_again [OF this assms(2) thread_step.local]
  show ?thesis by simp
qed

abbreviation write_version :: "(string \<Rightarrow> string) \<Rightarrow> string \<Rightarrow> int \<Rightarrow> (cache, failure, json) task" where
  "write_version digest token n \<equiv> Local (cache_set (version_key (digest token)) (JInt n) None) (\<lambda>_. Return (Inr JNull))"

lemma invalidation_reads:
  assumes "process_run permits p (c, 0, d, ts)" "i < length ts" "ts ! i = (own, Run (invalidation digest token now))"
  shows "process_run permits p
    (c, 0, d, ts[i := (own, Run (write_version digest token (int (scope_version c now (digest token)) + 1)))])"
  using move_nth [OF assms, of c 0 d own] thread_step.local by (metis (no_types, lifting) id_apply invalidation_def)

lemma invalidation_writes:
  assumes "process_run permits p (c, 0, d, ts)" "i < length ts" "ts ! i = (own, Run (write_version digest token n))"
  shows "process_run permits p
    (cache_set (version_key (digest token)) (JInt n) None c, 0, d, ts[i := (own, Run (Return (Inr JNull)))])"
  using move_nth [OF assms thread_step.local] .

text \<open>C24. An invalidation can be lost. Three changes of one session invalidate its cached answers while a page reads a
  list: the read is over before the third invalidation has even begun, yet when all is done the next read is
  still given the list from before that change, whatever the cloud would answer now. The first
  invalidation, delayed between its read of the counter and its write, sets the counter back.\<close>

theorem late_invalidation_revives_the_past:
  assumes "authed_get (Inr r) = Inr old" "old \<noteq> JNull" "base_url \<noteq> []" "0 < permits"
  shows "\<exists>p q. process_run permits (serving [] [(False, invalidation digest token now), (False, invalidation digest token now),
        (False, cached_read digest base_url (\<lambda>_. Answered r) token (now, now) path), (False, invalidation digest token now)]) p \<and>
      answered_thread (snd (snd (snd p)) ! 2) \<and> snd (snd (snd p)) ! 3 = (False, Run (invalidation digest token now)) \<and>
      process_run permits p q \<and> all_answered q \<and> snd (cached_get digest path token reply now (fst q)) = Inr old"
proof -
  let ?d = "digest token" and ?inv = "invalidation digest token now" and ?ans = "\<lambda>_ :: nat. Answered r"
  let ?read = "cached_read digest base_url ?ans token (now, now) path"
  let ?bump = "write_version digest token"
  let ?gone = "\<lambda>v. (False, Run (Return (Inr v))) :: bool \<times> (cache, failure, json) thread"
  let ?key = "response_key ?d 1 (digest path)" and ?e = "Some (now + RESPONSE_CACHE_TTL)"
  let ?c1 = "cache_set (version_key ?d) (JInt 1) None []"
  let ?c2 = "cache_set ?key old ?e ?c1"
  let ?c3 = "cache_set (version_key ?d) (JInt 2) None ?c2"
  let ?c4 = "cache_set (version_key ?d) (JInt 1) None ?c3"
  let ?start = "serving [] [(False, ?inv), (False, ?inv), (False, ?read), (False, ?inv)]"
  note bump = invalidation_reads [where own = False and digest = digest and token = token and now = now]
    and set = invalidation_writes [where own = False and digest = digest and token = token]
  have "process_run permits ?start ([], 0, 0, [(False, Run ?inv), (False, Run ?inv), (False, Run ?read), (False, Run ?inv)])"
    by (simp add: serving_def here)
  from bump [OF this, of 0] have "process_run permits ?start
      ([], 0, 0, [(False, Run (?bump 1)), (False, Run ?inv), (False, Run ?read), (False, Run ?inv)])"
    by (simp add: scope_version_set)
  from bump [OF this, of 1] have "process_run permits ?start
      ([], 0, 0, [(False, Run (?bump 1)), (False, Run (?bump 1)), (False, Run ?read), (False, Run ?inv)])"
    by (simp add: scope_version_set)
  from set [OF this, of 1 1] have "process_run permits ?start
      (?c1, 0, 0, [(False, Run (?bump 1)), ?gone JNull, (False, Run ?read), (False, Run ?inv)])"
    by simp
  from cached_read_runs [OF this, of 2 False digest base_url r token now path ?key old] assms
  have read: "process_run permits ?start
      (?c2, 0, 0, [(False, Run (?bump 1)), ?gone JNull, ?gone old, (False, Run ?inv)])" (is "process_run _ _ ?p")
    by (simp add: one_version cache_get_def map_of_cache_set numeral_2_eq_2 del: One_nat_def)
  have "process_run permits ?p ?p" by (rule here)
  from bump [OF this, of 3] have "process_run permits ?p
      (?c2, 0, 0, [(False, Run (?bump 1)), ?gone JNull, ?gone old, (False, Run (?bump 2))])"
    by (simp add: scope_version_set one_version numeral_3_eq_3)
  from set [OF this, of 3 2] have "process_run permits ?p
      (?c3, 0, 0, [(False, Run (?bump 1)), ?gone JNull, ?gone old, ?gone JNull])"
    by (simp add: numeral_3_eq_3)
  from set [OF this, of 0 1] have over: "process_run permits ?p
      (?c4, 0, 0, [?gone JNull, ?gone JNull, ?gone old, ?gone JNull])" (is "process_run _ _ ?q")
    by simp
  have "snd (cached_get digest path token reply now ?c4) = Inr old"
    using assms(2) by (simp add: cached_get_def Let_def one_version cache_get_def map_of_cache_set RESPONSE_CACHE_TTL_def)
  then show ?thesis
    using read over by (intro exI [of _ ?p] exI [of _ ?q]) (simp add: answered_thread_def all_answered_def numeral_3_eq_3)
qed

lemma late_invalidation_revives_the_past_witness:
  "\<exists>p q. process_run 12 (serving [] [(False, invalidation id ''t'' 0), (False, invalidation id ''t'' 0),
        (False, cached_read id ''u'' (\<lambda>_. Answered \<lparr>resp_status = 200, resp_headers = [], resp_json = Some (JInt 7)\<rparr>)
           ''t'' (0, 0) ''vms''), (False, invalidation id ''t'' 0)]) p \<and>
      answered_thread (snd (snd (snd p)) ! 2) \<and> snd (snd (snd p)) ! 3 = (False, Run (invalidation id ''t'' 0)) \<and>
      process_run 12 p q \<and> all_answered q \<and>
      snd (cached_get id ''vms'' ''t'' (Inr \<lparr>resp_status = 200, resp_headers = [], resp_json = Some (JInt 8)\<rparr>) 0 (fst q)) = Inr (JInt 7)"
  by (rule late_invalidation_revives_the_past) (simp_all add: authed_get_def resp_ok_def body_of_def)

end
