(* ===== verification/Url_Patterns.thy ===== *)
theory Url_Patterns
  imports Prelude
begin

text \<open>
  How a path finds its view. The route texts of the URL tables (\<open>path('vms/<str:vm_id>/actions', ...)\<close>), what
  Django makes of them as documented (text is matched as it stands, a \<open>str\<close> converter takes the longest
  non-empty run without a slash, the first route that matches wins, a table that was included is left
  again when nothing in it matches), and building a path from a route and its arguments.
\<close>

subsection \<open>Route texts\<close>

datatype symbol = Sym char | Hole string

type_synonym pattern = "symbol list"

text \<open>The converters of the tables are all \<open>str\<close>: what stands between \<open><str:\<close> and \<open>>\<close> is the argument's name.\<close>

function route :: "string \<Rightarrow> pattern" where
  "route [] = []"
| "route (c # s) =
     (if c = CHR ''<'' then Hole (drop 4 (takeWhile (\<lambda>c. c \<noteq> CHR ''>'') s)) # route (drop 1 (dropWhile (\<lambda>c. c \<noteq> CHR ''>'') s))
      else Sym c # route s)"
  by pat_completeness auto
termination
proof (relation "measure length")
  fix c :: char and s
  have "length (dropWhile (\<lambda>c. c \<noteq> CHR ''>'') s) \<le> length s" by (rule length_dropWhile_le)
  then show "(drop 1 (dropWhile (\<lambda>c. c \<noteq> CHR ''>'') s), c # s) \<in> measure length" by simp
qed simp_all

subsection \<open>Matching\<close>

definition segment :: "string \<Rightarrow> string" where
  "segment s = takeWhile (\<lambda>c. c \<noteq> CHR ''/'') s"

definition after_segment :: "string \<Rightarrow> string" where
  "after_segment s = dropWhile (\<lambda>c. c \<noteq> CHR ''/'') s"

type_synonym arguments = "(string \<times> string) list"

fun matched :: "pattern \<Rightarrow> string \<Rightarrow> (arguments \<times> string) option" where
  "matched [] s = Some ([], s)"
| "matched (Sym c # p) [] = None"
| "matched (Sym c # p) (x # s) = (if x = c then matched p s else None)"
| "matched (Hole n # p) s =
     (if segment s = [] then None
      else (case matched p (after_segment s) of None \<Rightarrow> None | Some (kw, rest) \<Rightarrow> Some ((n, segment s) # kw, rest)))"

datatype 'v url = Path pattern 'v | Include pattern "'v url list"

fun resolve :: "'v url list \<Rightarrow> string \<Rightarrow> ('v \<times> arguments) option" where
  "resolve [] s = None"
| "resolve (Path p v # us) s = (case matched p s of Some (kw, []) \<Rightarrow> Some (v, kw) | _ \<Rightarrow> resolve us s)"
| "resolve (Include p sub # us) s = (case matched p s of
     None \<Rightarrow> resolve us s
   | Some (kw, rest) \<Rightarrow> (case resolve sub rest of Some (v, kw') \<Rightarrow> Some (v, kw @ kw') | None \<Rightarrow> resolve us s))"

text \<open>\<open>reverse\<close>: the arguments take the places of the converters in turn.\<close>

fun built :: "pattern \<Rightarrow> string list \<Rightarrow> string" where
  "built [] vs = []"
| "built (Sym c # p) vs = c # built p vs"
| "built (Hole n # p) [] = []"
| "built (Hole n # p) (v # vs) = v @ built p vs"

fun holes :: "pattern \<Rightarrow> string list" where
  "holes [] = []"
| "holes (Sym c # p) = holes p"
| "holes (Hole n # p) = n # holes p"

subsection \<open>A table as the list of its full routes\<close>

fun leaves :: "'v url list \<Rightarrow> (pattern \<times> 'v) list" where
  "leaves [] = []"
| "leaves (Path p v # us) = (p, v) # leaves us"
| "leaves (Include p sub # us) = map (\<lambda>(q, v). (p @ q, v)) (leaves sub) @ leaves us"

fun first_match :: "(pattern \<times> 'v) list \<Rightarrow> string \<Rightarrow> ('v \<times> arguments) option" where
  "first_match [] s = None"
| "first_match ((p, v) # ls) s = (case matched p s of Some (kw, []) \<Rightarrow> Some (v, kw) | _ \<Rightarrow> first_match ls s)"

lemma matched_append:
  "matched (p @ q) s = (case matched p s of None \<Rightarrow> None
     | Some (kw, rest) \<Rightarrow> (case matched q rest of None \<Rightarrow> None | Some (kw', rest') \<Rightarrow> Some (kw @ kw', rest')))"
  by (induction p s rule: matched.induct) (auto split: option.splits)

lemma first_match_append:
  "first_match (ls @ ms) s = (case first_match ls s of Some r \<Rightarrow> Some r | None \<Rightarrow> first_match ms s)"
  by (induction ls s rule: first_match.induct) (auto split: option.splits list.splits)

lemma first_match_prefixed:
  "first_match (map (\<lambda>(q, v). (p @ q, v)) ls) s = (case matched p s of None \<Rightarrow> None
     | Some (kw, rest) \<Rightarrow> map_option (\<lambda>(v, kw'). (v, kw @ kw')) (first_match ls rest))"
proof (induction ls)
  case (Cons l ls)
  then show ?case by (cases l) (auto simp: matched_append split: option.splits list.splits)
qed (auto split: option.splits)

lemma resolve_leaves: "resolve us s = first_match (leaves us) s"
proof (induction us s rule: resolve.induct)
  case (3 p sub us s)
  then show ?case
    by (cases "matched p s") (auto simp: first_match_append first_match_prefixed split: option.splits)
qed (auto split: option.splits list.splits)

text \<open>A path that resolves does so by one full route of the table, matched to its end.\<close>

lemma first_match_leaf:
  "first_match ls s = Some (v, kw) \<Longrightarrow> \<exists>p. (p, v) \<in> set ls \<and> matched p s = Some (kw, [])"
proof (induction ls s rule: first_match.induct)
  case (2 p w ls s)
  then show ?case by (auto split: option.splits list.splits) blast+
qed simp

lemma resolve_leaf: "resolve us s = Some (v, kw) \<Longrightarrow> \<exists>p. (p, v) \<in> set (leaves us) \<and> matched p s = Some (kw, [])"
  by (simp add: resolve_leaves first_match_leaf)

subsection \<open>Which routes can meet\<close>

text \<open>The text every match begins with.\<close>

fun fixed_text :: "pattern \<Rightarrow> string" where
  "fixed_text (Sym c # p) = c # fixed_text p"
| "fixed_text _ = []"

fun comparable :: "string \<Rightarrow> string \<Rightarrow> bool" where
  "comparable (a # s) (b # t) = (a = b \<and> comparable s t)"
| "comparable _ _ = True"

lemma matched_fixed: "matched p s = Some r \<Longrightarrow> starts_with s (fixed_text p)"
  by (induction p s arbitrary: r rule: matched.induct) (auto split: if_splits)

lemma matched_comparable: "matched p s = Some r \<Longrightarrow> starts_with s t \<Longrightarrow> comparable (fixed_text p) t"
proof -
  have "starts_with s a \<Longrightarrow> starts_with s b \<Longrightarrow> comparable a b" for a b
    by (induction s a arbitrary: b rule: starts_with.induct; case_tac b) auto
  then show "matched p s = Some r \<Longrightarrow> starts_with s t \<Longrightarrow> ?thesis" using matched_fixed by blast
qed

text \<open>Whether some path matches both routes to the end; a converter against text that itself has a
  converter before the next slash is taken to be possible, and so is everything beyond the \<open>k\<close> symbols looked at.\<close>

fun skip_segment :: "pattern \<Rightarrow> pattern option" where
  "skip_segment [] = Some []"
| "skip_segment (Sym c # p) = (if c = CHR ''/'' then Some (Sym c # p) else skip_segment p)"
| "skip_segment (Hole n # p) = None"

fun meet :: "nat \<Rightarrow> pattern \<Rightarrow> pattern \<Rightarrow> bool" where
  "meet 0 p q = True"
| "meet (Suc k) [] [] = True"
| "meet (Suc k) (Sym a # p) (Sym b # q) = (a = b \<and> meet k p q)"
| "meet (Suc k) (Hole m # p) (Hole n # q) = meet k p q"
| "meet (Suc k) (Hole m # p) (Sym b # q) = (b \<noteq> CHR ''/'' \<and> (case skip_segment q of None \<Rightarrow> True | Some q' \<Rightarrow> meet k p q'))"
| "meet (Suc k) (Sym a # p) (Hole n # q) = (a \<noteq> CHR ''/'' \<and> (case skip_segment p of None \<Rightarrow> True | Some p' \<Rightarrow> meet k p' q))"
| "meet (Suc k) [] (Sym b # q) = False"
| "meet (Suc k) (Sym a # p) [] = False"
| "meet (Suc k) [] (Hole n # q) = False"
| "meet (Suc k) (Hole n # p) [] = False"

lemma skip_matched:
  "skip_segment q = Some q' \<Longrightarrow> matched q s = Some (kw, []) \<Longrightarrow> \<exists>kw'. matched q' (after_segment s) = Some (kw', [])"
  by (induction q s arbitrary: kw rule: matched.induct) (auto simp: after_segment_def split: if_splits)

lemma meets:
  "matched p s = Some (kw, []) \<Longrightarrow> matched q s = Some (kw', []) \<Longrightarrow> meet k p q"
proof (induction k p q arbitrary: s kw kw' rule: meet.induct)
  case (3 k a p b q)
  then show ?case by (cases s) (auto split: if_splits)
next
  case (4 k m p n q)
  then show ?case by (auto split: if_splits option.splits)
next
  case (5 k m p b q)
  then obtain kw'' where "matched p (after_segment s) = Some (kw'', [])" "segment s \<noteq> []"
    by (auto split: if_splits option.splits)
  moreover from 5(3) obtain x where "s = b # x" "matched q x = Some (kw', [])" by (cases s) (auto split: if_splits)
  ultimately show ?case using 5(1) skip_matched [of q _ x]
    by (auto simp: segment_def after_segment_def split: option.splits if_splits) blast
next
  case (6 k a p n q)
  then obtain kw'' where "matched q (after_segment s) = Some (kw'', [])" "segment s \<noteq> []"
    by (auto split: if_splits option.splits)
  moreover from 6(2) obtain x where "s = a # x" "matched p x = Some (kw, [])" by (cases s) (auto split: if_splits)
  ultimately show ?case using 6(1) skip_matched [of p _ x]
    by (auto simp: segment_def after_segment_def split: option.splits if_splits) blast
next
  case (7 k b q)
  then show ?case by (cases s) auto
next
  case (9 k n q)
  then show ?case by (auto simp: segment_def)
next
  case (10 k n p)
  then show ?case by (auto simp: segment_def)
qed (auto split: if_splits; (cases s; auto split: if_splits)?)+

subsection \<open>Building a path and resolving it\<close>

text \<open>Every converter stands before a slash or at the end.\<close>

fun plain :: "pattern \<Rightarrow> bool" where
  "plain [] = True"
| "plain (Sym c # p) = plain p"
| "plain (Hole n # []) = True"
| "plain (Hole n # Sym c # p) = (c = CHR ''/'' \<and> plain p)"
| "plain (Hole n # Hole m # p) = False"

definition plain_value :: "string \<Rightarrow> bool" where
  "plain_value v = (v \<noteq> [] \<and> CHR ''/'' \<notin> set v)"

lemma segment_built:
  assumes "CHR ''/'' \<notin> set v" "t = [] \<or> hd t = CHR ''/''"
  shows "segment (v @ t) = v" "after_segment (v @ t) = t"
proof -
  have "\<forall>x \<in> set v. x \<noteq> CHR ''/''" using assms(1) by auto
  then show "segment (v @ t) = v" "after_segment (v @ t) = t"
    using assms(2) by (cases t; simp add: segment_def after_segment_def takeWhile_append2 dropWhile_append2)+
qed

lemma matched_built:
  "plain p \<Longrightarrow> length vs = length (holes p) \<Longrightarrow> list_all plain_value vs \<Longrightarrow>
     matched p (built p vs) = Some (zip (holes p) vs, [])"
proof (induction p arbitrary: vs rule: plain.induct)
  case (3 n)
  then obtain v where "vs = [v]" by (auto simp: length_Suc_conv)
  then show ?case using 3 segment_built [of v "[]"] by (auto simp: plain_value_def)
next
  case (4 n c p)
  then obtain v ws where vs: "vs = v # ws" by (cases vs) auto
  then have "matched (Sym c # p) (built (Sym c # p) ws) = Some (zip (holes p) ws, [])"
    using 4 by auto
  then show ?case using 4 vs segment_built [of v "c # built p ws"] by (auto simp: plain_value_def)
qed auto

text \<open>The pairs of an earlier and a later route of a table that can meet: only the earlier is ever reached there.\<close>

fun overlaps :: "nat \<Rightarrow> pattern list \<Rightarrow> (pattern \<times> 'v) list \<Rightarrow> (pattern \<times> pattern) list" where
  "overlaps k seen [] = []"
| "overlaps k seen ((p, v) # ls) = map (\<lambda>q. (q, p)) (filter (\<lambda>q. meet k q p) seen) @ overlaps k (p # seen) ls"

lemma overlaps_seen:
  "(p, v) \<in> set ls \<Longrightarrow> q \<in> set seen \<Longrightarrow> meet k q p \<Longrightarrow> (q, p) \<in> set (overlaps k seen ls)"
  by (induction k seen ls rule: overlaps.induct) auto

lemma first_match_built:
  assumes "\<And>q kw'. (q, p) \<in> set (overlaps k seen ls) \<Longrightarrow> matched q s \<noteq> Some (kw', [])"
    "(p, v) \<in> set ls" "matched p s = Some (kw, [])"
  shows "first_match ls s = Some (v, kw)"
  using assms(1,2)
proof (induction k seen ls rule: overlaps.induct)
  case (2 k seen q w ls)
  show ?case
  proof (cases "(p, v) = (q, w)")
    case True
    then show ?thesis using assms(3) by simp
  next
    case False
    then have later: "(p, v) \<in> set ls" using 2(3) by auto
    have "matched q s \<noteq> Some (kw', [])" for kw'
      using meets [OF _ assms(3), of q kw' k] overlaps_seen [OF later, of q "q # seen" k] 2(2) [of q kw'] by auto
    then show ?thesis using 2(1) [OF 2(2) later] by (auto split: option.splits list.splits)
  qed
qed simp

text \<open>A path built from a route resolves to that route and its arguments, unless an earlier route that can
  meet it matches this very path.\<close>

lemma resolve_built:
  assumes "(p, v) \<in> set (leaves us)" "plain p" "length vs = length (holes p)" "list_all plain_value vs"
    "\<And>q kw. (q, p) \<in> set (overlaps k [] (leaves us)) \<Longrightarrow> matched q (built p vs) \<noteq> Some (kw, [])"
  shows "resolve us (built p vs) = Some (v, zip (holes p) vs)"
  unfolding resolve_leaves
  by (rule first_match_built [OF assms(5,1)]) (assumption, rule matched_built [OF assms(2-4)])

end
