(* ===== verification/Front_Door.thy ===== *)
theory Front_Door
  imports Url_Patterns Operators
begin

text \<open>
  The way in. One image runs as two processes, the tenants' cabinet and the operators' panel, and each
  serves its own URL table (\<open>config/urls.py\<close>, \<open>config/urls_admin.py\<close>, every \<open>urls.py\<close> of the apps); every view
  names who may call it (\<open>permission_classes\<close>, \<open>get_permissions\<close>) and which session it believes
  (\<open>authentication_classes\<close>). A request is resolved, its sender identified, the permission asked, and only
  then is the method's handler called, as REST framework documents.

  A view is named by its class; both sides have classes of the same name, so the operators' carry a prefix.
  Django's own admin and the pages of the schema are somebody else's code behind their routes.
\<close>

subsection \<open>The views\<close>

datatype cabinet_view =
    CsrfView | LoginView | LogoutView | RefreshView | MeView | PasswordChangeView | PasswordResetRequestView
  | PasswordResetVerifyView
  | ProjectsView | ProjectSwitchView
  | VmListView | VmDetailView | VmActionView | VmConsoleView | VmMetricsView
  | DashboardView | DashboardMetricsView | VolumeListView | SnapshotListView
  | NetworkOverviewView | SecurityGroupRuleView | SecurityGroupRuleDeleteView
  | UserQuotaView | EventListView | AlarmListView | UserBillingView
  | AdminResourcesView | AdminAuditView | AdminUsersView | AdminUserCreateView | AdminUserDetailView
  | AdminTenantsView | AdminQuotaView
  | AdminBillingView | AdminUsageHistoryView | AdminUsageExportView | AdminInvoiceView | AdminBillingProfileView
  | AdminInvoiceListView | AdminTariffView

datatype platform_view =
    PlatformCsrf | PlatformLogin | PlatformLoginVerify | PlatformLogout | PlatformMe | PlatformPasswordChange
  | PlatformAccounts | PlatformAccountDetail | PlatformUsers | PlatformUserDetail | PlatformResources
  | PlatformHealth | PlatformAudit | PlatformActivity
  | PlatformBillingOverview | PlatformAccountBilling | PlatformAccountInvoice | PlatformAccountProfile
  | PlatformInvoiceList | PlatformTariff

datatype view = Tenant cabinet_view | Platform platform_view | HealthView | SchemaView | SwaggerView | DjangoAdmin

subsection \<open>The tables\<close>

abbreviation url_path :: "string \<Rightarrow> 'v \<Rightarrow> 'v url" where
  "url_path text v \<equiv> Path (route text) v"

abbreviation url_include :: "string \<Rightarrow> 'v url list \<Rightarrow> 'v url" where
  "url_include text us \<equiv> Include (route text) us"

definition authentication_urls :: "view url list" where
  "authentication_urls = [
     url_path ''csrf'' (Tenant CsrfView), url_path ''login'' (Tenant LoginView), url_path ''logout'' (Tenant LogoutView),
     url_path ''refresh'' (Tenant RefreshView), url_path ''me'' (Tenant MeView),
     url_path ''password'' (Tenant PasswordChangeView), url_path ''password-reset'' (Tenant PasswordResetRequestView),
     url_path ''password-reset/verify'' (Tenant PasswordResetVerifyView)]"

definition tenants_urls :: "view url list" where
  "tenants_urls = [url_path ''projects'' (Tenant ProjectsView), url_path ''projects/switch'' (Tenant ProjectSwitchView)]"

definition compute_urls :: "view url list" where
  "compute_urls = [
     url_path ''vms'' (Tenant VmListView), url_path ''vms/<str:vm_id>'' (Tenant VmDetailView),
     url_path ''vms/<str:vm_id>/actions'' (Tenant VmActionView), url_path ''vms/<str:vm_id>/console'' (Tenant VmConsoleView),
     url_path ''vms/<str:vm_id>/metrics'' (Tenant VmMetricsView)]"

definition dashboard_urls :: "view url list" where
  "dashboard_urls = [url_path ''dashboard'' (Tenant DashboardView),
     url_path ''dashboard/metrics'' (Tenant DashboardMetricsView)]"

definition storage_urls :: "view url list" where
  "storage_urls = [url_path ''volumes'' (Tenant VolumeListView), url_path ''snapshots'' (Tenant SnapshotListView)]"

definition networking_urls :: "view url list" where
  "networking_urls = [url_path ''networks'' (Tenant NetworkOverviewView),
     url_path ''security-groups/<str:group_id>/rules'' (Tenant SecurityGroupRuleView),
     url_path ''security-group-rules/<str:rule_id>'' (Tenant SecurityGroupRuleDeleteView)]"

definition quotas_urls :: "view url list" where
  "quotas_urls = [url_path ''quotas'' (Tenant UserQuotaView)]"

definition monitoring_urls :: "view url list" where
  "monitoring_urls = [url_path ''events'' (Tenant EventListView), url_path ''alarms'' (Tenant AlarmListView)]"

definition billing_urls :: "view url list" where
  "billing_urls = [url_path ''billing'' (Tenant UserBillingView)]"

definition admin_api_urls :: "view url list" where
  "admin_api_urls = [
     url_path ''resources'' (Tenant AdminResourcesView), url_path ''audit'' (Tenant AdminAuditView),
     url_path ''users'' (Tenant AdminUsersView), url_path ''users/create'' (Tenant AdminUserCreateView),
     url_path ''users/<str:user_id>'' (Tenant AdminUserDetailView), url_path ''tenants'' (Tenant AdminTenantsView),
     url_path ''quotas'' (Tenant AdminQuotaView)]"

definition billing_admin_urls :: "view url list" where
  "billing_admin_urls = [
     url_path ''billing'' (Tenant AdminBillingView), url_path ''billing/history'' (Tenant AdminUsageHistoryView),
     url_path ''billing/export'' (Tenant AdminUsageExportView), url_path ''billing/invoice'' (Tenant AdminInvoiceView),
     url_path ''billing/profile'' (Tenant AdminBillingProfileView), url_path ''invoices'' (Tenant AdminInvoiceListView),
     url_path ''tariffs'' (Tenant AdminTariffView)]"

definition common_urls :: "view url list" where
  "common_urls = [url_path ''health'' HealthView, url_path ''schema'' SchemaView, url_path ''docs'' SwaggerView]"

definition health_urls :: "view url list" where
  "health_urls = [url_path [] HealthView]"

definition platform_urls :: "view url list" where
  "platform_urls = [
     url_path ''auth/csrf'' (Platform PlatformCsrf), url_path ''auth/login'' (Platform PlatformLogin),
     url_path ''auth/login/verify'' (Platform PlatformLoginVerify), url_path ''auth/logout'' (Platform PlatformLogout),
     url_path ''auth/me'' (Platform PlatformMe), url_path ''auth/password'' (Platform PlatformPasswordChange),
     url_path ''accounts'' (Platform PlatformAccounts), url_path ''accounts/<str:account_id>'' (Platform PlatformAccountDetail),
     url_path ''users'' (Platform PlatformUsers), url_path ''users/<str:user_id>'' (Platform PlatformUserDetail),
     url_path ''resources'' (Platform PlatformResources), url_path ''health'' (Platform PlatformHealth),
     url_path ''audit'' (Platform PlatformAudit), url_path ''activity'' (Platform PlatformActivity),
     url_path ''billing'' (Platform PlatformBillingOverview),
     url_path ''billing/<str:account>'' (Platform PlatformAccountBilling),
     url_path ''billing/<str:account>/invoice'' (Platform PlatformAccountInvoice),
     url_path ''billing/<str:account>/profile'' (Platform PlatformAccountProfile),
     url_path ''invoices'' (Platform PlatformInvoiceList), url_path ''tariffs'' (Platform PlatformTariff)]"

text \<open>\<open>django_admin\<close> is what Django's own admin serves under its prefix.\<close>

definition cabinet_urls :: "view url list \<Rightarrow> view url list" where
  "cabinet_urls django_admin = [
     url_include ''django-admin/'' django_admin,
     url_include ''api/v1/auth/'' authentication_urls,
     url_include ''api/v1/user/'' tenants_urls,
     url_include ''api/v1/user/'' compute_urls,
     url_include ''api/v1/user/'' dashboard_urls,
     url_include ''api/v1/user/'' storage_urls,
     url_include ''api/v1/user/'' networking_urls,
     url_include ''api/v1/user/'' quotas_urls,
     url_include ''api/v1/user/'' monitoring_urls,
     url_include ''api/v1/user/'' billing_urls,
     url_include ''api/v1/admin/'' admin_api_urls,
     url_include ''api/v1/admin/'' billing_admin_urls,
     url_include ''api/v1/'' common_urls]"

definition operator_urls :: "view url list" where
  "operator_urls = [url_include ''api/v1/platform/'' platform_urls, url_include ''api/v1/health'' health_urls]"

text \<open>\<open>PLATFORM_ADMIN_PROCESS\<close> picks the table.\<close>

definition root_urls :: "view url list \<Rightarrow> bool \<Rightarrow> view url list" where
  "root_urls django_admin platform_admin_process =
     (if platform_admin_process then operator_urls else cabinet_urls django_admin)"

subsection \<open>What each view declares\<close>

text \<open>
  The session a view believes: Django's own (the default), the operators' (\<open>PlatformAPIView\<close>), or none
  (\<open>authentication_classes = []\<close>).
\<close>

datatype authenticator = DjangoSession | OperatorSession | NoSession

record view_class =
  handlers :: "string list"
  authenticated_by :: authenticator
  permission :: "string \<Rightarrow> requester \<Rightarrow> bool"

definition AllowAny :: "requester \<Rightarrow> bool" where
  "AllowAny r = True"

abbreviation api_view :: "string list \<Rightarrow> (requester \<Rightarrow> bool) \<Rightarrow> view_class" where
  "api_view verbs allows \<equiv> \<lparr>handlers = verbs, authenticated_by = DjangoSession, permission = (\<lambda>_. allows)\<rparr>"

abbreviation platform_api_view :: "string list \<Rightarrow> (requester \<Rightarrow> bool) \<Rightarrow> view_class" where
  "platform_api_view verbs allows \<equiv> \<lparr>handlers = verbs, authenticated_by = OperatorSession, permission = (\<lambda>_. allows)\<rparr>"

abbreviation open_view :: "string list \<Rightarrow> view_class" where
  "open_view verbs \<equiv> \<lparr>handlers = verbs, authenticated_by = NoSession, permission = (\<lambda>_. AllowAny)\<rparr>"

definition authentication_classes :: "(cabinet_view \<times> view_class) list" where
  "authentication_classes = [
     (CsrfView, api_view [''GET''] AllowAny), (LoginView, api_view [''POST''] AllowAny),
     (MeView, api_view [''GET''] IsAuthenticated), (LogoutView, api_view [''POST''] IsAuthenticated),
     (RefreshView, api_view [''POST''] IsAuthenticated), (PasswordResetRequestView, api_view [''POST''] AllowAny),
     (PasswordResetVerifyView, api_view [''POST''] AllowAny), (PasswordChangeView, api_view [''POST''] AllowAny)]"

definition tenants_classes :: "(cabinet_view \<times> view_class) list" where
  "tenants_classes = [(ProjectsView, api_view [''GET''] IsAuthenticated), (ProjectSwitchView, api_view [''POST''] IsAuthenticated)]"

definition compute_classes :: "(cabinet_view \<times> view_class) list" where
  "compute_classes = [
     (VmListView, api_view [''GET''] IsAuthenticated), (VmDetailView, api_view [''GET''] IsAuthenticated),
     (VmActionView, api_view [''POST''] IsAuthenticated), (VmConsoleView, api_view [''POST''] IsAuthenticated),
     (VmMetricsView, api_view [''GET''] IsAuthenticated)]"

definition dashboard_classes :: "(cabinet_view \<times> view_class) list" where
  "dashboard_classes = [(DashboardView, api_view [''GET''] IsAuthenticated), (DashboardMetricsView, api_view [''GET''] IsAuthenticated)]"

definition storage_classes :: "(cabinet_view \<times> view_class) list" where
  "storage_classes = [(VolumeListView, api_view [''GET''] IsAuthenticated), (SnapshotListView, api_view [''GET''] IsAuthenticated)]"

definition networking_classes :: "(cabinet_view \<times> view_class) list" where
  "networking_classes = [
     (NetworkOverviewView, api_view [''GET''] IsAuthenticated), (SecurityGroupRuleView, api_view [''POST''] IsAuthenticated),
     (SecurityGroupRuleDeleteView, api_view [''DELETE''] IsAuthenticated)]"

definition quotas_classes :: "(cabinet_view \<times> view_class) list" where
  "quotas_classes = [(UserQuotaView, api_view [''GET''] IsAuthenticated)]"

definition monitoring_classes :: "(cabinet_view \<times> view_class) list" where
  "monitoring_classes = [(EventListView, api_view [''GET''] IsAuthenticated), (AlarmListView, api_view [''GET''] IsAuthenticated)]"

definition admin_api_classes :: "(cabinet_view \<times> view_class) list" where
  "admin_api_classes = [
     (AdminResourcesView, api_view [''GET''] IsAdmin), (AdminAuditView, api_view [''GET''] IsAdmin),
     (AdminUsersView, api_view [''GET''] IsAdmin), (AdminTenantsView, api_view [''GET''] IsAdmin),
     (AdminQuotaView, api_view [''GET''] IsAdmin), (AdminUserCreateView, api_view [''POST''] IsAdmin),
     (AdminUserDetailView, api_view [''PATCH'', ''DELETE''] IsAdmin)]"

definition billing_classes :: "(cabinet_view \<times> view_class) list" where
  "billing_classes = [
     (UserBillingView, api_view [''GET''] IsAuthenticated), (AdminBillingView, api_view [''GET''] IsAdmin),
     (AdminUsageExportView, api_view [''GET''] IsAdmin), (AdminTariffView, api_view [''GET'', ''PUT''] IsAdmin),
     (AdminUsageHistoryView, api_view [''GET''] IsAdmin), (AdminInvoiceView, api_view [''GET'', ''POST''] IsAdmin),
     (AdminInvoiceListView, api_view [''GET''] IsAdmin), (AdminBillingProfileView, api_view [''GET'', ''PUT''] IsAdmin)]"

definition platform_auth_classes :: "(platform_view \<times> view_class) list" where
  "platform_auth_classes = [
     (PlatformCsrf, open_view [''GET'']), (PlatformLogin, open_view [''POST'']), (PlatformLoginVerify, open_view [''POST'']),
     (PlatformMe, platform_api_view [''GET''] IsPlatformAdmin), (PlatformLogout, platform_api_view [''POST''] IsPlatformAdmin),
     (PlatformPasswordChange, platform_api_view [''POST''] IsPlatformAdmin)]"

text \<open>\<open>AccountDetailView.get_permissions\<close>.\<close>

definition account_detail_permission :: "string \<Rightarrow> requester \<Rightarrow> bool" where
  "account_detail_permission verb = (if verb = ''PATCH'' then CanWriteOrBill else IsPlatformAdmin)"

definition platform_classes :: "(platform_view \<times> view_class) list" where
  "platform_classes = [
     (PlatformAccounts, platform_api_view [''GET''] IsPlatformAdmin),
     (PlatformAccountDetail, \<lparr>handlers = [''GET'', ''PATCH''], authenticated_by = OperatorSession, permission = account_detail_permission\<rparr>),
     (PlatformUsers, platform_api_view [''GET''] IsPlatformAdmin), (PlatformUserDetail, platform_api_view [''PATCH''] CanWritePlatform),
     (PlatformResources, platform_api_view [''GET''] IsPlatformAdmin), (PlatformHealth, platform_api_view [''GET''] IsPlatformAdmin),
     (PlatformAudit, platform_api_view [''GET''] IsPlatformAdmin), (PlatformActivity, platform_api_view [''GET''] IsPlatformAdmin)]"

definition platform_billing_classes :: "(platform_view \<times> view_class) list" where
  "platform_billing_classes = [
     (PlatformBillingOverview, platform_api_view [''GET''] IsPlatformAdmin),
     (PlatformAccountBilling, platform_api_view [''GET''] IsPlatformAdmin),
     (PlatformAccountInvoice, platform_api_view [''POST''] CanWriteBilling),
     (PlatformInvoiceList, platform_api_view [''GET''] IsPlatformAdmin),
     (PlatformAccountProfile, \<lparr>handlers = [''GET'', ''PUT''], authenticated_by = OperatorSession, permission = ReadAnyWriteBilling\<rparr>),
     (PlatformTariff, \<lparr>handlers = [''GET'', ''PUT''], authenticated_by = OperatorSession, permission = ReadAnyWriteBilling\<rparr>)]"

text \<open>A class without handlers that lets nobody pass, for a view no table declares (there is none).\<close>

definition no_class :: view_class where
  "no_class = \<lparr>handlers = [], authenticated_by = NoSession, permission = (\<lambda>_ _. False)\<rparr>"

definition declared :: "('v \<times> view_class) list \<Rightarrow> 'v \<Rightarrow> view_class" where
  "declared table v = (case map_of table v of None \<Rightarrow> no_class | Some c \<Rightarrow> c)"

definition cabinet_classes :: "(cabinet_view \<times> view_class) list" where
  "cabinet_classes = authentication_classes @ tenants_classes @ compute_classes @ dashboard_classes @ storage_classes @
     networking_classes @ quotas_classes @ monitoring_classes @ admin_api_classes @ billing_classes"

definition operator_classes :: "(platform_view \<times> view_class) list" where
  "operator_classes = platform_auth_classes @ platform_classes @ platform_billing_classes"

definition health_class :: view_class where
  "health_class = api_view [''GET''] AllowAny"

definition class_of :: "(view \<Rightarrow> view_class) \<Rightarrow> view \<Rightarrow> view_class" where
  "class_of foreign v = (case v of
     Tenant w \<Rightarrow> declared cabinet_classes w
   | Platform w \<Rightarrow> declared operator_classes w
   | HealthView \<Rightarrow> health_class
   | _ \<Rightarrow> foreign v)"

subsection \<open>A request at the door\<close>

definition SAFE_METHODS :: "string list" where
  "SAFE_METHODS = [''GET'', ''HEAD'', ''OPTIONS'']"

text \<open>
  \<open>ZadaraSessionBackend.get_user\<close>: the user a session names. Django passes over users whose \<open>is_active\<close> is
  off; nothing in the program ever switches it, so every user counts.
\<close>

definition session_user :: "user list \<Rightarrow> nat \<Rightarrow> user option" where
  [simp]: "session_user users i = List.find (\<lambda>u. u_pk u = i) users"

text \<open>
  Who the request comes from: \<open>d\<close> is what the browser's session holds, \<open>csrf\<close> whether the check for forged
  requests passes; \<open>None\<close> means it did not. Only a request with a session is checked.
\<close>

definition sender :: "authenticator \<Rightarrow> bool \<Rightarrow> user list \<Rightarrow> panel \<Rightarrow> session_data \<Rightarrow> requester option" where
  "sender auth csrf users p d = (case auth of
     NoSession \<Rightarrow> Some Anonymous
   | DjangoSession \<Rightarrow>
       (case Option.bind (auth_user_id d) (session_user users) of
          None \<Rightarrow> Some Anonymous
        | Some u \<Rightarrow> if csrf then Some (Cabinet u) else None)
   | OperatorSession \<Rightarrow>
       (case platform_admin_id d of
          None \<Rightarrow> Some Anonymous
        | Some i \<Rightarrow>
            if i = 0 then Some Anonymous
            else (case active_operator p i of
                None \<Rightarrow> Some Anonymous
              | Some a \<Rightarrow> if csrf then Some (Operator a) else None)))"

datatype admission = Missing | Denied | NoSuchMethod | Handled view arguments requester

text \<open>Every class also answers \<open>OPTIONS\<close>, and \<open>HEAD\<close> where it has a \<open>get\<close>.\<close>

definition verbs_of :: "view_class \<Rightarrow> string list" where
  "verbs_of c = handlers c @ (if ''GET'' \<in> set (handlers c) then [''HEAD''] else []) @ [''OPTIONS'']"

definition front_door :: "(view \<Rightarrow> view_class) \<Rightarrow> view url list \<Rightarrow> bool \<Rightarrow> user list \<Rightarrow> panel \<Rightarrow> session_data \<Rightarrow> bool
    \<Rightarrow> string \<Rightarrow> string \<Rightarrow> admission" where
  "front_door foreign django_admin platform_admin_process users p d csrf verb url =
     (case resolve (root_urls django_admin platform_admin_process) url of
        None \<Rightarrow> Missing
      | Some (v, kw) \<Rightarrow>
          (let c = class_of foreign v in
           case sender (authenticated_by c) (verb \<in> set SAFE_METHODS \<or> csrf) users p d of
             None \<Rightarrow> Denied
           | Some r \<Rightarrow>
               if \<not> permission c verb r then Denied
               else if verb \<in> set (verbs_of c) then Handled v kw r
               else NoSuchMethod))"

end
