(* ===== verification/Front_Door_Safety.thy ===== *)
theory Front_Door_Safety
  imports Front_Door
begin

text \<open>
  What the way in guarantees: paths built from a route come back to it, the two processes share the
  health probe only, and on each of them who reaches which handler follows from the tables alone.
\<close>

subsection \<open>The tables, computed\<close>

definition admin_views :: "view list" where
  "admin_views = map Tenant [AdminResourcesView, AdminAuditView, AdminUsersView, AdminUserCreateView,
     AdminUserDetailView, AdminTenantsView, AdminQuotaView, AdminBillingView, AdminUsageHistoryView,
     AdminUsageExportView, AdminInvoiceView, AdminBillingProfileView, AdminInvoiceListView, AdminTariffView]"

definition user_views :: "view list" where
  "user_views = map Tenant [ProjectsView, ProjectSwitchView, VmListView, VmDetailView, VmActionView, VmConsoleView,
     VmMetricsView, DashboardView, DashboardMetricsView, VolumeListView, SnapshotListView, NetworkOverviewView,
     SecurityGroupRuleView, SecurityGroupRuleDeleteView, UserQuotaView, EventListView, AlarmListView, UserBillingView]"

definition public_views :: "view list" where
  "public_views = map Tenant [CsrfView, LoginView, PasswordChangeView, PasswordResetRequestView, PasswordResetVerifyView]
     @ [HealthView]"

definition own_session_views :: "view list" where
  "own_session_views = map Tenant [LogoutView, RefreshView, MeView]"

definition foreign_views :: "view list" where
  "foreign_views = [SchemaView, SwaggerView, DjangoAdmin]"

lemma cabinet_leaves:
  "list_all (\<lambda>(p, v). plain p \<and> \<not> comparable (fixed_text p) ''api/v1/platform/'' \<and> \<not> comparable (fixed_text p) ''django-admin/'' \<and>
     (if comparable (fixed_text p) ''api/v1/admin/'' then starts_with (fixed_text p) ''api/v1/admin/'' \<and> v \<in> set admin_views
      else v \<notin> set admin_views) \<and>
     (if comparable (fixed_text p) ''api/v1/user/'' then starts_with (fixed_text p) ''api/v1/user/'' \<and> v \<in> set user_views
      else v \<notin> set user_views) \<and>
     v \<in> set (admin_views @ user_views @ public_views @ own_session_views @ foreign_views) \<and>
     (comparable (fixed_text p) ''api/v1/health'' \<longrightarrow> p = route ''api/v1/health'')) (leaves (cabinet_urls []))"
  by code_simp

lemma operator_leaves:
  "list_all (\<lambda>(p, v). plain p \<and> (v = HealthView \<and> p = route ''api/v1/health'' \<or>
      v \<noteq> HealthView \<and> starts_with (fixed_text p) ''api/v1/platform/'' \<and> v \<in> set (map (Platform \<circ> fst) operator_classes)))
     (leaves operator_urls)"
  by code_simp

lemma cabinet_overlaps:
  "overlaps 60 [] (leaves (cabinet_urls [])) =
     [(route ''api/v1/admin/users/create'', route ''api/v1/admin/users/<str:user_id>'')]"
  by code_simp

lemma operator_overlaps: "overlaps 60 [] (leaves operator_urls) = []"
  by code_simp

subsection \<open>Routes and paths\<close>

lemma cabinet_resolve:
  "resolve (cabinet_urls django_admin) url =
     (case matched (route ''django-admin/'') url of
        None \<Rightarrow> resolve (cabinet_urls []) url
      | Some (kw, rest) \<Rightarrow> (case resolve django_admin rest of
          Some (v, kw') \<Rightarrow> Some (v, kw @ kw') | None \<Rightarrow> resolve (cabinet_urls []) url))"
  by (auto simp: cabinet_urls_def split: option.splits)

lemma cabinet_not_django:
  assumes "starts_with url t" "\<not> comparable t ''django-admin/''"
  shows "resolve (cabinet_urls django_admin) url = resolve (cabinet_urls []) url"
proof -
  have fixed: "fixed_text (route ''django-admin/'') = ''django-admin/''" by code_simp
  have sym: "comparable a b \<Longrightarrow> comparable b a" for a b by (induction a b rule: comparable.induct) auto
  have "matched (route ''django-admin/'') url \<noteq> Some r" for r
  proof
    assume "matched (route ''django-admin/'') url = Some r"
    from matched_comparable [OF this assms(1)] have "comparable ''django-admin/'' t" unfolding fixed .
    from assms(2) sym [OF this] show False by (rule notE)
  qed
  then have "matched (route ''django-admin/'') url = None" by (meson option.exhaust)
  then show ?thesis unfolding cabinet_resolve [of django_admin] by simp
qed

lemma built_fixed: "starts_with (built p vs) (fixed_text p)"
  by (induction p vs rule: built.induct) auto

text \<open>The one meeting of two routes: creating a user, and the user called \<open>create\<close>.\<close>

definition admin_user_route :: pattern where
  "admin_user_route = route ''api/v1/admin/users/<str:user_id>''"

lemma create_only:
  assumes "matched (route ''api/v1/admin/users/create'') (built admin_user_route [v]) = Some (kw, [])"
  shows "v = ''create''"
proof -
  have pattern: "route ''api/v1/admin/users/create'' = map Sym ''api/v1/admin/users/create''"
    "admin_user_route = map Sym ''api/v1/admin/users/'' @ [Hole ''user_id'']"
    unfolding admin_user_route_def by code_simp+
  have exact: "s = t" if "matched (map Sym t) s = Some (kw, [])" for t s kw
    using that
  proof (induction t arbitrary: s kw)
    case (Cons c t)
    then show ?case by (cases s) (auto split: if_splits)
  qed simp
  have "built (map Sym t @ [Hole n]) [v] = t @ v" for t n by (induction t) auto
  then show ?thesis using exact [of "''api/v1/admin/users/create''"] assms unfolding pattern by fastforce
qed

text \<open>C16. Every route is reached by the paths built from it, on both processes: with arguments that are neither empty
  nor contain a slash, a path built from a route of the process's table resolves to that route's view and
  exactly these arguments, whatever else Django's own admin serves. The one exception is a user whose
  id reads \<open>create\<close>.\<close>

theorem built_paths_resolve:
  assumes "(p, v) \<in> set (leaves (root_urls [] flag))" "length vs = length (holes p)" "list_all plain_value vs"
    "p \<noteq> admin_user_route \<or> vs \<noteq> [''create'']"
  shows "resolve (root_urls django_admin flag) (built p vs) = Some (v, zip (holes p) vs)"
proof (cases flag)
  case True
  then have "(p, v) \<in> set (leaves operator_urls)" using assms(1) by (simp add: root_urls_def)
  then show ?thesis using assms(2,3) operator_leaves True
    by (intro resolve_built [of _ _ _ _ 60, unfolded operator_overlaps]) (auto simp: root_urls_def operator_overlaps list_all_iff)
next
  case False
  then have leaf: "(p, v) \<in> set (leaves (cabinet_urls []))" using assms(1) by (simp add: root_urls_def)
  then have fixed: "plain p" "\<not> comparable (fixed_text p) ''django-admin/''"
    using cabinet_leaves by (auto simp: list_all_iff)
  have free: "matched q (built p vs) \<noteq> Some (kw, [])" if "(q, p) \<in> set (overlaps 60 [] (leaves (cabinet_urls [])))" for q kw
  proof
    assume m: "matched q (built p vs) = Some (kw, [])"
    have q: "q = route ''api/v1/admin/users/create''" "p = admin_user_route"
      using that by (simp_all add: cabinet_overlaps admin_user_route_def)
    have "length (holes admin_user_route) = 1" unfolding admin_user_route_def by code_simp
    then obtain w where "vs = [w]" using assms(2) q(2) by (auto simp: length_Suc_conv)
    then show False using create_only [of w kw] m q assms(4) by simp
  qed
  have "resolve (cabinet_urls []) (built p vs) = Some (v, zip (holes p) vs)"
    by (rule resolve_built [OF leaf fixed(1) assms(2,3) free])
  then show ?thesis
    using cabinet_not_django [OF built_fixed fixed(2), of django_admin vs] False by (simp add: root_urls_def)
qed

lemma built_paths_resolve_witness:
  "resolve (root_urls [Path [] DjangoAdmin] False) (built (route ''api/v1/user/vms/<str:vm_id>/actions'') [''m-1'']) =
     Some (Tenant VmActionView, zip (holes (route ''api/v1/user/vms/<str:vm_id>/actions'')) [''m-1''])"
proof (rule built_paths_resolve)
  show "(route ''api/v1/user/vms/<str:vm_id>/actions'', Tenant VmActionView) \<in> set (leaves (root_urls [] False))"
    by code_simp
  show "length [''m-1''] = length (holes (route ''api/v1/user/vms/<str:vm_id>/actions''))" by code_simp
  show "list_all plain_value [''m-1'']" by code_simp
  show "route ''api/v1/user/vms/<str:vm_id>/actions'' \<noteq> admin_user_route \<or> [''m-1''] \<noteq> [''create'']" by simp
qed

subsection \<open>Two processes, one probe\<close>

lemma operator_resolved:
  assumes "resolve operator_urls url = Some (v, kw)"
  shows "v = HealthView \<and> url = ''api/v1/health'' \<or>
    starts_with url ''api/v1/platform/'' \<and> v \<in> set (map (Platform \<circ> fst) operator_classes)"
proof -
  from resolve_leaf [OF assms] obtain p where p: "(p, v) \<in> set (leaves operator_urls)" "matched p url = Some (kw, [])" by blast
  have exact: "s = t" if "matched (map Sym t) s = Some (kw, [])" for t s
    using that
  proof (induction t arbitrary: s)
    case (Cons c t)
    then show ?case by (cases s) (auto split: if_splits)
  qed simp
  have "route ''api/v1/health'' = map Sym ''api/v1/health''" by code_simp
  with exact [of "''api/v1/health''" url] p(2) have health: "p = route ''api/v1/health'' \<Longrightarrow> url = ''api/v1/health''" by simp
  have prefix: "starts_with (fixed_text p) t \<Longrightarrow> starts_with url t" for t
    using matched_fixed [OF p(2)] by (auto simp: starts_with_iff)
  show ?thesis using bspec [OF operator_leaves [unfolded list_all_iff] p(1)] health prefix by auto
qed

lemma cabinet_resolved:
  assumes "resolve (cabinet_urls django_admin) url = Some (v, kw)" "snd ` set (leaves django_admin) \<subseteq> {DjangoAdmin}"
  shows "\<not> starts_with url ''api/v1/platform/'' \<and>
    (starts_with url ''api/v1/admin/'' \<longleftrightarrow> v \<in> set admin_views) \<and> (starts_with url ''api/v1/user/'' \<longleftrightarrow> v \<in> set user_views) \<and>
    v \<in> set (admin_views @ user_views @ public_views @ own_session_views @ foreign_views)"
proof (cases "resolve (cabinet_urls []) url = Some (v, kw)")
  case True
  from resolve_leaf [OF this] obtain p where p: "(p, v) \<in> set (leaves (cabinet_urls []))" "matched p url = Some (kw, [])" by blast
  note facts = bspec [OF cabinet_leaves [unfolded list_all_iff] p(1), unfolded prod.case]
  have near: "starts_with url t \<Longrightarrow> comparable (fixed_text p) t" for t by (rule matched_comparable [OF p(2)])
  have inside: "starts_with (fixed_text p) t \<Longrightarrow> starts_with url t" for t
    using matched_fixed [OF p(2)] by (auto simp: starts_with_iff)
  show ?thesis
    using facts near [of "''api/v1/platform/''"] near [of "''api/v1/admin/''"] near [of "''api/v1/user/''"]
      inside [of "''api/v1/admin/''"] inside [of "''api/v1/user/''"] by (simp only: if_bool_eq_conj) argo
next
  case False
  then obtain kw1 rest kw2 where found: "matched (route ''django-admin/'') url = Some (kw1, rest)"
    "resolve django_admin rest = Some (v, kw2)"
    using assms(1) unfolding cabinet_resolve [of django_admin] by (auto split: option.splits)
  have fixed: "fixed_text (route ''django-admin/'') = ''django-admin/''" by code_simp
  from matched_fixed [OF found(1)] have "starts_with url ''django-admin/''" unfolding fixed .
  then have "\<not> starts_with url (CHR ''a'' # t)" for t by (auto simp: starts_with_iff)
  moreover have "v = DjangoAdmin" using resolve_leaf [OF found(2)] assms(2) by force
  ultimately show ?thesis by (simp add: foreign_views_def admin_views_def user_views_def)
qed

text \<open>C29. The two processes have one path in common, the health probe: nothing under the operators' prefix
  resolves on the cabinet's process, and on the operators' process nothing but that prefix and the
  probe resolves at all, so neither side's routes can be reached through the other's front door.\<close>

theorem processes_share_the_probe_only:
  assumes "snd ` set (leaves django_admin) \<subseteq> {DjangoAdmin}"
  shows "dom (resolve (root_urls django_admin True)) \<inter> dom (resolve (root_urls django_admin False)) = {''api/v1/health''} \<and>
    resolve (root_urls django_admin True) ''api/v1/health'' = Some (HealthView, []) \<and>
    resolve (root_urls django_admin False) ''api/v1/health'' = Some (HealthView, []) \<and>
    dom (resolve (root_urls django_admin True)) \<subseteq> insert ''api/v1/health'' {url. starts_with url ''api/v1/platform/''} \<and>
    dom (resolve (root_urls django_admin False)) \<inter> {url. starts_with url ''api/v1/platform/''} = {}"
proof -
  have operator: "root_urls django_admin True = operator_urls" "root_urls [] True = operator_urls" by (simp_all add: root_urls_def)
  have probe: "resolve (root_urls [] False) ''api/v1/health'' = Some (HealthView, [])"
    "resolve operator_urls ''api/v1/health'' = Some (HealthView, [])" by code_simp+
  have shared: "resolve (root_urls django_admin False) ''api/v1/health'' = Some (HealthView, [])"
    using probe(1) cabinet_not_django [of "''api/v1/health''" "''a''" django_admin] by (simp add: root_urls_def)
  have cabinet: "\<not> starts_with url ''api/v1/platform/''" if found: "resolve (root_urls django_admin False) url \<noteq> None" for url
  proof -
    obtain v kw where "resolve (cabinet_urls django_admin) url = Some (v, kw)" using found by (auto simp: root_urls_def)
    from cabinet_resolved [OF this assms] show ?thesis by argo
  qed
  have panel: "starts_with url ''api/v1/platform/'' \<or> url = ''api/v1/health''" if found: "resolve operator_urls url \<noteq> None" for url
  proof -
    obtain v kw where "resolve operator_urls url = Some (v, kw)" using found by auto
    from operator_resolved [OF this] show ?thesis by argo
  qed
  show ?thesis unfolding operator
  proof (intro conjI equalityI subsetI)
    fix url assume "url \<in> dom (resolve operator_urls) \<inter> dom (resolve (root_urls django_admin False))"
    then have "resolve operator_urls url \<noteq> None" "resolve (root_urls django_admin False) url \<noteq> None" by (simp_all add: domIff)
    then have "url = ''api/v1/health''" using panel [of url] cabinet [of url] by argo
    then show "url \<in> {''api/v1/health''}" by (rule ssubst) (rule singletonI)
  next
    fix url assume "url \<in> dom (resolve operator_urls)"
    then have "starts_with url ''api/v1/platform/'' \<or> url = ''api/v1/health''" using panel by (metis domIff)
    then show "url \<in> insert ''api/v1/health'' {url. starts_with url ''api/v1/platform/''}"
      unfolding insert_iff mem_Collect_eq by argo
  next
    fix url assume "url \<in> dom (resolve (root_urls django_admin False)) \<inter> {url. starts_with url ''api/v1/platform/''}"
    then show "url \<in> {}" using cabinet [of url] by (metis IntE domIff mem_Collect_eq)
  next
    fix url assume "url \<in> {''api/v1/health''}"
    then show "url \<in> dom (resolve operator_urls) \<inter> dom (resolve (root_urls django_admin False))"
      using probe(2) shared by (metis IntI domIff option.distinct(1) singletonD)
  qed (rule probe(2), rule shared, erule emptyE)
qed

lemma processes_share_the_probe_only_witness:
  "dom (resolve (root_urls [Path [] DjangoAdmin] True)) \<inter> dom (resolve (root_urls [Path [] DjangoAdmin] False)) = {''api/v1/health''}"
  by (rule processes_share_the_probe_only [THEN conjunct1]) simp

subsection \<open>Who reaches which handler\<close>

lemmas class_defs = class_of_def declared_def cabinet_classes_def operator_classes_def authentication_classes_def
  tenants_classes_def compute_classes_def dashboard_classes_def storage_classes_def networking_classes_def
  quotas_classes_def monitoring_classes_def admin_api_classes_def billing_classes_def platform_auth_classes_def
  platform_classes_def platform_billing_classes_def health_class_def

lemma admin_view_classes:
  "v \<in> set admin_views \<Longrightarrow> authenticated_by (class_of foreign v) = DjangoSession \<and> permission (class_of foreign v) verb = IsAdmin"
  by (auto simp: admin_views_def class_defs)

lemma session_view_classes:
  "v \<in> set (user_views @ own_session_views) \<Longrightarrow>
     authenticated_by (class_of foreign v) = DjangoSession \<and> permission (class_of foreign v) verb = IsAuthenticated"
  by (auto simp: user_views_def own_session_views_def class_defs)

lemma public_view_classes:
  "v \<in> set public_views \<Longrightarrow>
     authenticated_by (class_of foreign v) = DjangoSession \<and> permission (class_of foreign v) verb = AllowAny"
  by (auto simp: public_views_def class_defs)

text \<open>Who a session names on the cabinet's process.\<close>

definition named_by :: "session_data \<Rightarrow> user list \<Rightarrow> requester" where
  "named_by d users = (case Option.bind (auth_user_id d) (session_user users) of None \<Rightarrow> Anonymous | Some u \<Rightarrow> Cabinet u)"

lemma django_sender_named:
  "sender DjangoSession ok users p d = Some r \<longleftrightarrow> r = named_by d users \<and> (ok \<or> r = Anonymous)"
  by (auto simp: sender_def named_by_def split: option.splits)

lemma named_user:
  assumes "named_by d users = Cabinet u"
  shows "u \<in> set users \<and> auth_user_id d = Some (u_pk u)"
  using assms by (auto simp: named_by_def find_Some_iff split: bind_splits option.splits)

lemma named_requester: "named_by d users \<noteq> Anonymous \<longleftrightarrow> (\<exists>u. named_by d users = Cabinet u)"
  by (auto simp: named_by_def split: option.splits)

lemma handled_iff:
  "front_door foreign django_admin flag users p d csrf verb url = Handled v kw r \<longleftrightarrow>
     resolve (root_urls django_admin flag) url = Some (v, kw) \<and>
     sender (authenticated_by (class_of foreign v)) (verb \<in> set SAFE_METHODS \<or> csrf) users p d = Some r \<and>
     permission (class_of foreign v) verb r \<and> verb \<in> set (verbs_of (class_of foreign v))"
  by (auto simp: front_door_def Let_def split: option.splits prod.splits if_splits)

lemma operator_sender:
  assumes "sender OperatorSession ok users p d = Some r" "r \<noteq> Anonymous"
  shows "\<exists>a. r = Operator a \<and> a \<in> set (operators p) \<and> admin_active a \<and> platform_admin_id d = Some (pk a) \<and> ok"
  using assms by (auto simp: sender_def active_operator_def find_Some_iff split: option.splits if_splits)

text \<open>C11. On the cabinet's process a request reaches a handler of this program exactly when its path leads
  there, the handler answers the method and the caller is who the path asks for: behind
  \<open>api/v1/admin/\<close> the user the request's own session names, with the role ADMIN; behind \<open>api/v1/user/\<close> and
  on the session's own routes the user it names, whatever the role; and everywhere else, which is the
  sign-in, the forgotten and the expired password and the health probe, anybody at all. A user who is
  signed in further needs the request not to be forged for any method that changes something. The pages
  that are not this program's lie outside both prefixes.\<close>

theorem cabinet_door:
  assumes "snd ` set (leaves django_admin) \<subseteq> {DjangoAdmin}"
  shows "if v \<in> set foreign_views
    then front_door foreign django_admin False users p d csrf verb url = Handled v kw r
      \<longrightarrow> \<not> starts_with url ''api/v1/admin/'' \<and> \<not> starts_with url ''api/v1/user/''
    else (front_door foreign django_admin False users p d csrf verb url = Handled v kw r) =
      (resolve (root_urls django_admin False) url = Some (v, kw) \<and> verb \<in> set (verbs_of (class_of foreign v)) \<and>
       r = named_by d users \<and> (r = Anonymous \<or> verb \<in> set SAFE_METHODS \<or> csrf) \<and>
       (if starts_with url ''api/v1/admin/'' then
          v \<in> set admin_views \<and> (\<exists>u. r = Cabinet u \<and> u \<in> set users \<and> auth_user_id d = Some (u_pk u) \<and> app_role u = ''ADMIN'')
        else if starts_with url ''api/v1/user/'' then
          v \<in> set user_views \<and> (\<exists>u. r = Cabinet u \<and> u \<in> set users \<and> auth_user_id d = Some (u_pk u))
        else v \<in> set own_session_views \<and> (\<exists>u. r = Cabinet u \<and> u \<in> set users \<and> auth_user_id d = Some (u_pk u)) \<or>
          v \<in> set public_views))"
proof (cases "resolve (root_urls django_admin False) url = Some (v, kw)")
  case True
  then have "resolve (cabinet_urls django_admin) url = Some (v, kw)" by (simp add: root_urls_def)
  note spot = cabinet_resolved [OF this assms]
  have user: "(\<exists>u. r = Cabinet u \<and> u \<in> set users \<and> auth_user_id d = Some (u_pk u)) \<longleftrightarrow> r \<noteq> Anonymous"
    if "r = named_by d users"
    using that named_user named_requester by metis
  have admin: "(\<exists>u. r = Cabinet u \<and> u \<in> set users \<and> auth_user_id d = Some (u_pk u) \<and> app_role u = ''ADMIN'') \<longleftrightarrow> IsAdmin r"
    if "r = named_by d users"
    using that named_user [of d users] by (cases "named_by d users") (auto simp: IsAdmin_def)
  have exact: "front_door foreign django_admin False users p d csrf verb url = Handled v kw r \<longleftrightarrow>
      verb \<in> set (verbs_of (class_of foreign v)) \<and> r = named_by d users \<and> (r = Anonymous \<or> verb \<in> set SAFE_METHODS \<or> csrf) \<and>
      (if v \<in> set admin_views then IsAdmin r else v \<in> set public_views \<or> r \<noteq> Anonymous)"
    if "v \<notin> set foreign_views"
  proof -
    have some: "v \<in> set admin_views \<or> v \<in> set (user_views @ own_session_views) \<or> v \<in> set public_views"
      using spot that by auto
    have apart: "v \<in> set (user_views @ own_session_views) \<Longrightarrow> v \<notin> set admin_views \<and> v \<notin> set public_views"
      "v \<in> set public_views \<Longrightarrow> v \<notin> set admin_views"
      by (auto simp: user_views_def own_session_views_def admin_views_def public_views_def)
    from some show ?thesis
      using admin_view_classes [of v foreign verb] session_view_classes [of v foreign verb] public_view_classes [of v foreign verb] apart True
      unfolding handled_iff by (elim disjE) (auto simp: django_sender_named IsAuthenticated_def AllowAny_def)
  qed
  show ?thesis
  proof (cases "v \<in> set foreign_views")
    case foreign': True
    then have "v \<notin> set admin_views \<and> v \<notin> set user_views"
      by (auto simp: foreign_views_def admin_views_def user_views_def)
    then show ?thesis using spot foreign' by simp
  next
    case False
    have apart: "v \<in> set user_views \<Longrightarrow> v \<notin> set admin_views \<and> v \<notin> set public_views"
      "v \<in> set own_session_views \<Longrightarrow> v \<notin> set admin_views \<and> v \<notin> set public_views"
      "v \<in> set public_views \<Longrightarrow> v \<notin> set admin_views"
      by (auto simp: user_views_def own_session_views_def admin_views_def public_views_def)
    show ?thesis
      unfolding if_not_P [OF False] exact [OF False]
      using spot True apart False user admin by (cases "r = named_by d users") auto
  qed
next
  case False
  then show ?thesis by (auto simp: handled_iff)
qed

definition probe_user :: user where
  "probe_user = \<lparr>u_pk = 3, zadara_user_id = ''z3'', username = ''ann'', u_email = None, u_account = ''acme'',
     u_account_id = ''a1'', app_role = ''ADMIN'', u_status = ''ACTIVE''\<rparr>"

definition probe_operator :: platform_admin where
  "probe_operator = \<lparr>pk = 7, admin_email = ''o@x'', admin_name = ''O'', password_hash = ''pw'', admin_role = FINANCE,
     admin_active = True, totp_secret = [], totp_confirmed_at = None, access_code_hash = [], failed_attempts = 0,
     locked_until = None, last_login_at = None, last_login_ip = None\<rparr>"

definition probe_panel :: panel where
  "probe_panel = \<lparr>operators = [probe_operator], tickets = [], used_codes = [], sessions = [], actions = []\<rparr>"

definition probe_session :: session_data where
  "probe_session = empty_session\<lparr>auth_user_id := Some 3, platform_admin_id := Some 7\<rparr>"

lemma probe_resolved:
  "resolve (root_urls [] False) ''api/v1/admin/tariffs'' = Some (Tenant AdminTariffView, [])"
  "resolve (root_urls [] True) ''api/v1/platform/tariffs'' = Some (Platform PlatformTariff, [])"
  by code_simp+

lemma probe_cabinet:
  "front_door (\<lambda>_. no_class) [] False [probe_user] probe_panel probe_session True ''PUT'' ''api/v1/admin/tariffs'' =
     Handled (Tenant AdminTariffView) [] (Cabinet probe_user)"
  by (simp add: front_door_def probe_resolved class_defs sender_def probe_session_def probe_user_def IsAdmin_def verbs_of_def)

lemma cabinet_door_witness:
  "app_role probe_user = ''ADMIN'' \<and> named_by probe_session [probe_user] = Cabinet probe_user"
proof -
  have "Tenant AdminTariffView \<notin> set foreign_views" "starts_with ''api/v1/admin/tariffs'' ''api/v1/admin/''"
    by (simp add: foreign_views_def) code_simp
  then show ?thesis
    using cabinet_door [of "[]" "Tenant AdminTariffView" "\<lambda>_. no_class" "[probe_user]" probe_panel probe_session True "''PUT''"
      "''api/v1/admin/tariffs''" "[]" "Cabinet probe_user"] probe_cabinet by auto
qed

definition entrance_views :: "view list" where
  "entrance_views = [HealthView, Platform PlatformCsrf, Platform PlatformLogin, Platform PlatformLoginVerify]"

lemma operator_view_classes:
  assumes "Platform w \<notin> set entrance_views"
  shows "authenticated_by (class_of foreign (Platform w)) = OperatorSession"
    "permission (class_of foreign (Platform w)) verb r \<Longrightarrow> IsPlatformAdmin r"
    "permission (class_of foreign (Platform w)) verb (Operator a) \<Longrightarrow> verb \<in> set (verbs_of (class_of foreign (Platform w))) \<Longrightarrow>
       verb \<in> set SAFE_METHODS \<or> w \<in> {PlatformLogout, PlatformPasswordChange} \<or>
       w = PlatformUserDetail \<and> admin_role a \<in> {OWNER, OPS} \<or>
       w = PlatformAccountDetail \<and> admin_role a \<in> {OWNER, OPS, FINANCE} \<or>
       w \<in> {PlatformAccountInvoice, PlatformAccountProfile, PlatformTariff} \<and> admin_role a \<in> {OWNER, FINANCE}"
  using assms
  by (cases w; auto simp: class_defs entrance_views_def verbs_of_def SAFE_METHODS_def account_detail_permission_def
      ReadAnyWriteBilling_def gate_defs split: if_splits)+

text \<open>C10. On the operators' process every handler but the probe and the steps of the sign-in runs for an active
  operator whom the session itself names, and for nobody else, a cabinet session included. Changing
  anything besides one's own session and password takes a request that is not forged and the role for it:
  people are the owner's and operations', money is the owner's and finance's, an account's settings are
  either's, and support changes nothing.\<close>

theorem operators_door:
  assumes "front_door foreign django_admin True users p d csrf verb url = Handled v kw r"
  shows "v \<in> set entrance_views \<and> (\<forall>a. r \<noteq> Operator a) \<or>
    (\<exists>a. r = Operator a \<and> a \<in> set (operators p) \<and> admin_active a \<and> platform_admin_id d = Some (pk a) \<and>
       starts_with url ''api/v1/platform/'' \<and>
       (verb \<in> set SAFE_METHODS \<or>
        csrf \<and> (v \<in> {Platform PlatformLogout, Platform PlatformPasswordChange} \<or>
          v = Platform PlatformUserDetail \<and> admin_role a \<in> {OWNER, OPS} \<or>
          v = Platform PlatformAccountDetail \<and> admin_role a \<in> {OWNER, OPS, FINANCE} \<or>
          v \<in> {Platform PlatformAccountInvoice, Platform PlatformAccountProfile, Platform PlatformTariff} \<and>
            admin_role a \<in> {OWNER, FINANCE})))"
proof -
  from assms have found: "resolve operator_urls url = Some (v, kw)"
    and who: "sender (authenticated_by (class_of foreign v)) (verb \<in> set SAFE_METHODS \<or> csrf) users p d = Some r"
      "permission (class_of foreign v) verb r" "verb \<in> set (verbs_of (class_of foreign v))"
    by (simp_all add: handled_iff root_urls_def)
  consider (probe) "v = HealthView" | (entrance) w where "v = Platform w" "v \<in> set entrance_views"
    | (inside) w where "v = Platform w" "v \<notin> set entrance_views" "starts_with url ''api/v1/platform/''"
    using operator_resolved [OF found] by fastforce
  then show ?thesis
  proof cases
    case probe
    then have "\<forall>a. r \<noteq> Operator a" using who(1) by (auto simp: class_defs sender_def split: option.splits if_splits)
    then show ?thesis using probe by (simp add: entrance_views_def)
  next
    case entrance
    then have "r = Anonymous" using who(1) by (auto simp: class_defs entrance_views_def sender_def)
    then show ?thesis using entrance by simp
  next
    case (inside w)
    note classes = operator_view_classes [OF inside(2) [unfolded inside(1)]]
    have "IsPlatformAdmin r" using classes(2) who(2) inside(1) by blast
    then have "r \<noteq> Anonymous" by (auto simp: IsPlatformAdmin_def)
    then obtain a where a: "r = Operator a" "a \<in> set (operators p)" "admin_active a" "platform_admin_id d = Some (pk a)"
      "verb \<in> set SAFE_METHODS \<or> csrf"
      using operator_sender [of _ users p d r] who(1) classes(1) [of foreign] inside(1) by auto
    show ?thesis using classes(3) [of foreign verb a] who(2,3) a inside by auto
  qed
qed

lemma probe_operators:
  "front_door (\<lambda>_. no_class) [] True [probe_user] probe_panel probe_session True ''PUT'' ''api/v1/platform/tariffs'' =
     Handled (Platform PlatformTariff) [] (Operator probe_operator)"
  by (simp add: front_door_def probe_resolved class_defs sender_def probe_session_def probe_panel_def probe_operator_def
      active_operator_def ReadAnyWriteBilling_def gate_defs verbs_of_def)

lemma operators_door_witness:
  "Platform PlatformTariff \<in> set entrance_views \<and> (\<forall>a. Operator probe_operator \<noteq> Operator a) \<or>
    (\<exists>a. Operator probe_operator = Operator a \<and> a \<in> set (operators probe_panel) \<and> admin_active a \<and>
       platform_admin_id probe_session = Some (pk a) \<and> starts_with ''api/v1/platform/tariffs'' ''api/v1/platform/'' \<and>
       (''PUT'' \<in> set SAFE_METHODS \<or>
        True \<and> (Platform PlatformTariff \<in> {Platform PlatformLogout, Platform PlatformPasswordChange} \<or>
          Platform PlatformTariff = Platform PlatformUserDetail \<and> admin_role a \<in> {OWNER, OPS} \<or>
          Platform PlatformTariff = Platform PlatformAccountDetail \<and> admin_role a \<in> {OWNER, OPS, FINANCE} \<or>
          Platform PlatformTariff \<in> {Platform PlatformAccountInvoice, Platform PlatformAccountProfile, Platform PlatformTariff} \<and>
            admin_role a \<in> {OWNER, FINANCE})))"
  by (rule operators_door [OF probe_operators])

text \<open>The operators' authenticator of the front door is that of \<open>authenticate_operator\<close>.\<close>

lemma sender_is_authenticate_operator:
  assumes "Option.bind cookie (shelf_get (sessions p) now) = Some d"
  shows "sender OperatorSession csrf users p d =
    (case snd (authenticate_operator csrf cookie now p) of
       Nobody \<Rightarrow> Some Anonymous | SignedIn a \<Rightarrow> Some (Operator a) | CsrfRefused \<Rightarrow> None)"
  using assms by (auto simp: sender_def authenticate_operator_def split: option.splits)

end
