(* ===== verification/Settings.thy ===== *)
theory Settings
  imports Parsing Characters Front_Door
begin

text \<open>
  What a process starts with: \<open>config/settings/base.py\<close> read from the environment, the refusals of
  \<open>config/settings/prod.py\<close>, and the key the token vault seals with (\<open>authentication/vault.py\<close>).

  The environment is what \<open>django-environ\<close> finds in \<open>os.environ\<close> and the \<open>.env\<close> file. It is used as documented: a
  variable that is not set takes its default, \<open>env.int\<close> reads an integer as Python's \<open>int\<close> does and raises
  otherwise; how text reads as a truth value or a list, and which engine a database URL names (none, where
  it cannot be read), are parameters. So is which hours and minutes Celery's \<open>crontab\<close> takes; it is documented
  to raise for an hour that is not one of the day's or a minute that is not one of the hour's.
\<close>

record environment =
  variable :: "string \<Rightarrow> string option"
  reads_true :: "string \<Rightarrow> bool"
  reads_list :: "string \<Rightarrow> string list"
  engine_of :: "string \<Rightarrow> string option"
  crontab_takes :: "int \<Rightarrow> int \<Rightarrow> bool"

definition env_text :: "environment \<Rightarrow> string \<Rightarrow> string \<Rightarrow> string" where
  "env_text e name dflt = (case variable e name of None \<Rightarrow> dflt | Some v \<Rightarrow> v)"

definition env_bool :: "environment \<Rightarrow> string \<Rightarrow> bool \<Rightarrow> bool" where
  "env_bool e name dflt = (case variable e name of None \<Rightarrow> dflt | Some v \<Rightarrow> reads_true e v)"

definition env_list :: "environment \<Rightarrow> string \<Rightarrow> string list \<Rightarrow> string list" where
  "env_list e name dflt = (case variable e name of None \<Rightarrow> dflt | Some v \<Rightarrow> reads_list e v)"

definition env_int :: "environment \<Rightarrow> string \<Rightarrow> int \<Rightarrow> int option" where
  "env_int e name dflt = (case variable e name of None \<Rightarrow> Some dflt | Some v \<Rightarrow> py_int v)"

definition rstrip_slashes :: "string \<Rightarrow> string" where
  "rstrip_slashes s = rev (dropWhile (\<lambda>c. c = CHR ''/'') (rev s))"

text \<open>The settings the program reads.\<close>

datatype cache_backend = LocMemCache | RedisCache string

record settings =
  SECRET_KEY :: string
  DEBUG :: bool
  ALLOWED_HOSTS :: "string list"
  PLATFORM_ADMIN_PROCESS :: bool
  SESSION_COOKIE_NAME :: string
  CSRF_COOKIE_NAME :: string
  DATABASE_ENGINE :: string
  CACHES :: cache_backend
  CELERY_BROKER_URL :: string
  CELERY_RESULT_BACKEND :: string
  CELERY_TASK_ALWAYS_EAGER :: bool
  BILLING_SNAPSHOT_TIME :: "int \<times> int"
  PLATFORM_CAPACITY :: "(string \<times> int) list"
  CORS_ALLOWED_ORIGINS :: "string list"
  CSRF_TRUSTED_ORIGINS :: "string list"
  ZADARA_API_URL :: string
  FRONTEND_BASE_URL :: string
  BILLING_VAT_RATE :: string
  BILLING_PRICES_INCLUDE_VAT :: bool
  BILLING_SELLER :: "(string \<times> string) list"
  PASSWORD_RESET_URL_TEMPLATE :: string
  ZADARA_HTTP_TIMEOUT :: int
  ZADARA_MAX_CONCURRENT_REQUESTS :: int
  ZADARA_RESPONSE_CACHE_TTL :: int
  ZADARA_SERVICE :: "string \<times> string \<times> string \<times> string"
  TOKEN_VAULT_KEY :: string
  ZADARA_TOKEN_TTL :: int
  SESSION_COOKIE_AGE :: int

definition dev_secret :: string where
  "dev_secret = ''dev-insecure-change-me''"

text \<open>\<open>sessionid\<close> and \<open>csrftoken\<close> are Django's own names.\<close>

definition cookie_names :: "bool \<Rightarrow> string \<times> string" where
  "cookie_names platform_admin_process =
     (if platform_admin_process then (''opencloud_admin_session'', ''opencloud_admin_csrf'') else (''sessionid'', ''csrftoken''))"

definition cache_backend_of :: "environment \<Rightarrow> string \<Rightarrow> cache_backend" where
  "cache_backend_of e redis_url = (if env_bool e ''USE_REDIS_CACHE'' False then RedisCache redis_url else LocMemCache)"

definition capacity_of :: "int \<Rightarrow> int \<Rightarrow> int \<Rightarrow> (string \<times> int) list" where
  "capacity_of cpus ram disk =
     filter (\<lambda>(k, v). v \<noteq> 0) [(''vcpus'', cpus), (''ramMB'', ram), (''storageGiB'', disk)]"

definition seller_of :: "environment \<Rightarrow> (string \<times> string) list" where
  "seller_of e = map (\<lambda>(k, name). (k, env_text e name []))
     [(''name'', ''BILLING_SELLER_NAME''), (''taxId'', ''BILLING_SELLER_INN''), (''address'', ''BILLING_SELLER_ADDRESS''),
      (''bank'', ''BILLING_SELLER_BANK''), (''bankAccount'', ''BILLING_SELLER_ACCOUNT''), (''bankCode'', ''BILLING_SELLER_MFO''),
      (''director'', ''BILLING_SELLER_DIRECTOR''), (''accountant'', ''BILLING_SELLER_ACCOUNTANT''),
      (''phone'', ''BILLING_SELLER_PHONE''), (''email'', ''BILLING_SELLER_EMAIL'')]"

definition reset_template_of :: "environment \<Rightarrow> string \<Rightarrow> string" where
  "reset_template_of e frontend =
     env_text e ''PASSWORD_RESET_URL_TEMPLATE'' (rstrip_slashes frontend @ ''/reset-password?secret=$secret'')"

text \<open>The database's engine; the cluster's clock that beats the daily snapshot; the two Celery addresses.\<close>

definition database_of :: "string \<Rightarrow> environment \<Rightarrow> string option" where
  "database_of base_dir e = engine_of e (env_text e ''DATABASE_URL'' (''sqlite:///'' @ base_dir @ ''/db.sqlite3''))"

definition snapshot_time_of :: "environment \<Rightarrow> (int \<times> int) option" where
  "snapshot_time_of e =
     Option.bind (env_int e ''BILLING_SNAPSHOT_HOUR'' 0) (\<lambda>hour.
     Option.bind (env_int e ''BILLING_SNAPSHOT_MINUTE'' 10) (\<lambda>minute.
       if crontab_takes e hour minute then Some (hour, minute) else None))"

definition celery_of :: "environment \<Rightarrow> string \<Rightarrow> string \<times> string \<times> bool" where
  "celery_of e redis =
     (env_text e ''CELERY_BROKER_URL'' redis, env_text e ''CELERY_RESULT_BACKEND'' redis,
      env_bool e ''CELERY_TASK_ALWAYS_EAGER'' False)"

definition secret_of :: "environment \<Rightarrow> string \<times> bool \<times> string list" where
  "secret_of e =
     (env_text e ''DJANGO_SECRET_KEY'' dev_secret, env_bool e ''DJANGO_DEBUG'' False,
      env_list e ''DJANGO_ALLOWED_HOSTS'' [''localhost'', ''127.0.0.1''])"

text \<open>\<open>None\<close>: reading the environment raises, and the process does not start. \<open>base_dir\<close> is the directory of the
  source.\<close>

definition base_settings :: "string \<Rightarrow> environment \<Rightarrow> settings option" where
  "base_settings base_dir e =
     (let platform = env_bool e ''PLATFORM_ADMIN_PROCESS'' False;
          redis = env_text e ''REDIS_URL'' ''redis://localhost:6379/0'';
          frontend = env_text e ''FRONTEND_BASE_URL'' ''http://localhost:3000'';
          (secret, debug, hosts) = secret_of e;
          (broker, results, eager) = celery_of e redis
      in
      Option.bind (database_of base_dir e) (\<lambda>engine.
      Option.bind (snapshot_time_of e) (\<lambda>snapshot_time.
      Option.bind (env_int e ''PLATFORM_CAPACITY_VCPUS'' 0) (\<lambda>cpus.
      Option.bind (env_int e ''PLATFORM_CAPACITY_RAM_MB'' 0) (\<lambda>ram.
      Option.bind (env_int e ''PLATFORM_CAPACITY_DISK_GB'' 0) (\<lambda>disk.
      Option.bind (env_int e ''ZADARA_HTTP_TIMEOUT'' 15) (\<lambda>timeout.
      Option.bind (env_int e ''ZADARA_MAX_CONCURRENT_REQUESTS'' 12) (\<lambda>requests.
      Option.bind (env_int e ''ZADARA_RESPONSE_CACHE_TTL'' 45) (\<lambda>response_ttl.
      Option.bind (env_int e ''ZADARA_TOKEN_TTL'' (3 * 60 * 60)) (\<lambda>token_ttl.
      Some \<lparr>SECRET_KEY = secret, DEBUG = debug, ALLOWED_HOSTS = hosts,
        PLATFORM_ADMIN_PROCESS = platform,
        SESSION_COOKIE_NAME = fst (cookie_names platform), CSRF_COOKIE_NAME = snd (cookie_names platform),
        DATABASE_ENGINE = engine,
        CACHES = cache_backend_of e redis,
        CELERY_BROKER_URL = broker, CELERY_RESULT_BACKEND = results, CELERY_TASK_ALWAYS_EAGER = eager,
        BILLING_SNAPSHOT_TIME = snapshot_time,
        PLATFORM_CAPACITY = capacity_of cpus ram disk,
        CORS_ALLOWED_ORIGINS = env_list e ''CORS_ALLOWED_ORIGINS'' [''http://localhost:3000''],
        CSRF_TRUSTED_ORIGINS = env_list e ''CSRF_TRUSTED_ORIGINS'' [''http://localhost:3000'', ''http://127.0.0.1:3000''],
        ZADARA_API_URL = env_text e ''ZADARA_API_URL'' ''https://console.opencloud.uz'',
        FRONTEND_BASE_URL = frontend,
        BILLING_VAT_RATE = env_text e ''BILLING_VAT_RATE'' ''0'',
        BILLING_PRICES_INCLUDE_VAT = env_bool e ''BILLING_PRICES_INCLUDE_VAT'' False,
        BILLING_SELLER = seller_of e,
        PASSWORD_RESET_URL_TEMPLATE = reset_template_of e frontend,
        ZADARA_HTTP_TIMEOUT = timeout, ZADARA_MAX_CONCURRENT_REQUESTS = requests,
        ZADARA_RESPONSE_CACHE_TTL = response_ttl,
        ZADARA_SERVICE = (env_text e ''ZADARA_SERVICE_ACCOUNT'' [], env_text e ''ZADARA_SERVICE_USERNAME'' [],
          env_text e ''ZADARA_SERVICE_PASSWORD'' [], env_text e ''ZADARA_SERVICE_PROJECT'' []),
        TOKEN_VAULT_KEY = env_text e ''TOKEN_VAULT_KEY'' [],
        ZADARA_TOKEN_TTL = token_ttl, SESSION_COOKIE_AGE = token_ttl\<rparr>))))))))))"

subsection \<open>Production (\<open>prod.py\<close>)\<close>

definition ends_with :: "string \<Rightarrow> string \<Rightarrow> bool" where
  "ends_with s t = starts_with (rev s) (rev t)"

datatype misconfiguration = WeakSecret | NoVaultKey | NoSharedCache | OnSqlite

definition prod_errors :: "environment \<Rightarrow> settings \<Rightarrow> misconfiguration list" where
  "prod_errors e s =
     (if SECRET_KEY s \<in> {[], dev_secret} \<or> char_count (SECRET_KEY s) < 50 then [WeakSecret] else []) @
     (if env_text e ''TOKEN_VAULT_KEY'' [] = [] then [NoVaultKey] else []) @
     (if \<not> env_bool e ''USE_REDIS_CACHE'' False then [NoSharedCache] else []) @
     (if ends_with (DATABASE_ENGINE s) ''sqlite3'' then [OnSqlite] else [])"

datatype start = DoesNotLoad | ImproperlyConfigured "misconfiguration list" | Started settings

definition production :: "string \<Rightarrow> environment \<Rightarrow> start" where
  "production base_dir e = (case base_settings base_dir e of
     None \<Rightarrow> DoesNotLoad
   | Some base \<Rightarrow>
       (let s = base\<lparr>DEBUG := False\<rparr>;
            errors = prod_errors e s
        in if errors \<noteq> [] then ImproperlyConfigured errors else Started s))"

subsection \<open>The vault's key\<close>

text \<open>\<open>derive\<close> stands for the digest of the secret, encoded.\<close>

definition fernet_key :: "(string \<Rightarrow> string) \<Rightarrow> settings \<Rightarrow> string" where
  "fernet_key derive s = (if TOKEN_VAULT_KEY s \<noteq> [] then TOKEN_VAULT_KEY s else derive (SECRET_KEY s))"

definition ttl_seconds :: "settings \<Rightarrow> int" where
  "ttl_seconds s = ZADARA_TOKEN_TTL s"

subsection \<open>What a start guarantees\<close>

lemmas settings_parts = base_settings_def secret_of_def celery_of_def snapshot_time_of_def Let_def

lemma base_settings_fields:
  assumes "base_settings base_dir e = Some s"
  shows "SECRET_KEY s = env_text e ''DJANGO_SECRET_KEY'' dev_secret" "TOKEN_VAULT_KEY s = env_text e ''TOKEN_VAULT_KEY'' []"
    "CACHES s = cache_backend_of e (env_text e ''REDIS_URL'' ''redis://localhost:6379/0'')"
    "SESSION_COOKIE_AGE s = ZADARA_TOKEN_TTL s"
    "PLATFORM_ADMIN_PROCESS s = env_bool e ''PLATFORM_ADMIN_PROCESS'' False"
    "(SESSION_COOKIE_NAME s, CSRF_COOKIE_NAME s) = cookie_names (PLATFORM_ADMIN_PROCESS s)"
    "database_of base_dir e = Some (DATABASE_ENGINE s)" "snapshot_time_of e = Some (BILLING_SNAPSHOT_TIME s)"
  using assms by (auto simp: settings_parts split: bind_splits)

text \<open>The environment can be read: every number is one, Celery takes the hour and the minute, and the
  database's address names an engine.\<close>

definition reads_integer :: "environment \<Rightarrow> string \<Rightarrow> bool" where
  "reads_integer e name = (case variable e name of None \<Rightarrow> True | Some v \<Rightarrow> py_int v \<noteq> None)"

lemma env_int_readable: "(env_int e name dflt = None) = (\<not> reads_integer e name)"
  by (auto simp: reads_integer_def env_int_def split: option.split)

lemma env_int_Some: "env_int e name dflt = Some v \<Longrightarrow> reads_integer e name"
  by (auto simp: reads_integer_def env_int_def split: option.splits)

lemma bind_is_Some: "(\<exists>s. Option.bind x f = Some s) = (case x of None \<Rightarrow> False | Some v \<Rightarrow> \<exists>s. f v = Some s)"
  by (cases x) simp_all

lemma base_settings_load:
  "(\<exists>s. base_settings base_dir e = Some s) \<longleftrightarrow>
     database_of base_dir e \<noteq> None \<and> snapshot_time_of e \<noteq> None \<and>
     list_all (reads_integer e) [''PLATFORM_CAPACITY_VCPUS'', ''PLATFORM_CAPACITY_RAM_MB'', ''PLATFORM_CAPACITY_DISK_GB'',
       ''ZADARA_HTTP_TIMEOUT'', ''ZADARA_MAX_CONCURRENT_REQUESTS'', ''ZADARA_RESPONSE_CACHE_TTL'', ''ZADARA_TOKEN_TTL'']"
  unfolding base_settings_def Let_def
  by (auto simp: bind_is_Some env_int_readable dest: env_int_Some split: option.split prod.split)

lemma cookie_names_apart: "fst (cookie_names True) \<noteq> fst (cookie_names False)" "snd (cookie_names True) \<noteq> snd (cookie_names False)"
  by (simp_all add: cookie_names_def)

text \<open>With \<open>crontab\<close> as it is documented, no process starts with the snapshot at hour 24.\<close>

lemma no_hour_24:
  assumes "\<And>hour minute. crontab_takes e hour minute = (0 \<le> hour \<and> hour < 24 \<and> 0 \<le> minute \<and> minute < 60)"
    "variable e ''BILLING_SNAPSHOT_HOUR'' = Some ''24''"
  shows "production base_dir e = DoesNotLoad"
proof -
  have "py_int ''24'' = Some 24" by code_simp
  then have "snapshot_time_of e = None"
    using assms by (auto simp: snapshot_time_of_def env_int_def split: bind_splits)
  then have "base_settings base_dir e = None" using base_settings_load by (metis option.exhaust)
  then show ?thesis by (simp add: production_def)
qed

text \<open>C22. The settings of a production process load exactly when every number reads as one, Celery's \<open>crontab\<close> takes the
  snapshot's hour and minute, the database's address names an engine other than sqlite, the secret is at least
  fifty characters (so neither empty nor the development one), the cache is the shared one and a vault key
  is given. They are then the settings read from the environment with debugging off, the vault seals with
  that key whatever the secret is, and sessions live exactly as long as the tokens they need.\<close>

theorem production_starts_only_configured:
  "(\<exists>s. production base_dir e = Started s) =
     (list_all (reads_integer e) [''PLATFORM_CAPACITY_VCPUS'', ''PLATFORM_CAPACITY_RAM_MB'', ''PLATFORM_CAPACITY_DISK_GB'',
        ''ZADARA_HTTP_TIMEOUT'', ''ZADARA_MAX_CONCURRENT_REQUESTS'', ''ZADARA_RESPONSE_CACHE_TTL'', ''ZADARA_TOKEN_TTL''] \<and>
      (\<exists>hour minute. env_int e ''BILLING_SNAPSHOT_HOUR'' 0 = Some hour \<and>
         env_int e ''BILLING_SNAPSHOT_MINUTE'' 10 = Some minute \<and> crontab_takes e hour minute) \<and>
      (\<exists>engine. database_of base_dir e = Some engine \<and> \<not> ends_with engine ''sqlite3'') \<and>
      50 \<le> char_count (env_text e ''DJANGO_SECRET_KEY'' dev_secret) \<and>
      env_bool e ''USE_REDIS_CACHE'' False \<and> env_text e ''TOKEN_VAULT_KEY'' [] \<noteq> []) \<and>
   (production base_dir e = Started s) =
     ((\<exists>t. base_settings base_dir e = Some t \<and> s = t\<lparr>DEBUG := False\<rparr>) \<and>
      50 \<le> char_count (SECRET_KEY s) \<and> CACHES s = RedisCache (env_text e ''REDIS_URL'' ''redis://localhost:6379/0'') \<and>
      \<not> ends_with (DATABASE_ENGINE s) ''sqlite3'' \<and> env_text e ''TOKEN_VAULT_KEY'' [] \<noteq> [] \<and>
      fernet_key derive s = env_text e ''TOKEN_VAULT_KEY'' [] \<and> SESSION_COOKIE_AGE s = ttl_seconds s)"
proof -
  have short: "char_count [] < 50" "char_count dev_secret < 50" by code_simp+
  have time: "snapshot_time_of e \<noteq> None \<longleftrightarrow>
      (\<exists>hour minute. env_int e ''BILLING_SNAPSHOT_HOUR'' 0 = Some hour \<and>
         env_int e ''BILLING_SNAPSHOT_MINUTE'' 10 = Some minute \<and> crontab_takes e hour minute)"
    by (auto simp: snapshot_time_of_def split: bind_splits)
  have started: "production base_dir e = Started s \<longleftrightarrow>
      (\<exists>t. base_settings base_dir e = Some t \<and> s = t\<lparr>DEBUG := False\<rparr>) \<and> prod_errors e s = []" for s
    by (auto simp: production_def Let_def split: option.split)
  have clean: "prod_errors e s = [] \<longleftrightarrow> 50 \<le> char_count (SECRET_KEY s) \<and> env_text e ''TOKEN_VAULT_KEY'' [] \<noteq> [] \<and>
      env_bool e ''USE_REDIS_CACHE'' False \<and> \<not> ends_with (DATABASE_ENGINE s) ''sqlite3''" for s
    using short by (auto simp: prod_errors_def)
  note load = base_settings_load [of base_dir e, unfolded time]
  show ?thesis
  proof (cases "base_settings base_dir e")
    case None
    then show ?thesis using load by (auto simp: started)
  next
    case (Some t)
    note fields = base_settings_fields [OF Some]
    have redis: "cache_backend_of e url = RedisCache url \<longleftrightarrow> env_bool e ''USE_REDIS_CACHE'' False" for url
      by (simp add: cache_backend_of_def)
    show ?thesis using load fields(1-4,7)
      by (auto simp: started clean Some redis fernet_key_def ttl_seconds_def)
  qed
qed

end
