(* ===== verification/Requisites.thy ===== *)
theory Requisites
  imports Platform_Billing Sign_In
begin

text \<open>
  The buyer's requisites as an operator submits them, and what of them the screen and the invoice show;
  an operator's changed password and the sessions open elsewhere.
\<close>

subsection \<open>Requisites\<close>

text \<open>
  Rows are written under the exact spelling of the account and read under any: a row that differs in case
  and comes first stands in front of the one just written.
\<close>

definition in_front :: "billing_profile list \<Rightarrow> string \<Rightarrow> billing_profile option" where
  "in_front rows acc = (case profile_of rows acc of
     None \<Rightarrow> None | Some p \<Rightarrow> if profile_account p = acc then None else Some p)"

lemma platform_fields_blank:
  "profile_account p = acc \<Longrightarrow> platform_fields pl p = platform_fields pl (blank_profile acc)"
  by (cases p) (simp add: platform_fields_def blank_profile_def)

lemma profile_of_written:
  "profile_of (upsert (\<lambda>p. profile_account p = acc) (platform_fields pl) (platform_fields pl (blank_profile acc)) rows) acc =
     Some (case in_front rows acc of None \<Rightarrow> platform_fields pl (blank_profile acc) | Some old \<Rightarrow> old)"
proof (induction rows)
  case Nil
  show ?case by (simp add: profile_of_def in_front_def platform_fields_def blank_profile_def)
next
  case (Cons p rows)
  show ?case
  proof (cases "profile_account p = acc")
    case True
    then have "platform_fields pl p = platform_fields pl (blank_profile acc)" by (rule platform_fields_blank)
    then show ?thesis using True by (simp add: profile_of_def in_front_def platform_fields_def blank_profile_def)
  next
    case False
    then show ?thesis using Cons by (simp add: profile_of_def in_front_def)
  qed
qed

text \<open>What is written is there, whatever stands in front of it, and other accounts' rows are as they were.\<close>

lemma written_stored:
  "platform_fields pl (blank_profile acc) \<in>
     set (upsert (\<lambda>p. profile_account p = acc) (platform_fields pl) (platform_fields pl (blank_profile acc)) rows)"
proof (induction rows)
  case (Cons p rows)
  then show ?case using platform_fields_blank [of p acc pl] by simp
qed simp

lemma written_others:
  "filter (\<lambda>p. profile_account p \<noteq> acc)
     (upsert (\<lambda>p. profile_account p = acc) (platform_fields pl) (platform_fields pl (blank_profile acc)) rows) =
   filter (\<lambda>p. profile_account p \<noteq> acc) rows"
  by (induction rows) (auto simp: platform_fields_def blank_profile_def)

lemma buyer_of: "buyer rows acc = buyer (case profile_of rows acc of None \<Rightarrow> [] | Some p \<Rightarrow> [p]) acc"
proof (cases "profile_of rows acc")
  case (Some p)
  then have "iexact (profile_account p) acc" by (auto simp: profile_of_def find_Some_iff)
  then show ?thesis using Some by (simp add: buyer_def profile_of_def)
qed (simp add: buyer_def profile_of_def)

text \<open>C27. Requisites an operator submits are always stored under the account, each field cut to its column and no
  other spelling's row touched, and journalled, where the journal takes rows, with the operator, the account,
  the name and the tax number.
  They are what the account's screen shows and what its invoices name from then on, as long as no older row
  spells the account differently; where one does, the submission is answered with the old requisites, and
  the invoices keep naming those.\<close>

theorem requisites_reach_the_invoice:
  assumes "resolve_account (snapshots db) name = Inr (acc, dom_id)"
    "account_profile_put saves q name data db acts = (db', acts', res)"
  shows "account_profile_get name db' = res \<and>
    platform_fields (as_object data) (blank_profile acc) \<in> set (profiles db') \<and>
    filter (\<lambda>p. profile_account p \<noteq> acc) (profiles db') = filter (\<lambda>p. profile_account p \<noteq> acc) (profiles db) \<and>
    (\<exists>row. acts' = (if saves row then acts @ [row] else acts) \<and> action row = ''billing.profile.update'' \<and>
       actor row = map_option pk (operator_of (req_user q)) \<and> target_account row = acc \<and> target_name row = acc \<and>
       detail row = [(''legalName'', JStr (legal_name (platform_fields (as_object data) (blank_profile acc)))),
         (''taxId'', JStr (tax_id (platform_fields (as_object data) (blank_profile acc))))]) \<and>
    res = Inr (case in_front (profiles db) acc of
        None \<Rightarrow> (platform_fields (as_object data) (blank_profile acc), True)
      | Some old \<Rightarrow> (old\<lparr>profile_account := acc\<rparr>, True)) \<and>
    buyer (profiles db') acc = (case in_front (profiles db) acc of
        None \<Rightarrow> buyer [platform_fields (as_object data) (blank_profile acc)] acc
      | Some old \<Rightarrow> buyer (profiles db) acc)"
proof -
  let ?new = "platform_fields (as_object data) (blank_profile acc)"
  let ?rows = "upsert (\<lambda>p. profile_account p = acc) (platform_fields (as_object data)) ?new (profiles db)"
  have db: "db' = db\<lparr>profiles := ?rows\<rparr>" "res = Inr (profile_payload ?rows acc)"
    using assms(2) by (auto simp: account_profile_put_def assms(1) Let_def)
  note written = profile_of_written [of acc "as_object data" "profiles db"]
  have new: "?new\<lparr>profile_account := acc\<rparr> = ?new" by (simp add: platform_fields_def blank_profile_def)
  have "profile_payload ?rows acc = (case in_front (profiles db) acc of
      None \<Rightarrow> (?new, True) | Some old \<Rightarrow> (old\<lparr>profile_account := acc\<rparr>, True))"
    unfolding profile_payload_def written by (simp add: new split: option.split)
  moreover have "buyer ?rows acc = (case in_front (profiles db) acc of
      None \<Rightarrow> buyer [?new] acc | Some old \<Rightarrow> buyer (profiles db) acc)"
  proof (cases "in_front (profiles db) acc")
    case None
    then show ?thesis using buyer_of [of ?rows acc] by (simp add: written)
  next
    case (Some old)
    then have "profile_of (profiles db) acc = Some old" by (auto simp: in_front_def split: option.splits if_splits)
    then show ?thesis using buyer_of [of ?rows acc] buyer_of [of "profiles db" acc] Some by (simp add: written)
  qed
  moreover have "\<exists>row. acts' = (if saves row then acts @ [row] else acts) \<and> action row = ''billing.profile.update'' \<and>
       actor row = map_option pk (operator_of (req_user q)) \<and> target_account row = acc \<and> target_name row = acc \<and>
       detail row = [(''legalName'', JStr (legal_name ?new)), (''taxId'', JStr (tax_id ?new))]"
  proof (intro exI conjI)
    let ?row = "(entry q None ''billing.profile.update'')
      \<lparr>target_account := acc, target_type := ''billing_profile'', target_name := acc,
       detail := [(''legalName'', JStr (profile_text (as_object data) ''legalName'' 255)),
         (''taxId'', JStr (profile_text (as_object data) ''taxId'' 32))]\<rparr>"
    show "acts' = (if saves ?row then acts @ [?row] else acts)"
      using assms(2) by (auto simp: account_profile_put_def assms(1) Let_def record_action_def)
  qed (simp_all add: platform_fields_def entry_def Let_def)
  ultimately show ?thesis using assms(1) db written_stored written_others
    by (simp add: account_profile_get_def sum_bind_def)
qed

text \<open>An operator fills in what the cabinet's administrator had left under another spelling.\<close>

definition spelled_db :: billing_db where
  "spelled_db = \<lparr>tariffs = [], snapshots = [], account_settings = [], profiles = [(blank_profile ''Acme'')\<lparr>legal_name := ''Old''\<rparr>],
     invoices = []\<rparr>"

definition spelled_request :: web_request where
  "spelled_request = \<lparr>forwarded_for = [], remote_addr = None, http_user_agent = [], req_user = Anonymous, session_key = None,
     req_session = empty_session\<rparr>"

lemma requisites_reach_the_invoice_witness:
  "account_profile_get ''acme'' (fst (account_profile_put (\<lambda>_. True) spelled_request ''acme'' (JObj [(''legalName'', JStr ''New'')]) spelled_db [])) =
     snd (snd (account_profile_put (\<lambda>_. True) spelled_request ''acme'' (JObj [(''legalName'', JStr ''New'')]) spelled_db [])) \<and>
   snd (snd (account_profile_put (\<lambda>_. True) spelled_request ''acme'' (JObj [(''legalName'', JStr ''New'')]) spelled_db [])) =
     Inr ((blank_profile ''acme'')\<lparr>legal_name := ''Old''\<rparr>, True)"
proof -
  have acc: "resolve_account (snapshots spelled_db) ''acme'' = Inr (''acme'', [])" by code_simp
  have front: "in_front (profiles spelled_db) ''acme'' = Some ((blank_profile ''Acme'')\<lparr>legal_name := ''Old''\<rparr>)" by code_simp
  obtain db' acts' res where put: "account_profile_put (\<lambda>_. True) spelled_request ''acme'' (JObj [(''legalName'', JStr ''New'')]) spelled_db []
      = (db', acts', res)" by (metis prod_cases3)
  show ?thesis using requisites_reach_the_invoice [OF acc put] by (simp add: put front blank_profile_def)
qed

subsection \<open>A changed password\<close>

text \<open>Changing an operator's password ends no session: every browser that was signed in as that operator, or as
  any other, still is, whoever may have learned the old password.\<close>

theorem password_change_spares_open_sessions:
  assumes "password_change k saves salt q a data p = (p', Inr ())" "admin_active a"
    "snd (authenticate_operator csrf cookie now p) = SignedIn b"
  shows "\<exists>b'. snd (authenticate_operator csrf cookie now p') = SignedIn b' \<and> pk b' = pk b"
proof -
  have "\<exists>raw. sessions p' = sessions p \<and> operators p' = operators (save_operator (set_password k salt raw a) p)"
    using assms(1) by (fastforce simp: password_change_def log_action_def refuse_def save_operator_def
        split: sum.splits prod.splits if_splits option.splits)
  then obtain raw where p': "sessions p' = sessions p" "operators p' = operators (save_operator (set_password k salt raw a) p)"
    by blast
  have pk_set: "pk (set_password k salt raw a) = pk a" by (simp add: set_password_def)
  let ?f = "\<lambda>b. if pk b = pk a then set_password k salt raw a else b"
  have kept: "\<exists>b'. List.find (\<lambda>a. pk a = i \<and> admin_active a) (map ?f as) = Some b' \<and> pk b' = i"
    if "List.find (\<lambda>a. pk a = i \<and> admin_active a) as = Some b" for i as
    using that assms(2) by (induction as) (auto simp: set_password_def split: if_splits)
  obtain d i where session: "Option.bind cookie (shelf_get (sessions p) now) = Some d" "platform_admin_id d = Some i" "i \<noteq> 0"
      "active_operator p i = Some b" "csrf"
    using assms(3) by (auto simp: authenticate_operator_def split: option.splits if_splits)
  from session(4) have "pk b = i" by (auto simp: active_operator_def find_Some_iff)
  with kept [OF session(4) [unfolded active_operator_def]] obtain b' where "active_operator p' i = Some b'" "pk b' = pk b"
    using pk_set by (auto simp: active_operator_def p'(2) save_operator_def)
  then show ?thesis using session by (auto simp: authenticate_operator_def p'(1))
qed

definition plain_kit :: toolkit where
  "plain_kit = \<lparr>hash_check = (\<lambda>raw enc. raw = JStr enc), hash_usable = (\<lambda>enc. enc \<noteq> []), hash_make = (\<lambda>salt raw. raw),
     otp_verify = (\<lambda>secret c w now. c = secret), seal = (\<lambda>s. s), unseal = Some, provisioning = (\<lambda>s m. m)\<rparr>"

definition plain_operator :: platform_admin where
  "plain_operator = \<lparr>pk = 7, admin_email = ''o@x'', admin_name = ''O'', password_hash = ''pw'', admin_role = OWNER,
     admin_active = True, totp_secret = [], totp_confirmed_at = None, access_code_hash = [],
     failed_attempts = 0, locked_until = None, last_login_at = None, last_login_ip = None\<rparr>"

definition elsewhere :: panel where
  "elsewhere = \<lparr>operators = [plain_operator], tickets = [], used_codes = [],
     sessions = [(''other'', empty_session\<lparr>platform_admin_id := Some 7\<rparr>, 9)], actions = []\<rparr>"

definition new_password :: json where
  "new_password = JObj [(''currentPassword'', JStr ''pw''), (''newPassword'', JStr ''abcdef-12345'')]"

lemma password_change_spares_open_sessions_witness:
  "\<exists>b. snd (authenticate_operator True (Some ''other'') 0
      (fst (password_change plain_kit (\<lambda>_. False) ''s'' spelled_request plain_operator new_password elsewhere))) = SignedIn b \<and> pk b = 7"
proof -
  have "snd (password_change plain_kit (\<lambda>_. False) ''s'' spelled_request plain_operator new_password elsewhere) = Inr ()"
    by code_simp
  then have changed: "password_change plain_kit (\<lambda>_. False) ''s'' spelled_request plain_operator new_password elsewhere =
      (fst (password_change plain_kit (\<lambda>_. False) ''s'' spelled_request plain_operator new_password elsewhere), Inr ())"
    by (metis prod.collapse)
  have before: "snd (authenticate_operator True (Some ''other'') 0 elsewhere) = SignedIn plain_operator"
    by (simp add: authenticate_operator_def elsewhere_def shelf_get_def active_operator_def plain_operator_def)
  have "admin_active plain_operator" by (simp add: plain_operator_def)
  from password_change_spares_open_sessions [OF changed this before] show ?thesis by (simp add: plain_operator_def)
qed

end
