(* ===== verification/Spec2Isabelle.thy ===== *)
theory Spec2Isabelle
  imports Account_Boundary Platform_Billing Sign_In_Safety Account_Safety Picture_Safety Cluster_Views_Safety Screens_Safety Scope_Safety Wire_Format
    Parallel_Reads Front_Door_Safety Settings Requisites
begin

text \<open>
  The OpenCloud backend is a Django application in front of a Zadara zCompute cloud. It keeps sign-ins, prices,
  measurements, invoices and journals; machines, networks, users and quotas are the cloud's, and are read and
  changed over HTTP with the session's own token or with a service account. One image runs as two processes, the
  tenants' cabinet and the operators' panel. This library models \<open>src/apps\<close> and \<open>src/config\<close>
  from the HTTP client up to the URL tables. A view is a function from the request, the stored rows and the cloud's
  answers to an outcome and the rows it leaves; the cloud, encryption, hashing, the clock and random values are
  parameters, so every theorem holds for whatever they answer.

  \<^bold>\<open>How the parts fit together.\<close>

  \<^item> Ground: \<open>Prelude\<close> (error values, strings, dictionaries that keep insertion order), \<open>Decimals\<close> (Python's
    \<open>Decimal\<close> with its 28-digit context and binary floats as rationals), \<open>Parsing\<close> (\<open>int\<close>, \<open>float\<close>, \<open>Decimal\<close> of text),
    \<open>Json\<close> (decoded values with truth, \<open>or\<close>, \<open>str\<close>, \<open>get\<close>), \<open>Requests\<close> (how a view ends: an \<open>AppError\<close> or an unhandled
    exception; stores whose entries expire), \<open>Characters\<close> (the characters, digits and white space of Python's \<open>str\<close> in UTF-8
    text, for the checks of codes and column widths).
  \<^item> The cloud: \<open>Cloud\<close> is \<open>integrations/zadara/http.py\<close> with its retries and the read-through cache of
    \<open>resources.py\<close>; \<open>Resources\<close> and \<open>Machines\<close> are the rest of \<open>resources.py\<close>, one normaliser and one list per kind of
    resource; \<open>Concurrency\<close> is \<open>common/concurrency.py\<close> and the semaphore of \<open>http.py\<close> as steps of threads that may
    interleave in any order, \<open>Parallel_Reads\<close> the client and its cache as such steps; \<open>Keystone\<close> is \<open>auth.py\<close> and \<open>dto.py\<close>, \<open>Directory\<close> is \<open>service.py\<close>, \<open>Cloud_Users\<close> is \<open>identity.py\<close> and
    \<open>password.py\<close>. A read is a function \<open>get\<close> from paths to a failure or a decoded value.
  \<^item> Money: \<open>Billing_Data\<close> is \<open>billing/models.py\<close>, \<open>Rates\<close> \<open>billing/rates.py\<close> and \<open>accounts/backups.py\<close>, \<open>Invoices\<close>
    \<open>billing/invoices.py\<close>, \<open>Collector\<close> \<open>billing/collector.py\<close>, \<open>Tariffs\<close> the price lists and both commands,
    \<open>Billing_Views\<close> \<open>billing/views.py\<close>, \<open>Platform_Billing\<close> \<open>platform_admin/billing_views.py\<close>. The collector writes the
    daily rows, the pricing engine turns rows and a price list into a bill, invoices freeze a bill under a number,
    and the views of both sides read and issue through the same functions.
  \<^item> Operators: \<open>Identity\<close> (both kinds of users, permission classes, both journals), \<open>Operators\<close> and \<open>Sign_In\<close>
    (\<open>platform_admin/models.py\<close>, \<open>tickets.py\<close>, \<open>totp.py\<close>, \<open>authentication.py\<close>, \<open>auth_views.py\<close>, commands),
    \<open>Cluster_Picture\<close> (\<open>snapshot.py\<close>), \<open>Cluster_Views\<close> (\<open>platform_admin/views.py\<close>).
  \<^item> The cabinet: \<open>Cabinet_Sign_In\<close> (\<open>apps/authentication\<close>), \<open>Account_Admin\<close> (\<open>admin_api/views.py\<close>),
    \<open>Project_Screens\<close> (\<open>storage\<close>, \<open>dashboard\<close>, \<open>quotas\<close>, \<open>monitoring\<close>), \<open>Machine_Screens\<close> (\<open>compute\<close>),
    \<open>Network_Screens\<close> (\<open>networking\<close>) and \<open>Project_Scope\<close> (\<open>tenants\<close>). Changes of users, machines and
    firewall rules and issued documents leave an audit row through \<open>audit_record\<close>, and a deleted user's rows stay
    without the reference to them (\<open>SET_NULL\<close>); changes of machines and rules drop the cached answers
    of the token's scope.

  \<^item> The way in: \<open>Url_Patterns\<close> (how a path finds its route), \<open>Front_Door\<close> (\<open>config/urls.py\<close>, \<open>config/urls_admin.py\<close>,
    every \<open>urls.py\<close> and what each view declares: its methods, the session it believes, whom it lets in), \<open>Settings\<close>
    (\<open>config/settings/base.py\<close>, \<open>prod.py\<close>) and \<open>Wire_Format\<close> (the envelopes around every answer).

  \<^bold>\<open>State.\<close> Tables are lists of records with the columns the code uses; unique columns are \<open>unique_on\<close>. The
  cabinet's own state is the record \<open>cabinet\<close> (users, token vault, pending second factors, browser sessions), the
  operators' \<open>panel\<close>, the cluster screens' \<open>cluster_store\<close>. A handler takes its state and returns it with
  \<open>refusal + answer\<close>; the three outcomes are an answer, a refusal with code and status, and \<open>Crashed\<close> for an
  exception nobody handles. The interfaces are locales: expiring and single-use stores, journals, permission
  gates, price-list resolvers, predicates kept by every request of the cabinet; each is interpreted on the
  definitions of the model and the properties rest on the interpreted facts.

  \<^bold>\<open>What is shown.\<close>

  \<^item> Money (in the theories of the model themselves and \<open>Platform_Billing\<close>): the bill refines an exact specification, does not depend on row order and equals the estimate for a
    constant month; VAT and totals close to the cent through the float columns; numbers are unique and without
    gaps under any interleaving of issuers, issued documents are frozen and are what the draft showed; both
    price-list resolvers agree where accounts do not differ in case only, and prices of other accounts never
    matter; requisites reach the screen and the invoice (\<open>Requisites\<close>); measurements are exact and written once per day; the two sides' billing pages agree, currencies are
    never added up.
  \<^item> Boundaries (\<open>Account_Boundary\<close>, \<open>Account_Safety\<close>, \<open>Screens_Safety\<close>, \<open>Cloud\<close>): what an administrator is shown and writes depends on their account's rows only; machines, users
    and projects shown are the account's; firewall changes stay within what the session sees; a tenant never
    reads another tenant's answer from the response cache, while the index of volume types is one for all.
  \<^item> Sessions (\<open>Sign_In_Safety\<close>, \<open>Cabinet_Safety\<close>, \<open>Scope_Safety\<close>, \<open>Directory\<close>): an operator's session needs both factors, wrong guesses are bounded by five and five
    more for every time the operator gets in, among requests of any kind, and a code works once as it is spelt; a
    cabinet session stands for an answer of the cloud and is re-scoped by one only, asked with the session's own token
    for the project named; receipts and tokens are sealed at rest,
    and a receipt never reaches the browser; a read is never made with a service token older than three hours.
  \<^item> Threads (\<open>Concurrency\<close>, \<open>Parallel_Reads\<close>): no schedule goes on for ever or gets stuck before every page is answered,
    gathers nested in gathers included, as long as the semaphore has a permit; requests in flight, workers and
    database connections keep to their bounds; with a cloud and a cache that do not change meanwhile a page
    shows what its sources would have shown one after the other.
  \<^item> The way in (\<open>Front_Door_Safety\<close>, \<open>Settings\<close>): every route is reached by the paths built from it, the processes share the
    health probe only, on the cabinet's process a handler of the program runs exactly for the callers its path calls
    for, on the operators' for nobody else, and production settings load exactly when they are complete.
  \<^item> Screens (\<open>Picture_Safety\<close>, \<open>Cluster_Views_Safety\<close>, \<open>Account_Safety\<close>, \<open>Screens_Safety\<close>): the cluster picture adds up and leaves unknown figures out, never zero; pages of events tile the
    window; the network page attaches every rule once and counts the subnets read; every change of a machine, a
    firewall rule or a user is recorded once with its true outcome, but for answers the code cannot read.
  \<^item> What does not hold is proved as well, each as a theorem about the code as it is: an account never measured is
    charged for unowned projects, a block spares open sessions, a rule open to everybody is recorded as closed, a
    negative limit escapes the page size, a cloud change can go unrecorded, another user's browser loses its token,
    one empty answer unlabels every tenant's volumes, an invalidation that is late revives what a later one had dropped,
    a password change spares the operator's other sessions, requisites can hide behind an older spelling, a one-time
    code respelt in other digits is accepted again, requisites too long for their column are an unhandled error.

  \<^bold>\<open>Bounds and fuel.\<close> Loops over lists are structural. The request loop and the issuing loop recurse on the attempts
  left, which the code bounds by \<open>MAX_RETRIES\<close> and by five; both are total, and that they return is a theorem.
  Digits and magnitudes recurse on the number. Tasks of threads are finite trees whose steps are well-founded. No
  definition of the program uses fuel; the search for overlapping routes takes sixty steps, more than any
  route has symbols, and would report an overlap if they ran out. Integers of the program are unbounded in
  Python and here; figures are rationals rounded exactly where the code rounds.

  \<^bold>\<open>Not modelled, and why.\<close> Response objects, headers, CSV quoting, the encoding of JSON and REST framework's choice of
  the rows of a page decide nothing. The
  views are functions of one state of the cloud: that the reads of a page happen at different moments is in
  \<open>Parallel_Reads\<close>, where the cache is shared and the cloud's answers are given. Time does not pass by itself; it is an
  argument of each handler. The executor of threads, the semaphore, URL resolving and \<open>django-environ\<close> are used as
  documented; what Celery's \<open>crontab\<close> takes is a parameter. Logging, migrations, Celery's schedule, middleware and cookie flags are configuration of the
  frameworks, and Django's admin and the schema pages are foreign views behind their routes. Django's
  session store, login and logout and its cache, as well as \<open>requests\<close>, are used as documented: what the code
  relies on is written into the definitions that use them. Text is a list of UTF-8 bytes; the checks of one-time codes, access codes
  and lengths read it as characters, with every script's digits and white space, everywhere else \<open>lower\<close>, \<open>upper\<close>,
  \<open>strip\<close> and the reading of numbers are those of ASCII. The lifetime of cached answers is the setting's default; times are seconds or milliseconds given to the handler, and a row's timestamps that
  only a screen shows are left out.
\<close>

end
